(* ===== verification/Prelude.thy ===== *)
theory Prelude
  imports Main
begin

text \<open>
  What every theory of the development shares: the type of a Python call (it may raise,
  and it may change the state it runs in, also when it raises), the control structures of
  the language over that type (sequencing, \<open>raise\<close>, \<open>try/except\<close>,
  \<open>try/finally\<close>, \<open>with\<close>, \<open>for\<close>), the collections of facts
  the component proofs use, and a small frame logic: \<open>keeps I m\<close> says that a call
  preserves an assertion however it ends.
\<close>

named_theorems py_defs "the control structures, as functions of the state"
named_theorems keeps_intros "rules that build a frame fact along the structure of a call"

section \<open>Calls\<close>

text \<open>
  A call reads a state and ends with an exception (\<open>Inl\<close>) or a value (\<open>Inr\<close>),
  and with a state in both cases: Python does not roll the effects of a failed call back.
\<close>

type_synonym ('e, 's, 'a) py = "'s \<Rightarrow> ('e + 'a) \<times> 's"

definition return :: "'a \<Rightarrow> ('e, 's, 'a) py" where
  "return a = (\<lambda>s. (Inr a, s))"

definition raise :: "'e \<Rightarrow> ('e, 's, 'a) py" where
  "raise e = (\<lambda>s. (Inl e, s))"

definition bind :: "('e, 's, 'a) py \<Rightarrow> ('a \<Rightarrow> ('e, 's, 'b) py) \<Rightarrow> ('e, 's, 'b) py" where
  "bind m f = (\<lambda>s. case m s of (Inl e, s') \<Rightarrow> (Inl e, s') | (Inr a, s') \<Rightarrow> f a s')"

definition gets :: "('s \<Rightarrow> 'a) \<Rightarrow> ('e, 's, 'a) py" where
  "gets f = (\<lambda>s. (Inr (f s), s))"

definition modify :: "('s \<Rightarrow> 's) \<Rightarrow> ('e, 's, unit) py" where
  "modify f = (\<lambda>s. (Inr (), f s))"

text \<open>\<open>try: m / except <classes p>: h\<close>.\<close>

definition try_except ::
    "('e, 's, 'a) py \<Rightarrow> ('e \<Rightarrow> bool) \<Rightarrow> ('e \<Rightarrow> ('e, 's, 'a) py) \<Rightarrow> ('e, 's, 'a) py" where
  "try_except m p h = (\<lambda>s. case m s of
     (Inl e, s') \<Rightarrow> (if p e then h e s' else (Inl e, s'))
   | (Inr a, s') \<Rightarrow> (Inr a, s'))"

text \<open>\<open>try: m / finally: f\<close>; an exception of \<open>f\<close> replaces the outcome of \<open>m\<close>.\<close>

definition try_finally :: "('e, 's, 'a) py \<Rightarrow> ('e, 's, unit) py \<Rightarrow> ('e, 's, 'a) py" where
  "try_finally m f = (\<lambda>s. case m s of (r, s') \<Rightarrow>
     (case f s' of (Inl e, s'') \<Rightarrow> (Inl e, s'') | (Inr u, s'') \<Rightarrow> (r, s'')))"

text \<open>
  \<open>with enter as c: body c\<close>. The exit receives the exception of the body, if there is
  one; it is not run when \<open>enter\<close> raises. No \<open>__exit__\<close> of the program returns a true
  value, so an exception of the body is raised again unless the exit raises one itself.
\<close>

definition with_ctx ::
    "('e, 's, 'c) py \<Rightarrow> ('c \<Rightarrow> 'e option \<Rightarrow> ('e, 's, unit) py) \<Rightarrow> ('c \<Rightarrow> ('e, 's, 'a) py)
      \<Rightarrow> ('e, 's, 'a) py" where
  "with_ctx enter exit body = bind enter (\<lambda>c s.
     case body c s of
       (Inl e, s') \<Rightarrow> bind (exit c (Some e)) (\<lambda>_. raise e) s'
     | (Inr a, s') \<Rightarrow> bind (exit c None) (\<lambda>_. return a) s')"

text \<open>\<open>for x in xs: f x\<close>, with an accumulator for the variables the body assigns.\<close>

fun for_each :: "('a \<Rightarrow> 'b \<Rightarrow> ('e, 's, 'b) py) \<Rightarrow> 'a list \<Rightarrow> 'b \<Rightarrow> ('e, 's, 'b) py" where
  "for_each f [] acc = return acc"
| "for_each f (x # xs) acc = bind (f x acc) (for_each f xs)"

text \<open>
  A method of an object with fields of its own runs in the state (fields of the object,
  rest of the system); \<open>outer\<close> lifts a call that touches the rest only.
\<close>

definition outer :: "('e, 's, 'a) py \<Rightarrow> ('e, 'o \<times> 's, 'a) py" where
  "outer m = (\<lambda>(ob, s). case m s of (r, s') \<Rightarrow> (r, (ob, s')))"

definition this :: "('e, 'o \<times> 's, 'o) py" where
  "this = gets fst"

definition set_this :: "('o \<Rightarrow> 'o) \<Rightarrow> ('e, 'o \<times> 's, unit) py" where
  "set_this f = modify (\<lambda>(ob, s). (f ob, s))"

text \<open>A method run on a fresh object that nobody else holds: only the system survives.\<close>

definition on_new :: "'o \<Rightarrow> ('e, 'o \<times> 's, 'a) py \<Rightarrow> ('e, 's, 'a) py" where
  "on_new ob m = (\<lambda>s. case m (ob, s) of (r, (ob', s')) \<Rightarrow> (r, s'))"

lemmas call_defs [py_defs] =
  return_def raise_def bind_def gets_def modify_def try_except_def try_finally_def
  with_ctx_def outer_def this_def set_this_def on_new_def

subsection \<open>Laws\<close>

lemma bind_return [simp]: "bind (return a) f = f a"
  by (simp add: py_defs)

lemma bind_raise [simp]: "bind (raise e) f = raise e"
  by (simp add: py_defs)

lemma bind_return_right [simp]: "bind m return = m"
  by (rule ext) (simp add: py_defs split: prod.splits sum.splits)

lemma bind_assoc: "bind (bind m f) g = bind m (\<lambda>a. bind (f a) g)"
  by (rule ext) (simp add: py_defs split: prod.splits sum.splits)

lemma bind_ok: "m s = (Inr a, s') \<Longrightarrow> bind m f s = f a s'"
  by (simp add: bind_def)

lemma bind_err: "m s = (Inl e, s') \<Longrightarrow> bind m f s = (Inl e, s')"
  by (simp add: bind_def)

lemma bind_InrE:
  assumes "bind m f s = (Inr b, t)"
  obtains a s' where "m s = (Inr a, s')" and "f a s' = (Inr b, t)"
  using assms by (auto simp: bind_def split: prod.splits sum.splits)

lemma try_except_raise_InrE:
  assumes "try_except m p (\<lambda>e. raise (g e)) s = (Inr a, t)"
  obtains "m s = (Inr a, t)"
  using assms by (auto simp: try_except_def raise_def split: prod.splits sum.splits if_splits)

lemma try_finally_InrE:
  assumes "try_finally m f s = (Inr a, t)"
  obtains s' where "m s = (Inr a, s')" and "f s' = (Inr (), t)"
  using assms by (auto simp: try_finally_def split: prod.splits sum.splits)

lemma with_ctx_InrE:
  assumes "with_ctx enter exit body s = (Inr a, v)"
  obtains c t u where "enter s = (Inr c, t)" and "body c t = (Inr a, u)" and "exit c None u = (Inr (), v)"
proof -
  from assms obtain c t where c: "enter s = (Inr c, t)"
    and b: "(case body c t of
        (Inl e, s') \<Rightarrow> bind (exit c (Some e)) (\<lambda>_. raise e) s'
      | (Inr a, s') \<Rightarrow> bind (exit c None) (\<lambda>_. return a) s') = (Inr a, v)"
    unfolding with_ctx_def by (rule bind_InrE)
  obtain r u where r: "body c t = (r, u)" by fastforce
  show ?thesis
  proof (cases r)
    case (Inl e)
    with b r show ?thesis by (auto elim!: bind_InrE simp: raise_def)
  next
    case (Inr x)
    with b r show ?thesis using that [OF c] by (auto elim!: bind_InrE simp: return_def)
  qed
qed

lemma for_each_append:
  "for_each f (xs @ ys) acc = bind (for_each f xs acc) (for_each f ys)"
proof (induction xs arbitrary: acc)
  case (Cons x xs)
  then have "for_each f (xs @ ys) = (\<lambda>acc. bind (for_each f xs acc) (for_each f ys))"
    by (rule ext)
  then show ?case by (simp add: bind_assoc)
qed simp

text \<open>A call that always returns, and always the same value.\<close>

definition gives :: "('e, 's, 'a) py \<Rightarrow> 'a \<Rightarrow> bool" where
  "gives m a \<longleftrightarrow> (\<forall>s. \<exists>s'. m s = (Inr a, s'))"

lemma givesE:
  assumes "gives m a"
  obtains f where "\<And>s. m s = (Inr a, f s)"
  using assms unfolding gives_def by metis

lemma gives_return: "gives (return a) a"
  by (simp add: gives_def return_def)

section \<open>The frame logic\<close>

definition keeps :: "('s \<Rightarrow> bool) \<Rightarrow> ('e, 's, 'a) py \<Rightarrow> bool" where
  "keeps I m \<longleftrightarrow> (\<forall>s. I s \<longrightarrow> I (snd (m s)))"

lemma keepsI: "(\<And>s. I s \<Longrightarrow> I (snd (m s))) \<Longrightarrow> keeps I m"
  by (simp add: keeps_def)

lemma keepsD: "keeps I m \<Longrightarrow> I s \<Longrightarrow> I (snd (m s))"
  by (simp add: keeps_def)

lemma keepsD_eq: "keeps I m \<Longrightarrow> m s = (r, s') \<Longrightarrow> I s \<Longrightarrow> I s'"
  by (metis keepsD snd_conv)

lemma keeps_return [keeps_intros]: "keeps I (return a)"
  and keeps_raise [keeps_intros]: "keeps I (raise e)"
  and keeps_gets [keeps_intros]: "keeps I (gets f)"
  by (simp_all add: keeps_def py_defs)

lemma keeps_bind [keeps_intros]:
  "keeps I m \<Longrightarrow> (\<And>a. keeps I (f a)) \<Longrightarrow> keeps I (bind m f)"
  by (auto simp: keeps_def py_defs split: prod.splits sum.splits)

lemma keeps_try_except [keeps_intros]:
  "keeps I m \<Longrightarrow> (\<And>e. keeps I (h e)) \<Longrightarrow> keeps I (try_except m p h)"
  by (auto simp: keeps_def py_defs split: prod.splits sum.splits)

lemma keeps_try_finally [keeps_intros]:
  "keeps I m \<Longrightarrow> keeps I f \<Longrightarrow> keeps I (try_finally m f)"
  by (auto simp: keeps_def py_defs split: prod.splits sum.splits)

lemma keeps_with_ctx [keeps_intros]:
  assumes "keeps I enter" and "\<And>c x. keeps I (exit c x)" and "\<And>c. keeps I (body c)"
  shows "keeps I (with_ctx enter exit body)"
  unfolding with_ctx_def
proof (rule keeps_bind [OF assms(1)])
  fix c
  show "keeps I (\<lambda>s. case body c s of
      (Inl e, s') \<Rightarrow> bind (exit c (Some e)) (\<lambda>_. raise e) s'
    | (Inr a, s') \<Rightarrow> bind (exit c None) (\<lambda>_. return a) s')"
  proof (rule keepsI)
    fix s
    assume "I s"
    obtain r s' where r: "body c s = (r, s')" by fastforce
    from assms(3) r \<open>I s\<close> have "I s'" by (rule keepsD_eq)
    then show "I (snd (case body c s of
        (Inl e, s') \<Rightarrow> bind (exit c (Some e)) (\<lambda>_. raise e) s'
      | (Inr a, s') \<Rightarrow> bind (exit c None) (\<lambda>_. return a) s'))"
      using assms(2) by (cases r) (auto simp: r intro!: keepsD [of I] keeps_intros)
  qed
qed

lemma keeps_for_each [keeps_intros]:
  "(\<And>x acc. keeps I (f x acc)) \<Longrightarrow> keeps I (for_each f xs acc)"
  by (induction xs arbitrary: acc) (auto intro!: keeps_intros)

lemma keeps_if [keeps_intros]: "keeps I m \<Longrightarrow> keeps I n \<Longrightarrow> keeps I (if b then m else n)"
  by simp

lemma keeps_case_option [keeps_intros]:
  "keeps I m \<Longrightarrow> (\<And>x. keeps I (f x)) \<Longrightarrow> keeps I (case x of None \<Rightarrow> m | Some y \<Rightarrow> f y)"
  by (simp split: option.split)

lemma keeps_case_prod [keeps_intros]:
  "(\<And>x y. keeps I (f x y)) \<Longrightarrow> keeps I (case p of (x, y) \<Rightarrow> f x y)"
  by (simp split: prod.split)

lemma keeps_case_list [keeps_intros]:
  "keeps I m \<Longrightarrow> (\<And>y ys. keeps I (f y ys)) \<Longrightarrow> keeps I (case xs of [] \<Rightarrow> m | y # ys \<Rightarrow> f y ys)"
  by (simp split: list.split)

lemma keeps_case_sum [keeps_intros]:
  "(\<And>x. keeps I (f x)) \<Longrightarrow> (\<And>y. keeps I (g y)) \<Longrightarrow>
    keeps I (case z of Inl x \<Rightarrow> f x | Inr y \<Rightarrow> g y)"
  by (simp split: sum.split)

lemma keeps_let [keeps_intros]: "keeps I (f x) \<Longrightarrow> keeps I (let y = x in f y)"
  by simp

text \<open>A call on the rest of the system keeps an assertion about the rest; a call on the
  fields of the object keeps it too.\<close>

lemma keeps_outer [keeps_intros]: "keeps I m \<Longrightarrow> keeps (\<lambda>(ob, s). I s) (outer m)"
  by (auto simp: keeps_def py_defs split: prod.splits)

lemma keeps_set_this [keeps_intros]: "keeps (\<lambda>(ob, s). I s) (set_this f)"
  by (auto simp: keeps_def py_defs split: prod.splits)

lemma keeps_this [keeps_intros]: "keeps I this"
  by (simp add: this_def keeps_intros)

lemma keeps_on_new [keeps_intros]: "keeps (\<lambda>(ob, s). I s) m \<Longrightarrow> keeps I (on_new ob m)"
proof (rule keepsI)
  fix s
  assume *: "keeps (\<lambda>(ob, s). I s) m" and "I s"
  then have "(\<lambda>(ob, s). I s) (snd (m (ob, s)))" by (intro keepsD [OF *]) simp
  then show "I (snd (on_new ob m s))" by (auto simp: py_defs split: prod.splits)
qed

text \<open>
  \<open>leads P m Q\<close>: from \<open>P\<close> the call gets to \<open>Q\<close>, whichever way it ends. The rule for
  \<open>with\<close> allows a different assertion inside the block: a resource is held there.
\<close>

definition leads :: "('s \<Rightarrow> bool) \<Rightarrow> ('e, 's, 'a) py \<Rightarrow> ('s \<Rightarrow> bool) \<Rightarrow> bool" where
  "leads P m Q \<longleftrightarrow> (\<forall>s. P s \<longrightarrow> Q (snd (m s)))"

lemma leadsD: "leads P m Q \<Longrightarrow> P s \<Longrightarrow> Q (snd (m s))"
  by (simp add: leads_def)

lemma leads_keeps: "leads I m I \<longleftrightarrow> keeps I m"
  by (simp add: leads_def keeps_def)

lemma leads_bind:
  assumes "leads P m Q" and "\<And>a. keeps Q (f a)"
  shows "leads P (bind m f) Q"
  using assms by (fastforce simp: leads_def keeps_def py_defs split: prod.splits sum.splits)

lemma leads_try_except:
  assumes "leads P m Q" and "\<And>e. keeps Q (h e)"
  shows "leads P (try_except m p h) Q"
  using assms by (fastforce simp: leads_def keeps_def py_defs split: prod.splits sum.splits)

lemma leads_try_finally:
  assumes "leads P m Q" and "keeps Q f"
  shows "leads P (try_finally m f) Q"
  using assms by (fastforce simp: leads_def keeps_def py_defs split: prod.splits sum.splits)

lemma leads_with_ctx:
  fixes enter :: "('e, 's, 'c) py"
  assumes enter: "\<And>s. P s \<Longrightarrow> case enter s of (Inr c, s') \<Rightarrow> J c s' | (Inl e, s') \<Rightarrow> Q s'"
    and body: "\<And>c. leads (J c) (body c) (K c)"
    and exit: "\<And>c x. leads (K c) (exit c x) Q"
  shows "leads P (with_ctx enter exit body) Q"
  unfolding leads_def
proof (intro allI impI)
  fix s
  assume "P s"
  obtain r t where t: "enter s = (r, t)" by fastforce
  show "Q (snd (with_ctx enter exit body s))"
  proof (cases r)
    case (Inl e)
    with enter [OF \<open>P s\<close>] t show ?thesis by (simp add: with_ctx_def bind_def)
  next
    case (Inr c)
    obtain r' u where u: "body c t = (r', u)" by fastforce
    from enter [OF \<open>P s\<close>] t Inr have "J c t" by simp
    with leadsD [OF body] u have "K c u" by (metis snd_conv)
    then have "Q (snd (exit c None u))" and "Q (snd (exit c (Some (projl r')) u))"
      by (rule leadsD [OF exit])+
    with t u Inr show ?thesis
      by (cases r'; cases "exit c None u"; cases "exit c (Some (projl r')) u")
        (auto simp: py_defs split: sum.splits dest: spec)
  qed
qed

lemma leads_on_new:
  assumes "leads (\<lambda>(ob', s). ob' = ob \<and> P s) m (\<lambda>(ob', s). Q s)"
  shows "leads P (on_new ob m) Q"
  unfolding leads_def
proof (intro allI impI)
  fix s
  assume "P s"
  then have "(\<lambda>(ob', s). Q s) (snd (m (ob, s)))" by (intro leadsD [OF assms]) simp
  then show "Q (snd (on_new ob m s))" by (auto simp: on_new_def split: prod.splits)
qed

lemma leads_weaken:
  "leads P m Q \<Longrightarrow> (\<And>s. P' s \<Longrightarrow> P s) \<Longrightarrow> (\<And>s. Q s \<Longrightarrow> Q' s) \<Longrightarrow> leads P' m Q'"
  by (simp add: leads_def)

lemma keeps_with_ctx_held:
  fixes enter :: "('e, 's, 'c) py"
  assumes "\<And>s. I s \<Longrightarrow> case enter s of (Inr c, s') \<Rightarrow> J c s' | (Inl e, s') \<Rightarrow> I s'"
    and "\<And>c. keeps (J c) (body c)"
    and "\<And>c x. leads (J c) (exit c x) I"
  shows "keeps I (with_ctx enter exit body)"
  unfolding leads_keeps [symmetric]
  by (rule leads_with_ctx [where J = J and K = J])
    (simp_all add: assms(1,3) leads_keeps assms(2))

section \<open>Truth values\<close>

text \<open>Python's truth of a \<open>str\<close> or \<open>list\<close>, and of an optional one (\<open>None\<close> is false).\<close>

abbreviation truthy :: "'a list \<Rightarrow> bool" where
  "truthy xs \<equiv> xs \<noteq> []"

fun truthy_opt :: "'a list option \<Rightarrow> bool" where
  "truthy_opt None = False"
| "truthy_opt (Some xs) = (xs \<noteq> [])"

lemma truthy_opt_iff: "truthy_opt x \<longleftrightarrow> (\<exists>c cs. x = Some (c # cs))"
  by (cases x) (auto simp: neq_Nil_conv)

section \<open>Lists\<close>

text \<open>\<open>xs[i]\<close> for a literal \<open>i \<ge> 0\<close>: \<open>None\<close> stands for \<open>IndexError\<close>.\<close>

definition nth_opt :: "'a list \<Rightarrow> nat \<Rightarrow> 'a option" where
  "nth_opt xs i = (if i < length xs then Some (xs ! i) else None)"

lemma nth_opt_Nil [simp]: "nth_opt [] i = None"
  and nth_opt_0 [simp]: "nth_opt (x # xs) 0 = Some x"
  and nth_opt_Suc [simp]: "nth_opt (x # xs) (Suc i) = nth_opt xs i"
  by (simp_all add: nth_opt_def)

lemma nth_opt_numeral [simp]:
  "nth_opt (x # xs) (numeral k) = nth_opt xs (pred_numeral k)"
  "nth_opt (x # xs) 1 = nth_opt xs 0"
  by (simp_all add: nth_opt_def)

lemma nth_opt_Some_iff: "nth_opt xs i = Some x \<longleftrightarrow> i < length xs \<and> xs ! i = x"
  by (auto simp: nth_opt_def)

lemma nth_opt_None_iff: "nth_opt xs i = None \<longleftrightarrow> length xs \<le> i"
  by (auto simp: nth_opt_def)

end
