(* ===== verification/PyText.thy ===== *)
theory PyText
  imports Prelude "HOL-Library.Sublist"
begin

text \<open>
  The methods of Python's \<open>str\<close> the program uses, as functions on HOL strings. A
  \<open>char\<close> is a code point below 256, and on those the white space and the line breaks
  are exactly Python's; upper and lower case are given for ASCII. The lemmas are the facts
  the parsers of the components share: what stripping removes, and which inputs splitting
  and joining recover.
\<close>

named_theorems text_simps "evaluation of the string operations"

section \<open>Characters\<close>

definition py_whitespace :: string where
  "py_whitespace = [CHR 0x20, CHR 0x09, CHR 0x0A, CHR 0x0B, CHR 0x0C, CHR 0x0D,
     CHR 0x1C, CHR 0x1D, CHR 0x1E, CHR 0x1F, CHR 0x85, CHR 0xA0]"

definition is_ws :: "char \<Rightarrow> bool" where
  "is_ws c \<longleftrightarrow> c \<in> set py_whitespace"

definition py_linebreaks :: string where
  "py_linebreaks = [CHR 0x0A, CHR 0x0B, CHR 0x0C, CHR 0x0D, CHR 0x1C, CHR 0x1D, CHR 0x1E, CHR 0x85]"

definition is_linebreak :: "char \<Rightarrow> bool" where
  "is_linebreak c \<longleftrightarrow> c \<in> set py_linebreaks"

abbreviation newline :: char where "newline \<equiv> CHR 0x0A"
abbreviation carriage_return :: char where "carriage_return \<equiv> CHR 0x0D"
abbreviation tab :: char where "tab \<equiv> CHR 0x09"
abbreviation space :: char where "space \<equiv> CHR 0x20"
abbreviation dquote :: char where "dquote \<equiv> CHR 0x22"
abbreviation squote :: char where "squote \<equiv> CHR 0x27"
abbreviation backslash :: char where "backslash \<equiv> CHR 0x5C"

definition is_digit :: "char \<Rightarrow> bool" where
  "is_digit c \<longleftrightarrow> c \<in> set ''0123456789''"

lemmas char_class_defs [text_simps] =
  is_ws_def py_whitespace_def is_linebreak_def py_linebreaks_def is_digit_def

lemma linebreak_is_ws: "is_linebreak c \<Longrightarrow> is_ws c"
  by (auto simp: text_simps)

section \<open>Stripping\<close>

definition strip_if :: "(char \<Rightarrow> bool) \<Rightarrow> string \<Rightarrow> string" where
  "strip_if p s = rev (dropWhile p (rev (dropWhile p s)))"

text \<open>\<open>s.strip()\<close> and \<open>s.strip(chars)\<close>.\<close>

definition py_strip :: "string \<Rightarrow> string" where
  "py_strip s = strip_if is_ws s"

definition py_strip_chars :: "string \<Rightarrow> string \<Rightarrow> string" where
  "py_strip_chars cs s = strip_if (\<lambda>c. c \<in> set cs) s"

lemmas strip_defs [text_simps] = py_strip_def py_strip_chars_def strip_if_def

lemma strip_if_id: "s = [] \<or> \<not> p (hd s) \<and> \<not> p (last s) \<Longrightarrow> strip_if p s = s"
proof (cases s)
  case (Cons c cs)
  assume *: "s = [] \<or> \<not> p (hd s) \<and> \<not> p (last s)"
  with Cons have "dropWhile p s = s" by simp
  moreover obtain u z where uz: "s = u @ [z]" using Cons by (metis rev_exhaust neq_Nil_conv)
  with * have "\<not> p z" by simp
  then have "dropWhile p (rev s) = rev s" using uz by simp
  ultimately show ?thesis by (simp add: strip_if_def)
qed (simp add: strip_if_def)

lemma strip_if_ends:
  "strip_if p s = [] \<or> \<not> p (hd (strip_if p s)) \<and> \<not> p (last (strip_if p s))"
proof (cases "strip_if p s = []")
  case False
  define t where "t = dropWhile p s"
  have r: "strip_if p s = rev (dropWhile p (rev t))" by (simp add: strip_if_def t_def)
  with False have ne: "dropWhile p (rev t) \<noteq> []" by simp
  then have "\<not> p (hd (dropWhile p (rev t)))" by (rule hd_dropWhile)
  then have l: "\<not> p (last (strip_if p s))" using ne r by (simp add: last_rev)
  obtain u where "rev t = u @ dropWhile p (rev t)"
    by (metis takeWhile_dropWhile_id)
  then have "t = strip_if p s @ rev u" using r by (metis rev_append rev_rev_ident)
  with False have h: "hd (strip_if p s) = hd t" by (metis hd_append2)
  from False r have "t \<noteq> []" by auto
  then have "\<not> p (hd t)" unfolding t_def by (rule hd_dropWhile)
  with l h show ?thesis by simp
qed simp

lemma strip_if_idem [simp]: "strip_if p (strip_if p s) = strip_if p s"
  by (rule strip_if_id) (rule strip_if_ends)

lemma py_strip_idem [simp]: "py_strip (py_strip s) = py_strip s"
  by (simp add: py_strip_def)

lemma dropWhile_set_subset: "set (dropWhile p s) \<subseteq> set s"
  by (auto dest: set_dropWhileD)

lemma strip_if_subset: "set (strip_if p s) \<subseteq> set s"
  by (auto simp: strip_if_def dest!: set_dropWhileD)

lemma strip_if_decomp:
  obtains a b where "s = a @ strip_if p s @ b" and "\<forall>c\<in>set a. p c" and "\<forall>c\<in>set b. p c"
proof
  define t where "t = dropWhile p s"
  have "t = rev (dropWhile p (rev t)) @ rev (takeWhile p (rev t))"
    by (metis rev_append rev_rev_ident takeWhile_dropWhile_id)
  moreover have "s = takeWhile p s @ t" by (simp add: t_def)
  ultimately show "s = takeWhile p s @ strip_if p s @ rev (takeWhile p (rev t))"
    by (simp add: strip_if_def t_def)
  show "\<forall>c\<in>set (takeWhile p s). p c" by (auto dest: set_takeWhileD)
  show "\<forall>c\<in>set (rev (takeWhile p (rev t))). p c" by (auto dest: set_takeWhileD)
qed

lemma dropWhile_all_append: "\<forall>c\<in>set a. p c \<Longrightarrow> dropWhile p (a @ s) = dropWhile p s"
  by (induction a) auto

lemma strip_if_pad:
  assumes "\<forall>c\<in>set a. p c" and "\<forall>c\<in>set b. p c" and "s \<noteq> []"
    and "\<not> p (hd s)" and "\<not> p (last s)"
  shows "strip_if p (a @ s @ b) = s"
proof -
  have "dropWhile p (a @ s @ b) = s @ b"
    using assms by (cases s) (simp_all add: dropWhile_all_append)
  moreover have "dropWhile p (rev (s @ b)) = rev s"
    using assms by (cases s rule: rev_cases) (simp_all add: dropWhile_all_append)
  ultimately show ?thesis by (simp add: strip_if_def)
qed

section \<open>Joining\<close>

fun py_join :: "string \<Rightarrow> string list \<Rightarrow> string" where
  "py_join sep [] = []"
| "py_join sep [w] = w"
| "py_join sep (w # v # ws) = w @ sep @ py_join sep (v # ws)"

lemma py_join_Cons: "ws \<noteq> [] \<Longrightarrow> py_join sep (w # ws) = w @ sep @ py_join sep ws"
  by (cases ws) auto

lemma py_join_append:
  "xs \<noteq> [] \<Longrightarrow> ys \<noteq> [] \<Longrightarrow> py_join sep (xs @ ys) = py_join sep xs @ sep @ py_join sep ys"
  by (induction sep xs rule: py_join.induct) (auto simp: py_join_Cons)

lemma py_join_snoc: "xs \<noteq> [] \<Longrightarrow> py_join sep (xs @ [w]) = py_join sep xs @ sep @ w"
  by (simp add: py_join_append)

section \<open>Splitting at a separator\<close>

text \<open>\<open>s.split(sep)\<close> for a non-empty \<open>sep\<close> (Python refuses the empty one; it does not
  occur): cut at the leftmost occurrence, go on behind it.\<close>

fun split_from :: "string \<Rightarrow> string \<Rightarrow> string \<Rightarrow> nat \<Rightarrow> string list" where
  "split_from sep w [] skip = [w]"
| "split_from sep w (c # cs) (Suc n) = split_from sep w cs n"
| "split_from sep w (c # cs) 0 =
     (if sep \<noteq> [] \<and> prefix sep (c # cs) then w # split_from sep [] cs (length sep - 1)
      else split_from sep (w @ [c]) cs 0)"

definition py_split :: "string \<Rightarrow> string \<Rightarrow> string list" where
  "py_split sep s = split_from sep [] s 0"

text \<open>A separator of one character.\<close>

fun split_on :: "char \<Rightarrow> string \<Rightarrow> string list" where
  "split_on d [] = [[]]"
| "split_on d (c # cs) =
     (if c = d then [] # split_on d cs
      else (c # hd (split_on d cs)) # tl (split_on d cs))"

lemma split_on_ne [simp]: "split_on d s \<noteq> []"
  by (induction s) auto

lemma split_from_single:
  "split_from [d] w s 0 = (w @ hd (split_on d s)) # tl (split_on d s)"
  by (induction s arbitrary: w) auto

lemma py_split_single [simp]: "py_split [d] s = split_on d s"
  by (simp add: py_split_def split_from_single)

lemma split_on_no_sep: "d \<notin> set s \<Longrightarrow> split_on d s = [s]"
  by (induction s) auto

lemma split_on_append_sep: "d \<notin> set w \<Longrightarrow> split_on d (w @ d # s) = w # split_on d s"
  by (induction w) auto

lemma split_on_fields: "w \<in> set (split_on d s) \<Longrightarrow> d \<notin> set w"
proof (induction s arbitrary: w)
  case (Cons c s)
  then show ?case
    using list.set_sel(1) [OF split_on_ne [of d s]]
    by (auto split: if_splits dest: list.set_sel(2) [OF split_on_ne])
qed simp

theorem split_on_join:
  "ws \<noteq> [] \<Longrightarrow> \<forall>w\<in>set ws. d \<notin> set w \<Longrightarrow> split_on d (py_join [d] ws) = ws"
  by (induction "[d]" ws rule: py_join.induct) (auto simp: split_on_no_sep split_on_append_sep)

lemma join_split_on: "py_join [d] (split_on d s) = s"
proof (induction s)
  case (Cons c s)
  show ?case
  proof (cases "c = d")
    case True
    with Cons show ?thesis by (simp add: py_join_Cons)
  next
    case False
    obtain w ws where ws: "split_on d s = w # ws" by (cases "split_on d s") auto
    with False Cons show ?thesis by (cases ws) auto
  qed
qed simp

lemma split_on_length: "length (split_on d s) = Suc (length (filter (\<lambda>c. c = d) s))"
  by (induction s) auto

text \<open>\<open>s.split(d, 1)\<close>.\<close>

definition split_once :: "char \<Rightarrow> string \<Rightarrow> string list" where
  "split_once d s =
     (if d \<in> set s then [takeWhile (\<lambda>c. c \<noteq> d) s, tl (dropWhile (\<lambda>c. c \<noteq> d) s)] else [s])"

lemma split_once_append: "d \<notin> set k \<Longrightarrow> split_once d (k @ d # v) = [k, v]"
proof -
  assume "d \<notin> set k"
  then have "takeWhile (\<lambda>c. c \<noteq> d) (k @ d # v) = k" "dropWhile (\<lambda>c. c \<noteq> d) (k @ d # v) = d # v"
    by (auto simp: takeWhile_append dropWhile_append)
  then show ?thesis by (simp add: split_once_def)
qed

lemma split_once_length: "length (split_once d s) = 2 \<longleftrightarrow> d \<in> set s"
  by (simp add: split_once_def)

text \<open>A separator of several characters: pieces that cannot contain it, not even across
  their end, are recovered.\<close>

lemma split_from_skip: "split_from sep w (u @ s) (length u) = split_from sep w s 0"
proof (induction u)
  case Nil
  show ?case by (cases s) auto
qed simp

lemma split_from_piece:
  assumes "\<forall>k < length x. \<not> prefix sep (drop k (x @ s))"
  shows "split_from sep w (x @ s) 0 = split_from sep (w @ x) s 0"
  using assms
proof (induction x arbitrary: w)
  case (Cons c x)
  from Cons.prems have "\<not> prefix sep (c # x @ s)" by force
  moreover have "\<forall>k < length x. \<not> prefix sep (drop k (x @ s))"
    using Cons.prems by force
  ultimately show ?case using Cons.IH [of "w @ [c]"] by simp
qed simp

lemma split_from_sep:
  assumes "sep \<noteq> []"
  shows "split_from sep w (sep @ s) 0 = w # split_from sep [] s 0"
proof -
  obtain c cs where sep: "sep = c # cs" using assms by (cases sep) auto
  have "split_from sep w (sep @ s) 0 = w # split_from sep [] (cs @ s) (length cs)"
    by (simp add: sep)
  then show ?thesis by (simp add: split_from_skip)
qed

text \<open>A text free of the first character of the separator ends a piece cleanly.\<close>

lemma not_prefix_at:
  assumes "sep = c # cs" and "c \<notin> set x" and "k < length x"
  shows "\<not> prefix sep (drop k (x @ s))"
proof
  assume "prefix sep (drop k (x @ s))"
  then have "(drop k (x @ s)) ! 0 = c" using assms(1) by (auto simp: prefix_def)
  then have "x ! k = c" using assms(3) by (simp add: nth_append)
  with assms(2,3) show False by (metis nth_mem)
qed

lemma split_from_char_free:
  assumes "sep = c # cs" and "c \<notin> set x"
  shows "split_from sep w (x @ s) 0 = split_from sep (w @ x) s 0"
  by (intro split_from_piece allI impI not_prefix_at [OF assms])

lemma split_from_last:
  assumes "sep = c # cs" and "c \<notin> set x"
  shows "split_from sep w x 0 = [w @ x]"
  using split_from_char_free [OF assms, where s = "[]"] by simp

theorem py_split_join:
  assumes "sep = c # cs" and "ws \<noteq> []" and "\<forall>w\<in>set ws. c \<notin> set w"
  shows "py_split sep (py_join sep ws) = ws"
proof -
  have "split_from sep u (py_join sep (v # vs)) 0 = (u @ v) # vs"
    if "\<forall>w\<in>set (v # vs). c \<notin> set w" for u v vs
    using that
  proof (induction vs arbitrary: u v)
    case Nil
    then show ?case using split_from_last [OF assms(1)] by simp
  next
    case (Cons v' vs)
    from Cons.prems have "c \<notin> set v" by simp
    then have "split_from sep u (v @ sep @ py_join sep (v' # vs)) 0 =
        split_from sep (u @ v) (sep @ py_join sep (v' # vs)) 0"
      by (rule split_from_char_free [OF assms(1)])
    also have "\<dots> = (u @ v) # split_from sep [] (py_join sep (v' # vs)) 0"
      using assms(1) by (intro split_from_sep) simp
    finally show ?case using Cons.IH [of v' "[]"] Cons.prems by simp
  qed
  with assms(2,3) show ?thesis by (cases ws) (auto simp: py_split_def)
qed

section \<open>Splitting at white space\<close>

fun split_ws_from :: "string \<Rightarrow> string \<Rightarrow> string list" where
  "split_ws_from w [] = (if w = [] then [] else [w])"
| "split_ws_from w (c # cs) =
     (if is_ws c then (if w = [] then split_ws_from [] cs else w # split_ws_from [] cs)
      else split_ws_from (w @ [c]) cs)"

text \<open>\<open>s.split()\<close>.\<close>

definition py_split_ws :: "string \<Rightarrow> string list" where
  "py_split_ws s = split_ws_from [] s"

definition ws_free :: "string \<Rightarrow> bool" where
  "ws_free s \<longleftrightarrow> list_all (\<lambda>c. \<not> is_ws c) s"

lemma split_ws_from_word: "ws_free x \<Longrightarrow> split_ws_from w (x @ s) = split_ws_from (w @ x) s"
  by (induction x arbitrary: w) (auto simp: ws_free_def)

lemma split_ws_words: "x \<in> set (split_ws_from w s) \<Longrightarrow> ws_free w \<Longrightarrow> x \<noteq> [] \<and> ws_free x"
  by (induction w s rule: split_ws_from.induct) (auto simp: ws_free_def split: if_splits)

theorem py_split_ws_words: "x \<in> set (py_split_ws s) \<Longrightarrow> x \<noteq> [] \<and> ws_free x"
  using split_ws_words [of x "[]" s] by (simp add: py_split_ws_def ws_free_def)

lemma split_ws_from_skip: "\<forall>c\<in>set g. is_ws c \<Longrightarrow> split_ws_from [] (g @ s) = split_ws_from [] s"
  by (induction g) auto

lemma split_ws_from_gap:
  assumes "w \<noteq> []" and "g \<noteq> []" and "\<forall>c\<in>set g. is_ws c"
  shows "split_ws_from w (g @ s) = w # split_ws_from [] s"
  using assms by (cases g) (auto simp: split_ws_from_skip)

text \<open>Words in columns: any non-empty gaps of white space separate them.\<close>

theorem split_ws_columns:
  assumes "\<forall>(x, g)\<in>set cols. x \<noteq> [] \<and> ws_free x \<and> g \<noteq> [] \<and> (\<forall>c\<in>set g. is_ws c)"
    and "z \<noteq> []" and "ws_free z"
  shows "py_split_ws (concat (map (\<lambda>(x, g). x @ g) cols) @ z) = map fst cols @ [z]"
  using assms(1)
proof (induction cols)
  case Nil
  with assms(2,3) show ?case
    using split_ws_from_word [of z "[]" "[]"] by (simp add: py_split_ws_def)
next
  case (Cons col cols)
  obtain x g where col: "col = (x, g)" by fastforce
  with Cons.prems have "split_ws_from [] (x @ g @ s) = x # split_ws_from [] s" for s
    by (auto simp: split_ws_from_word split_ws_from_gap)
  with Cons col show ?case by (auto simp: py_split_ws_def)
qed

lemma split_ws_join:
  assumes "\<forall>w\<in>set ws. w \<noteq> [] \<and> ws_free w"
  shows "py_split_ws (py_join [space] ws) = ws"
proof (cases ws rule: rev_cases)
  case (snoc vs z)
  have "py_join [space] (vs @ [z]) = concat (map (\<lambda>(x, g). x @ g) (map (\<lambda>v. (v, [space])) vs)) @ z"
    by (induction vs) (auto simp: py_join_Cons)
  moreover have "py_split_ws (concat (map (\<lambda>(x, g). x @ g) (map (\<lambda>v. (v, [space])) vs)) @ z) =
      map fst (map (\<lambda>v. (v, [space])) vs) @ [z]"
    using assms snoc by (intro split_ws_columns) (auto simp: text_simps)
  ultimately show ?thesis using snoc by (simp add: comp_def)
qed (simp add: py_split_ws_def)

lemma split_ws_lines:
  "\<forall>w\<in>set ws. w \<noteq> [] \<and> ws_free w \<Longrightarrow> py_split_ws (concat (map (\<lambda>w. w @ [newline]) ws)) = ws"
proof (induction ws)
  case (Cons w ws)
  then have "split_ws_from [] (w @ [newline] @ s) = w # split_ws_from [] s" for s
    by (subst split_ws_from_word) (auto simp: split_ws_from_gap text_simps)
  with Cons show ?case by (simp add: py_split_ws_def)
qed (simp add: py_split_ws_def)

section \<open>Lines\<close>

fun lines_from :: "string \<Rightarrow> string \<Rightarrow> string list" where
  "lines_from w [] = (if w = [] then [] else [w])"
| "lines_from w [c] = (if is_linebreak c then [w] else [w @ [c]])"
| "lines_from w (c # d # cs) =
     (if c = carriage_return \<and> d = newline then w # lines_from [] cs
      else if is_linebreak c then w # lines_from [] (d # cs)
      else lines_from (w @ [c]) (d # cs))"

text \<open>\<open>s.splitlines()\<close>.\<close>

definition py_splitlines :: "string \<Rightarrow> string list" where
  "py_splitlines s = lines_from [] s"

definition one_line :: "string \<Rightarrow> bool" where
  "one_line s \<longleftrightarrow> list_all (\<lambda>c. \<not> is_linebreak c) s"

lemma one_line_simps [simp]:
  "one_line []" "one_line (c # s) \<longleftrightarrow> \<not> is_linebreak c \<and> one_line s"
  "one_line (s @ t) \<longleftrightarrow> one_line s \<and> one_line t"
  by (auto simp: one_line_def)

lemma lines_from_line:
  "one_line x \<Longrightarrow> lines_from w (x @ newline # s) = (w @ x) # lines_from [] s"
proof (induction x arbitrary: w)
  case Nil
  show ?case by (cases s) (auto simp: text_simps)
next
  case (Cons c x)
  have "\<exists>d cs. x @ newline # s = d # cs" by (cases x) auto
  then obtain d cs where "x @ newline # s = d # cs" by blast
  with Cons show ?case by (auto simp: text_simps)
qed

lemma lines_from_one_line: "one_line x \<Longrightarrow> lines_from w x = (if w @ x = [] then [] else [w @ x])"
  by (induction w x rule: lines_from.induct) (auto simp: text_simps)

lemma splitlines_line: "one_line x \<Longrightarrow> py_splitlines (x @ newline # s) = x # py_splitlines s"
  by (simp add: py_splitlines_def lines_from_line)

theorem splitlines_join:
  assumes "\<forall>x\<in>set xs. one_line x" and "xs \<noteq> [] \<longrightarrow> last xs \<noteq> []"
  shows "py_splitlines (py_join [newline] xs) = xs"
  using assms
proof (induction "[newline]" xs rule: py_join.induct)
  case 1
  show ?case by (simp add: py_splitlines_def)
next
  case (2 w)
  then show ?case by (simp add: py_splitlines_def lines_from_one_line)
next
  case (3 w v ws)
  then show ?case by (simp add: splitlines_line)
qed

text \<open>Output as programs write it, every line ended.\<close>

theorem splitlines_ended:
  "\<forall>x\<in>set xs. one_line x \<Longrightarrow> py_splitlines (concat (map (\<lambda>x. x @ [newline]) xs)) = xs"
proof (induction xs)
  case Nil
  show ?case by (simp add: py_splitlines_def)
next
  case (Cons x xs)
  then show ?case using splitlines_line [of x] by simp
qed

lemma lines_from_one: "x \<in> set (lines_from w s) \<Longrightarrow> one_line w \<Longrightarrow> one_line x"
  by (induction w s rule: lines_from.induct) (auto split: if_splits)

lemma splitlines_one_line: "x \<in> set (py_splitlines s) \<Longrightarrow> one_line x"
  using lines_from_one [of x "[]" s] by (simp add: py_splitlines_def)

section \<open>Searching, replacing, case\<close>

text \<open>\<open>sub in s\<close>.\<close>

fun py_in :: "string \<Rightarrow> string \<Rightarrow> bool" where
  "py_in sub [] = (sub = [])"
| "py_in sub (c # cs) = (prefix sub (c # cs) \<or> py_in sub cs)"

lemma py_in_iff: "py_in sub s \<longleftrightarrow> (\<exists>a b. s = a @ sub @ b)"
proof (induction s)
  case (Cons c s)
  show ?case
  proof
    assume "py_in sub (c # s)"
    then consider "prefix sub (c # s)" | "py_in sub s" by auto
    then show "\<exists>a b. c # s = a @ sub @ b"
    proof cases
      case 1
      then show ?thesis by (metis append_Nil prefix_def)
    next
      case 2
      with Cons.IH show ?thesis by (metis append_Cons)
    qed
  next
    assume "\<exists>a b. c # s = a @ sub @ b"
    then obtain a b where ab: "c # s = a @ sub @ b" by blast
    then show "py_in sub (c # s)"
    proof (cases a)
      case Nil
      with ab show ?thesis by (metis append_Nil prefixI py_in.simps(2))
    next
      case (Cons d a')
      with ab Cons.IH show ?thesis by auto
    qed
  qed
qed auto

text \<open>\<open>s.replace(old, new)\<close> for a non-empty \<open>old\<close>.\<close>

definition py_replace :: "string \<Rightarrow> string \<Rightarrow> string \<Rightarrow> string" where
  "py_replace old new s = py_join new (py_split old s)"

lemma py_replace_delete: "py_replace [d] [] s = filter (\<lambda>c. c \<noteq> d) s"
proof -
  have "py_join [] ws = concat ws" for ws
    by (induction "[] :: string" ws rule: py_join.induct) auto
  moreover have "concat (split_on d s) = filter (\<lambda>c. c \<noteq> d) s"
  proof (induction s)
    case (Cons c s)
    obtain w ws where "split_on d s = w # ws" by (cases "split_on d s") auto
    with Cons show ?case by auto
  qed simp
  ultimately show ?thesis by (simp add: py_replace_def)
qed

definition ascii_letters :: "(char \<times> char) list" where
  "ascii_letters = zip ''abcdefghijklmnopqrstuvwxyz'' ''ABCDEFGHIJKLMNOPQRSTUVWXYZ''"

definition upper_char :: "char \<Rightarrow> char" where
  "upper_char c = (case map_of ascii_letters c of None \<Rightarrow> c | Some d \<Rightarrow> d)"

definition lower_char :: "char \<Rightarrow> char" where
  "lower_char c = (case map_of (map prod.swap ascii_letters) c of None \<Rightarrow> c | Some d \<Rightarrow> d)"

definition py_upper :: "string \<Rightarrow> string" where
  "py_upper s = map upper_char s"

definition py_lower :: "string \<Rightarrow> string" where
  "py_lower s = map lower_char s"

lemmas case_defs [text_simps] =
  py_upper_def py_lower_def upper_char_def lower_char_def ascii_letters_def

section \<open>Numbers\<close>

definition digit_char :: "nat \<Rightarrow> char" where
  "digit_char d = ''0123456789'' ! d"

fun show_nat :: "nat \<Rightarrow> string" where
  "show_nat n = (if n < 10 then [digit_char n] else show_nat (n div 10) @ [digit_char (n mod 10)])"

declare show_nat.simps [simp del]

definition show_int :: "int \<Rightarrow> string" where
  "show_int i = (if i < 0 then CHR ''-'' # show_nat (nat (- i)) else show_nat (nat i))"

lemma show_nat_ne [simp]: "show_nat n \<noteq> []"
  by (subst show_nat.simps) simp

lemma digit_char_digit: "d < 10 \<Longrightarrow> is_digit (digit_char d)"
  unfolding is_digit_def digit_char_def by (rule nth_mem) simp

lemma show_nat_digits: "list_all is_digit (show_nat n)"
proof (induction n rule: show_nat.induct)
  case (1 n)
  then show ?case by (subst show_nat.simps) (simp add: digit_char_digit)
qed

text \<open>\<open>int(s)\<close> and \<open>int(s, 16)\<close>: white space around, a sign, for base 16 a \<open>0x\<close>, then
  digits, single underscores between them. \<open>None\<close> stands for \<open>ValueError\<close>.\<close>

definition digit_value :: "char \<Rightarrow> nat option" where
  "digit_value c = map_of (zip ''0123456789abcdefABCDEF'' ([0..<16] @ [10..<16])) c"

fun digits_value :: "nat \<Rightarrow> bool \<Rightarrow> nat \<Rightarrow> string \<Rightarrow> nat option" where
  "digits_value base seen acc [] = (if seen then Some acc else None)"
| "digits_value base seen acc (c # cs) =
     (if c = CHR ''_'' then (if seen then digits_value base False acc cs else None)
      else case digit_value c of
        None \<Rightarrow> None
      | Some d \<Rightarrow> if d < base then digits_value base True (acc * base + d) cs else None)"

definition unsigned_value :: "nat \<Rightarrow> string \<Rightarrow> int option" where
  "unsigned_value base s = map_option int
     (if base = 16 \<and> (prefix ''0x'' s \<or> prefix ''0X'' s)
      then digits_value base False 0 (case drop 2 s of CHR ''_'' # t \<Rightarrow> t | t \<Rightarrow> t)
      else digits_value base False 0 s)"

definition py_int :: "nat \<Rightarrow> string \<Rightarrow> int option" where
  "py_int base s = (case py_strip s of
     [] \<Rightarrow> None
   | c # cs \<Rightarrow>
       if c = CHR ''-'' then map_option uminus (unsigned_value base cs)
       else if c = CHR ''+'' then unsigned_value base cs
       else unsigned_value base (c # cs))"

section \<open>Paths\<close>

text \<open>\<open>os.path.join(a, b)\<close> and \<open>os.path.basename(p)\<close> of the POSIX flavour.\<close>

definition path_join :: "string \<Rightarrow> string \<Rightarrow> string" where
  "path_join a b =
     (if prefix ''/'' b then b
      else if a = [] \<or> last a = CHR ''/'' then a @ b
      else a @ ''/'' @ b)"

definition path_basename :: "string \<Rightarrow> string" where
  "path_basename p = rev (takeWhile (\<lambda>c. c \<noteq> CHR ''/'') (rev p))"

lemma path_basename_no_slash: "CHR ''/'' \<notin> set (path_basename p)"
  by (auto simp: path_basename_def dest: set_takeWhileD)

lemma path_basename_join:
  assumes "CHR ''/'' \<notin> set b"
  shows "path_basename (path_join a b) = b"
proof -
  have b: "takeWhile (\<lambda>c. c \<noteq> CHR ''/'') (rev b @ CHR ''/'' # x) = rev b" for x
    using assms by (subst takeWhile_append2) auto
  have b0: "takeWhile (\<lambda>c. c \<noteq> CHR ''/'') (rev b) = rev b"
    using assms by (subst takeWhile_eq_all_conv) auto
  have nb: "\<not> prefix ''/'' b" using assms by (cases b) auto
  show ?thesis
  proof (cases a rule: rev_cases)
    case Nil
    with nb have "path_join a b = b" by (simp add: path_join_def)
    with b0 show ?thesis by (simp only: path_basename_def rev_rev_ident)
  next
    case (snoc u z)
    with nb b [of "rev u"] b [of "rev a"] show ?thesis
      by (auto simp: path_basename_def path_join_def)
  qed
qed

section \<open>Stripping what was printed\<close>

lemma ended_lines: "ls \<noteq> [] \<Longrightarrow> concat (map (\<lambda>l. l @ [newline]) ls) = py_join [newline] ls @ [newline]"
  by (induction ls rule: induct_list012) auto

lemma join_last:
  "ls \<noteq> [] \<Longrightarrow> last ls \<noteq> [] \<Longrightarrow>
    py_join [newline] ls \<noteq> [] \<and> last (py_join [newline] ls) = last (last ls)"
  by (induction ls rule: induct_list012) auto

lemma join_ends:
  assumes "ls \<noteq> []" and "hd ls \<noteq> []" and "last ls \<noteq> []"
  shows "py_join [newline] ls \<noteq> [] \<and> hd (py_join [newline] ls) = hd (hd ls) \<and>
    last (py_join [newline] ls) = last (last ls)"
  using join_last [OF assms(1,3)] assms by (induction ls rule: induct_list012) auto

lemma strip_trailing_newline:
  assumes "w \<noteq> []" and "\<not> is_ws (hd w)" and "\<not> is_ws (last w)"
  shows "py_strip (w @ [newline]) = w"
proof -
  obtain c cs where w: "w = c # cs" using assms(1) by (cases w) auto
  have nl: "is_ws newline" by (simp add: text_simps)
  have "strip_if is_ws w = w" using assms by (intro strip_if_id) auto
  with w assms(2) nl show ?thesis by (simp add: py_strip_def strip_if_def)
qed

lemma strip_lines:
  assumes "ls \<noteq> []" and "hd ls \<noteq> []" and "last ls \<noteq> []" and "\<not> is_ws (hd (hd ls))" and "\<not> is_ws (last (last ls))"
  shows "py_strip (concat (map (\<lambda>l. l @ [newline]) ls)) = py_join [newline] ls"
  using join_ends [OF assms(1-3)] assms by (simp add: ended_lines strip_trailing_newline)

lemma ws_free_append [simp]: "ws_free (a @ b) \<longleftrightarrow> ws_free a \<and> ws_free b"
  by (simp add: ws_free_def)

lemma ws_free_ends: "ws_free w \<Longrightarrow> w \<noteq> [] \<Longrightarrow> \<not> is_ws (hd w) \<and> \<not> is_ws (last w)"
  using hd_in_set [of w] last_in_set [of w] by (auto simp: ws_free_def list_all_iff)

lemma ws_free_join: "ws_free sep \<Longrightarrow> \<forall>w\<in>set ws. ws_free w \<Longrightarrow> ws_free (py_join sep ws)"
  by (induction sep ws rule: py_join.induct) (auto simp: ws_free_def)

end
