(* ===== verification/ShellText.thy ===== *)
theory ShellText
  imports PyText
begin

text \<open>
  The two standard library functions between a list of arguments and a command line:
  \<open>subprocess.list2cmdline\<close>, which the SSH executor uses to make the line it sends, and
  \<open>shlex.split\<close> (POSIX mode), which the network and nmcli services use to make argument
  lists from strings. The lemmas say on which arguments the one inverts the other, and how
  splitting behaves on a line that is put together from fields.
\<close>

section \<open>list2cmdline\<close>

text \<open>
  The characters of one argument; \<open>n\<close> counts the backslashes held back because it is not
  known yet whether a double quote follows them.
\<close>

fun l2c_body :: "bool \<Rightarrow> nat \<Rightarrow> string \<Rightarrow> string" where
  "l2c_body needquote n [] =
     replicate n backslash @ (if needquote then replicate n backslash @ [dquote] else [])"
| "l2c_body needquote n (c # cs) =
     (if c = backslash then l2c_body needquote (Suc n) cs
      else if c = dquote
      then replicate (n * 2) backslash @ [backslash, dquote] @ l2c_body needquote 0 cs
      else replicate n backslash @ [c] @ l2c_body needquote 0 cs)"

definition l2c_needquote :: "string \<Rightarrow> bool" where
  "l2c_needquote arg \<longleftrightarrow> space \<in> set arg \<or> tab \<in> set arg \<or> arg = []"

definition l2c_arg :: "string \<Rightarrow> string" where
  "l2c_arg arg =
     (let nq = l2c_needquote arg in (if nq then [dquote] else []) @ l2c_body nq 0 arg)"

definition list2cmdline :: "string list \<Rightarrow> string" where
  "list2cmdline seq = py_join [space] (map l2c_arg seq)"

section \<open>shlex.split\<close>

datatype lex_state = Blank | Word | Quoted char | Escaped lex_state

definition shlex_whitespace :: string where
  "shlex_whitespace = [space, tab, carriage_return, newline]"

definition lex_emit :: "bool \<Rightarrow> string \<Rightarrow> string + string list \<Rightarrow> string + string list" where
  "lex_emit quoted token r = (if token \<noteq> [] \<or> quoted then map_sum id ((#) token) r else r)"

text \<open>
  The loop of \<open>read_token\<close> over the whole input: state, \<open>quoted\<close> flag and text of the
  current token. \<open>Inl\<close> is the message of the \<open>ValueError\<close>.
\<close>

fun shlex_from :: "lex_state \<Rightarrow> bool \<Rightarrow> string \<Rightarrow> string \<Rightarrow> string + string list" where
  "shlex_from Blank quoted token [] = Inr []"
| "shlex_from Word quoted token [] = lex_emit quoted token (Inr [])"
| "shlex_from (Quoted q) quoted token [] = Inl ''No closing quotation''"
| "shlex_from (Escaped st) quoted token [] = Inl ''No escaped character''"
| "shlex_from Blank quoted token (c # cs) =
     (if c \<in> set shlex_whitespace then shlex_from Blank False [] cs
      else if c = backslash then shlex_from (Escaped Word) False [] cs
      else if c = dquote \<or> c = squote then shlex_from (Quoted c) True [] cs
      else shlex_from Word False [c] cs)"
| "shlex_from Word quoted token (c # cs) =
     (if c \<in> set shlex_whitespace then lex_emit quoted token (shlex_from Blank False [] cs)
      else if c = dquote \<or> c = squote then shlex_from (Quoted c) True token cs
      else if c = backslash then shlex_from (Escaped Word) quoted token cs
      else shlex_from Word quoted (token @ [c]) cs)"
| "shlex_from (Quoted q) quoted token (c # cs) =
     (if c = q then shlex_from Word quoted token cs
      else if c = backslash \<and> q = dquote then shlex_from (Escaped (Quoted q)) quoted token cs
      else shlex_from (Quoted q) quoted (token @ [c]) cs)"
| "shlex_from (Escaped st) quoted token (c # cs) =
     (case st of
        Quoted q \<Rightarrow>
          shlex_from st quoted
            (token @ (if c \<noteq> backslash \<and> c \<noteq> q then [backslash, c] else [c])) cs
      | _ \<Rightarrow> shlex_from st quoted (token @ [c]) cs)"

definition shlex_split :: "string \<Rightarrow> string + string list" where
  "shlex_split s = shlex_from Blank False [] s"

section \<open>Splitting what was put together\<close>

lemma map_sum_id_append [simp]:
  "map_sum id ((@) []) r = r"
  "map_sum id ((#) x) (map_sum id ((@) xs) r) = map_sum id ((@) (x # xs)) r"
  by (cases r; simp)+

lemma lex_emit_InrD: "lex_emit q t r = Inr xs \<Longrightarrow> \<exists>ys. r = Inr ys"
  by (cases r) (auto simp: lex_emit_def split: if_splits)

lemma shlex_from_append:
  "shlex_from st q t a = Inr xs \<Longrightarrow>
    shlex_from st q t (a @ space # b) = map_sum id ((@) xs) (shlex_split b)"
proof (induction st q t a arbitrary: xs rule: shlex_from.induct)
  case (1 quoted token)
  then show ?case
    by (cases "shlex_from Blank False [] b") (auto simp: shlex_split_def shlex_whitespace_def)
next
  case (2 quoted token)
  then show ?case
    by (cases "shlex_from Blank False [] b")
      (auto simp: shlex_split_def shlex_whitespace_def lex_emit_def split: if_splits)
next
  case (6 quoted token c cs)
  show ?case
  proof (cases "c \<in> set shlex_whitespace")
    case True
    with 6 obtain ys where "shlex_from Blank False [] cs = Inr ys"
      by (auto dest!: lex_emit_InrD)
    with 6 True show ?thesis
      by (cases "shlex_split b") (auto simp: lex_emit_def split: if_splits)
  next
    case False
    with 6 show ?thesis by auto
  qed
next
  case (8 st quoted token c cs)
  then show ?case by (cases st) auto
qed auto

text \<open>A line made of fields that are complete by themselves splits field by field.\<close>

theorem shlex_split_append:
  "shlex_split a = Inr xs \<Longrightarrow>
    shlex_split (a @ space # b) = map_sum id ((@) xs) (shlex_split b)"
  unfolding shlex_split_def [of a] shlex_split_def [of "a @ space # b"]
  by (rule shlex_from_append)

theorem shlex_split_join:
  "list_all2 (\<lambda>w xs. shlex_split w = Inr xs) ws xss \<Longrightarrow>
    shlex_split (py_join [space] ws) = Inr (concat xss)"
proof (induction ws arbitrary: xss)
  case Nil
  then show ?case by (simp add: shlex_split_def)
next
  case (Cons w ws)
  then obtain xs yss where xss: "xss = xs # yss" "shlex_split w = Inr xs"
      "list_all2 (\<lambda>w xs. shlex_split w = Inr xs) ws yss"
    by (auto simp: list_all2_Cons1)
  show ?case
  proof (cases ws)
    case Nil
    with xss show ?thesis by simp
  next
    case (Cons v vs)
    with xss Cons.IH [OF xss(3)] show ?thesis by (simp add: shlex_split_append)
  qed
qed

subsection \<open>Plain words\<close>

definition plain_char :: "char \<Rightarrow> bool" where
  "plain_char c \<longleftrightarrow> c \<notin> set (shlex_whitespace @ [backslash, dquote, squote])"

definition plain_word :: "string \<Rightarrow> bool" where
  "plain_word w \<longleftrightarrow> w \<noteq> [] \<and> list_all plain_char w"

lemma shlex_from_plain:
  "list_all plain_char w \<Longrightarrow> shlex_from Word q t (w @ s) = shlex_from Word q (t @ w) s"
  by (induction w arbitrary: t) (auto simp: plain_char_def)

lemma shlex_from_plain_end:
  "list_all plain_char w \<Longrightarrow> shlex_from Word q t w = lex_emit q (t @ w) (Inr [])"
  using shlex_from_plain [of w q t "[]"] by simp

lemma shlex_split_plain:
  assumes "plain_word w"
  shows "shlex_split w = Inr [w]"
proof -
  obtain c cs where "w = c # cs" using assms by (cases w) (auto simp: plain_word_def)
  with assms show ?thesis
    by (auto simp: shlex_split_def plain_word_def shlex_from_plain_end lex_emit_def plain_char_def)
qed

theorem shlex_split_plain_words:
  assumes "list_all plain_word ws"
  shows "shlex_split (py_join [space] ws) = Inr ws"
proof -
  have "list_all2 (\<lambda>w xs. shlex_split w = Inr xs) ws (map (\<lambda>w. [w]) ws)"
    using assms by (induction ws) (auto simp: shlex_split_plain)
  then have "shlex_split (py_join [space] ws) = Inr (concat (map (\<lambda>w. [w]) ws))"
    by (rule shlex_split_join)
  then show ?thesis by simp
qed

section \<open>list2cmdline and the shell's reading of it\<close>

text \<open>
  Arguments that come through unchanged: no double quote and no backslash; an argument
  that \<open>list2cmdline\<close> does not quote has no single quote and no line break either.
\<close>

definition cmdline_safe :: "string \<Rightarrow> bool" where
  "cmdline_safe a \<longleftrightarrow> list_all (\<lambda>c. c \<noteq> dquote \<and> c \<noteq> backslash) a \<and>
     (l2c_needquote a \<or> list_all plain_char a)"

lemma l2c_body_unescaped:
  "list_all (\<lambda>c. c \<noteq> dquote \<and> c \<noteq> backslash) a \<Longrightarrow>
    l2c_body nq 0 a = a @ (if nq then [dquote] else [])"
  by (induction a) auto

lemma shlex_from_quoted:
  "list_all (\<lambda>c. c \<noteq> dquote \<and> c \<noteq> backslash) a \<Longrightarrow>
    shlex_from (Quoted dquote) q t (a @ dquote # s) = shlex_from Word q (t @ a) s"
  by (induction a arbitrary: t) auto

lemma shlex_split_l2c_arg:
  assumes "cmdline_safe a"
  shows "shlex_split (l2c_arg a) = Inr [a]"
proof (cases "l2c_needquote a")
  case True
  with assms have arg: "l2c_arg a = dquote # a @ [dquote]"
    by (simp add: l2c_arg_def cmdline_safe_def l2c_body_unescaped)
  have "shlex_split (l2c_arg a) = shlex_from (Quoted dquote) True [] (a @ [dquote])"
    by (simp add: arg shlex_split_def shlex_whitespace_def)
  also have "\<dots> = shlex_from Word True ([] @ a) []"
    using assms by (intro shlex_from_quoted) (simp add: cmdline_safe_def)
  finally show ?thesis by (simp add: lex_emit_def)
next
  case False
  with assms have "l2c_arg a = a" "plain_word a"
    by (auto simp: l2c_arg_def cmdline_safe_def l2c_body_unescaped l2c_needquote_def plain_word_def)
  then show ?thesis by (simp add: shlex_split_plain)
qed

theorem shlex_split_list2cmdline:
  assumes "list_all cmdline_safe args"
  shows "shlex_split (list2cmdline args) = Inr args"
proof -
  have "list_all2 (\<lambda>w xs. shlex_split w = Inr xs) (map l2c_arg args) (map (\<lambda>a. [a]) args)"
    using assms by (induction args) (auto simp: shlex_split_l2c_arg)
  then have "shlex_split (list2cmdline args) = Inr (concat (map (\<lambda>a. [a]) args))"
    unfolding list2cmdline_def by (rule shlex_split_join)
  then show ?thesis by simp
qed

text \<open>Arguments without blanks, quotes and backslashes are sent as they are.\<close>

lemma list2cmdline_plain:
  assumes "list_all plain_word args"
  shows "list2cmdline args = py_join [space] args"
proof -
  have "l2c_arg a = a" if "plain_word a" for a
  proof -
    from that have "\<not> l2c_needquote a" "list_all (\<lambda>c. c \<noteq> dquote \<and> c \<noteq> backslash) a"
      by (auto simp: plain_word_def plain_char_def l2c_needquote_def shlex_whitespace_def list_all_iff)
    then show ?thesis by (simp add: l2c_arg_def l2c_body_unescaped)
  qed
  with assms have "map l2c_arg args = args" by (simp add: list_all_iff map_idI)
  then show ?thesis by (simp add: list2cmdline_def)
qed

lemmas shell_eval =
  plain_word_def plain_char_def shlex_whitespace_def cmdline_safe_def l2c_needquote_def
  list2cmdline_def l2c_arg_def shlex_split_def lex_emit_def

end
