(* ===== verification/Errors.thy ===== *)
theory Errors
  imports ShellText
begin

text \<open>
  The exceptions (\<open>rrmngmnt/errors.py\<close> and the classes of the standard library the
  program raises or catches) as one datatype, the class tests its \<open>except\<close> clauses
  make, and the messages \<open>errors.py\<close> renders. A command is kept with its Python type:
  a list can be changed by the executor, a tuple can not.
\<close>

section \<open>Commands\<close>

datatype pycmd = CList "string list" | CTuple "string list"

fun cmd_args :: "pycmd \<Rightarrow> string list" where
  "cmd_args (CList xs) = xs"
| "cmd_args (CTuple xs) = xs"

text \<open>\<open>list(cmd)\<close>: a fresh list.\<close>

definition py_list :: "pycmd \<Rightarrow> string list" where
  "py_list c = cmd_args c"

text \<open>
  What an error keeps of the executor: the fields its message prints, or the method
  \<open>Host.executor\<close> itself where the caller forgot to call it.
\<close>

datatype exec_ref =
    Exec_obj (er_user: string) (er_address: string) (er_password: "string option")
  | Exec_method

text \<open>
  The argument of a \<open>socket.timeout\<close>: the text of the library, or what
  \<open>_update_timeout_exception\<close> puts in its place (address and timeout, with
  \<open>_updated\<close> set).
\<close>

datatype timeout_info = Raw_timeout string | Updated_timeout string "int option"

datatype exn =
    CommandExecutionFailure exec_ref pycmd int string
  | UnsupportedOperation string string string
  | FailCreateTemp pycmd
  | FailToMount string string
  | FailToUmount string string
  | FailToRemount string string
  | CanNotHandle string
  | ServiceError string
  | NotImplementedError string
  | ValueError string
  | RuntimeError string
  | IndexError
  | KeyError string
  | TypeError string
  | AttributeError string
  | SocketTimeout timeout_info
  | GaiError int string
  | HError int string
  | SocketError string
  | SSHException string
  | PlainException string
  | OtherException string

section \<open>Class tests\<close>

fun is_command_failure :: "exn \<Rightarrow> bool" where
  "is_command_failure (CommandExecutionFailure x c rc err) = True"
| "is_command_failure _ = False"

fun is_unsupported :: "exn \<Rightarrow> bool" where
  "is_unsupported (UnsupportedOperation h oper why) = True"
| "is_unsupported _ = False"

fun is_mount_error :: "exn \<Rightarrow> bool" where
  "is_mount_error (FailToMount out err) = True"
| "is_mount_error (FailToUmount out err) = True"
| "is_mount_error (FailToRemount out err) = True"
| "is_mount_error _ = False"

fun is_can_not_handle :: "exn \<Rightarrow> bool" where
  "is_can_not_handle (CanNotHandle msg) = True"
| "is_can_not_handle _ = False"

fun is_service_error :: "exn \<Rightarrow> bool" where
  "is_service_error (ServiceError msg) = True"
| "is_service_error _ = False"

fun is_value_error :: "exn \<Rightarrow> bool" where
  "is_value_error (ValueError msg) = True"
| "is_value_error _ = False"

fun is_socket_timeout :: "exn \<Rightarrow> bool" where
  "is_socket_timeout (SocketTimeout t) = True"
| "is_socket_timeout _ = False"

text \<open>\<open>socket.error\<close> is \<open>OSError\<close>; time-outs and resolver errors are subclasses.\<close>

fun is_socket_error :: "exn \<Rightarrow> bool" where
  "is_socket_error (SocketTimeout t) = True"
| "is_socket_error (GaiError n msg) = True"
| "is_socket_error (HError n msg) = True"
| "is_socket_error (SocketError msg) = True"
| "is_socket_error _ = False"

fun is_ssh_exception :: "exn \<Rightarrow> bool" where
  "is_ssh_exception (SSHException msg) = True"
| "is_ssh_exception _ = False"

definition any_exception :: "exn \<Rightarrow> bool" where
  "any_exception e = True"

lemma any_exception [simp]: "any_exception e"
  by (simp add: any_exception_def)

fun_cases is_mount_errorE: "is_mount_error e"
fun_cases is_can_not_handleE: "is_can_not_handle e"
fun_cases is_socket_timeoutE: "is_socket_timeout e"

section \<open>Messages\<close>

text \<open>\<open>repr(s)\<close>: single quotes unless the text has one and no double quote.\<close>

definition hex_char :: "nat \<Rightarrow> char" where
  "hex_char d = ''0123456789abcdef'' ! d"

definition unprintable :: "char \<Rightarrow> bool" where
  "unprintable c \<longleftrightarrow> (let n = of_char c :: nat in n < 32 \<or> 127 \<le> n \<and> n \<le> 160 \<or> n = 173)"

definition repr_char :: "char \<Rightarrow> char \<Rightarrow> string" where
  "repr_char q c =
     (if c = q \<or> c = backslash then [backslash, c]
      else if c = tab then backslash # ''t''
      else if c = newline then backslash # ''n''
      else if c = carriage_return then backslash # ''r''
      else if unprintable c
      then backslash # CHR ''x'' # [hex_char (of_char c div 16), hex_char (of_char c mod 16)]
      else [c])"

definition repr_str :: "string \<Rightarrow> string" where
  "repr_str s =
     (let q = (if squote \<in> set s \<and> dquote \<notin> set s then dquote else squote)
      in [q] @ concat (map (repr_char q) s) @ [q])"

fun show_cmd :: "pycmd \<Rightarrow> string" where
  "show_cmd (CList xs) = ''['' @ py_join '', '' (map repr_str xs) @ '']''"
| "show_cmd (CTuple [x]) = ''('' @ repr_str x @ '',)''"
| "show_cmd (CTuple xs) = ''('' @ py_join '', '' (map repr_str xs) @ '')''"

fun show_opt :: "string option \<Rightarrow> string" where
  "show_opt None = ''None''"
| "show_opt (Some s) = s"

text \<open>The \<open>__str__\<close> methods of \<open>errors.py\<close>. A method has no attribute \<open>user\<close>.\<close>

fun command_failure_str :: "exec_ref \<Rightarrow> pycmd \<Rightarrow> int \<Rightarrow> string \<Rightarrow> exn + string" where
  "command_failure_str (Exec_obj user address password) c rc err =
     Inr (''Command execution failure, '' @ user @ ''@'' @ address @ ''/'' @ show_opt password
       @ '', '' @ show_cmd c @ '', RC: '' @ show_int rc @ '', ERR: '' @ err)"
| "command_failure_str Exec_method c rc err =
     Inl (AttributeError (squote # ''method'' @ squote # '' object has no attribute ''
       @ squote # ''user'' @ [squote]))"

definition unsupported_operation_str :: "string \<Rightarrow> string \<Rightarrow> string \<Rightarrow> string" where
  "unsupported_operation_str host oper reason =
     ''Operation '' @ squote # oper @ squote # '' is not supported for '' @ host @ '': '' @ reason"

definition indent12 :: string where
  "indent12 = newline # replicate 12 space"

definition mount_command_error_str :: "string \<Rightarrow> string \<Rightarrow> string \<Rightarrow> string" where
  "mount_command_error_str out err mp =
     indent12 @ ''stdout:'' @ out @ indent12 @ ''stderr:'' @ err @ indent12 @ mp @ indent12"

text \<open>The fields the error of a failed command shows are the ones it was raised with.\<close>

fun failure_rc :: "exn \<Rightarrow> int option" where
  "failure_rc (CommandExecutionFailure x c rc err) = Some rc"
| "failure_rc _ = None"

fun failure_cmd :: "exn \<Rightarrow> pycmd option" where
  "failure_cmd (CommandExecutionFailure x c rc err) = Some c"
| "failure_cmd _ = None"

lemma command_failure_str_renders:
  "(\<exists>msg. command_failure_str x c rc err = Inr msg) \<longleftrightarrow> x \<noteq> Exec_method"
  by (cases x) auto

end
