(* ===== verification/Executor.thy ===== *)
theory Executor
  imports Errors
begin

text \<open>
  The executor interface (\<open>rrmngmnt/executor.py\<close>): \<open>run_cmd\<close> of an executor takes a
  command and the optional arguments of a call and returns return code, output and error
  output. The services only use this interface; \<open>Ssh\<close> implements it. The locale
  \<open>executor\<close> is what the services rely on.
\<close>

text \<open>
  The optional arguments: input data, TCP time-out, data time-out (seconds) and pseudo
  terminal. The result starts with the caller's command as the call leaves it: an executor
  may change a list it is given.
\<close>

record call_opts =
  co_input :: "string option"
  co_tcp :: "int option"
  co_io :: "int option"
  co_pty :: bool

definition default_opts :: call_opts where
  "default_opts = \<lparr>co_input = None, co_tcp = None, co_io = None, co_pty = False\<rparr>"

type_synonym cmd_result = "pycmd \<times> int \<times> string \<times> string"
type_synonym 's runner = "call_opts \<Rightarrow> pycmd \<Rightarrow> (exn, 's, cmd_result) py"

text \<open>\<open>run_cmd(cmd)[0] == 0\<close>, the most frequent use.\<close>

definition run_ok :: "'s runner \<Rightarrow> string list \<Rightarrow> (exn, 's, bool) py" where
  "run_ok run cmd = bind (run default_opts (CList cmd)) (\<lambda>(c, rc, out, err). return (rc = 0))"

text \<open>\<open>rc, out, err = run_cmd(cmd)\<close>, with the failure of the command as an exception.\<close>

definition run_checked ::
    "'s runner \<Rightarrow> pycmd \<Rightarrow> (pycmd \<Rightarrow> int \<Rightarrow> string \<Rightarrow> string \<Rightarrow> exn) \<Rightarrow> (exn, 's, string) py" where
  "run_checked run cmd failure = bind (run default_opts cmd) (\<lambda>(c, rc, out, err).
     if rc \<noteq> 0 then raise (failure c rc out err) else return out)"

text \<open>A call with a time-out for the data, and one that hands out its return code only.\<close>

definition with_io :: "int \<Rightarrow> call_opts" where
  "with_io timeout = default_opts\<lparr>co_io := Some timeout\<rparr>"

definition run_rc :: "'s runner \<Rightarrow> call_opts \<Rightarrow> pycmd \<Rightarrow> (exn, 's, int) py" where
  "run_rc run opts cmd = bind (run opts cmd) (\<lambda>(c, rc, out, err). return rc)"

text \<open>A value or an exception of a library function, as a call.\<close>

definition of_result :: "exn + 'a \<Rightarrow> (exn, 's, 'a) py" where
  "of_result r = (case r of Inl e \<Rightarrow> raise e | Inr a \<Rightarrow> return a)"

definition index_call :: "'a list \<Rightarrow> nat \<Rightarrow> (exn, 's, 'a) py" where
  "index_call xs i = (case nth_opt xs i of None \<Rightarrow> raise IndexError | Some x \<Rightarrow> return x)"

definition shlex_call :: "string \<Rightarrow> (exn, 's, string list) py" where
  "shlex_call s = (case shlex_split s of Inl msg \<Rightarrow> raise (ValueError msg) | Inr ws \<Rightarrow> return ws)"

lemma library_keeps [keeps_intros]:
  "keeps I (of_result r)" "keeps I (index_call xs i)" "keeps I (shlex_call w)"
  unfolding of_result_def index_call_def shlex_call_def by (intro keeps_intros)+

section \<open>The abstract classes\<close>

text \<open>
  \<open>Executor\<close> by itself: \<open>run_cmd\<close> is complete over sessions and commands, whose operations are
  left to the subclasses.
\<close>

definition base_open :: "(exn, 's, unit) py" where
  "base_open = raise (NotImplementedError [])"

definition base_close :: "(exn, 's, unit) py" where
  "base_close = return ()"

definition base_command_run :: "pycmd \<Rightarrow> string option \<Rightarrow> (exn, 's, int \<times> string \<times> string) py" where
  "base_command_run cmd input = raise (NotImplementedError [])"

text \<open>\<open>run_cmd\<close> over what a class makes of opening, closing and running.\<close>

definition run_cmd_over ::
    "(exn, 's, unit) py \<Rightarrow> (exn, 's, unit) py \<Rightarrow> (pycmd \<Rightarrow> string option \<Rightarrow> (exn, 's, 'r) py)
      \<Rightarrow> pycmd \<Rightarrow> string option \<Rightarrow> (exn, 's, 'r) py" where
  "run_cmd_over open close command_run cmd input =
     with_ctx open (\<lambda>_ _. close) (\<lambda>_. command_run cmd input)"

text \<open>The abstract executor runs nothing: opening its session fails.\<close>

lemma base_runs_nothing:
  "run_cmd_over base_open base_close base_command_run cmd input s = (Inl (NotImplementedError []), s)"
  by (simp add: run_cmd_over_def base_open_def with_ctx_def) (simp add: raise_def)

text \<open>Whatever a class makes of its operations, a session that was opened is closed.\<close>

lemma run_cmd_over_closes:
  assumes "\<And>s s'. I s \<Longrightarrow> open s = (Inr (), s') \<Longrightarrow> J s'"
    and "\<And>e s s'. I s \<Longrightarrow> open s = (Inl e, s') \<Longrightarrow> I s'"
    and "\<And>cmd input. keeps J (command_run cmd input)" and "leads J close I"
  shows "keeps I (run_cmd_over open close command_run cmd input)"
  unfolding run_cmd_over_def leads_keeps [symmetric]
  using assms by (intro leads_with_ctx [where J = "\<lambda>_. J" and K = "\<lambda>_. J"])
    (auto simp: leads_keeps split: sum.splits prod.splits)

section \<open>A machine at the other end\<close>

text \<open>
  The remote side as a transition function, for statements about what an operation makes
  of the answers: \<open>machine_run f\<close> answers every command and keeps the list of commands.
\<close>

type_synonym 'm machine = "'m \<Rightarrow> string list \<Rightarrow> 'm \<times> int \<times> string \<times> string"

definition machine_run :: "'m machine \<Rightarrow> ('m \<times> string list list) runner" where
  "machine_run f opts cmd = (\<lambda>(m, log). case f m (cmd_args cmd) of
     (m', rc, out, err) \<Rightarrow> (Inr (cmd, rc, out, err), (m', log @ [cmd_args cmd])))"

text \<open>A machine without memory.\<close>

definition fixed :: "(string list \<Rightarrow> int \<times> string \<times> string) \<Rightarrow> unit machine" where
  "fixed g m args = (m, g args)"

lemma machine_run_fixed [simp]:
  "machine_run (fixed g) opts cmd (m, log) =
    (Inr (cmd, fst (g (cmd_args cmd)), fst (snd (g (cmd_args cmd))), snd (snd (g (cmd_args cmd)))),
      (m, log @ [cmd_args cmd]))"
  by (simp add: machine_run_def fixed_def split: prod.split)

section \<open>What the services rely on\<close>

text \<open>
  Running a command preserves \<open>I\<close>, however it ends. With \<open>I\<close> about the sessions that
  are open this says that no command leaks one.
\<close>

locale executor =
  fixes run :: "'s runner" and I :: "'s \<Rightarrow> bool"
  assumes run_keeps: "keeps I (run opts cmd)"
begin

lemma run_ok_keeps: "keeps I (run_ok run cmd)"
  unfolding run_ok_def by (intro keeps_intros run_keeps)

lemma run_checked_keeps: "keeps I (run_checked run cmd failure)"
  unfolding run_checked_def by (intro keeps_intros run_keeps)

lemma run_rc_keeps: "keeps I (run_rc run opts cmd)"
  unfolding run_rc_def by (intro keeps_intros run_keeps)

lemmas run_frames = run_keeps run_ok_keeps run_checked_keeps run_rc_keeps

end

lemma run_ok_result:
  "run default_opts (CList cmd) s = (Inr (c, rc, out, err), s') \<Longrightarrow>
    run_ok run cmd s = (Inr (rc = 0), s')"
  by (simp add: run_ok_def py_defs)

lemma run_ok_raises:
  "run default_opts (CList cmd) s = (Inl e, s') \<Longrightarrow> run_ok run cmd s = (Inl e, s')"
  by (simp add: run_ok_def py_defs)

lemma run_checked_ok:
  "run default_opts cmd s = (Inr (c, 0, out, err), s') \<Longrightarrow>
    run_checked run cmd failure s = (Inr out, s')"
  by (simp add: run_checked_def py_defs)

lemma run_checked_fails:
  "run default_opts cmd s = (Inr (c, rc, out, err), s') \<Longrightarrow> rc \<noteq> 0 \<Longrightarrow>
    run_checked run cmd failure s = (Inl (failure c rc out err), s')"
  by (simp add: run_checked_def py_defs)

lemma run_checked_raises:
  "run default_opts cmd s = (Inl e, s') \<Longrightarrow> run_checked run cmd failure s = (Inl e, s')"
  by (simp add: run_checked_def py_defs)

lemma run_rc_machine [simp]:
  "run_rc (machine_run (fixed g)) opts cmd (m, log) = (Inr (fst (g (cmd_args cmd))), (m, log @ [cmd_args cmd]))"
  by (simp add: run_rc_def bind_def return_def split: prod.split)

lemma run_ok_fixed:
  "run_ok (machine_run (fixed g)) cmd (m, log) = (Inr (fst (g cmd) = 0), (m, log @ [cmd]))"
  by (simp add: run_ok_def bind_def return_def split: prod.split)

lemmas run_outcomes =
  run_ok_result run_ok_raises run_checked_ok run_checked_fails run_checked_raises

end
