(* ===== verification/Users.thy ===== *)
theory Users
  imports Errors
begin

text \<open>
  \<open>rrmngmnt/user.py\<close>: users, users with a private key, domain users, and the names and
  credentials they give. The subclass of a user is a field; \<open>os.path.expanduser\<close>,
  which reads the user database of the machine, is an argument.
\<close>

record domain =
  dom_name :: string
  dom_provider :: "string option"
  dom_server :: "string option"

datatype user_class = Plain_user | Pkey_user (private_key: string) | AD_user domain

record user =
  u_name :: string
  u_password :: "string option"
  u_class :: user_class

definition Domain :: "string \<Rightarrow> string option \<Rightarrow> string option \<Rightarrow> domain" where
  "Domain name provider server = \<lparr>dom_name = name, dom_provider = provider, dom_server = server\<rparr>"

definition InternalDomain :: domain where
  "InternalDomain = Domain ''internal'' None None"

definition User :: "string \<Rightarrow> string \<Rightarrow> user" where
  "User name password = \<lparr>u_name = name, u_password = Some password, u_class = Plain_user\<rparr>"

definition UserWithPKey :: "(string \<Rightarrow> string) \<Rightarrow> string \<Rightarrow> string \<Rightarrow> user" where
  "UserWithPKey expanduser name key =
     \<lparr>u_name = name, u_password = None, u_class = Pkey_user (expanduser key)\<rparr>"

definition RootUser :: "string \<Rightarrow> user" where
  "RootUser password = User ''root'' password"

definition ADUser :: "string \<Rightarrow> string \<Rightarrow> domain \<Rightarrow> user" where
  "ADUser name password d = \<lparr>u_name = name, u_password = Some password, u_class = AD_user d\<rparr>"

definition get_full_name :: "user \<Rightarrow> string" where
  "get_full_name u = (case u_class u of AD_user d \<Rightarrow> u_name u @ ''@'' @ dom_name d | _ \<Rightarrow> u_name u)"

definition get_credentials :: "user \<Rightarrow> string option" where
  "get_credentials u = (case u_class u of Pkey_user key \<Rightarrow> Some key | _ \<Rightarrow> u_password u)"

lemma full_name_simps [simp]:
  "get_full_name (User n p) = n"
  "get_full_name (RootUser p) = ''root''"
  "get_full_name (UserWithPKey ex n k) = n"
  "get_full_name (ADUser n p d) = n @ ''@'' @ dom_name d"
  by (simp_all add: get_full_name_def User_def RootUser_def UserWithPKey_def ADUser_def)

lemma credentials_simps [simp]:
  "get_credentials (User n p) = Some p"
  "get_credentials (UserWithPKey ex n k) = Some (ex k)"
  "get_credentials (ADUser n p d) = Some p"
  by (simp_all add: get_credentials_def User_def UserWithPKey_def ADUser_def)

text \<open>Domain users of different domains are told apart, also from local users, as long as
  neither part has an at sign of its own.\<close>

lemma full_name_domain_inj:
  assumes "CHR ''@'' \<notin> set n" and "CHR ''@'' \<notin> set m"
    and "get_full_name (ADUser n p d) = get_full_name (ADUser m q e)"
  shows "n = m \<and> dom_name d = dom_name e"
proof -
  have "split_once (CHR ''@'') (n @ CHR ''@'' # dom_name d) =
      split_once (CHR ''@'') (m @ CHR ''@'' # dom_name e)"
    using assms(3) by simp
  with assms(1,2) show ?thesis by (simp add: split_once_append)
qed

end
