(* ===== verification/Ssh.thy ===== *)
theory Ssh
  imports Executor Users
begin

text \<open>
  \<open>rrmngmnt/ssh.py\<close>: the executor over SSH. Sessions (keys, connecting, closing, the
  rewriting of time-out errors), commands (streams, return codes), \<open>run_cmd\<close>, remote
  files, the connectivity test and the wait loop over it. The client library
  \<open>paramiko\<close> is the argument \<open>P\<close>: one field per call the code makes. The state is the
  world those calls act on and a trace of the connections, commands and disconnections,
  which the code does not see.
\<close>

section \<open>The client library\<close>

datatype key_type = RSAKey | ECDSAKey | Ed25519Key
datatype stream = StdIn | StdOut | StdErr
datatype pydata = Bytes string | Text string

record conn_args =
  ca_address :: string
  ca_username :: string
  ca_password :: "string option"
  ca_timeout :: int
  ca_pkey :: "nat option"
  ca_port :: int
  ca_disabled :: "string option"
  ca_sock :: "nat option"

record 'w paramiko =
  px_client :: "(exn, 'w, nat) py"
  px_load_key :: "key_type \<Rightarrow> string \<Rightarrow> (exn, 'w, nat) py"
  px_clear_host_keys :: "nat \<Rightarrow> (exn, 'w, unit) py"
  px_connect :: "nat \<Rightarrow> conn_args \<Rightarrow> (exn, 'w, unit) py"
  px_close :: "nat \<Rightarrow> (exn, 'w, unit) py"
  px_exec :: "nat \<Rightarrow> string \<Rightarrow> int option \<Rightarrow> bool \<Rightarrow> (exn, 'w, nat) py"
  px_write :: "nat \<Rightarrow> string \<Rightarrow> (exn, 'w, unit) py"
  px_stream_close :: "nat \<Rightarrow> stream \<Rightarrow> (exn, 'w, unit) py"
  px_read :: "nat \<Rightarrow> stream \<Rightarrow> (exn, 'w, pydata) py"
  px_readline :: "nat \<Rightarrow> stream \<Rightarrow> (exn, 'w, string) py"
  px_exit_ready :: "nat \<Rightarrow> (exn, 'w, bool) py"
  px_recv_exit :: "nat \<Rightarrow> (exn, 'w, int) py"
  px_open_sftp :: "nat \<Rightarrow> (exn, 'w, nat) py"
  px_sftp_close :: "nat \<Rightarrow> (exn, 'w, unit) py"
  px_sftp_file :: "nat \<Rightarrow> string \<Rightarrow> string \<Rightarrow> (exn, 'w, nat) py"
  px_file_read :: "nat \<Rightarrow> (exn, 'w, string) py"
  px_file_write :: "nat \<Rightarrow> string \<Rightarrow> (exn, 'w, unit) py"
  px_file_close :: "nat \<Rightarrow> (exn, 'w, unit) py"
  px_proxy :: "string \<Rightarrow> (exn, 'w, nat) py"
  px_sleep :: "int \<Rightarrow> (exn, 'w, unit) py"
  px_decode :: "string \<Rightarrow> string"
  px_getenv :: "string \<Rightarrow> string option"
  px_expanduser :: "string \<Rightarrow> string"

datatype event = Connected nat | Executed nat string | Closed nat

record 'w sys =
  world :: 'w
  trace :: "event list"

text \<open>A library call that leaves no mark in the trace, and one that does.\<close>

definition quiet :: "(exn, 'w, 'a) py \<Rightarrow> (exn, 'w sys, 'a) py" where
  "quiet m = (\<lambda>s. case m (world s) of (r, w) \<Rightarrow> (r, s\<lparr>world := w\<rparr>))"

definition mark :: "event \<Rightarrow> (exn, 'w sys, unit) py" where
  "mark ev = modify (\<lambda>s. s\<lparr>trace := trace s @ [ev]\<rparr>)"

section \<open>The executor and its sessions\<close>

record remote_executor =
  rx_user :: user
  rx_address :: string
  rx_use_pkey :: bool
  rx_port :: int
  rx_sudo :: bool
  rx_disabled :: "string option"
  rx_sock :: "nat option"

record session =
  ss_exec :: remote_executor
  ss_timeout :: int
  ss_client :: nat
  ss_pkey :: "nat option"

definition TCP_TIMEOUT :: int where "TCP_TIMEOUT = 10"
definition AUTHORIZED_KEYS :: "string \<Rightarrow> string" where
  "AUTHORIZED_KEYS home = home @ ''/.ssh/authorized_keys''"
definition KNOWN_HOSTS :: "string \<Rightarrow> string" where
  "KNOWN_HOSTS home = home @ ''/.ssh/known_hosts''"
definition ID_RSA_PUB :: "string \<Rightarrow> string" where
  "ID_RSA_PUB home = home @ ''/.ssh/id_rsa.pub''"
definition ID_RSA_PRV :: "string \<Rightarrow> string" where
  "ID_RSA_PRV home = home @ ''/.ssh/id_rsa''"

text \<open>The executor an error refers to: what its message prints.\<close>

definition remote_ref :: "remote_executor \<Rightarrow> exec_ref" where
  "remote_ref ex = Exec_obj (u_name (rx_user ex)) (rx_address ex) (u_password (rx_user ex))"

subsection \<open>Keys\<close>

text \<open>\<open>_get_pkey\<close>: the key types in order; the messages of the types that fail are kept.\<close>

fun ssh_message :: "exn \<Rightarrow> string" where
  "ssh_message (SSHException msg) = msg"
| "ssh_message _ = []"

fun load_key_from ::
    "'w paramiko \<Rightarrow> string \<Rightarrow> key_type list \<Rightarrow> string list \<Rightarrow> (exn, 'w sys, nat) py" where
  "load_key_from P filename [] errs = raise (SSHException (''Invalid Key '' @ show_cmd (CList errs)))"
| "load_key_from P filename (kt # kts) errs =
     try_except (quiet (px_load_key P kt filename)) is_ssh_exception
       (\<lambda>e. load_key_from P filename kts (errs @ [ssh_message e]))"

definition get_pkey :: "'w paramiko \<Rightarrow> string \<Rightarrow> (exn, 'w sys, nat) py" where
  "get_pkey P filename = load_key_from P filename [RSAKey, ECDSAKey, Ed25519Key] []"

subsection \<open>Opening and closing\<close>

text \<open>
  \<open>Session.__init__\<close>. With \<open>use_pkey\<close> the password of the executor's user is cleared:
  the session connects with the key only.
\<close>

definition session_init ::
    "'w paramiko \<Rightarrow> remote_executor \<Rightarrow> int option \<Rightarrow> (exn, 'w sys, session) py" where
  "session_init P ex timeout =
     (let t = (case timeout of None \<Rightarrow> TCP_TIMEOUT | Some t \<Rightarrow> t) in
      bind (quiet (px_client P)) (\<lambda>client.
        case u_class (rx_user ex) of
          Pkey_user key \<Rightarrow>
            bind (get_pkey P key) (\<lambda>k. return
              \<lparr>ss_exec = ex, ss_timeout = t, ss_client = client, ss_pkey = Some k\<rparr>)
        | _ \<Rightarrow>
            if rx_use_pkey ex
            then bind (get_pkey P
                (case px_getenv P ''HOST_SSH_KEY'' of
                   None \<Rightarrow> ID_RSA_PRV (px_expanduser P ''~'') | Some f \<Rightarrow> f))
              (\<lambda>k. return
                \<lparr>ss_exec = ex\<lparr>rx_user := (rx_user ex)\<lparr>u_password := None\<rparr>\<rparr>,
                 ss_timeout = t, ss_client = client, ss_pkey = Some k\<rparr>)
            else return \<lparr>ss_exec = ex, ss_timeout = t, ss_client = client, ss_pkey = None\<rparr>))"

text \<open>
  \<open>_update_timeout_exception\<close>: only the first update changes the exception object. The
  function gives the exception that goes on to be raised.
\<close>

fun update_timeout_exception :: "session \<Rightarrow> exn \<Rightarrow> int option \<Rightarrow> exn" where
  "update_timeout_exception ss (SocketTimeout (Raw_timeout msg)) timeout =
     SocketTimeout (Updated_timeout (rx_address (ss_exec ss))
       (Some (case timeout of None \<Rightarrow> ss_timeout ss | Some t \<Rightarrow> t)))"
| "update_timeout_exception ss e timeout = e"

fun is_resolver_error :: "exn \<Rightarrow> bool" where
  "is_resolver_error (GaiError n msg) = True"
| "is_resolver_error (HError n msg) = True"
| "is_resolver_error _ = False"

fun prefix_resolver_error :: "string \<Rightarrow> exn \<Rightarrow> exn" where
  "prefix_resolver_error address (GaiError n msg) = GaiError n (address @ '': '' @ msg)"
| "prefix_resolver_error address (HError n msg) = HError n (address @ '': '' @ msg)"
| "prefix_resolver_error address e = e"

definition session_open :: "'w paramiko \<Rightarrow> session \<Rightarrow> (exn, 'w sys, unit) py" where
  "session_open P ss =
     bind (quiet (px_clear_host_keys P (ss_client ss))) (\<lambda>_.
     bind (try_except
       (quiet (px_connect P (ss_client ss)
         \<lparr>ca_address = rx_address (ss_exec ss),
          ca_username = u_name (rx_user (ss_exec ss)),
          ca_password = u_password (rx_user (ss_exec ss)),
          ca_timeout = ss_timeout ss,
          ca_pkey = ss_pkey ss,
          ca_port = rx_port (ss_exec ss),
          ca_disabled = rx_disabled (ss_exec ss),
          ca_sock = rx_sock (ss_exec ss)\<rparr>))
       (\<lambda>e. is_resolver_error e \<or> is_socket_timeout e)
       (\<lambda>e. raise (if is_resolver_error e
            then prefix_resolver_error (rx_address (ss_exec ss)) e
            else update_timeout_exception ss e None)))
     (\<lambda>_. mark (Connected (ss_client ss))))"

definition session_close :: "'w paramiko \<Rightarrow> session \<Rightarrow> (exn, 'w sys, unit) py" where
  "session_close P ss = bind (mark (Closed (ss_client ss))) (\<lambda>_. quiet (px_close P (ss_client ss)))"

text \<open>
  \<open>__enter__\<close> opens; \<open>__exit__\<close> gives a time-out of the body its message and closes. An
  error of the closing itself is raised only when the body did not fail.
\<close>

definition session_exit :: "'w paramiko \<Rightarrow> session \<Rightarrow> exn option \<Rightarrow> (exn, 'w sys, unit) py" where
  "session_exit P ss x =
     bind (try_except (session_close P ss) any_exception
        (\<lambda>e. case x of None \<Rightarrow> raise e | Some _ \<Rightarrow> return ()))
       (\<lambda>_. case x of
          Some e \<Rightarrow> if is_socket_timeout e then raise (update_timeout_exception ss e None)
            else return ()
        | None \<Rightarrow> return ())"

definition session_enter ::
    "'w paramiko \<Rightarrow> remote_executor \<Rightarrow> int option \<Rightarrow> (exn, 'w sys, session) py" where
  "session_enter P ex timeout =
     bind (session_init P ex timeout) (\<lambda>ss. bind (session_open P ss) (\<lambda>_. return ss))"

definition with_session ::
    "'w paramiko \<Rightarrow> remote_executor \<Rightarrow> int option \<Rightarrow> (session \<Rightarrow> (exn, 'w sys, 'a) py)
      \<Rightarrow> (exn, 'w sys, 'a) py" where
  "with_session P ex timeout body = with_ctx (session_enter P ex timeout) (session_exit P) body"

section \<open>Commands\<close>

definition normalize_string :: "'w paramiko \<Rightarrow> pydata \<Rightarrow> string" where
  "normalize_string P d = (case d of Bytes b \<Rightarrow> px_decode P b | Text t \<Rightarrow> t)"

record cmdobj =
  cd_line :: string
  cd_chan :: "nat option"
  cd_rc :: "int option"
  cd_out :: "string option"
  cd_err :: "string option"

text \<open>\<open>Command.__init__\<close>: the line that is sent.\<close>

definition new_command :: "pycmd \<Rightarrow> cmdobj" where
  "new_command cmd =
     \<lparr>cd_line = list2cmdline (cmd_args cmd), cd_chan = None, cd_rc = None, cd_out = None, cd_err = None\<rparr>"

text \<open>\<open>get_rc(wait)\<close>: asked for once, then remembered.\<close>

definition get_rc :: "'w paramiko \<Rightarrow> bool \<Rightarrow> (exn, cmdobj \<times> 'w sys, int option) py" where
  "get_rc P wait = bind this (\<lambda>c.
     case cd_rc c of
       Some rc \<Rightarrow> return (Some rc)
     | None \<Rightarrow>
         (case cd_chan c of
            None \<Rightarrow> return None
          | Some ch \<Rightarrow>
              bind (outer (quiet (px_exit_ready P ch))) (\<lambda>ready.
                if ready \<or> wait
                then bind (outer (quiet (px_recv_exit P ch))) (\<lambda>rc.
                  bind (set_this (\<lambda>c. c\<lparr>cd_rc := Some rc\<rparr>)) (\<lambda>_. return (Some rc)))
                else return None)))"

definition command_start ::
    "'w paramiko \<Rightarrow> session \<Rightarrow> int option \<Rightarrow> bool \<Rightarrow> (exn, cmdobj \<times> 'w sys, nat) py" where
  "command_start P ss timeout pty = bind this (\<lambda>c.
     bind (outer (quiet (px_exec P (ss_client ss) (cd_line c) timeout pty))) (\<lambda>ch.
     bind (outer (mark (Executed (ss_client ss) (cd_line c)))) (\<lambda>_.
     bind (set_this (\<lambda>c. c\<lparr>cd_chan := Some ch\<rparr>)) (\<lambda>_. return ch))))"

text \<open>The \<open>finally\<close> part: close the streams there are; the log line asks for the code.\<close>

definition command_finish :: "'w paramiko \<Rightarrow> (exn, cmdobj \<times> 'w sys, unit) py" where
  "command_finish P = bind this (\<lambda>c.
     bind (case cd_chan c of
         None \<Rightarrow> return ()
       | Some ch \<Rightarrow>
           bind (outer (quiet (px_stream_close P ch StdIn))) (\<lambda>_.
           bind (outer (quiet (px_stream_close P ch StdOut))) (\<lambda>_.
           outer (quiet (px_stream_close P ch StdErr)))))
     (\<lambda>_. bind (get_rc P False) (\<lambda>_. return ())))"

text \<open>\<open>with command.execute(timeout, get_pty) as (in_, out, err): body\<close>.\<close>

definition command_execute ::
    "'w paramiko \<Rightarrow> session \<Rightarrow> int option \<Rightarrow> bool
      \<Rightarrow> (nat \<Rightarrow> (exn, cmdobj \<times> 'w sys, 'a) py) \<Rightarrow> (exn, cmdobj \<times> 'w sys, 'a) py" where
  "command_execute P ss timeout pty body =
     try_finally
       (try_except
         (bind (command_start P ss timeout pty) (\<lambda>ch.
          bind (body ch) (\<lambda>a. bind (get_rc P True) (\<lambda>_. return a))))
         is_socket_timeout
         (\<lambda>e. raise (update_timeout_exception ss e timeout)))
       (command_finish P)"

text \<open>
  \<open>Command.run\<close>. After the block the three fields are set (\<open>command_run_complete\<close> below),
  so the last branch, where Python would return \<open>None\<close> for one of them, is not reached.
\<close>

definition incomplete_command :: exn where
  "incomplete_command = TypeError ''incomplete command''"

definition command_run ::
    "'w paramiko \<Rightarrow> session \<Rightarrow> string option \<Rightarrow> int option \<Rightarrow> bool
      \<Rightarrow> (exn, cmdobj \<times> 'w sys, int \<times> string \<times> string) py" where
  "command_run P ss input timeout pty =
     bind (command_execute P ss timeout pty (\<lambda>ch.
       bind (if truthy_opt input
             then bind (outer (quiet (px_write P ch (the input)))) (\<lambda>_.
               outer (quiet (px_stream_close P ch StdIn)))
             else return ()) (\<lambda>_.
       bind (outer (quiet (px_read P ch StdOut))) (\<lambda>out.
       bind (set_this (\<lambda>c. c\<lparr>cd_out := Some (normalize_string P out)\<rparr>)) (\<lambda>_.
       bind (outer (quiet (px_read P ch StdErr))) (\<lambda>err.
       set_this (\<lambda>c. c\<lparr>cd_err := Some (normalize_string P err)\<rparr>)))))))
     (\<lambda>_. bind (get_rc P False) (\<lambda>rc. bind this (\<lambda>c.
       case (rc, cd_out c, cd_err c) of
         (Some r, Some out, Some err) \<Rightarrow> return (r, out, err)
       | _ \<Rightarrow> raise incomplete_command)))"

text \<open>\<open>cmd.insert(0, 'sudo')\<close>: a list takes it, a tuple has no such method.\<close>

definition tuple_has_no_insert :: exn where
  "tuple_has_no_insert = AttributeError (squote # ''tuple'' @ squote #
     '' object has no attribute '' @ squote # ''insert'' @ [squote])"

definition insert_sudo :: "pycmd \<Rightarrow> (exn, 's, pycmd) py" where
  "insert_sudo cmd = (case cmd of
     CList xs \<Rightarrow> return (CList (''sudo'' # xs))
   | CTuple xs \<Rightarrow> raise tuple_has_no_insert)"

definition session_run_cmd :: "'w paramiko \<Rightarrow> session \<Rightarrow> 'w sys runner" where
  "session_run_cmd P ss opts cmd =
     bind (if rx_sudo (ss_exec ss) then insert_sudo cmd else return cmd) (\<lambda>cmd'.
     bind (on_new (new_command cmd')
        (command_run P ss (co_input opts) (co_io opts) (co_pty opts)))
       (\<lambda>(rc, out, err). return (cmd', rc, out, err)))"

text \<open>\<open>RemoteExecutor.run_cmd\<close>: one command in a session of its own.\<close>

definition remote_run_cmd :: "'w paramiko \<Rightarrow> remote_executor \<Rightarrow> 'w sys runner" where
  "remote_run_cmd P ex opts cmd =
     with_session P ex (co_tcp opts) (\<lambda>ss. session_run_cmd P ss opts cmd)"

text \<open>\<open>Session.open_file\<close>: an SFTP channel and a file on it, both closed at the end.\<close>

definition open_file ::
    "'w paramiko \<Rightarrow> session \<Rightarrow> string \<Rightarrow> string \<Rightarrow> (nat \<Rightarrow> (exn, 'w sys, 'a) py) \<Rightarrow> (exn, 'w sys, 'a) py" where
  "open_file P ss path mode body =
     with_ctx (quiet (px_open_sftp P (ss_client ss))) (\<lambda>sftp _. quiet (px_sftp_close P sftp)) (\<lambda>sftp.
       with_ctx (quiet (px_sftp_file P sftp path mode)) (\<lambda>fh _. quiet (px_file_close P fh)) body)"

section \<open>Connectivity\<close>

definition is_connective ::
    "'w paramiko \<Rightarrow> remote_executor \<Rightarrow> int option \<Rightarrow> (exn, 'w sys, bool) py" where
  "is_connective P ex tcp_timeout =
     try_except
       (bind (remote_run_cmd P ex (default_opts\<lparr>co_tcp := tcp_timeout\<rparr>) (CList [''true'']))
         (\<lambda>_. return True))
       any_exception (\<lambda>e. return False)"

definition CONNECTIVITY_TIMEOUT :: int where "CONNECTIVITY_TIMEOUT = 600"
definition CONNECTIVITY_SAMPLE_TIME :: int where "CONNECTIVITY_SAMPLE_TIME = 20"
definition TCP_CONNECTION_TIMEOUT :: int where "TCP_CONNECTION_TIMEOUT = 20"

text \<open>
  The wait loop, over any probe and sleep; each turn uses one unit of fuel, and
  \<open>None\<close> means that the fuel ran out.
\<close>

fun wait_loop ::
    "(exn, 's, bool) py \<Rightarrow> (int \<Rightarrow> (exn, 's, unit) py) \<Rightarrow> bool \<Rightarrow> int \<Rightarrow> int
      \<Rightarrow> nat \<Rightarrow> int \<Rightarrow> (exn, 's, bool option) py" where
  "wait_loop probe sleep positive timeout sample_time 0 counter = return None"
| "wait_loop probe sleep positive timeout sample_time (Suc fuel) counter =
     bind probe (\<lambda>c.
       if c \<noteq> positive
       then (if counter > timeout then return (Some False)
             else bind (sleep sample_time) (\<lambda>_.
               wait_loop probe sleep positive timeout sample_time fuel (counter + sample_time)))
       else return (Some True))"

definition wait_for_connectivity_state ::
    "'w paramiko \<Rightarrow> remote_executor \<Rightarrow> bool \<Rightarrow> int \<Rightarrow> int \<Rightarrow> int \<Rightarrow> nat
      \<Rightarrow> (exn, 'w sys, bool option) py" where
  "wait_for_connectivity_state P ex positive timeout sample_time tcp_connection_timeout fuel =
     wait_loop (is_connective P ex (Some tcp_connection_timeout)) (\<lambda>t. quiet (px_sleep P t))
       positive timeout sample_time fuel 0"

section \<open>The factory\<close>

record executor_factory =
  ef_use_pkey :: bool
  ef_port :: int
  ef_disabled :: "string option"
  ef_sock :: "string option"

definition RemoteExecutorFactory ::
    "bool \<Rightarrow> int \<Rightarrow> string option \<Rightarrow> string option \<Rightarrow> executor_factory" where
  "RemoteExecutorFactory use_pkey port disabled sock =
     \<lparr>ef_use_pkey = use_pkey, ef_port = port, ef_disabled = disabled, ef_sock = sock\<rparr>"

text \<open>\<open>build\<close>: a proxy command is started only for a non-empty \<open>sock\<close>.\<close>

definition factory_build ::
    "'w paramiko \<Rightarrow> executor_factory \<Rightarrow> string \<Rightarrow> user \<Rightarrow> bool \<Rightarrow> (exn, 'w sys, remote_executor) py" where
  "factory_build P ef ip u sudo =
     bind (if truthy_opt (ef_sock ef)
           then bind (quiet (px_proxy P (the (ef_sock ef)))) (\<lambda>h. return (Some h))
           else return None) (\<lambda>sock.
     return \<lparr>rx_user = u, rx_address = ip, rx_use_pkey = ef_use_pkey ef, rx_port = ef_port ef,
       rx_sudo = sudo, rx_disabled = ef_disabled ef, rx_sock = sock\<rparr>)"

end
