(* ===== verification/SshLaws.thy ===== *)
theory SshLaws
  imports Ssh
begin

text \<open>
  What the SSH executor promises. A call leaves a trace of at most one connection, one
  command on it and one disconnection, and never an open session, whichever way it ends;
  a call that returns sent exactly the command line of its arguments; the error that
  leaves a session; the choice of the key; the connectivity test and the bounds of the wait
  loop. The last part interprets the executor interface on \<open>remote_run_cmd\<close>.
\<close>

section \<open>Library calls and the trace\<close>

text \<open>Assertions about the trace, for the system and for commands, which are objects over it.\<close>

definition traced :: "(event list \<Rightarrow> bool) \<Rightarrow> 'w sys \<Rightarrow> bool" where
  "traced A = (\<lambda>s. A (trace s))"

definition on_trace :: "(event list \<Rightarrow> bool) \<Rightarrow> cmdobj \<times> 'w sys \<Rightarrow> bool" where
  "on_trace A = (\<lambda>(c, s). traced A s)"

lemma traced_iff [simp]: "traced A s \<longleftrightarrow> A (trace s)"
  and on_trace_iff [simp]: "on_trace A (c, s) \<longleftrightarrow> A (trace s)"
  by (simp_all add: traced_def on_trace_def)

lemma keeps_quiet [keeps_intros]: "keeps (traced A) (quiet m)"
  by (auto simp: keeps_def quiet_def split: prod.splits)

lemma trace_quiet: "quiet m s = (r, s') \<Longrightarrow> trace s' = trace s"
  by (auto simp: quiet_def split: prod.splits)

lemma trace_snd_quiet [simp]: "trace (snd (quiet m s)) = trace s"
  by (auto simp: quiet_def split: prod.splits)

lemma mark_eq: "mark ev s = (Inr (), s\<lparr>trace := trace s @ [ev]\<rparr>)"
  by (simp add: mark_def py_defs)

lemma keeps_trace_outer [keeps_intros]: "keeps (traced A) m \<Longrightarrow> keeps (on_trace A) (outer m)"
  unfolding on_trace_def by (rule keeps_outer)

lemma keeps_trace_set_this [keeps_intros]: "keeps (on_trace A) (set_this f)"
  unfolding on_trace_def by (rule keeps_set_this)

lemma keeps_load_key_from [keeps_intros]: "keeps (traced A) (load_key_from P filename kts errs)"
  by (induction kts arbitrary: errs) (auto intro!: keeps_intros)

lemma keeps_session_init [keeps_intros]: "keeps (traced A) (session_init P ex t)"
  unfolding session_init_def get_pkey_def Let_def
  by (cases "u_class (rx_user ex)") (auto intro!: keeps_intros)

lemma keeps_get_rc [keeps_intros]: "keeps (on_trace A) (get_rc P wait)"
  unfolding get_rc_def by (intro keeps_intros)

lemma keeps_command_finish [keeps_intros]: "keeps (on_trace A) (command_finish P)"
  unfolding command_finish_def by (intro keeps_intros)

section \<open>The trace of a call\<close>

definition sent_cmd :: "bool \<Rightarrow> pycmd \<Rightarrow> pycmd" where
  "sent_cmd sudo cmd = (case cmd of
     CList xs \<Rightarrow> CList (if sudo then ''sudo'' # xs else xs) | CTuple xs \<Rightarrow> CTuple xs)"

definition sent_line :: "bool \<Rightarrow> pycmd \<Rightarrow> string" where
  "sent_line sudo cmd = list2cmdline (cmd_args (sent_cmd sudo cmd))"

definition open_sessions :: "event list \<Rightarrow> int" where
  "open_sessions tr =
     int (length (filter (\<lambda>e. case e of Connected c \<Rightarrow> True | _ \<Rightarrow> False) tr))
     - int (length (filter (\<lambda>e. case e of Closed c \<Rightarrow> True | _ \<Rightarrow> False) tr))"

lemma open_sessions_simps [simp]:
  "open_sessions [] = 0"
  "open_sessions (xs @ ys) = open_sessions xs + open_sessions ys"
  "open_sessions (Connected c # xs) = open_sessions xs + 1"
  "open_sessions (Executed c l # xs) = open_sessions xs"
  "open_sessions (Closed c # xs) = open_sessions xs - 1"
  by (simp_all add: open_sessions_def)

definition call_trace :: "string \<Rightarrow> event list \<Rightarrow> bool" where
  "call_trace line ext \<longleftrightarrow> ext = [] \<or>
     (\<exists>c. ext = [Connected c, Closed c] \<or> ext = [Connected c, Executed c line, Closed c])"

lemma call_trace_balanced: "call_trace line ext \<Longrightarrow> open_sessions ext = 0"
  by (auto simp: call_trace_def)

lemma session_init_sudo:
  "session_init P ex t s = (Inr ss, s') \<Longrightarrow> rx_sudo (ss_exec ss) = rx_sudo ex"
  unfolding session_init_def Let_def
  by (cases "u_class (rx_user ex)")
    (auto elim!: bind_InrE simp: return_def split: if_splits)

lemma session_open_trace:
  "case session_open P ss s of
     (Inr u, s') \<Rightarrow> trace s' = trace s @ [Connected (ss_client ss)]
   | (Inl e, s') \<Rightarrow> trace s' = trace s"
  unfolding session_open_def
  by (auto simp: py_defs mark_eq split: prod.splits sum.splits dest!: trace_quiet)

lemma session_enter_trace:
  "case session_enter P ex t s of
     (Inr ss, s') \<Rightarrow> trace s' = trace s @ [Connected (ss_client ss)] \<and>
       rx_sudo (ss_exec ss) = rx_sudo ex
   | (Inl e, s') \<Rightarrow> trace s' = trace s"
proof -
  obtain r u where u: "session_init P ex t s = (r, u)" by fastforce
  have tu: "trace u = trace s"
    using keepsD_eq [OF keeps_session_init [of "\<lambda>tr. tr = trace s"] u] by simp
  show ?thesis
  proof (cases r)
    case (Inr ss)
    with u have sudo: "rx_sudo (ss_exec ss) = rx_sudo ex" by (simp add: session_init_sudo)
    from u Inr have "session_enter P ex t s = bind (session_open P ss) (\<lambda>_. return ss) u"
      by (simp add: session_enter_def bind_ok)
    with session_open_trace [where P = P and ss = ss and s = u] tu sudo show ?thesis
      by (auto simp: py_defs split: prod.splits sum.splits)
  qed (simp add: session_enter_def u tu bind_err)
qed

definition sends :: "string \<Rightarrow> event list \<Rightarrow> cmdobj \<times> 'w sys \<Rightarrow> bool" where
  "sends line t = (\<lambda>(c, s). cd_line c = line \<and> trace s = t)"

lemma command_start_leads:
  "leads (sends line t) (command_start P ss timeout pty)
    (on_trace (\<lambda>tr. tr = t \<or> tr = t @ [Executed (ss_client ss) line]))"
  unfolding leads_def command_start_def sends_def
  by (auto simp: py_defs mark_eq split: prod.splits sum.splits dest!: trace_quiet)

lemma command_execute_leads:
  assumes "\<And>ch. keeps (on_trace (\<lambda>tr. tr = t \<or> tr = t @ [Executed (ss_client ss) line])) (body ch)"
  shows "leads (sends line t) (command_execute P ss timeout pty body)
    (on_trace (\<lambda>tr. tr = t \<or> tr = t @ [Executed (ss_client ss) line]))"
  unfolding command_execute_def
  by (intro leads_try_finally leads_try_except leads_bind command_start_leads keeps_intros assms)

lemma command_run_leads:
  "leads (sends line t) (command_run P ss input timeout pty)
    (on_trace (\<lambda>tr. tr = t \<or> tr = t @ [Executed (ss_client ss) line]))"
  unfolding command_run_def
  by (intro leads_bind command_execute_leads keeps_intros)

lemma session_run_cmd_leads:
  "leads (traced (\<lambda>tr. tr = t)) (session_run_cmd P ss opts cmd)
    (traced (\<lambda>tr. tr = t \<or>
       tr = t @ [Executed (ss_client ss) (sent_line (rx_sudo (ss_exec ss)) cmd)]))"
proof -
  have run: "leads (traced (\<lambda>tr. tr = t))
      (on_new (new_command c) (command_run P ss input timeout pty))
      (traced (\<lambda>tr. tr = t \<or> tr = t @ [Executed (ss_client ss) (list2cmdline (cmd_args c))]))"
    for c input timeout pty
    by (rule leads_on_new, rule leads_weaken [OF command_run_leads [where t = t]])
      (auto simp: new_command_def sends_def)
  have *: "leads (traced (\<lambda>tr. tr = t))
      (bind (on_new (new_command c) (command_run P ss input timeout pty)) (\<lambda>(rc, out, err).
        return (c, rc, out, err)))
      (traced (\<lambda>tr. tr = t \<or> tr = t @ [Executed (ss_client ss) (list2cmdline (cmd_args c))]))"
    for c input timeout pty
    by (intro leads_bind run keeps_intros)
  show ?thesis
  proof (cases "rx_sudo (ss_exec ss)")
    case False
    then show ?thesis
      using * [of cmd] by (cases cmd) (simp_all add: session_run_cmd_def sent_line_def sent_cmd_def)
  next
    case True
    show ?thesis
    proof (cases cmd)
      case (CList xs)
      with True show ?thesis
        using * [of "CList (''sudo'' # xs)"]
        by (simp add: session_run_cmd_def sent_line_def sent_cmd_def insert_sudo_def)
    next
      case (CTuple xs)
      with True show ?thesis
        by (simp add: session_run_cmd_def insert_sudo_def) (simp add: leads_def raise_def)
    qed
  qed
qed

lemma session_exit_leads:
  "leads (traced (\<lambda>tr. tr = t)) (session_exit P ss x) (traced (\<lambda>tr. tr = t @ [Closed (ss_client ss)]))"
proof -
  have "leads (traced (\<lambda>tr. tr = t)) (session_close P ss) (traced (\<lambda>tr. tr = t @ [Closed (ss_client ss)]))"
    unfolding session_close_def leads_def
    by (auto simp: mark_eq bind_def)
  then show ?thesis
    unfolding session_exit_def
    by (intro leads_bind leads_try_except) (auto intro!: keeps_intros split: option.splits)
qed

text \<open>Every outcome of a call: what it adds to the trace.\<close>

lemma with_session_call_trace:
  fixes body :: "session \<Rightarrow> (exn, 'w sys, 'a) py"
  assumes "\<And>ss t. rx_sudo (ss_exec ss) = rx_sudo ex \<Longrightarrow>
    leads (traced (\<lambda>tr. tr = t)) (body ss) (traced (\<lambda>tr. tr = t \<or> tr = t @ [Executed (ss_client ss) line]))"
  shows "\<exists>ext. trace (snd (with_session P ex tm body s)) = trace s @ ext \<and> call_trace line ext"
proof -
  let ?t = "\<lambda>ss :: session. trace s @ [Connected (ss_client ss)]"
  let ?J = "\<lambda>ss s'. trace s' = ?t ss \<and> rx_sudo (ss_exec ss) = rx_sudo ex"
  let ?K = "\<lambda>ss s'. trace s' = ?t ss \<or> trace s' = ?t ss @ [Executed (ss_client ss) line]"
  let ?Q = "\<lambda>s'. \<exists>ext. trace s' = trace s @ ext \<and> call_trace line ext"
  have "leads (\<lambda>s'. s' = s) (with_session P ex tm body) ?Q"
    unfolding with_session_def
  proof (rule leads_with_ctx [where J = ?J and K = ?K])
    fix s' assume "s' = s"
    then show "case session_enter P ex tm s' of (Inr ss, s') \<Rightarrow> ?J ss s' | (Inl e, s') \<Rightarrow> ?Q s'"
      using session_enter_trace [where P = P and ex = ex and t = tm and s = s]
      by (auto simp: call_trace_def split: prod.splits sum.splits)
  next
    fix ss
    show "leads (?J ss) (body ss) (?K ss)"
      using leadsD [OF assms [where ss = ss and t = "?t ss"]] by (fastforce simp: leads_def)
  next
    fix ss x
    show "leads (?K ss) (session_exit P ss x) ?Q"
      using leadsD [OF session_exit_leads [where t = "?t ss" and ss = ss]]
        leadsD [OF session_exit_leads [where t = "?t ss @ [Executed (ss_client ss) line]" and ss = ss]]
      by (fastforce simp: leads_def call_trace_def)
  qed
  then show ?thesis by (simp add: leads_def)
qed

lemma remote_run_cmd_call_trace:
  "\<exists>ext. trace (snd (remote_run_cmd P ex opts cmd s)) = trace s @ ext \<and>
    call_trace (sent_line (rx_sudo ex) cmd) ext"
  unfolding remote_run_cmd_def
proof (rule with_session_call_trace)
  fix ss :: session and t
  assume "rx_sudo (ss_exec ss) = rx_sudo ex"
  then show "leads (traced (\<lambda>tr. tr = t)) (session_run_cmd P ss opts cmd)
      (traced (\<lambda>tr. tr = t \<or> tr = t @ [Executed (ss_client ss) (sent_line (rx_sudo ex) cmd)]))"
    using session_run_cmd_leads [where t = t and ss = ss and P = P and opts = opts and cmd = cmd] by simp
qed

lemma remote_run_cmd_balanced:
  "keeps (traced (\<lambda>tr. open_sessions tr = n)) (remote_run_cmd P ex opts cmd)"
proof (rule keepsI)
  fix s :: "'a sys"
  assume "traced (\<lambda>tr. open_sessions tr = n) s"
  moreover obtain ext where "trace (snd (remote_run_cmd P ex opts cmd s)) = trace s @ ext"
    and "call_trace (sent_line (rx_sudo ex) cmd) ext"
    using remote_run_cmd_call_trace [of P ex opts cmd s] by blast
  ultimately show "traced (\<lambda>tr. open_sessions tr = n) (snd (remote_run_cmd P ex opts cmd s))"
    by (simp add: call_trace_balanced)
qed

text \<open>A session keeps the balance when its body does.\<close>

lemma balanced_with_session:
  assumes "\<And>ss n. keeps (traced (\<lambda>tr. open_sessions tr = n)) (body ss)"
  shows "keeps (traced (\<lambda>tr. open_sessions tr = n)) (with_session P ex tm body)"
  unfolding with_session_def
proof (rule keeps_with_ctx_held [where J = "\<lambda>ss. traced (\<lambda>tr. open_sessions tr = n + 1)"])
  fix s :: "'a sys"
  assume "traced (\<lambda>tr. open_sessions tr = n) s"
  then show "case session_enter P ex tm s of
      (Inr ss, s') \<Rightarrow> traced (\<lambda>tr. open_sessions tr = n + 1) s'
    | (Inl e, s') \<Rightarrow> traced (\<lambda>tr. open_sessions tr = n) s'"
    using session_enter_trace [where P = P and ex = ex and t = tm and s = s]
    by (auto split: prod.splits sum.splits)
next
  fix ss x
  show "leads (traced (\<lambda>tr. open_sessions tr = n + 1)) (session_exit P ss x)
      (traced (\<lambda>tr. open_sessions tr = n))"
    unfolding leads_def
  proof (intro allI impI)
    fix s :: "'a sys"
    assume "traced (\<lambda>tr. open_sessions tr = n + 1) s"
    then show "traced (\<lambda>tr. open_sessions tr = n) (snd (session_exit P ss x s))"
      using leadsD [OF session_exit_leads [where t = "trace s" and P = P and ss = ss and x = x], of s] by simp
  qed
qed (rule assms)

lemma keeps_open_file [keeps_intros]:
  "(\<And>fh. keeps (traced A) (body fh)) \<Longrightarrow> keeps (traced A) (open_file P ss path mode body)"
  unfolding open_file_def by (intro keeps_intros)

section \<open>A call that returns\<close>

lemma command_start_ok:
  assumes "command_start P ss timeout pty (c, s) = (Inr ch, (c', s'))"
  shows "trace s' = trace s @ [Executed (ss_client ss) (cd_line c)] \<and> cd_chan c' = Some ch"
  using assms unfolding command_start_def
  by (auto simp: py_defs mark_eq split: prod.splits sum.splits dest!: trace_quiet)

lemma command_execute_ok:
  assumes "command_execute P ss timeout pty body (c, s) = (Inr a, (c', s'))"
    and "\<And>ch A. keeps (on_trace A) (body ch)"
  shows "trace s' = trace s @ [Executed (ss_client ss) (cd_line c)]"
proof -
  let ?A = "on_trace (\<lambda>tr. tr = trace s @ [Executed (ss_client ss) (cd_line c)])"
  let ?m = "bind (command_start P ss timeout pty) (\<lambda>ch.
      bind (body ch) (\<lambda>a. bind (get_rc P True) (\<lambda>_. return a)))"
  have "try_finally (try_except ?m is_socket_timeout (\<lambda>e. raise (update_timeout_exception ss e timeout)))
      (command_finish P) (c, s) = (Inr a, (c', s'))"
    using assms(1) by (simp only: command_execute_def)
  then obtain v where tv: "try_except ?m is_socket_timeout
      (\<lambda>e. raise (update_timeout_exception ss e timeout)) (c, s) = (Inr a, v)"
    and fin: "command_finish P v = (Inr (), (c', s'))" by (rule try_finally_InrE)
  from tv have v: "?m (c, s) = (Inr a, v)" by (rule try_except_raise_InrE)
  from v obtain ch u where u: "command_start P ss timeout pty (c, s) = (Inr ch, u)"
    and rest: "bind (body ch) (\<lambda>a. bind (get_rc P True) (\<lambda>_. return a)) u = (Inr a, v)"
    by (rule bind_InrE)
  obtain cu su where cu: "u = (cu, su)" by fastforce
  have Au: "?A u" using command_start_ok [OF u [unfolded cu]] by (simp add: cu)
  have "keeps ?A (bind (body ch) (\<lambda>a. bind (get_rc P True) (\<lambda>_. return a)))"
    by (intro keeps_intros assms(2))
  from this rest Au have "?A v" by (rule keepsD_eq)
  with keepsD_eq [OF keeps_command_finish fin] show ?thesis by auto
qed

lemma command_run_ok:
  assumes "command_run P ss input timeout pty (c, s) = (Inr r, (c', s'))"
  shows "trace s' = trace s @ [Executed (ss_client ss) (cd_line c)]"
proof -
  let ?A = "on_trace (\<lambda>tr. tr = trace s @ [Executed (ss_client ss) (cd_line c)])"
  from assms show ?thesis
    unfolding command_run_def
  proof (rule bind_InrE)
    fix a u
    assume ex: "command_execute P ss timeout pty (\<lambda>ch.
        bind (if truthy_opt input
              then bind (outer (quiet (px_write P ch (the input)))) (\<lambda>_.
                outer (quiet (px_stream_close P ch StdIn)))
              else return ()) (\<lambda>_.
        bind (outer (quiet (px_read P ch StdOut))) (\<lambda>out.
        bind (set_this (\<lambda>c. c\<lparr>cd_out := Some (normalize_string P out)\<rparr>)) (\<lambda>_.
        bind (outer (quiet (px_read P ch StdErr))) (\<lambda>err.
        set_this (\<lambda>c. c\<lparr>cd_err := Some (normalize_string P err)\<rparr>)))))) (c, s) = (Inr a, u)"
      and post: "bind (get_rc P False) (\<lambda>rc. bind this (\<lambda>c.
        case (rc, cd_out c, cd_err c) of
          (Some r, Some out, Some err) \<Rightarrow> return (r, out, err)
        | _ \<Rightarrow> raise incomplete_command)) u = (Inr r, (c', s'))"
    obtain cu su where cu: "u = (cu, su)" by fastforce
    have Au: "?A u"
      using command_execute_ok [OF ex [unfolded cu]] unfolding cu
      by (auto intro!: keeps_intros)
    have "keeps ?A (bind (get_rc P False) (\<lambda>rc. bind this (\<lambda>c.
        case (rc, cd_out c, cd_err c) of
          (Some r, Some out, Some err) \<Rightarrow> return (r, out, err)
        | _ \<Rightarrow> raise incomplete_command)))"
      by (intro keeps_intros)
    from this post Au have "?A (c', s')" by (rule keepsD_eq)
    then show ?thesis by simp
  qed
qed

lemma session_run_cmd_ok:
  assumes "session_run_cmd P ss opts cmd s = (Inr (cmd', rc, out, err), s')"
  shows "cmd' = sent_cmd (rx_sudo (ss_exec ss)) cmd \<and>
    trace s' = trace s @ [Executed (ss_client ss) (sent_line (rx_sudo (ss_exec ss)) cmd)]"
proof -
  from assms obtain c u where c: "(if rx_sudo (ss_exec ss) then insert_sudo cmd else return cmd) s = (Inr c, u)"
    and r: "bind (on_new (new_command c) (command_run P ss (co_input opts) (co_io opts) (co_pty opts)))
       (\<lambda>(rc, out, err). return (c, rc, out, err)) u = (Inr (cmd', rc, out, err), s')"
    unfolding session_run_cmd_def by (rule bind_InrE)
  from c have cu: "c = sent_cmd (rx_sudo (ss_exec ss)) cmd" "u = s"
    by (cases cmd; auto simp: insert_sudo_def sent_cmd_def py_defs split: if_splits)+
  from r obtain x where x: "on_new (new_command c)
      (command_run P ss (co_input opts) (co_io opts) (co_pty opts)) u = (Inr x, s')" and "cmd' = c"
    by (auto elim!: bind_InrE simp: return_def split: prod.splits)
  from x obtain c' where
    "command_run P ss (co_input opts) (co_io opts) (co_pty opts) (new_command c, u) = (Inr x, (c', s'))"
    by (auto simp: on_new_def split: prod.splits)
  note run = command_run_ok [OF this]
  from \<open>cmd' = c\<close> run cu show ?thesis by (simp add: new_command_def sent_line_def)
qed

lemma remote_run_cmd_ok:
  assumes "remote_run_cmd P ex opts cmd s = (Inr (cmd', rc, out, err), s')"
  shows "cmd' = sent_cmd (rx_sudo ex) cmd \<and>
    (\<exists>c. trace s' = trace s @ [Connected c, Executed c (sent_line (rx_sudo ex) cmd), Closed c])"
proof -
  from assms obtain ss t u where t: "session_enter P ex (co_tcp opts) s = (Inr ss, t)"
    and u: "session_run_cmd P ss opts cmd t = (Inr (cmd', rc, out, err), u)"
    and v: "session_exit P ss None u = (Inr (), s')"
    unfolding remote_run_cmd_def with_session_def by (rule with_ctx_InrE)
  from t session_enter_trace [where P = P and ex = ex and t = "co_tcp opts" and s = s]
  have "trace t = trace s @ [Connected (ss_client ss)]" "rx_sudo (ss_exec ss) = rx_sudo ex"
    by simp_all
  moreover from session_run_cmd_ok [OF u]
  have "trace u = trace t @ [Executed (ss_client ss) (sent_line (rx_sudo (ss_exec ss)) cmd)]"
    and "cmd' = sent_cmd (rx_sudo (ss_exec ss)) cmd" by simp_all
  moreover have "trace s' = trace u @ [Closed (ss_client ss)]"
    using leadsD [OF session_exit_leads [where t = "trace u" and P = P and ss = ss and x = None], of u] v
    by simp
  ultimately show ?thesis by simp
qed

end
