(* ===== verification/SshContract.thy ===== *)
theory SshContract
  imports SshLaws
begin

text \<open>
  The rest of the contract of the SSH executor: which values a call returns when the
  library serves it, which key a session uses, which error leaves a session, what the
  connectivity test and the wait loop answer, and the interpretation of the executor
  interface on \<open>remote_run_cmd\<close>.
\<close>

section \<open>The values of a call\<close>

lemma gives_quiet: "gives m a \<Longrightarrow> gives (quiet m) a"
  by (auto simp: gives_def quiet_def split: prod.splits) (metis prod.inject)

text \<open>What a served call needs of the library: each answer is the same in every state.\<close>

definition serves :: "'w paramiko \<Rightarrow> nat \<Rightarrow> nat \<Rightarrow> string \<Rightarrow> int option \<Rightarrow> bool
    \<Rightarrow> int \<Rightarrow> pydata \<Rightarrow> pydata \<Rightarrow> bool" where
  "serves P cl ch line io pty rc out err \<longleftrightarrow>
     gives (px_client P) cl \<and> (\<forall>f. \<exists>k. gives (px_load_key P RSAKey f) k) \<and>
     gives (px_clear_host_keys P cl) () \<and>
     (\<forall>args. gives (px_connect P cl args) ()) \<and> gives (px_close P cl) () \<and>
     gives (px_exec P cl line io pty) ch \<and>
     (\<forall>d. gives (px_write P ch d) ()) \<and> (\<forall>st. gives (px_stream_close P ch st) ()) \<and>
     gives (px_read P ch StdOut) out \<and> gives (px_read P ch StdErr) err \<and>
     gives (px_exit_ready P ch) True \<and> gives (px_recv_exit P ch) rc"

lemma command_run_served:
  assumes "serves P (ss_client ss) ch line io pty rc out err"
  shows "\<exists>c' s'. command_run P ss input io pty
      (\<lparr>cd_line = line, cd_chan = None, cd_rc = None, cd_out = None, cd_err = None\<rparr>, s) =
    (Inr (rc, normalize_string P out, normalize_string P err), (c', s'))"
proof -
  from assms obtain fx where "\<And>w. px_exec P (ss_client ss) line io pty w = (Inr ch, fx w)"
    unfolding serves_def by (meson givesE)
  moreover from assms obtain fw where "\<And>d w. px_write P ch d w = (Inr (), fw d w)"
    unfolding serves_def gives_def by metis
  moreover from assms obtain fs where "\<And>st w. px_stream_close P ch st w = (Inr (), fs st w)"
    unfolding serves_def gives_def by metis
  moreover from assms obtain fo where "\<And>w. px_read P ch StdOut w = (Inr out, fo w)"
    unfolding serves_def by (meson givesE)
  moreover from assms obtain fe where "\<And>w. px_read P ch StdErr w = (Inr err, fe w)"
    unfolding serves_def by (meson givesE)
  moreover from assms obtain fr where "\<And>w. px_exit_ready P ch w = (Inr True, fr w)"
    unfolding serves_def by (meson givesE)
  moreover from assms obtain fc where "\<And>w. px_recv_exit P ch w = (Inr rc, fc w)"
    unfolding serves_def by (meson givesE)
  ultimately show ?thesis
    by (simp add: command_run_def command_execute_def command_start_def command_finish_def
        get_rc_def py_defs quiet_def mark_def)
qed

lemma session_enter_served:
  assumes "serves P cl ch line io pty rc out err"
  shows "\<exists>ss s'. session_enter P ex t s = (Inr ss, s') \<and> ss_client ss = cl \<and> rx_sudo (ss_exec ss) = rx_sudo ex"
proof -
  from assms obtain fcl where client: "\<And>w. px_client P w = (Inr cl, fcl w)"
    unfolding serves_def by (meson givesE)
  from assms obtain k fk where key: "\<And>f w. px_load_key P RSAKey f w = (Inr (k f), fk f w)"
    unfolding serves_def gives_def by metis
  from assms obtain fh where hosts: "\<And>w. px_clear_host_keys P cl w = (Inr (), fh w)"
    unfolding serves_def by (meson givesE)
  from assms obtain fn where connect: "\<And>args w. px_connect P cl args w = (Inr (), fn args w)"
    unfolding serves_def gives_def by metis
  show ?thesis
    by (cases "u_class (rx_user ex)")
      (simp_all add: session_enter_def session_init_def session_open_def get_pkey_def py_defs
        quiet_def mark_def Let_def client key hosts connect)
qed

lemma session_exit_served:
  assumes "serves P (ss_client ss) ch line io pty rc out err"
  shows "\<exists>s'. session_exit P ss None s = (Inr (), s')"
proof -
  from assms obtain f where "\<And>w. px_close P (ss_client ss) w = (Inr (), f w)"
    unfolding serves_def by (meson givesE)
  then show ?thesis
    by (simp add: session_exit_def session_close_def py_defs quiet_def mark_def)
qed

lemma session_run_cmd_served:
  assumes "serves P (ss_client ss) ch (sent_line (rx_sudo (ss_exec ss)) cmd) (co_io opts) (co_pty opts) rc out err"
    and "rx_sudo (ss_exec ss) \<Longrightarrow> \<exists>xs. cmd = CList xs"
  shows "\<exists>s'. session_run_cmd P ss opts cmd s =
    (Inr (sent_cmd (rx_sudo (ss_exec ss)) cmd, rc, normalize_string P out, normalize_string P err), s')"
proof -
  let ?sudo = "rx_sudo (ss_exec ss)"
  obtain c' s' where run: "command_run P ss (co_input opts) (co_io opts) (co_pty opts)
      (new_command (sent_cmd ?sudo cmd), s) =
      (Inr (rc, normalize_string P out, normalize_string P err), (c', s'))"
    using command_run_served [OF assms(1), where input = "co_input opts" and s = s]
    by (auto simp: new_command_def sent_line_def)
  have *: "(if ?sudo then insert_sudo cmd else return cmd) = return (sent_cmd ?sudo cmd)"
    using assms(2) by (cases cmd) (auto simp: insert_sudo_def sent_cmd_def)
  show ?thesis
    unfolding session_run_cmd_def * bind_return
    by (simp add: bind_def on_new_def return_def run)
qed

lemma remote_run_cmd_served:
  assumes "serves P cl ch (sent_line (rx_sudo ex) cmd) (co_io opts) (co_pty opts) rc out err"
    and "rx_sudo ex \<Longrightarrow> \<exists>xs. cmd = CList xs"
  shows "\<exists>s'. remote_run_cmd P ex opts cmd s =
    (Inr (sent_cmd (rx_sudo ex) cmd, rc, normalize_string P out, normalize_string P err), s')"
proof -
  from session_enter_served [OF assms(1)] obtain ss t
    where t: "session_enter P ex (co_tcp opts) s = (Inr ss, t)"
      and ss: "ss_client ss = cl" "rx_sudo (ss_exec ss) = rx_sudo ex" by blast
  from session_run_cmd_served [where ss = ss and cmd = cmd and opts = opts and P = P and ch = ch
      and rc = rc and out = out and err = err and s = t] assms ss
  obtain u where u: "session_run_cmd P ss opts cmd t =
      (Inr (sent_cmd (rx_sudo ex) cmd, rc, normalize_string P out, normalize_string P err), u)" by auto
  from session_exit_served [where ss = ss] assms(1) ss
  obtain v where "session_exit P ss None u = (Inr (), v)" by metis
  with t u show ?thesis
    by (simp add: remote_run_cmd_def with_session_def with_ctx_def bind_def return_def)
qed

text \<open>The same for any work on the streams of a command, and for any work in a session.\<close>

lemma command_execute_served:
  assumes served: "serves P (ss_client ss) ch (cd_line c) io pty rc out err"
    and c: "cd_chan c = None" "cd_rc c = None"
    and body: "\<And>c s. cd_chan c = Some ch \<Longrightarrow> cd_rc c = None \<Longrightarrow>
      \<exists>c' s'. body ch (c, s) = (Inr a, (c', s')) \<and> cd_chan c' = Some ch"
  shows "\<exists>u. command_execute P ss io pty body (c, s) = (Inr a, u)"
proof -
  from served obtain fx where fx: "\<And>w. px_exec P (ss_client ss) (cd_line c) io pty w = (Inr ch, fx w)"
    unfolding serves_def by (meson givesE)
  from served obtain fs where fs: "\<And>st w. px_stream_close P ch st w = (Inr (), fs st w)"
    unfolding serves_def gives_def by metis
  from served obtain fr where fr: "\<And>w. px_exit_ready P ch w = (Inr True, fr w)"
    unfolding serves_def by (meson givesE)
  from served obtain fc where fc: "\<And>w. px_recv_exit P ch w = (Inr rc, fc w)"
    unfolding serves_def by (meson givesE)
  obtain c1 s1 where start: "command_start P ss io pty (c, s) = (Inr ch, (c1, s1))"
    and c1: "cd_chan c1 = Some ch" "cd_rc c1 = None"
    using c by (simp add: command_start_def py_defs quiet_def mark_def fx)
  from body [OF c1] obtain c2 s2 where blk: "body ch (c1, s1) = (Inr a, (c2, s2))" and c2: "cd_chan c2 = Some ch"
    by blast
  show ?thesis
    unfolding command_execute_def try_finally_def try_except_def
      bind_ok [where m = "command_start P ss io pty", OF start] bind_ok [where m = "body ch", OF blk]
    using c2 by (cases "cd_rc c2") (simp_all add: get_rc_def command_finish_def py_defs quiet_def fs fr fc)
qed

lemma with_session_served:
  assumes served: "serves P cl ch line io pty rc out err"
    and body: "\<And>ss s. ss_client ss = cl \<Longrightarrow> rx_sudo (ss_exec ss) = rx_sudo ex \<Longrightarrow> \<exists>s'. body ss s = (Inr a, s')"
  shows "\<exists>s'. with_session P ex tm body s = (Inr a, s')"
proof -
  from session_enter_served [OF served] obtain ss t
    where t: "session_enter P ex tm s = (Inr ss, t)" and ss: "ss_client ss = cl" "rx_sudo (ss_exec ss) = rx_sudo ex"
    by blast
  from body [OF ss] obtain u where "body ss t = (Inr a, u)" by blast
  moreover obtain v where "session_exit P ss None u = (Inr (), v)"
    using session_exit_served [where ss = ss] served ss by metis
  ultimately show ?thesis
    using t by (simp add: with_session_def with_ctx_def bind_def return_def)
qed

section \<open>Which error leaves a session\<close>

text \<open>The error of the body wins over an error of the closing; a time-out names the host.\<close>

lemma session_exit_of_failure:
  "fst (session_exit P ss (Some e) s) =
    (if is_socket_timeout e then Inl (update_timeout_exception ss e None) else Inr ())"
  unfolding session_exit_def
  by (auto simp: py_defs any_exception_def split: prod.splits sum.splits if_splits)

lemma with_session_body_error:
  assumes "session_enter P ex t s = (Inr ss, s1)" and "body ss s1 = (Inl e, s2)"
  shows "fst (with_session P ex t body s) =
    Inl (if is_socket_timeout e then update_timeout_exception ss e None else e)"
  using session_exit_of_failure [of P ss e s2] assms
  by (auto simp: with_session_def with_ctx_def py_defs split: prod.splits sum.splits if_splits)

lemma update_timeout_once:
  "update_timeout_exception ss (update_timeout_exception ss' e t') t =
    (if is_socket_timeout e then update_timeout_exception ss' e t' else e)"
proof (cases e)
  case (SocketTimeout i)
  then show ?thesis by (cases i) simp_all
qed simp_all

section \<open>Which key a session uses\<close>

lemma load_key_from_first:
  assumes "\<And>kt. kt \<in> set kts \<Longrightarrow> px_load_key P kt f = raise (SSHException (msg kt))"
    and "px_load_key P k f (world s) = (Inr key, w)"
  shows "load_key_from P f (kts @ k # ks) errs s = (Inr key, s\<lparr>world := w\<rparr>)"
  using assms by (induction kts arbitrary: errs) (auto simp: py_defs quiet_def)

lemma load_key_from_none:
  assumes "\<And>kt. kt \<in> set kts \<Longrightarrow> px_load_key P kt f = raise (SSHException (msg kt))"
  shows "load_key_from P f kts errs s =
    (Inl (SSHException (''Invalid Key '' @ show_cmd (CList (errs @ map msg kts)))), s)"
  using assms by (induction kts arbitrary: errs) (auto simp: py_defs quiet_def)

lemma load_key_from_other_error:
  assumes "px_load_key P k f (world s) = (Inl e, w)" and "\<not> is_ssh_exception e"
  shows "load_key_from P f (k # ks) errs s = (Inl e, s\<lparr>world := w\<rparr>)"
  using assms by (simp add: py_defs quiet_def)

section \<open>Connectivity\<close>

text \<open>The test returns in every case: true exactly when the command does.\<close>

lemma is_connective_result:
  "is_connective P ex t s =
     (case remote_run_cmd P ex (default_opts\<lparr>co_tcp := t\<rparr>) (CList [''true'']) s of
        (Inr r, s') \<Rightarrow> (Inr True, s') | (Inl e, s') \<Rightarrow> (Inr False, s'))"
  unfolding is_connective_def by (auto simp: py_defs split: prod.splits sum.splits)

lemma is_connective_returns: "\<exists>b s'. is_connective P ex t s = (Inr b, s')"
  by (auto simp: is_connective_result split: prod.splits sum.splits)

text \<open>The last probe is the one after \<open>wait_rounds\<close> pauses.\<close>

definition wait_rounds :: "int \<Rightarrow> int \<Rightarrow> int \<Rightarrow> nat" where
  "wait_rounds timeout sample counter = nat ((timeout - counter) div sample + 1)"

lemma wait_rounds_over: "0 < sample \<Longrightarrow> timeout < counter \<Longrightarrow> wait_rounds timeout sample counter = 0"
  unfolding wait_rounds_def using neg_imp_zdiv_neg_iff [of sample "timeout - counter"]
    pos_imp_zdiv_neg_iff [of sample "timeout - counter"] by simp

lemma wait_rounds_step:
  assumes "0 < sample" and "counter \<le> timeout"
  shows "wait_rounds timeout sample counter = Suc (wait_rounds timeout sample (counter + sample))"
proof -
  have "(timeout - (counter + sample)) div sample = (timeout - counter) div sample - 1"
    using assms div_add_self2 [of sample "timeout - counter - sample"] by (simp add: algebra_simps)
  moreover have "0 \<le> (timeout - counter) div sample"
    using assms by (simp add: pos_imp_zdiv_nonneg_iff)
  ultimately show ?thesis by (simp add: wait_rounds_def)
qed

text \<open>A probe that disappoints and the pause after it.\<close>

definition wait_turn :: "'w paramiko \<Rightarrow> remote_executor \<Rightarrow> int \<Rightarrow> int \<Rightarrow> 'w sys \<Rightarrow> 'w sys" where
  "wait_turn P ex tcp sample s =
     snd (quiet (px_sleep P sample) (snd (is_connective P ex (Some tcp) s)))"

text \<open>
  The loop over a probe that always answers and a pause that always ends: it answers
  within \<open>wait_rounds\<close> pauses, and positively exactly when one of the probes up to
  then does.
\<close>

lemma wait_loop_decides:
  assumes probe: "\<And>s. probe s = (Inr (obs s), nxt s)" and sleep: "\<And>s. sleep sample s = (Inr (), slp s)"
    and "0 < sample" and "wait_rounds timeout sample counter < fuel"
  shows "\<exists>s'. wait_loop probe sleep positive timeout sample fuel counter s =
    (Inr (Some (\<exists>k\<le>wait_rounds timeout sample counter.
       obs (((\<lambda>s. slp (nxt s)) ^^ k) s) = positive)), s')"
  using assms(4)
proof (induction fuel arbitrary: counter s)
  case (Suc fuel)
  let ?n = "wait_rounds timeout sample counter"
  have first: "obs s = positive \<Longrightarrow> \<exists>k\<le>?n. obs (((\<lambda>s. slp (nxt s)) ^^ k) s) = positive"
    by (rule exI [of _ 0]) simp
  show ?case
  proof (cases "obs s = positive \<or> timeout < counter")
    case True
    then show ?thesis
      using first wait_rounds_over [OF \<open>0 < sample\<close>, of timeout counter]
      by (auto simp: bind_def probe return_def)
  next
    case False
    then have n: "?n = Suc (wait_rounds timeout sample (counter + sample))"
      using wait_rounds_step [OF \<open>0 < sample\<close>] by simp
    have shift: "(\<exists>k\<le>?n. obs (((\<lambda>s. slp (nxt s)) ^^ k) s) = positive) \<longleftrightarrow>
        (\<exists>k\<le>wait_rounds timeout sample (counter + sample).
          obs (((\<lambda>s. slp (nxt s)) ^^ k) (slp (nxt s))) = positive)" (is "?L \<longleftrightarrow> ?R")
    proof
      assume ?L
      then obtain k where k: "k \<le> ?n" "obs (((\<lambda>s. slp (nxt s)) ^^ k) s) = positive" by blast
      with False obtain j where "k = Suc j" by (cases k) auto
      with k n show ?R by (auto simp: funpow_Suc_right simp del: funpow.simps)
    next
      assume ?R
      then obtain j where "j \<le> wait_rounds timeout sample (counter + sample)"
        "obs (((\<lambda>s. slp (nxt s)) ^^ j) (slp (nxt s))) = positive" by blast
      with n show ?L by (intro exI [of _ "Suc j"]) (simp add: funpow_Suc_right del: funpow.simps)
    qed
    from Suc n have "wait_rounds timeout sample (counter + sample) < fuel" by simp
    from Suc.IH [OF this, where s = "slp (nxt s)"] False show ?thesis
      unfolding shift by (simp add: bind_def probe sleep)
  qed
qed simp

text \<open>With a pause of no length the loop does not end while the probe disappoints.\<close>

lemma wait_loop_stuck:
  assumes "\<And>s. probe s = (Inr (\<not> positive), nxt s)" and "\<And>s. sleep sample s = (Inr (), slp s)"
    and "sample \<le> 0" and "counter \<le> timeout"
  shows "\<exists>s'. wait_loop probe sleep positive timeout sample fuel counter s = (Inr None, s')"
  using assms(4)
proof (induction fuel arbitrary: counter s)
  case (Suc fuel)
  then show ?case
    using Suc.IH [of "counter + sample" "slp (nxt s)"] assms(3)
    by (simp add: bind_def assms(1,2))
qed (simp add: return_def)

section \<open>The interface\<close>

lemma remote_executor_balanced:
  "executor (remote_run_cmd P ex) (traced (\<lambda>tr. open_sessions tr = n))"
  by unfold_locales (rule remote_run_cmd_balanced)

interpretation remote: executor "remote_run_cmd P ex" "traced (\<lambda>tr. open_sessions tr = n)" for P ex n
  by (rule remote_executor_balanced)

section \<open>Properties\<close>

text \<open>A library to run the model on: it serves every call, with the answers given.\<close>

definition answering :: "int \<Rightarrow> string \<Rightarrow> string \<Rightarrow> unit paramiko" where
  "answering rc out err =
     \<lparr>px_client = return 1, px_load_key = \<lambda>kt f. return 7, px_clear_host_keys = \<lambda>c. return (),
      px_connect = \<lambda>c args. return (), px_close = \<lambda>c. return (),
      px_exec = \<lambda>c line t pty. return 3, px_write = \<lambda>ch d. return (),
      px_stream_close = \<lambda>ch st. return (),
      px_read = \<lambda>ch st. return (Text (if st = StdOut then out else err)),
      px_readline = \<lambda>ch st. return [], px_exit_ready = \<lambda>ch. return True,
      px_recv_exit = \<lambda>ch. return rc, px_open_sftp = \<lambda>c. return 4, px_sftp_close = \<lambda>h. return (),
      px_sftp_file = \<lambda>h p m. return 5, px_file_read = \<lambda>h. return [], px_file_write = \<lambda>h d. return (),
      px_file_close = \<lambda>h. return (),
      px_proxy = \<lambda>c. return 6, px_sleep = \<lambda>t. return (), px_decode = id,
      px_getenv = \<lambda>v. None, px_expanduser = id\<rparr>"

definition some_executor :: "bool \<Rightarrow> remote_executor" where
  "some_executor sudo = \<lparr>rx_user = RootUser ''secret'', rx_address = ''10.0.0.1'', rx_use_pkey = False,
     rx_port = 22, rx_sudo = sudo, rx_disabled = None, rx_sock = None\<rparr>"

definition fresh_sys :: "unit sys" where
  "fresh_sys = \<lparr>world = (), trace = []\<rparr>"

lemma answering_serves:
  "serves (answering rc out err) 1 3 line io pty rc (Text out) (Text err)"
  by (auto simp: serves_def answering_def intro!: gives_return exI [of _ "7 :: nat"])

lemmas ssh_eval = answering_def some_executor_def fresh_sys_def RootUser_def User_def
  remote_run_cmd_def with_session_def session_enter_def session_init_def session_open_def
  session_exit_def session_close_def session_run_cmd_def command_run_def command_execute_def
  command_start_def command_finish_def get_rc_def new_command_def insert_sudo_def
  tuple_has_no_insert_def normalize_string_def quiet_def mark_def default_opts_def py_defs

text \<open>
  C1. Whichever way a command over SSH ends, with a result, an error of the library or a
  time-out, the system has seen nothing, or one connection that was closed again, with at
  most the command line of the caller's arguments executed on it: no session is left open
  and no other command is sent.
\<close>

theorem remote_call_closes_its_session:
  "\<exists>ext. trace (snd (remote_run_cmd P ex opts cmd s)) = trace s @ ext \<and>
     (ext = [] \<or> (\<exists>c. ext = [Connected c, Closed c] \<or>
        ext = [Connected c, Executed c (sent_line (rx_sudo ex) cmd), Closed c]))"
  using remote_run_cmd_call_trace [of P ex opts cmd s] by (simp only: call_trace_def)





text \<open>
  C4. Waiting for connectivity ends: with a positive sample time, and fuel for one probe more
  than \<open>wait_rounds\<close> pauses, it answers, and answers true exactly when one of the first
  \<open>wait_rounds + 1\<close> probes finds the wanted state.
\<close>

theorem wait_for_connectivity_decides:
  assumes "0 < sample" and "gives (px_sleep P sample) ()" and "wait_rounds timeout sample 0 < fuel"
  shows "\<exists>s'. wait_for_connectivity_state P ex positive timeout sample tcp fuel s =
    (Inr (Some (\<exists>k\<le>wait_rounds timeout sample 0.
       fst (is_connective P ex (Some tcp) ((wait_turn P ex tcp sample ^^ k) s)) = Inr positive)), s')"
proof -
  define probe where "probe = is_connective P ex (Some tcp)"
  define obs where "obs s = projr (fst (probe s))" for s
  have obs: "fst (probe s) = Inr (obs s)" for s
    using is_connective_returns [of P ex "Some tcp" s] by (auto simp: obs_def probe_def)
  then have p: "probe s = (Inr (obs s), snd (probe s))" for s by (metis prod.collapse)
  obtain slp where slp: "\<And>s. quiet (px_sleep P sample) s = (Inr (), slp s)"
    using gives_quiet [OF assms(2)] givesE by metis
  have turn: "wait_turn P ex tcp sample = (\<lambda>s. slp (snd (probe s)))"
    by (rule ext) (simp add: wait_turn_def slp probe_def)
  from wait_loop_decides [where sleep = "\<lambda>t. quiet (px_sleep P t)" and sample = sample,
      OF p slp assms(1,3)]
  show ?thesis
    unfolding wait_for_connectivity_state_def probe_def [symmetric] turn obs by simp
qed

theorem wait_for_connectivity_decides_witness:
  "\<exists>s'. wait_for_connectivity_state (answering 0 [] []) (some_executor False) False 60 20 20 5 fresh_sys =
    (Inr (Some False), s')"
proof -
  have *: "fst (is_connective (answering 0 [] []) (some_executor False) (Some 20) s) = Inr True" for s
    unfolding is_connective_result by (simp add: ssh_eval)
  have "gives (px_sleep (answering 0 [] []) 20) ()" by (simp add: answering_def gives_return)
  moreover have "wait_rounds 60 20 0 < 5" by (simp add: wait_rounds_def)
  moreover note wait_for_connectivity_decides [where P = "answering 0 [] []" and ex = "some_executor False"
      and sample = 20 and timeout = 60 and fuel = 5 and tcp = 20 and positive = False
      and s = fresh_sys]
  ultimately show ?thesis by (simp add: *)
qed

text \<open>
  C5. The connectivity test never raises: it answers true exactly when \<open>true\<close> could be run,
  whatever its exit status, and false for every error of the library.
\<close>

theorem is_connective_never_raises:
  "\<exists>b s'. is_connective P ex t s = (Inr b, s') \<and>
    b = (\<exists>r. fst (remote_run_cmd P ex (default_opts\<lparr>co_tcp := t\<rparr>) (CList [''true'']) s) = Inr r)"
  by (auto simp: is_connective_result split: prod.splits sum.splits)

text \<open>
  C6. An error inside a session is the error the caller sees, even if closing the session
  fails too; a time-out is rewritten once, with the address of the host and the time-out.
\<close>

theorem session_error_reaches_caller:
  assumes "session_enter P ex t s = (Inr ss, s1)" and "body ss s1 = (Inl e, s2)"
  shows "fst (with_session P ex t body s) =
    Inl (if is_socket_timeout e then update_timeout_exception ss e None else e)"
  using assms by (rule with_session_body_error)

theorem session_error_reaches_caller_witness:
  "fst (with_session ((answering 0 [] [])\<lparr>px_close := \<lambda>c. raise (SocketError ''closing'')\<rparr>)
      (some_executor False) (Some 5) (\<lambda>ss. raise (SocketTimeout (Raw_timeout ''timed out''))) fresh_sys) =
    (Inl (SocketTimeout (Updated_timeout ''10.0.0.1'' (Some 5))) :: exn + unit)"
proof -
  let ?P = "(answering 0 [] [])\<lparr>px_close := \<lambda>c. raise (SocketError ''closing'')\<rparr>"
  obtain ss s1 where "session_enter ?P (some_executor False) (Some 5) fresh_sys = (Inr ss, s1)"
    and "rx_address (ss_exec ss) = ''10.0.0.1''" and "ss_timeout ss = 5"
    by (simp add: ssh_eval Let_def)
  with session_error_reaches_caller [OF this(1), where
      body = "\<lambda>ss. raise (SocketTimeout (Raw_timeout ''timed out'')) :: (exn, unit sys, unit) py"
      and e = "SocketTimeout (Raw_timeout ''timed out'')" and ?s2.0 = s1]
  show ?thesis by (simp add: raise_def)
qed

text \<open>
  C7. A tuple given to a \<open>sudo\<close> executor can not be extended: the call raises an
  \<open>AttributeError\<close> once it is connected, and no command is executed.
\<close>

theorem sudo_tuple_raises:
  assumes "rx_sudo ex" and "session_enter P ex (co_tcp opts) s = (Inr ss, s1)"
  shows "fst (remote_run_cmd P ex opts (CTuple xs) s) = Inl tuple_has_no_insert \<and>
    trace (snd (remote_run_cmd P ex opts (CTuple xs) s)) =
      trace s @ [Connected (ss_client ss), Closed (ss_client ss)]"
proof -
  let ?body = "\<lambda>ss. session_run_cmd P ss opts (CTuple xs)"
  from session_enter_trace [where P = P and ex = ex and t = "co_tcp opts" and s = s] assms
  have ss: "trace s1 = trace s @ [Connected (ss_client ss)]" "rx_sudo (ss_exec ss)" by simp_all
  then have body: "?body ss s1 = (Inl tuple_has_no_insert, s1)"
    by (simp add: session_run_cmd_def insert_sudo_def) (simp add: raise_def)
  have "fst (session_exit P ss (Some tuple_has_no_insert) s1) = Inr ()"
    by (simp add: session_exit_of_failure tuple_has_no_insert_def)
  then obtain u where u: "session_exit P ss (Some tuple_has_no_insert) s1 = (Inr (), u)"
    by (metis prod.collapse)
  have "trace u = trace s1 @ [Closed (ss_client ss)]"
    using leadsD [OF session_exit_leads [where t = "trace s1" and P = P and ss = ss
        and x = "Some tuple_has_no_insert"], of s1] u by simp
  moreover have "remote_run_cmd P ex opts (CTuple xs) s = (Inl tuple_has_no_insert, u)"
    using assms(2) body u
    by (simp add: remote_run_cmd_def with_session_def with_ctx_def bind_def raise_def)
  ultimately show ?thesis using ss by simp
qed

theorem sudo_tuple_raises_witness:
  "fst (remote_run_cmd (answering 0 [] []) (some_executor True) default_opts
      (CTuple [''systemctl'', ''start'', ''sshd'']) fresh_sys) = Inl tuple_has_no_insert"
proof -
  obtain ss s1 where "session_enter (answering 0 [] []) (some_executor True) (co_tcp default_opts) fresh_sys =
      (Inr ss, s1)"
    by (simp add: ssh_eval Let_def)
  from sudo_tuple_raises [OF _ this] show ?thesis by (simp add: some_executor_def)
qed

end
