(* ===== verification/Reader.thy ===== *)
theory Reader
  imports SshContract
begin

text \<open>
  \<open>rrmngmnt/common.py\<close>: the name look-up and the reader that hands out the output of a
  command line by line while it runs. The generator \<open>read_lines\<close> is modelled as its full
  consumption: the lines it yields and the fields the reader has at the end.
\<close>

definition fqdn2ip :: "(string \<Rightarrow> (exn, 's, string) py) \<Rightarrow> string \<Rightarrow> (exn, 's, string) py" where
  "fqdn2ip gethostbyname fqdn =
     try_except (gethostbyname fqdn) is_resolver_error (\<lambda>e. raise (prefix_resolver_error fqdn e))"

record reader =
  rd_rc :: "int option"
  rd_out :: string
  rd_err :: pydata

text \<open>
  The loop: an empty line is the end of the output only when the command has ended, so the
  loop polls; each turn uses one unit of fuel, and \<open>None\<close> means that it ran out.
\<close>

fun read_loop ::
    "'w paramiko \<Rightarrow> nat \<Rightarrow> nat \<Rightarrow> string list \<Rightarrow> string
      \<Rightarrow> (exn, cmdobj \<times> 'w sys, (string list \<times> string) option) py" where
  "read_loop P ch 0 lines out = return None"
| "read_loop P ch (Suc fuel) lines out =
     bind (outer (quiet (px_readline P ch StdOut))) (\<lambda>line.
       if truthy line
       then read_loop P ch fuel (lines @ [py_strip_chars [newline] line]) (out @ line)
       else bind (get_rc P False) (\<lambda>rc.
         if rc \<noteq> None then return (Some (lines, out @ line))
         else read_loop P ch fuel lines (out @ line)))"

definition read_block ::
    "'w paramiko \<Rightarrow> string option \<Rightarrow> nat \<Rightarrow> nat
      \<Rightarrow> (exn, cmdobj \<times> 'w sys, (string list \<times> reader) option) py" where
  "read_block P cmd_input fuel ch =
     bind (if truthy_opt cmd_input
           then bind (outer (quiet (px_write P ch (the cmd_input)))) (\<lambda>_.
             outer (quiet (px_stream_close P ch StdIn)))
           else return ()) (\<lambda>_.
     bind (read_loop P ch fuel [] []) (\<lambda>r. case r of
       None \<Rightarrow> return None
     | Some (lines, out) \<Rightarrow>
         bind (get_rc P False) (\<lambda>rc.
         bind (outer (quiet (px_read P ch StdErr))) (\<lambda>err.
         return (Some (lines, \<lparr>rd_rc = rc, rd_out = out, rd_err = err\<rparr>))))))"

definition read_lines ::
    "'w paramiko \<Rightarrow> remote_executor \<Rightarrow> pycmd \<Rightarrow> string option \<Rightarrow> nat
      \<Rightarrow> (exn, 'w sys, (string list \<times> reader) option) py" where
  "read_lines P ex cmd cmd_input fuel =
     with_session P ex None (\<lambda>ss.
       on_new (new_command cmd) (command_execute P ss None False (read_block P cmd_input fuel)))"

section \<open>What reaches the command\<close>

lemma keeps_read_loop [keeps_intros]: "keeps (on_trace A) (read_loop P ch fuel lines out)"
  by (induction fuel arbitrary: lines out) (auto intro!: keeps_intros)

lemma keeps_read_block [keeps_intros]: "keeps (on_trace A) (read_block P cmd_input fuel ch)"
  unfolding read_block_def by (intro keeps_intros)

lemma read_lines_trace:
  "\<exists>ext. trace (snd (read_lines P ex cmd cmd_input fuel s)) = trace s @ ext \<and>
    call_trace (list2cmdline (cmd_args cmd)) ext"
  unfolding read_lines_def
proof (rule with_session_call_trace)
  fix ss t
  show "leads (traced (\<lambda>tr. tr = t))
      (on_new (new_command cmd) (command_execute P ss None False (read_block P cmd_input fuel)))
      (traced (\<lambda>tr. tr = t \<or> tr = t @ [Executed (ss_client ss) (list2cmdline (cmd_args cmd))]))"
    by (rule leads_on_new, rule leads_weaken [OF command_execute_leads [where t = t]])
      (auto simp: new_command_def sends_def intro: keeps_read_block)
qed

section \<open>The lines\<close>

text \<open>
  A library that hands out the output in chunks: \<open>pending\<close> are the chunks to come, and after
  the last one every further read gives the empty text.
\<close>

definition feeds :: "'w paramiko \<Rightarrow> nat \<Rightarrow> ('w \<Rightarrow> string list) \<Rightarrow> bool" where
  "feeds P ch pending \<longleftrightarrow> (\<forall>w. case pending w of
       [] \<Rightarrow> fst (px_readline P ch StdOut w) = Inr []
     | l # ls \<Rightarrow> fst (px_readline P ch StdOut w) = Inr l \<and> pending (snd (px_readline P ch StdOut w)) = ls)"

lemma read_loop_feeds:
  assumes "feeds P ch pending" and "gives (px_exit_ready P ch) True" and "gives (px_recv_exit P ch) rc"
    and "pending (world s) = ls" and "[] \<notin> set ls" and "length ls < fuel"
    and "cd_chan c = Some ch" and "cd_rc c = None"
  shows "\<exists>s'. read_loop P ch fuel lines out (c, s) =
    (Inr (Some (lines @ map (py_strip_chars [newline]) ls, out @ concat ls)), (c\<lparr>cd_rc := Some rc\<rparr>, s'))"
  using assms(4-6)
proof (induction fuel arbitrary: ls lines out s)
  case (Suc fuel)
  from assms(2) obtain fr where ready: "\<And>w. px_exit_ready P ch w = (Inr True, fr w)" by (meson givesE)
  from assms(3) obtain fc where recv: "\<And>w. px_recv_exit P ch w = (Inr rc, fc w)" by (meson givesE)
  obtain r w where line: "px_readline P ch StdOut (world s) = (r, w)" by fastforce
  show ?case
  proof (cases ls)
    case Nil
    with Suc.prems assms(1) line have "r = Inr []" by (auto simp: feeds_def split: list.splits)
    with Nil line assms(7,8) show ?thesis by (simp add: get_rc_def py_defs quiet_def ready recv)
  next
    case (Cons l ls')
    with Suc.prems(1) assms(1) line have "r = Inr l" "pending w = ls'"
      by (auto simp: feeds_def split: list.splits dest: spec [of _ "world s"])
    moreover have "truthy l" using Cons Suc.prems(2) by auto
    ultimately show ?thesis using Cons Suc.prems line Suc.IH [of "s\<lparr>world := w\<rparr>" ls' "lines @ [py_strip_chars [newline] l]" "out @ l"]
      by (simp add: py_defs quiet_def)
  qed
qed simp

lemma read_block_feeds:
  assumes served: "serves P cl ch line None False rc out err" and feeds: "feeds P ch pending"
    and input: "\<And>d w. pending (snd (px_write P ch d w)) = pending w"
      "\<And>w. pending (snd (px_stream_close P ch StdIn w)) = pending w"
    and ls: "pending (world s) = ls" "[] \<notin> set ls" "length ls < fuel"
    and c: "cd_chan c = Some ch" "cd_rc c = None"
  shows "\<exists>s'. read_block P cmd_input fuel ch (c, s) =
    (Inr (Some (map (py_strip_chars [newline]) ls, \<lparr>rd_rc = Some rc, rd_out = concat ls, rd_err = err\<rparr>)),
      (c\<lparr>cd_rc := Some rc\<rparr>, s'))"
proof -
  let ?input = "if truthy_opt cmd_input
    then bind (outer (quiet (px_write P ch (the cmd_input)))) (\<lambda>_. outer (quiet (px_stream_close P ch StdIn)))
    else return ()"
  from served obtain fw where fw: "\<And>d w. px_write P ch d w = (Inr (), fw d w)"
    unfolding serves_def gives_def by metis
  from served obtain fs where fs: "\<And>st w. px_stream_close P ch st w = (Inr (), fs st w)"
    unfolding serves_def gives_def by metis
  from served obtain fe where fe: "\<And>w. px_read P ch StdErr w = (Inr err, fe w)"
    unfolding serves_def by (meson givesE)
  have "\<exists>s1. ?input (c, s) = (Inr (), (c, s1)) \<and> pending (world s1) = ls"
    using input ls(1) by (simp add: py_defs quiet_def fw fs)
  then obtain s1 where s1: "?input (c, s) = (Inr (), (c, s1))" "pending (world s1) = ls" by blast
  obtain s2 where s2: "read_loop P ch fuel [] [] (c, s1) =
      (Inr (Some (map (py_strip_chars [newline]) ls, concat ls)), (c\<lparr>cd_rc := Some rc\<rparr>, s2))"
    using read_loop_feeds [OF feeds _ _ s1(2) ls(2,3) c, where rc = rc and lines = "[]" and out = "[]"] served
    by (auto simp: serves_def)
  show ?thesis
    unfolding read_block_def bind_ok [where m = ?input, OF s1(1)]
      bind_ok [where m = "read_loop P ch fuel [] []", OF s2]
    by (simp add: get_rc_def py_defs quiet_def fe)
qed

lemma read_lines_feeds:
  assumes served: "serves P cl ch (list2cmdline (cmd_args cmd)) None False rc out err"
    and feeds: "feeds P ch pending"
    and input: "\<And>d w. pending (snd (px_write P ch d w)) = pending w"
      "\<And>w. pending (snd (px_stream_close P ch StdIn w)) = pending w"
    and exec: "\<And>w. pending (snd (px_exec P cl (list2cmdline (cmd_args cmd)) None False w)) = ls"
    and ls: "[] \<notin> set ls" "length ls < fuel"
  shows "\<exists>s'. read_lines P ex cmd cmd_input fuel s =
    (Inr (Some (map (py_strip_chars [newline]) ls, \<lparr>rd_rc = Some rc, rd_out = concat ls, rd_err = err\<rparr>)), s')"
proof -
  let ?line = "list2cmdline (cmd_args cmd)" and ?block = "read_block P cmd_input fuel"
  let ?r = "Some (map (py_strip_chars [newline]) ls, \<lparr>rd_rc = Some rc, rd_out = concat ls, rd_err = err\<rparr>)"
  from session_enter_served [OF served] obtain ss t
    where t: "session_enter P ex None s = (Inr ss, t)" and cl: "ss_client ss = cl" by blast
  from served obtain fx where fx: "\<And>w. px_exec P cl ?line None False w = (Inr ch, fx w)"
    unfolding serves_def by (meson givesE)
  from served obtain fs where fs: "\<And>st w. px_stream_close P ch st w = (Inr (), fs st w)"
    unfolding serves_def gives_def by metis
  obtain c1 s1 where start: "command_start P ss None False (new_command cmd, t) = (Inr ch, (c1, s1))"
    and c1: "cd_chan c1 = Some ch" "cd_rc c1 = None" "pending (world s1) = ls"
    using exec by (simp add: command_start_def new_command_def py_defs quiet_def mark_def cl fx)
  from read_block_feeds [OF served feeds input c1(3) ls c1(1,2)]
  obtain s2 where blk: "?block ch (c1, s1) = (Inr ?r, (c1\<lparr>cd_rc := Some rc\<rparr>, s2))" by blast
  have "\<exists>u. command_execute P ss None False ?block (new_command cmd, t) = (Inr ?r, u)"
    unfolding command_execute_def try_finally_def try_except_def 
      bind_ok [where m = "command_start P ss None False", OF start] bind_ok [where m = "?block ch", OF blk]
    by (simp add: get_rc_def command_finish_def c1 py_defs quiet_def fs)
  then obtain u where "on_new (new_command cmd) (command_execute P ss None False ?block) t = (Inr ?r, u)"
    by (auto simp: on_new_def split: prod.splits)
  moreover obtain v where "session_exit P ss None u = (Inr (), v)"
    using session_exit_served [where ss = ss] served cl by metis
  ultimately show ?thesis
    using t by (simp add: read_lines_def with_session_def with_ctx_def bind_def return_def)
qed

section \<open>Properties\<close>

lemma dropWhile_none: "newline \<notin> set l \<Longrightarrow> dropWhile (\<lambda>c. c = newline) l = l"
  by (cases l) auto

lemma strip_line_end: "newline \<notin> set l \<Longrightarrow> py_strip_chars [newline] (l @ [newline]) = l"
  using dropWhile_none [of "rev l"] by (cases l) (auto simp: py_strip_chars_def strip_if_def)

text \<open>A library that serves every call and hands out the chunks \<open>ls\<close>.\<close>

definition feeding :: "string list \<Rightarrow> int \<Rightarrow> string list paramiko" where
  "feeding ls rc =
     \<lparr>px_client = return 1, px_load_key = \<lambda>kt f. return 7, px_clear_host_keys = \<lambda>c. return (),
      px_connect = \<lambda>c args. return (), px_close = \<lambda>c. return (),
      px_exec = \<lambda>c line t pty w. (Inr 3, ls), px_write = \<lambda>ch d. return (),
      px_stream_close = \<lambda>ch st. return (), px_read = \<lambda>ch st. return (Bytes []),
      px_readline = \<lambda>ch st w. (case w of [] \<Rightarrow> (Inr [], []) | l # w' \<Rightarrow> (Inr l, w')),
      px_exit_ready = \<lambda>ch. return True, px_recv_exit = \<lambda>ch. return rc,
      px_open_sftp = \<lambda>c. return 4, px_sftp_close = \<lambda>h. return (),
      px_sftp_file = \<lambda>h p m. return 5, px_file_read = \<lambda>h. return [], px_file_write = \<lambda>h d. return (),
      px_file_close = \<lambda>h. return (),
      px_proxy = \<lambda>c. return 6, px_sleep = \<lambda>t. return (), px_decode = id,
      px_getenv = \<lambda>v. None, px_expanduser = id\<rparr>"

lemma feeding_serves: "serves (feeding ls rc) 1 3 line None False rc (Bytes []) (Bytes [])"
  by (auto simp: serves_def feeding_def gives_def return_def)

lemma feeding_feeds: "feeds (feeding ls rc) 3 id"
  by (auto simp: feeds_def feeding_def split: list.splits)

lemma feeding_keeps:
  "id (snd (px_write (feeding ls rc) ch d w)) = id w"
  "id (snd (px_stream_close (feeding ls rc) ch st w)) = id w"
  by (simp_all add: feeding_def return_def)

lemma feeding_exec:
  "id (snd (px_exec (feeding [''PLAY'' @ [newline], [newline], ''ok'' @ [newline]] rc) c line t pty w)) =
    map (\<lambda>l. l @ [newline]) [''PLAY'', [], ''ok'']"
  by (simp add: feeding_def)



text \<open>
  C15. The reader sends the command as it is, also on a \<open>sudo\<close> executor: every execution in
  its trace is the command line of the caller's arguments with no \<open>sudo\<close> in front, and its
  session is closed however the reading ends.
\<close>

theorem read_lines_ignores_sudo:
  "\<exists>ext. trace (snd (read_lines P ex cmd cmd_input fuel s)) = trace s @ ext \<and>
     (ext = [] \<or> (\<exists>c. ext = [Connected c, Closed c] \<or>
        ext = [Connected c, Executed c (list2cmdline (cmd_args cmd)), Closed c]))"
  using read_lines_trace [of P ex cmd cmd_input fuel s] by (simp only: call_trace_def)

end
