(* ===== verification/Services.thy ===== *)
theory Services
  imports Executor
begin

text \<open>
  \<open>rrmngmnt/service.py\<close>: system services under systemd, SysV init and upstart. A service
  is its provider (the class), its name and its time-out; a provider either can handle it or
  raises \<open>CanNotHandle\<close>. Every operation runs commands through \<open>run\<close>, which stands for
  \<open>host.executor().run_cmd\<close>.
\<close>

datatype provider = Systemd | SysVinit | InitCtl

record service =
  sv_provider :: provider
  sv_name :: string
  sv_timeout :: int

definition default_timeout :: int where "default_timeout = 30"

fun provider_cmd :: "provider \<Rightarrow> string" where
  "provider_cmd Systemd = ''systemctl''"
| "provider_cmd SysVinit = ''service''"
| "provider_cmd InitCtl = ''initctl''"

section \<open>Which provider can handle a service\<close>

text \<open>\<open>SystemService._can_handle\<close>.\<close>

definition base_can_handle :: "'s runner \<Rightarrow> service \<Rightarrow> (exn, 's, unit) py" where
  "base_can_handle run sv =
     bind (run_rc run (with_io (sv_timeout sv)) (CList [''which'', provider_cmd (sv_provider sv)])) (\<lambda>rc.
       if rc \<noteq> 0 then raise (CanNotHandle (''Missing '' @ provider_cmd (sv_provider sv))) else return ())"

definition not_supported :: "string list" where
  "not_supported = [''libvirtd'']"

definition init_script :: "string \<Rightarrow> string" where
  "init_script name = ''/etc/init.d/'' @ name"

definition sysvinit_can_handle :: "'s runner \<Rightarrow> service \<Rightarrow> (exn, 's, unit) py" where
  "sysvinit_can_handle run sv =
     (if sv_name sv \<in> set not_supported
      then raise (CanNotHandle (sv_name sv @ '' is not supported''))
      else bind (base_can_handle run sv) (\<lambda>_.
        bind (run_rc run (with_io (sv_timeout sv)) (CTuple [''['', ''-e'', init_script (sv_name sv), '']'']))
          (\<lambda>rc. if rc \<noteq> 0
             then raise (CanNotHandle (''there is missing init script '' @ init_script (sv_name sv)))
             else return ())))"

text \<open>
  \<open>re.match('^.*@', name)\<close>: the part of the first line up to its last at sign, \<open>None\<close>
  when that line has none.
\<close>

definition up_to_at :: "string \<Rightarrow> string option" where
  "up_to_at name =
     (let line = takeWhile (\<lambda>c. c \<noteq> newline) name in
      if CHR ''@'' \<in> set line then Some (rev (dropWhile (\<lambda>c. c \<noteq> CHR ''@'') (rev line))) else None)"

definition no_group :: exn where
  "no_group = AttributeError (squote # ''NoneType'' @ squote # '' object has no attribute '' @
     squote # ''group'' @ [squote])"

definition unit_name :: "string \<Rightarrow> (exn, 's, string) py" where
  "unit_name name =
     (if CHR ''@'' \<in> set name
      then (case up_to_at name of None \<Rightarrow> raise no_group | Some n \<Rightarrow> return n)
      else return name)"

definition list_unit_files :: "string list" where
  "list_unit_files =
     [''systemctl'', ''list-unit-files'', ''|'', ''grep'', ''-o'', ''^[^.][^.]*.service'', ''|'',
      ''cut'', ''-d.'', ''-f1'', ''|'', ''sort'', ''|'', ''uniq'']"

definition not_listed :: "string \<Rightarrow> string list \<Rightarrow> exn" where
  "not_listed name out = CanNotHandle (name @ '' is not listed in '' @ show_cmd (CList out))"

definition systemd_can_handle :: "'s runner \<Rightarrow> service \<Rightarrow> (exn, 's, unit) py" where
  "systemd_can_handle run sv =
     bind (base_can_handle run sv) (\<lambda>_.
     bind (unit_name (sv_name sv)) (\<lambda>name.
     bind (run (with_io (sv_timeout sv)) (CTuple list_unit_files)) (\<lambda>(c, rc, out, err).
       let listed = py_splitlines (py_strip out) in
       if rc \<noteq> 0 \<or> name \<notin> set listed then raise (not_listed (sv_name sv) listed)
       else return ())))"

definition initctl_list :: "string list" where
  "initctl_list =
     [''initctl'', ''list'', ''|'', ''cut'', ''-d'', '' '', ''-f1'', ''|'', ''sort'', ''|'', ''uniq'']"

definition initctl_can_handle :: "'s runner \<Rightarrow> service \<Rightarrow> (exn, 's, unit) py" where
  "initctl_can_handle run sv =
     bind (base_can_handle run sv) (\<lambda>_.
     bind (run (with_io (sv_timeout sv)) (CList initctl_list)) (\<lambda>(c, rc, out, err).
       let listed = py_splitlines (py_strip out) in
       if rc \<noteq> 0 \<or> sv_name sv \<notin> set listed then raise (not_listed (sv_name sv) listed)
       else return ()))"

fun can_handle :: "'s runner \<Rightarrow> service \<Rightarrow> (exn, 's, unit) py" where
  "can_handle run sv = (case sv_provider sv of
     Systemd \<Rightarrow> systemd_can_handle run sv
   | SysVinit \<Rightarrow> sysvinit_can_handle run sv
   | InitCtl \<Rightarrow> initctl_can_handle run sv)"

text \<open>\<open>SystemService.__init__\<close>.\<close>

definition new_service ::
    "'s runner \<Rightarrow> provider \<Rightarrow> string \<Rightarrow> int option \<Rightarrow> (exn, 's, service) py" where
  "new_service run p name timeout =
     (let sv = \<lparr>sv_provider = p, sv_name = name,
        sv_timeout = (case timeout of None \<Rightarrow> default_timeout | Some t \<Rightarrow> t)\<rparr> in
      bind (can_handle run sv) (\<lambda>_. return sv))"

section \<open>Operations\<close>

text \<open>\<open>SysVinit._toggle\<close> and \<open>_manage\<close>.\<close>

definition sysvinit_toggle :: "'s runner \<Rightarrow> service \<Rightarrow> string \<Rightarrow> (exn, 's, bool) py" where
  "sysvinit_toggle run sv action =
     bind (run_rc run (with_io (sv_timeout sv)) (CList [''service'', sv_name sv, action]))
       (\<lambda>rc. return (rc = 0))"

definition sysvinit_manage :: "'s runner \<Rightarrow> service \<Rightarrow> string list \<Rightarrow> (exn, 's, bool) py" where
  "sysvinit_manage run sv action =
     bind (run_rc run (with_io (sv_timeout sv)) (CList ([''chkconfig'', sv_name sv] @ action)))
       (\<lambda>rc. return (rc = 0))"

text \<open>\<open>Systemd._execute\<close>: a failure also fetches the journal, for the log.\<close>

definition systemd_execute :: "'s runner \<Rightarrow> service \<Rightarrow> string \<Rightarrow> (exn, 's, bool) py" where
  "systemd_execute run sv action =
     bind (run_rc run (with_io (sv_timeout sv)) (CList [''systemctl'', action, sv_name sv @ ''.service''])) (\<lambda>rc.
       if rc \<noteq> 0
       then bind (run_rc run (with_io (sv_timeout sv)) (CList [''journalctl'', ''-u'', sv_name sv @ ''.service'']))
         (\<lambda>_. return False)
       else return True)"

definition initctl_execute :: "'s runner \<Rightarrow> service \<Rightarrow> string \<Rightarrow> (exn, 's, string) py" where
  "initctl_execute run sv action =
     bind (run (with_io (sv_timeout sv)) (CList [''initctl'', action, sv_name sv])) (\<lambda>(c, rc, out, err).
       if rc \<noteq> 0 then raise (ServiceError err) else return (py_strip out))"

definition initctl_toggle :: "'s runner \<Rightarrow> service \<Rightarrow> string \<Rightarrow> (exn, 's, bool) py" where
  "initctl_toggle run sv action =
     try_except (bind (initctl_execute run sv action) (\<lambda>_. return True)) is_service_error (\<lambda>_. return False)"

definition initctl_status :: "'s runner \<Rightarrow> service \<Rightarrow> (exn, 's, bool) py" where
  "initctl_status run sv =
     bind (initctl_execute run sv ''status'') (\<lambda>out. return (py_in ''/running'' out))"

definition initctl_restart :: "'s runner \<Rightarrow> service \<Rightarrow> (exn, 's, bool) py" where
  "initctl_restart run sv =
     bind (initctl_status run sv) (\<lambda>running.
       if \<not> running then initctl_toggle run sv ''start'' else initctl_toggle run sv ''restart'')"

text \<open>The methods, and the class each of them is looked up in.\<close>

datatype service_method = Is_enabled | Enable | Disable | Status | Start | Stop | Restart | Reload | Mask | Unmask

fun method_name :: "service_method \<Rightarrow> string" where
  "method_name Is_enabled = ''is-enabled''"
| "method_name Enable = ''enable''"
| "method_name Disable = ''disable''"
| "method_name Status = ''status''"
| "method_name Start = ''start''"
| "method_name Stop = ''stop''"
| "method_name Restart = ''restart''"
| "method_name Reload = ''reload''"
| "method_name Mask = ''mask''"
| "method_name Unmask = ''unmask''"

text \<open>\<open>SystemService\<close>: what a provider without the method raises.\<close>

definition not_implemented :: "service_method \<Rightarrow> exn" where
  "not_implemented m = NotImplementedError
     (if m = Mask \<or> m = Unmask then ''Method supported only under systemd'' else [])"

fun sysvinit_op :: "'s runner \<Rightarrow> service \<Rightarrow> service_method \<Rightarrow> (exn, 's, bool) py" where
  "sysvinit_op run sv Is_enabled = sysvinit_manage run sv []"
| "sysvinit_op run sv Enable = sysvinit_manage run sv [''on'']"
| "sysvinit_op run sv Disable = sysvinit_manage run sv [''off'']"
| "sysvinit_op run sv Mask = raise (not_implemented Mask)"
| "sysvinit_op run sv Unmask = raise (not_implemented Unmask)"
| "sysvinit_op run sv m = sysvinit_toggle run sv (method_name m)"

fun initctl_op :: "'s runner \<Rightarrow> service \<Rightarrow> service_method \<Rightarrow> (exn, 's, bool) py" where
  "initctl_op run sv Status = initctl_status run sv"
| "initctl_op run sv Restart = initctl_restart run sv"
| "initctl_op run sv Start = initctl_toggle run sv ''start''"
| "initctl_op run sv Stop = initctl_toggle run sv ''stop''"
| "initctl_op run sv Reload = initctl_toggle run sv ''reload''"
| "initctl_op run sv m = raise (not_implemented m)"

definition service_op :: "'s runner \<Rightarrow> service \<Rightarrow> service_method \<Rightarrow> (exn, 's, bool) py" where
  "service_op run sv m = (case sv_provider sv of
     Systemd \<Rightarrow> systemd_execute run sv (method_name m)
   | SysVinit \<Rightarrow> sysvinit_op run sv m
   | InitCtl \<Rightarrow> initctl_op run sv m)"

section \<open>Frames\<close>

context executor
begin

lemma can_handle_keeps: "keeps I (can_handle run sv)"
  unfolding can_handle.simps systemd_can_handle_def sysvinit_can_handle_def initctl_can_handle_def
    base_can_handle_def unit_name_def Let_def
  by (cases "sv_provider sv") (simp_all add: keeps_intros run_frames)

lemma new_service_keeps: "keeps I (new_service run p name timeout)"
  unfolding new_service_def Let_def by (intro keeps_intros can_handle_keeps)

lemmas service_parts = systemd_execute_def sysvinit_manage_def sysvinit_toggle_def initctl_toggle_def
  initctl_restart_def initctl_status_def initctl_execute_def

lemma service_op_keeps: "keeps I (service_op run sv m)"
  unfolding service_op_def
  by (cases "sv_provider sv"; cases m) (simp_all add: service_parts keeps_intros run_frames)

end

section \<open>What the operations answer\<close>

text \<open>A template unit is looked up by its part up to the at sign.\<close>

lemma up_to_at_template:
  assumes "newline \<notin> set (base @ inst)" and "CHR ''@'' \<notin> set inst"
  shows "up_to_at (base @ CHR ''@'' # inst) = Some (base @ [CHR ''@''])"
proof -
  have *: "takeWhile (\<lambda>c. c \<noteq> newline) (base @ CHR ''@'' # inst) = base @ CHR ''@'' # inst"
    using assms(1) by (intro takeWhile_eq_all_conv [THEN iffD2]) auto
  have "dropWhile (\<lambda>c. c \<noteq> CHR ''@'') (rev inst @ CHR ''@'' # rev base) = CHR ''@'' # rev base"
    using assms(2) by (subst dropWhile_append2) auto
  then show ?thesis unfolding up_to_at_def Let_def * by simp
qed

text \<open>When each provider handles a service, on a machine whose answers are fixed.\<close>

definition lists :: "(string list \<Rightarrow> int \<times> string \<times> string) \<Rightarrow> string list \<Rightarrow> string \<Rightarrow> bool" where
  "lists g cmd name \<longleftrightarrow> (case g cmd of (rc, out, err) \<Rightarrow>
     rc = 0 \<and> name \<in> set (py_splitlines (py_strip out)))"

definition installed :: "(string list \<Rightarrow> int \<times> string \<times> string) \<Rightarrow> string \<Rightarrow> bool" where
  "installed g cmd \<longleftrightarrow> fst (g [''which'', cmd]) = 0"

fun handles :: "(string list \<Rightarrow> int \<times> string \<times> string) \<Rightarrow> provider \<Rightarrow> string \<Rightarrow> bool" where
  "handles g Systemd name \<longleftrightarrow> installed g ''systemctl'' \<and>
     (case (if CHR ''@'' \<in> set name then up_to_at name else Some name) of
        None \<Rightarrow> False | Some n \<Rightarrow> lists g list_unit_files n)"
| "handles g SysVinit name \<longleftrightarrow> name \<noteq> ''libvirtd'' \<and> installed g ''service'' \<and>
     fst (g [''['', ''-e'', init_script name, '']'']) = 0"
| "handles g InitCtl name \<longleftrightarrow> installed g ''initctl'' \<and> lists g initctl_list name"

lemma can_handle_iff:
  "fst (can_handle (machine_run (fixed g)) \<lparr>sv_provider = p, sv_name = name, sv_timeout = t\<rparr> s) = Inr () \<longleftrightarrow>
    handles g p name"
proof (cases s)
  case (Pair m log)
  then show ?thesis
    by (cases p) (auto simp: systemd_can_handle_def sysvinit_can_handle_def initctl_can_handle_def
        base_can_handle_def unit_name_def installed_def lists_def not_supported_def Let_def py_defs
        split: prod.splits option.splits)
qed

text \<open>A service that can not be handled is reported by \<open>CanNotHandle\<close>: what selects the next
  provider. (A template name broken by a newline is the exception.)\<close>

lemma can_handle_error:
  assumes "\<not> handles g p name" and "newline \<notin> set name"
  shows "\<exists>msg. fst (can_handle (machine_run (fixed g))
    \<lparr>sv_provider = p, sv_name = name, sv_timeout = t\<rparr> s) = Inl (CanNotHandle msg)"
proof (cases s)
  case (Pair m log)
  have *: "takeWhile (\<lambda>c. c \<noteq> newline) name = name"
    using assms(2) by (intro takeWhile_eq_all_conv [THEN iffD2]) auto
  show ?thesis
  proof (cases p)
    case Systemd
    with Pair assms(1) show ?thesis
      by (cases "CHR ''@'' \<in> set name")
        (auto simp: systemd_can_handle_def base_can_handle_def unit_name_def up_to_at_def *
          not_listed_def installed_def lists_def Let_def py_defs split: prod.splits)
  next
    case SysVinit
    with Pair assms(1) show ?thesis
      by (auto simp: sysvinit_can_handle_def base_can_handle_def installed_def not_supported_def py_defs)
  next
    case InitCtl
    with Pair assms(1) show ?thesis
      by (auto simp: initctl_can_handle_def base_can_handle_def not_listed_def installed_def lists_def
          Let_def py_defs split: prod.splits)
  qed
qed

section \<open>Properties\<close>

lemma splitlines_strip_eval: "py_splitlines (py_strip (''getty@'' @ newline # ''sshd'' @ [newline])) =
    [''getty@'', ''sshd'']"
  by code_simp

text \<open>
  C16. Under systemd an instance \<open>base@instance\<close> of a template unit can be handled exactly
  when \<open>systemctl\<close> is there and its list of unit files has the template \<open>base@\<close>; the
  service keeps its full name.
\<close>

theorem systemd_handles_template:
  assumes "newline \<notin> set (base @ inst)" and "CHR ''@'' \<notin> set inst"
  shows "(\<exists>sv. fst (new_service (machine_run (fixed g)) Systemd (base @ CHR ''@'' # inst) t s) = Inr sv \<and>
      sv_name sv = base @ CHR ''@'' # inst) \<longleftrightarrow>
    fst (g [''which'', ''systemctl'']) = 0 \<and> lists g list_unit_files (base @ ''@'')"
proof -
  let ?sv = "\<lparr>sv_provider = Systemd, sv_name = base @ CHR ''@'' # inst,
     sv_timeout = (case t of None \<Rightarrow> default_timeout | Some t \<Rightarrow> t)\<rparr>"
  have "fst (new_service (machine_run (fixed g)) Systemd (base @ CHR ''@'' # inst) t s) =
      map_sum id (\<lambda>_. ?sv) (fst (can_handle (machine_run (fixed g)) ?sv s))"
    by (auto simp: new_service_def Let_def bind_def return_def split: prod.splits sum.splits)
  moreover have "fst (can_handle (machine_run (fixed g)) ?sv s) = Inr () \<longleftrightarrow>
      handles g Systemd (base @ CHR ''@'' # inst)"
    by (rule can_handle_iff)
  ultimately show ?thesis
    by (cases "fst (can_handle (machine_run (fixed g)) ?sv s)")
      (auto simp: up_to_at_template [OF assms] installed_def)
qed

theorem systemd_handles_template_witness:
  "\<exists>sv. fst (new_service (machine_run (fixed (\<lambda>cmd. if cmd = list_unit_files
      then (0, ''getty@'' @ newline # ''sshd'' @ [newline], []) else (0, [], [])))) Systemd ''getty@tty1'' None
      ((), [])) = Inr sv \<and> sv_name sv = ''getty@tty1''"
  using splitlines_strip_eval systemd_handles_template [where base = "''getty''" and inst = "''tty1''" and t = None
      and s = "((), [])" and g = "\<lambda>cmd. if cmd = list_unit_files
        then (0, ''getty@'' @ newline # ''sshd'' @ [newline], []) else (0, [], [])"]
  by (simp add: lists_def list_unit_files_def)

text \<open>
  C17. Restarting an upstart job that is not running starts it: the commands are the status
  query and then \<open>start\<close>, or \<open>restart\<close> when the job runs, and the answer is the success of
  that second command; a failing status query raises its error output.
\<close>

theorem initctl_restart_commands:
  "initctl_restart (machine_run (fixed g)) sv (m, log) =
    (case g [''initctl'', ''status'', sv_name sv] of (rc, out, err) \<Rightarrow>
       if rc \<noteq> 0
       then (Inl (ServiceError err), (m, log @ [[''initctl'', ''status'', sv_name sv]]))
       else let action = (if py_in ''/running'' (py_strip out) then ''restart'' else ''start'') in
         (Inr (fst (g [''initctl'', action, sv_name sv]) = 0),
          (m, log @ [[''initctl'', ''status'', sv_name sv], [''initctl'', action, sv_name sv]])))"
  by (auto simp: initctl_restart_def initctl_status_def initctl_toggle_def initctl_execute_def Let_def
      py_defs split: prod.splits)

end
