(* ===== verification/Packages.thy ===== *)
theory Packages
  imports Executor
begin

text \<open>
  \<open>rrmngmnt/package_manager.py\<close>: the operations every package manager shares, the four
  managers as the values of their class attributes, and the proxy that selects one of them
  on first use. \<open>run\<close> stands for \<open>host.executor().run_cmd\<close>, \<open>h\<close> for the printed host.
\<close>

text \<open>The class attributes; \<open>None\<close> is an operation the class does not define.\<close>

record package_manager =
  pm_binary :: "string option"
  pm_exist :: "string list option"
  pm_list :: "string list option"
  pm_install :: "string list option"
  pm_remove :: "string list option"
  pm_update :: "string list option"

definition first_column :: "string list" where
  "first_column = [''|'', ''cut'', ''-d'', '' '', ''-f'', ''1'', ''|'', ''sed'',
     squote # ''/^$/d'' @ [squote], ''|'', ''tail'', ''-n'', ''+2'']"

definition YumPackageManager :: package_manager where
  "YumPackageManager =
     \<lparr>pm_binary = Some ''yum'',
      pm_exist = Some [''yum'', ''-q'', ''list'', ''installed''],
      pm_list = Some ([''yum'', ''-q'', ''list'', ''installed''] @ first_column),
      pm_install = Some [''yum'', ''install'', ''-y''],
      pm_remove = Some [''yum'', ''remove'', ''-y''],
      pm_update = Some [''yum'', ''update'', ''-y'']\<rparr>"

text \<open>The second assignment of \<open>list_command_d\<close> in the class is the one that counts.\<close>

definition DnfPackageManager :: package_manager where
  "DnfPackageManager =
     \<lparr>pm_binary = Some ''dnf'',
      pm_exist = Some [''dnf'', ''-q'', ''list'', ''installed''],
      pm_list = Some [''dnf'', ''-q'', ''list'', ''installed''],
      pm_install = Some [''dnf'', ''install'', ''-y''],
      pm_remove = Some [''dnf'', ''remove'', ''-y''],
      pm_update = Some [''dnf'', ''update'', ''-y'']\<rparr>"

definition RPMPackageManager :: package_manager where
  "RPMPackageManager =
     \<lparr>pm_binary = Some ''rpm'',
      pm_exist = Some [''rpm'', ''-q''],
      pm_list = Some [''rpm'', ''-qa''],
      pm_install = Some [''rpm'', ''-i''],
      pm_remove = Some [''rpm'', ''-e''],
      pm_update = Some [''rpm'', ''-U'']\<rparr>"

definition APTPackageManager :: package_manager where
  "APTPackageManager =
     \<lparr>pm_binary = Some ''apt'',
      pm_exist = Some [''apt'', ''list'', ''--installed'', ''|'', ''grep''],
      pm_list = Some [''dpkg'', ''--get-selections'', ''|'', ''grep'', ''install'', ''|'', ''cut'', ''-f1''],
      pm_install = Some [''apt'', ''install'', ''-y''],
      pm_remove = Some [''apt'', ''remove'', ''-y''],
      pm_update = Some [''apt'', ''update'', ''-y'']\<rparr>"

section \<open>Operations\<close>

definition is_available :: "'s runner \<Rightarrow> package_manager \<Rightarrow> (exn, 's, bool) py" where
  "is_available run pm = (if \<not> truthy_opt (pm_binary pm)
     then raise (NotImplementedError ''Name of binary file is not available.'')
     else run_ok run [''which'', the (pm_binary pm)])"

text \<open>\<open>_execute_cmd\<close> and \<open>_run_command_on_host\<close>: \<open>None\<close> when the command fails.\<close>

definition execute_cmd ::
    "'s runner \<Rightarrow> string list \<Rightarrow> (exn, 's, (int \<times> string \<times> string) option) py" where
  "execute_cmd run cmd = bind (run default_opts (CList cmd)) (\<lambda>(c, rc, out, err).
     if rc \<noteq> 0 then return None else return (Some (rc, out, err)))"

definition run_command_on_host :: "'s runner \<Rightarrow> string list \<Rightarrow> (exn, 's, bool) py" where
  "run_command_on_host run cmd = bind (execute_cmd run cmd) (\<lambda>res. return (res \<noteq> None))"

definition no_command :: "string \<Rightarrow> exn" where
  "no_command name = NotImplementedError
     (''There is no '' @ squote # name @ squote # '' command defined.'')"

definition package_info :: "'s runner \<Rightarrow> package_manager \<Rightarrow> string \<Rightarrow> (exn, 's, string option) py" where
  "package_info run pm package = (if \<not> truthy_opt (pm_exist pm) then raise (no_command ''exist'')
     else bind (execute_cmd run (the (pm_exist pm) @ [package])) (\<lambda>res. return
       (case res of None \<Rightarrow> None | Some (rc, out, err) \<Rightarrow> Some out)))"

definition package_exist :: "'s runner \<Rightarrow> package_manager \<Rightarrow> string \<Rightarrow> (exn, 's, bool) py" where
  "package_exist run pm package = (if \<not> truthy_opt (pm_exist pm) then raise (no_command ''exist'')
     else run_command_on_host run (the (pm_exist pm) @ [package]))"

text \<open>
  \<open>list_\<close>: the command is the tuple of the class, and the error it raises holds the method
  \<open>host.executor\<close>, which is not called.
\<close>

definition package_list :: "'s runner \<Rightarrow> package_manager \<Rightarrow> (exn, 's, string list) py" where
  "package_list run pm = (if \<not> truthy_opt (pm_list pm) then raise (no_command ''list_'')
     else bind (run default_opts (CTuple (the (pm_list pm)))) (\<lambda>(cmd, rc, out, err).
       if rc = 0 then return (py_split [newline] out)
       else raise (CommandExecutionFailure Exec_method cmd rc err)))"

definition package_install :: "'s runner \<Rightarrow> package_manager \<Rightarrow> string \<Rightarrow> (exn, 's, bool) py" where
  "package_install run pm package =
     (if \<not> truthy_opt (pm_install pm) then raise (no_command ''install'')
      else bind (package_exist run pm package) (\<lambda>there.
        if \<not> there then run_command_on_host run (the (pm_install pm) @ [package])
        else return True))"

definition grep_xargs :: "string \<Rightarrow> string list" where
  "grep_xargs pattern =
     [''|'', ''grep'', ''-E''] @ [squote # pattern @ [squote]] @ [''|'', ''xargs'']"

definition package_remove ::
    "'s runner \<Rightarrow> package_manager \<Rightarrow> string \<Rightarrow> bool \<Rightarrow> (exn, 's, bool) py" where
  "package_remove run pm package pattern =
     (if \<not> truthy_opt (pm_remove pm) then raise (no_command ''remove'')
      else if pattern \<and> \<not> truthy_opt (pm_list pm)
      then raise (NotImplementedError ''list_ is not implemented!'')
      else if pattern
      then bind (run_command_on_host run (the (pm_list pm) @ grep_xargs package @ the (pm_remove pm)))
        (\<lambda>ok. if \<not> ok then return False else return True)
      else bind (package_exist run pm package) (\<lambda>there.
        if \<not> there then return True
        else run_command_on_host run (the (pm_remove pm) @ [package])))"

definition package_update ::
    "'s runner \<Rightarrow> package_manager \<Rightarrow> string list option \<Rightarrow> (exn, 's, bool) py" where
  "package_update run pm packages =
     (if \<not> truthy_opt (pm_update pm) then raise (no_command ''update'')
      else run_command_on_host run
        (the (pm_update pm) @ (if truthy_opt packages then the packages else [])))"

section \<open>The proxy\<close>

definition managers :: "string \<Rightarrow> package_manager option" where
  "managers = [''rpm'' \<mapsto> RPMPackageManager, ''yum'' \<mapsto> YumPackageManager,
     ''dnf'' \<mapsto> DnfPackageManager, ''apt'' \<mapsto> APTPackageManager]"

definition order :: "string list" where
  "order = [''dnf'', ''yum'', ''apt'', ''rpm'']"

definition proxy_call :: "string \<Rightarrow> (exn, 's, package_manager) py" where
  "proxy_call name = (case managers name of
     Some pm \<Rightarrow> return pm | None \<Rightarrow> raise (ValueError (''Unknown package manager: '' @ name)))"

text \<open>\<open>__getattr__\<close>: the manager an operation is looked up in; \<open>_manager\<close> is the object's state.\<close>

fun first_available ::
    "'s runner \<Rightarrow> string \<Rightarrow> string list \<Rightarrow> (exn, 's, package_manager) py" where
  "first_available run h [] = raise (RuntimeError (''Can not determine package manager for '' @ h))"
| "first_available run h (name # names) =
     bind (proxy_call name) (\<lambda>pm.
     bind (is_available run pm) (\<lambda>ok.
       if ok then return pm else first_available run h names))"

definition proxy_getattr ::
    "'s runner \<Rightarrow> string \<Rightarrow> (exn, package_manager option \<times> 's, package_manager) py" where
  "proxy_getattr run h = bind this (\<lambda>chosen. case chosen of
     Some pm \<Rightarrow> return pm
   | None \<Rightarrow> bind (outer (first_available run h order)) (\<lambda>pm.
       bind (set_this (\<lambda>_. Some pm)) (\<lambda>_. return pm)))"

section \<open>Frames\<close>

context executor
begin

lemma package_command_keeps:
  "keeps I (is_available run pm)" "keeps I (execute_cmd run cmd)" "keeps I (run_command_on_host run cmd)"
  unfolding is_available_def execute_cmd_def run_command_on_host_def
  by (intro keeps_intros run_frames)+

lemma package_exist_keeps: "keeps I (package_exist run pm p)"
  unfolding package_exist_def by (intro keeps_intros package_command_keeps)

lemma package_op_keeps:
  "keeps I (package_info run pm p)" "keeps I (package_list run pm)" "keeps I (package_install run pm p)"
  "keeps I (package_remove run pm p pattern)" "keeps I (package_update run pm ps)"
  unfolding package_info_def package_list_def package_install_def package_remove_def package_update_def
  by (intro keeps_intros run_frames package_command_keeps package_exist_keeps)+

lemma first_available_keeps: "keeps I (first_available run h names)"
  unfolding first_available.simps
  by (induction names) (auto simp: proxy_call_def intro!: keeps_intros package_command_keeps)

lemma proxy_getattr_keeps: "keeps (\<lambda>(pm, s). I s) (proxy_getattr run h)"
  unfolding proxy_getattr_def by (intro keeps_intros first_available_keeps)

end

section \<open>What the operations do to the packages\<close>

text \<open>
  What a package tool documents: \<open>exist\<close> succeeds exactly for an installed package and
  changes nothing; a successful installation or removal changes exactly its package, a
  failing one nothing. \<open>inst\<close> are the packages a machine state has.
\<close>

definition succeeds :: "'m machine \<Rightarrow> 'm \<Rightarrow> string list \<Rightarrow> bool" where
  "succeeds f m cmd \<longleftrightarrow> fst (snd (f m cmd)) = 0"

definition obeys :: "'m machine \<Rightarrow> package_manager \<Rightarrow> ('m \<Rightarrow> string set) \<Rightarrow> bool" where
  "obeys f pm inst \<longleftrightarrow> (\<forall>m p.
     (succeeds f m (the (pm_exist pm) @ [p]) \<longleftrightarrow> p \<in> inst m) \<and>
     inst (fst (f m (the (pm_exist pm) @ [p]))) = inst m \<and>
     inst (fst (f m (the (pm_install pm) @ [p]))) =
       (if succeeds f m (the (pm_install pm) @ [p]) then insert p (inst m) else inst m) \<and>
     inst (fst (f m (the (pm_remove pm) @ [p]))) =
       (if succeeds f m (the (pm_remove pm) @ [p]) then inst m - {p} else inst m))"

definition complete :: "package_manager \<Rightarrow> bool" where
  "complete pm \<longleftrightarrow> truthy_opt (pm_binary pm) \<and> truthy_opt (pm_exist pm) \<and> truthy_opt (pm_list pm) \<and>
     truthy_opt (pm_install pm) \<and> truthy_opt (pm_remove pm) \<and> truthy_opt (pm_update pm)"

lemma managers_complete: "managers name = Some pm \<Longrightarrow> complete pm"
  by (auto simp: managers_def complete_def RPMPackageManager_def YumPackageManager_def
      DnfPackageManager_def APTPackageManager_def split: if_splits)

lemma run_command_on_host_machine:
  "run_command_on_host (machine_run f) cmd (m, log) = (Inr (succeeds f m cmd), (fst (f m cmd), log @ [cmd]))"
  by (simp add: run_command_on_host_def execute_cmd_def machine_run_def succeeds_def py_defs split: prod.splits)

lemma package_exist_machine:
  assumes "complete pm" and "obeys f pm inst"
  shows "package_exist (machine_run f) pm p (m, log) =
      (Inr (p \<in> inst m), (fst (f m (the (pm_exist pm) @ [p])), log @ [the (pm_exist pm) @ [p]]))"
  using assms by (simp add: complete_def obeys_def package_exist_def run_command_on_host_machine)

section \<open>Properties\<close>


text \<open>A machine that keeps a list of packages and a tool that refuses \<open>bad\<close>.\<close>

definition package_machine :: "package_manager \<Rightarrow> string list machine" where
  "package_machine pm pkgs cmd =
     (let p = last cmd in
      if butlast cmd = the (pm_exist pm) then (pkgs, (if p \<in> set pkgs then 0 else 1), [], [])
      else if butlast cmd = the (pm_install pm) \<and> p \<noteq> ''bad'' then (p # pkgs, 0, [], [])
      else if butlast cmd = the (pm_remove pm) \<and> p \<noteq> ''bad'' then (removeAll p pkgs, 0, [], [])
      else (pkgs, 1, [], []))"

lemma package_machine_obeys: "obeys (package_machine YumPackageManager) YumPackageManager set"
  by (auto simp: obeys_def succeeds_def package_machine_def YumPackageManager_def)




definition first_found :: "(string list \<Rightarrow> int \<times> string \<times> string) \<Rightarrow> string list \<Rightarrow> string option" where
  "first_found g names = List.find (\<lambda>name. fst (g [''which'', name]) = 0) names"

lemma is_available_fixed:
  "managers name = Some pm \<Longrightarrow> is_available (machine_run (fixed g)) pm (m, log) =
    (Inr (fst (g [''which'', name]) = 0), (m, log @ [[''which'', name]]))"
  by (auto simp: managers_def is_available_def run_ok_def py_defs DnfPackageManager_def
      YumPackageManager_def APTPackageManager_def RPMPackageManager_def split: if_splits prod.splits)

lemma first_available_fixed:
  assumes "\<forall>name\<in>set names. managers name \<noteq> None"
  shows "fst (first_available (machine_run (fixed g)) h names s) =
    (case first_found g names of
       None \<Rightarrow> Inl (RuntimeError (''Can not determine package manager for '' @ h))
     | Some name \<Rightarrow> Inr (the (managers name)))"
  using assms
proof (induction names arbitrary: s)
  case (Cons name names)
  then obtain pm where pm: "managers name = Some pm" by auto
  obtain m log where s: "s = (m, log)" by (cases s)
  from Cons pm show ?case
    by (simp add: s proxy_call_def bind_def return_def is_available_fixed [OF pm] first_found_def)
qed (simp add: first_found_def raise_def)

text \<open>
  C20. The proxy answers with the first manager of \<open>dnf\<close>, \<open>yum\<close>, \<open>apt\<close>, \<open>rpm\<close> whose binary is
  found, remembers it, and asks no further once it has one; with none of them it raises a
  \<open>RuntimeError\<close> and stays undecided.
\<close>

theorem proxy_selects_first:
  "(case proxy_getattr (machine_run (fixed g)) h (None, s) of
      (r, (chosen, s')) \<Rightarrow>
        (case first_found g [''dnf'', ''yum'', ''apt'', ''rpm''] of
           None \<Rightarrow> r = Inl (RuntimeError (''Can not determine package manager for '' @ h)) \<and> chosen = None
         | Some name \<Rightarrow> r = Inr (the (managers name)) \<and> chosen = managers name \<and>
             proxy_getattr (machine_run (fixed g)) h (chosen, s') = (r, (chosen, s'))))"
proof -
  have known: "\<forall>name\<in>set order. managers name \<noteq> None"
    by (simp add: order_def managers_def)
  have found: "first_found g order = Some name \<Longrightarrow> managers name \<noteq> None" for name
    using known by (auto simp: first_found_def find_Some_iff)
  obtain r s' where "first_available (machine_run (fixed g)) h order s = (r, s')"
    by (cases "first_available (machine_run (fixed g)) h order s")
  with first_available_fixed [OF known, where g = g and h = h and s = s] found show ?thesis
    unfolding order_def [symmetric]
    by (cases "first_found g order") (auto simp: proxy_getattr_def py_defs)
qed

text \<open>
  A failing package list raises an error that can not be rendered: it holds the method
  \<open>host.executor\<close> in place of an executor, so its message raises an \<open>AttributeError\<close>.
\<close>

theorem package_list_error_unprintable:
  assumes "truthy_opt (pm_list pm)" and "fst (g (the (pm_list pm))) \<noteq> 0"
  shows "\<exists>x c rc err. fst (package_list (machine_run (fixed g)) pm s) = Inl (CommandExecutionFailure x c rc err) \<and>
    c = CTuple (the (pm_list pm)) \<and> rc = fst (g (the (pm_list pm))) \<and>
    (\<forall>msg. command_failure_str x c rc err \<noteq> Inr msg)"
  using assms by (cases s) (auto simp: package_list_def bind_def raise_def split: prod.splits)

theorem package_list_error_unprintable_witness:
  "\<exists>x c rc err. fst (package_list (machine_run (fixed (\<lambda>cmd. (1, [], ''failed'')))) RPMPackageManager ((), [])) =
      Inl (CommandExecutionFailure x c rc err) \<and> (\<forall>msg. command_failure_str x c rc err \<noteq> Inr msg)"
  using package_list_error_unprintable [where pm = RPMPackageManager and g = "\<lambda>cmd. (1, [], ''failed'')"
      and s = "((), [])"]
  by (auto simp: RPMPackageManager_def)

end
