(* ===== verification/Filesystem.thy ===== *)
theory Filesystem
  imports Executor
begin

text \<open>
  \<open>rrmngmnt/filesystem.py\<close>, the part that runs commands: file tests, creation and removal,
  temporary files, and mount points as objects with a state of their own. \<open>run\<close> stands for
  \<open>host.executor().run_cmd\<close> (and \<open>host.run_command\<close>, which adds log lines only); \<open>x\<close> is the
  executor an error refers to.
\<close>

section \<open>Commands\<close>

definition fs_exec :: "'s runner \<Rightarrow> exec_ref \<Rightarrow> string list \<Rightarrow> (exn, 's, string) py" where
  "fs_exec run x cmd = run_checked run (CList cmd) (\<lambda>c rc out err. CommandExecutionFailure x c rc err)"

definition file_test :: "'s runner \<Rightarrow> char \<Rightarrow> string \<Rightarrow> (exn, 's, bool) py" where
  "file_test run oper path = run_ok run [''['', CHR ''-'' # [oper], path, '']'']"

definition fs_exists :: "'s runner \<Rightarrow> string \<Rightarrow> (exn, 's, bool) py" where
  "fs_exists run path = file_test run (CHR ''e'') path"
definition fs_isfile :: "'s runner \<Rightarrow> string \<Rightarrow> (exn, 's, bool) py" where
  "fs_isfile run path = file_test run (CHR ''f'') path"
definition fs_isdir :: "'s runner \<Rightarrow> string \<Rightarrow> (exn, 's, bool) py" where
  "fs_isdir run path = file_test run (CHR ''d'') path"
definition fs_isexec :: "'s runner \<Rightarrow> string \<Rightarrow> (exn, 's, bool) py" where
  "fs_isexec run path = file_test run (CHR ''x'') path"

definition fs_remove :: "'s runner \<Rightarrow> string \<Rightarrow> (exn, 's, bool) py" where
  "fs_remove run path = run_ok run [''rm'', ''-f'', path]"

definition root_removal :: exn where
  "root_removal = ValueError (''Attempt to remove root dir '' @ squote # ''/'' @ squote # '' !'')"

definition fs_rmdir :: "'s runner \<Rightarrow> string \<Rightarrow> (exn, 's, bool) py" where
  "fs_rmdir run path = (if path = ''/'' then raise root_removal else run_ok run [''rm'', ''-rf'', path])"

definition fs_listdir :: "'s runner \<Rightarrow> string \<Rightarrow> (exn, 's, string list) py" where
  "fs_listdir run path =
     bind (run default_opts (CList [''ls'', ''-A1'', path])) (\<lambda>(c, rc, out, err). return (py_split_ws out))"

text \<open>\<open>touch\<close>: two arguments of which the second is a directory are a name and its directory.\<close>

definition deprecated_touch :: "'s runner \<Rightarrow> string \<Rightarrow> string \<Rightarrow> (exn, 's, bool) py" where
  "deprecated_touch run file_name path = run_ok run [''touch'', path_join path file_name]"

definition fs_touch :: "'s runner \<Rightarrow> string list \<Rightarrow> (exn, 's, bool) py" where
  "fs_touch run args =
     bind (case args of [f, d] \<Rightarrow> fs_isdir run d | _ \<Rightarrow> return False) (\<lambda>deprecated.
       if deprecated then deprecated_touch run (args ! 0) (args ! 1)
       else run_ok run (''touch'' # args))"

definition fs_flush_file :: "'s runner \<Rightarrow> string \<Rightarrow> (exn, 's, bool) py" where
  "fs_flush_file run path = run_ok run [''truncate'', ''-s'', ''0'', path]"

definition fs_read_file :: "'s runner \<Rightarrow> string \<Rightarrow> (exn, 's, string) py" where
  "fs_read_file run path = bind (run default_opts (CList [''cat'', path])) (\<lambda>(c, rc, out, err).
     return (if rc = 0 then out else []))"

definition fs_move :: "'s runner \<Rightarrow> string \<Rightarrow> string \<Rightarrow> (exn, 's, bool) py" where
  "fs_move run src dst = run_ok run [''mv'', src, dst]"

definition mkdir_cmd :: "string \<Rightarrow> bool \<Rightarrow> string option \<Rightarrow> string list" where
  "mkdir_cmd path parents mode =
     [''mkdir''] @ (if parents then [''-p''] else []) @
     (if truthy_opt mode then [''-m'', the mode] else []) @ [path]"

definition fs_mkdir :: "'s runner \<Rightarrow> exec_ref \<Rightarrow> string \<Rightarrow> bool \<Rightarrow> string option \<Rightarrow> (exn, 's, unit) py" where
  "fs_mkdir run x path parents mode =
     bind (fs_exec run x (mkdir_cmd path parents mode)) (\<lambda>_. return ())"

definition fs_chown :: "'s runner \<Rightarrow> exec_ref \<Rightarrow> string \<Rightarrow> string \<Rightarrow> string \<Rightarrow> (exn, 's, unit) py" where
  "fs_chown run x path username groupname =
     bind (fs_exec run x [''chown'', username @ '':'' @ groupname, path]) (\<lambda>_. return ())"

definition fs_chmod :: "'s runner \<Rightarrow> exec_ref \<Rightarrow> string \<Rightarrow> string \<Rightarrow> (exn, 's, unit) py" where
  "fs_chmod run x path mode = bind (fs_exec run x [''chmod'', mode, path]) (\<lambda>_. return ())"

definition mktemp_cmd :: "string option \<Rightarrow> string option \<Rightarrow> bool \<Rightarrow> string list" where
  "mktemp_cmd template tmpdir directory =
     [''mktemp''] @ (if truthy_opt tmpdir then [''-p'', the tmpdir] else []) @
     (if directory then [''-d''] else []) @ (if truthy_opt template then [the template] else [])"

definition fs_mktemp ::
    "'s runner \<Rightarrow> string option \<Rightarrow> string option \<Rightarrow> bool \<Rightarrow> (exn, 's, string) py" where
  "fs_mktemp run template tmpdir directory =
     bind (run_checked run (CList (mktemp_cmd template tmpdir directory)) (\<lambda>c rc out err. FailCreateTemp c))
       (\<lambda>out. return (py_replace [newline] [] out))"

section \<open>Mount points\<close>

record mount_point =
  mp_source :: string
  mp_opts :: "string option"
  mp_fs_type :: "string option"
  mp_target :: "string option"
  mp_tmp :: bool
  mp_mounted :: bool

definition MountPoint ::
    "string \<Rightarrow> string option \<Rightarrow> string option \<Rightarrow> string option \<Rightarrow> mount_point" where
  "MountPoint source target fs_type opts =
     \<lparr>mp_source = source, mp_opts = opts, mp_fs_type = fs_type, mp_target = target,
      mp_tmp = (\<not> truthy_opt target), mp_mounted = False\<rparr>"

definition mount_cmd :: "mount_point \<Rightarrow> string \<Rightarrow> string list" where
  "mount_cmd mp target =
     [''mount'', ''-v''] @
     (if truthy_opt (mp_fs_type mp) then [''-t'', the (mp_fs_type mp)] else []) @
     (if truthy_opt (mp_opts mp) then [''-o'', the (mp_opts mp)] else []) @
     [mp_source mp, target]"

text \<open>A command with \<open>None\<close> in it fails where \<open>run_command\<close> joins it for the log.\<close>

definition none_in_command :: "nat \<Rightarrow> exn" where
  "none_in_command i = TypeError
     (''sequence item '' @ show_nat i @ '': expected str instance, NoneType found'')"

definition mp_mount :: "'s runner \<Rightarrow> (exn, mount_point \<times> 's, unit) py" where
  "mp_mount run = bind this (\<lambda>mp0.
     bind (if mp_tmp mp0
           then bind (outer (fs_mktemp run None None True)) (\<lambda>t. set_this (\<lambda>mp. mp\<lparr>mp_target := Some t\<rparr>))
           else return ()) (\<lambda>_.
     bind this (\<lambda>mp. case mp_target mp of
       None \<Rightarrow> raise (none_in_command (length (mount_cmd mp []) - 1))
     | Some target \<Rightarrow>
         bind (outer (run_checked run (CList (mount_cmd mp target)) (\<lambda>c rc out err. FailToMount out err)))
           (\<lambda>_. set_this (\<lambda>mp. mp\<lparr>mp_mounted := True\<rparr>)))))"

definition umount_cmd :: "bool \<Rightarrow> string \<Rightarrow> string list" where
  "umount_cmd force target = [''umount'', ''-v''] @ (if force then [''-f''] else []) @ [target]"

definition mp_umount :: "'s runner \<Rightarrow> bool \<Rightarrow> (exn, mount_point \<times> 's, unit) py" where
  "mp_umount run force = bind this (\<lambda>mp. case mp_target mp of
     None \<Rightarrow> raise (none_in_command (length (umount_cmd force []) - 1))
   | Some target \<Rightarrow>
       bind (outer (run_checked run (CList (umount_cmd force target)) (\<lambda>c rc out err. FailToUmount out err))) (\<lambda>_.
       bind (if mp_tmp mp
             then bind (outer (fs_listdir run target)) (\<lambda>names.
               if \<not> truthy names then bind (outer (fs_rmdir run target)) (\<lambda>_. return ()) else return ())
             else return ()) (\<lambda>_.
       set_this (\<lambda>mp. mp\<lparr>mp_mounted := False\<rparr>))))"

definition remount_cmd :: "string \<Rightarrow> string \<Rightarrow> string list" where
  "remount_cmd opts target = [''mount'', ''-v'', ''-o'', ''remount,'' @ opts, target]"

definition mp_remount :: "'s runner \<Rightarrow> string \<Rightarrow> (exn, mount_point \<times> 's, unit) py" where
  "mp_remount run opts = bind this (\<lambda>mp.
     if \<not> mp_mounted mp then raise (FailToRemount [] ''not mounted!'')
     else (case mp_target mp of
       None \<Rightarrow> raise (none_in_command 4)
     | Some target \<Rightarrow>
         bind (outer (run_checked run (CList (remount_cmd opts target)) (\<lambda>c rc out err. FailToRemount out err)))
           (\<lambda>_. set_this (\<lambda>mp. mp\<lparr>mp_opts := Some opts\<rparr>))))"

text \<open>\<open>__exit__\<close>: an unmount error is raised only when the block did not fail.\<close>

definition mp_exit :: "'s runner \<Rightarrow> exn option \<Rightarrow> (exn, mount_point \<times> 's, unit) py" where
  "mp_exit run failure =
     try_except (mp_umount run True) is_mount_error
       (\<lambda>e. if failure = None then raise e else return ())"

definition with_mount_point ::
    "'s runner \<Rightarrow> (exn, mount_point \<times> 's, 'a) py \<Rightarrow> (exn, mount_point \<times> 's, 'a) py" where
  "with_mount_point run body = with_ctx (mp_mount run) (\<lambda>_. mp_exit run) (\<lambda>_. body)"

definition or_default :: "string \<Rightarrow> string option \<Rightarrow> string" where
  "or_default d v = (if truthy_opt v then the v else d)"

definition mp_str :: "mount_point \<Rightarrow> string" where
  "mp_str mp = indent12 @ ''Mounting point:'' @ indent12 @ ''source: '' @ mp_source mp @
     indent12 @ ''target: '' @ or_default ''*tmp*'' (mp_target mp) @
     indent12 @ ''file system: '' @ or_default ''DEFAULT'' (mp_fs_type mp) @
     indent12 @ ''options: '' @ or_default ''DEFAULT'' (mp_opts mp) @ indent12"

section \<open>Frames\<close>

context executor
begin

lemmas fs_parts = fs_exec_def file_test_def fs_exists_def fs_isfile_def fs_isdir_def fs_isexec_def
  fs_remove_def fs_rmdir_def fs_listdir_def deprecated_touch_def fs_touch_def fs_flush_file_def
  fs_read_file_def fs_move_def fs_mkdir_def fs_chown_def fs_chmod_def fs_mktemp_def

lemma fs_keeps:
  "keeps I (fs_exists run p)" "keeps I (fs_isfile run p)" "keeps I (fs_isdir run p)" "keeps I (fs_isexec run p)"
  "keeps I (fs_remove run p)" "keeps I (fs_rmdir run p)" "keeps I (fs_listdir run p)"
  "keeps I (fs_touch run ps)" "keeps I (fs_flush_file run p)" "keeps I (fs_read_file run p)"
  "keeps I (fs_move run p q)" "keeps I (fs_mkdir run x p b mo)" "keeps I (fs_chown run x p u g)"
  "keeps I (fs_chmod run x p md)" "keeps I (fs_mktemp run tm td b)"
  unfolding fs_parts by (intro keeps_intros run_frames)+

lemma mp_keeps:
  "keeps (\<lambda>(mp, s). I s) (mp_mount run)" "keeps (\<lambda>(mp, s). I s) (mp_umount run force)"
  "keeps (\<lambda>(mp, s). I s) (mp_remount run opts)" "keeps (\<lambda>(mp, s). I s) (mp_exit run failure)"
  unfolding mp_mount_def mp_umount_def mp_remount_def mp_exit_def
  by (intro keeps_intros run_frames fs_keeps)+

end

section \<open>Reachable mount points\<close>

text \<open>
  The operations of a mount point in any order and with any outcome; a failing call leaves
  what it has done so far.
\<close>

inductive mp_step :: "'s runner \<Rightarrow> mount_point \<times> 's \<Rightarrow> mount_point \<times> 's \<Rightarrow> bool" for run where
  step_mount: "mp_mount run p = (r, q) \<Longrightarrow> mp_step run p q"
| step_umount: "mp_umount run force p = (r, q) \<Longrightarrow> mp_step run p q"
| step_remount: "mp_remount run opts p = (r, q) \<Longrightarrow> mp_step run p q"

inductive mp_reachable :: "'s runner \<Rightarrow> mount_point \<times> 's \<Rightarrow> mount_point \<times> 's \<Rightarrow> bool" for run p where
  reach_start: "mp_reachable run p p"
| reach_step: "mp_reachable run p q \<Longrightarrow> mp_step run q q' \<Longrightarrow> mp_reachable run p q'"

inductive_cases mp_stepE: "mp_step run p q"

text \<open>What stays as the constructor set it, and what \<open>_mounted\<close> implies.\<close>

definition mp_inv :: "mount_point \<Rightarrow> mount_point \<Rightarrow> bool" where
  "mp_inv mp0 mp \<longleftrightarrow> mp_source mp = mp_source mp0 \<and> mp_fs_type mp = mp_fs_type mp0 \<and>
     mp_tmp mp = mp_tmp mp0 \<and> (\<not> mp_tmp mp0 \<longrightarrow> mp_target mp = mp_target mp0) \<and>
     (mp_mounted mp \<longrightarrow> mp_target mp \<noteq> None)"

lemma mp_inv_upd:
  "mp_inv mp0 mp \<Longrightarrow> mp_tmp mp \<Longrightarrow> mp_inv mp0 (mp\<lparr>mp_target := Some t\<rparr>)"
  "mp_inv mp0 mp \<Longrightarrow> mp_target mp \<noteq> None \<Longrightarrow> mp_inv mp0 (mp\<lparr>mp_mounted := True\<rparr>)"
  "mp_inv mp0 mp \<Longrightarrow> mp_inv mp0 (mp\<lparr>mp_mounted := False\<rparr>)"
  "mp_inv mp0 mp \<Longrightarrow> mp_inv mp0 (mp\<lparr>mp_opts := v\<rparr>)"
  by (auto simp: mp_inv_def)

lemma outer_object: "outer m (mp, s) = (r, (mp', s')) \<Longrightarrow> mp' = mp"
  by (auto simp: outer_def split: prod.splits)

lemma mp_mount_inv:
  assumes "mp_mount run (mp, s) = (r, (mp', s'))" and "mp_inv mp0 mp"
  shows "mp_inv mp0 mp'"
proof (cases "mp_tmp mp")
  case True
  obtain r1 s1 where m: "outer (fs_mktemp run None None True) (mp, s) = (r1, (mp, s1))"
    by (cases "fs_mktemp run None None True s") (simp add: outer_def)
  show ?thesis
  proof (cases r1)
    case (Inl e)
    with m True assms show ?thesis by (simp add: mp_mount_def this_def gets_def bind_def)
  next
    case (Inr t)
    let ?mp = "mp\<lparr>mp_target := Some t\<rparr>"
    from assms(2) True have inv: "mp_inv mp0 ?mp" by (rule mp_inv_upd)
    have "mp' = ?mp \<or> mp' = ?mp\<lparr>mp_mounted := True\<rparr>"
      using m Inr True assms(1)
      by (auto simp: mp_mount_def this_def gets_def bind_def set_this_def modify_def
          split: prod.splits sum.splits dest!: outer_object)
    with inv mp_inv_upd(2) [OF inv] show ?thesis by auto
  qed
next
  case False
  have "mp' = mp \<or> mp_target mp \<noteq> None \<and> mp' = mp\<lparr>mp_mounted := True\<rparr>"
    using False assms(1)
    by (auto simp: mp_mount_def this_def gets_def bind_def set_this_def modify_def return_def raise_def
        split: prod.splits sum.splits option.splits dest!: outer_object)
  with assms(2) show ?thesis by (auto intro: mp_inv_upd)
qed

lemma mp_umount_object:
  "mp_umount run force (mp, s) = (r, (mp', s')) \<Longrightarrow> mp' = mp \<or> mp' = mp\<lparr>mp_mounted := False\<rparr>"
  by (auto simp: mp_umount_def this_def gets_def bind_def set_this_def modify_def return_def raise_def
      split: prod.splits sum.splits option.splits if_splits dest!: outer_object)

lemma mp_remount_object:
  "mp_remount run opts (mp, s) = (r, (mp', s')) \<Longrightarrow> mp' = mp \<or> mp' = mp\<lparr>mp_opts := Some opts\<rparr>"
  by (auto simp: mp_remount_def this_def gets_def bind_def set_this_def modify_def return_def raise_def
      split: prod.splits sum.splits option.splits if_splits dest!: outer_object)

lemma mp_step_inv: "mp_step run p q \<Longrightarrow> mp_inv mp0 (fst p) \<Longrightarrow> mp_inv mp0 (fst q)"
  by (cases p; cases q)
    (auto elim!: mp_stepE dest!: mp_umount_object mp_remount_object intro: mp_mount_inv mp_inv_upd)

lemma mp_reachable_inv:
  "mp_reachable run p q \<Longrightarrow> mp_inv (fst p) (fst p) \<Longrightarrow> mp_inv (fst p) (fst q)"
  by (induction rule: mp_reachable.induct) (auto intro: mp_step_inv)

section \<open>Properties\<close>

text \<open>
  C21. The block of a mount point is always followed by an unmount, when the mount succeeded:
  the outcome is that of the block, unless unmounting fails, and then the error of the block
  wins over an unmount error but over no other.
\<close>

theorem with_mount_point_outcome:
  assumes "mp_mount run p = (Inr (), p1)" and "body p1 = (r, p2)" and "mp_umount run True p2 = (u, p3)"
  shows "with_mount_point run body p =
    ((case u of
        Inr _ \<Rightarrow> r
      | Inl e' \<Rightarrow> (case r of Inl e \<Rightarrow> if is_mount_error e' then Inl e else Inl e' | Inr a \<Rightarrow> Inl e')), p3)"
  using assms by (auto simp: with_mount_point_def mp_exit_def py_defs split: sum.splits)

definition mount_answers :: "string list \<Rightarrow> int \<times> string \<times> string" where
  "mount_answers cmd = (if hd cmd = ''mktemp'' then (0, ''/tmp/d'' @ [newline], [])
     else if hd cmd = ''umount'' then (32, [], ''busy'') else (0, [], []))"

theorem with_mount_point_outcome_witness:
  "fst (with_mount_point (machine_run (fixed mount_answers)) (raise (OtherException ''body'') :: (exn, _, unit) py)
      (MountPoint ''/dev/sdb1'' None None None, ((), []))) = Inl (OtherException ''body'')"
proof -
  let ?run = "machine_run (fixed mount_answers)"
  let ?p = "(MountPoint ''/dev/sdb1'' None None None, ((), []))"
  have "\<exists>s1. mp_mount ?run ?p =
      (Inr (), (fst ?p\<lparr>mp_target := Some ''/tmp/d'', mp_mounted := True\<rparr>, s1))"
    by (simp add: MountPoint_def mp_mount_def fs_mktemp_def run_checked_def mount_cmd_def mktemp_cmd_def
        mount_answers_def py_defs py_replace_delete)
  then obtain s1 where m: "mp_mount ?run ?p =
      (Inr (), (fst ?p\<lparr>mp_target := Some ''/tmp/d'', mp_mounted := True\<rparr>, s1))" by blast
  obtain s2 where "mp_umount ?run True (fst ?p\<lparr>mp_target := Some ''/tmp/d'', mp_mounted := True\<rparr>, s1) =
      (Inl (FailToUmount [] ''busy''), s2)"
    by (cases s1) (simp add: mp_umount_def run_checked_def umount_cmd_def mount_answers_def py_defs)
  from with_mount_point_outcome [OF m _ this, where body = "raise (OtherException ''body'') :: (exn, _, unit) py"
      and r = "Inl (OtherException ''body'')"]
  show ?thesis by (simp add: raise_def)
qed

text \<open>
  C22. Unmounting removes a temporary directory only after a successful unmount and an empty
  listing, and never the directory the caller gave; every command of the operation and its
  outcome on each branch. (The listing's exit status is not looked at.)
\<close>

theorem umount_removes_only_empty_temporary:
  assumes "mp_target mp = Some d" and "d \<noteq> ''/''"
  shows "mp_umount (machine_run (fixed g)) force (mp, (m, log)) =
    (let unmount = umount_cmd force d; list = [''ls'', ''-A1'', d]; delete = [''rm'', ''-rf'', d] in
     case g unmount of (rc, out, err) \<Rightarrow>
       if rc \<noteq> 0 then (Inl (FailToUmount out err), (mp, (m, log @ [unmount])))
       else (Inr (), (mp\<lparr>mp_mounted := False\<rparr>, (m, log @ [unmount] @
         (if mp_tmp mp then [list] @ (if py_split_ws (fst (snd (g list))) = [] then [delete] else [])
          else [])))))"
  using assms
  by (auto simp: mp_umount_def run_checked_def fs_listdir_def fs_rmdir_def run_ok_def Let_def py_defs
      split: prod.splits)

theorem umount_removes_only_empty_temporary_witness:
  "mp_umount (machine_run (fixed (\<lambda>cmd. (0, if hd cmd = ''ls'' then ''f'' @ [newline] else [], [])))) True
      ((MountPoint ''/dev/sdb1'' None None None)\<lparr>mp_target := Some ''/tmp/d'', mp_mounted := True\<rparr>, ((), [])) =
    (Inr (), ((MountPoint ''/dev/sdb1'' None None None)\<lparr>mp_target := Some ''/tmp/d''\<rparr>,
      ((), [[''umount'', ''-v'', ''-f'', ''/tmp/d''], [''ls'', ''-A1'', ''/tmp/d'']])))"
  using umount_removes_only_empty_temporary [where
      mp = "(MountPoint ''/dev/sdb1'' None None None)\<lparr>mp_target := Some ''/tmp/d'', mp_mounted := True\<rparr>"
      and d = "''/tmp/d''" and g = "\<lambda>cmd. (0, if hd cmd = ''ls'' then ''f'' @ [newline] else [], [])"
      and force = True and m = "()" and log = "[]"]
  by (simp add: MountPoint_def umount_cmd_def py_split_ws_def text_simps)



text \<open>
  C24. A failing mount at a temporary directory leaves that directory behind: the commands are
  its creation and the mount, and nothing removes it.
\<close>

theorem failed_mount_leaks_directory:
  assumes "mp_tmp mp" and "g [''mktemp'', ''-d''] = (0, d @ [newline], e)" and "newline \<notin> set d"
    and "g (mount_cmd mp d) = (rc, out, err)" and "rc \<noteq> 0"
  shows "with_mount_point (machine_run (fixed g)) body (mp, (m, log)) =
    (Inl (FailToMount out err), (mp\<lparr>mp_target := Some d\<rparr>, (m, log @ [[''mktemp'', ''-d''], mount_cmd mp d])))"
proof -
  have "filter (\<lambda>c. c \<noteq> newline) d = d" using assms(3) by (auto intro: filter_True)
  moreover have "mount_cmd (mp\<lparr>mp_target := Some d\<rparr>) d = mount_cmd mp d" by (simp add: mount_cmd_def)
  ultimately show ?thesis
    using assms by (simp add: with_mount_point_def mp_mount_def fs_mktemp_def mktemp_cmd_def
        run_checked_def py_replace_delete py_defs)
qed

theorem failed_mount_leaks_directory_witness:
  "snd (snd (with_mount_point (machine_run (fixed (\<lambda>cmd. if hd cmd = ''mount'' then (32, [], ''no'')
      else (0, ''/tmp/d'' @ [newline], [])))) (return ()) (MountPoint ''/dev/sdb1'' None None None, ((), [])))) =
    ((), [[''mktemp'', ''-d''], [''mount'', ''-v'', ''/dev/sdb1'', ''/tmp/d'']])"
  using failed_mount_leaks_directory [where mp = "MountPoint ''/dev/sdb1'' None None None" and d = "''/tmp/d''"
      and g = "\<lambda>cmd. if hd cmd = ''mount'' then (32, [], ''no'') else (0, ''/tmp/d'' @ [newline], [])"
      and m = "()" and log = "[]" and e = "[]" and out = "[]" and err = "''no''" and rc = 32
      and body = "return () :: (exn, mount_point \<times> (unit \<times> string list list), unit) py"]
  by (simp add: MountPoint_def mount_cmd_def)

text \<open>
  A directory listing gives back the names, when none of them is empty or contains white
  space: what \<open>ls -A1\<close> prints, one name on a line, is split at any white space.
\<close>

theorem listdir_names:
  assumes "g [''ls'', ''-A1'', path] = (rc, concat (map (\<lambda>w. w @ [newline]) names), err)"
    and "\<forall>w\<in>set names. w \<noteq> [] \<and> ws_free w"
  shows "fst (fs_listdir (machine_run (fixed g)) path s) = Inr names"
  using assms by (cases s) (simp add: fs_listdir_def bind_def return_def split_ws_lines)

theorem listdir_names_witness:
  "fst (fs_listdir (machine_run (fixed (\<lambda>cmd. (0, ''a.txt'' @ newline # ''.profile'' @ [newline], []))))
      ''/root'' ((), [])) = Inr [''a.txt'', ''.profile'']"
  using listdir_names [where g = "\<lambda>cmd. (0, ''a.txt'' @ newline # ''.profile'' @ [newline], [])" and rc = 0
      and path = "''/root''" and names = "[''a.txt'', ''.profile'']" and err = "[]" and s = "((), [])"]
  by (simp add: ws_free_def text_simps)

end
