(* ===== verification/FileTransfer.thy ===== *)
theory FileTransfer
  imports SshContract Filesystem
begin

text \<open>
  The part of \<open>rrmngmnt/filesystem.py\<close> that works on sessions: writing files and scripts,
  copying between the local machine and hosts, and downloads with progress. The executors are
  those \<open>host.executor()\<close> gives; the local file system is the argument \<open>L\<close>.
\<close>

record 'w localfs =
  lf_isdir :: "string \<Rightarrow> (exn, 'w, bool) py"
  lf_open :: "string \<Rightarrow> string \<Rightarrow> (exn, 'w, nat) py"
  lf_read :: "nat \<Rightarrow> (exn, 'w, string) py"
  lf_write :: "nat \<Rightarrow> string \<Rightarrow> (exn, 'w, unit) py"
  lf_close :: "nat \<Rightarrow> (exn, 'w, unit) py"

definition with_local ::
    "'w localfs \<Rightarrow> string \<Rightarrow> string \<Rightarrow> (nat \<Rightarrow> (exn, 'w sys, 'a) py) \<Rightarrow> (exn, 'w sys, 'a) py" where
  "with_local L path mode body =
     with_ctx (quiet (lf_open L path mode)) (\<lambda>h _. quiet (lf_close L h)) body"

definition fs_create_file ::
    "'w paramiko \<Rightarrow> remote_executor \<Rightarrow> string \<Rightarrow> string \<Rightarrow> (exn, 'w sys, unit) py" where
  "fs_create_file P ex content path =
     with_session P ex None (\<lambda>ss. open_file P ss path ''wb'' (\<lambda>fh. quiet (px_file_write P fh content)))"

definition fs_create_script ::
    "'w paramiko \<Rightarrow> remote_executor \<Rightarrow> string \<Rightarrow> string \<Rightarrow> (exn, 'w sys, unit) py" where
  "fs_create_script P ex content path =
     with_session P ex None (\<lambda>ss.
       bind (open_file P ss path ''wb'' (\<lambda>fh. quiet (px_file_write P fh content))) (\<lambda>_.
       fs_chmod (remote_run_cmd P ex) (remote_ref ex) path ''+x''))"

text \<open>A destination that is a directory receives the file under its base name.\<close>

definition into_directory :: "string \<Rightarrow> string \<Rightarrow> bool \<Rightarrow> string" where
  "into_directory src dst isdir = (if isdir then path_join dst (path_basename src) else dst)"

definition fs_get ::
    "'w paramiko \<Rightarrow> 'w localfs \<Rightarrow> remote_executor \<Rightarrow> string \<Rightarrow> string \<Rightarrow> (exn, 'w sys, string) py" where
  "fs_get P L ex path_src path_dst =
     bind (quiet (lf_isdir L path_dst)) (\<lambda>isdir.
     let dst = into_directory path_src path_dst isdir in
     bind (with_session P ex None (\<lambda>ss.
       open_file P ss path_src ''rb'' (\<lambda>rh.
         with_local L dst ''wb'' (\<lambda>wh.
           bind (quiet (px_file_read P rh)) (\<lambda>d. quiet (lf_write L wh d))))))
     (\<lambda>_. return dst))"

definition fs_put ::
    "'w paramiko \<Rightarrow> 'w localfs \<Rightarrow> remote_executor \<Rightarrow> string \<Rightarrow> string \<Rightarrow> (exn, 'w sys, string) py" where
  "fs_put P L ex path_src path_dst =
     bind (fs_isdir (remote_run_cmd P ex) path_dst) (\<lambda>isdir.
     let dst = into_directory path_src path_dst isdir in
     bind (with_session P ex None (\<lambda>ss.
       with_local L path_src ''rb'' (\<lambda>rh.
         open_file P ss dst ''wb'' (\<lambda>wh.
           bind (quiet (lf_read L rh)) (\<lambda>d. quiet (px_file_write P wh d))))))
     (\<lambda>_. return dst))"

text \<open>One file read on one session and written on another: the core of a copy between hosts.\<close>

definition copy_between ::
    "'w paramiko \<Rightarrow> remote_executor \<Rightarrow> remote_executor \<Rightarrow> string \<Rightarrow> string \<Rightarrow> (exn, 'w sys, unit) py" where
  "copy_between P ex1 ex2 src dst =
     with_session P ex1 None (\<lambda>h1s.
       with_session P ex2 None (\<lambda>h2s.
         open_file P h1s src ''rb'' (\<lambda>rh.
           open_file P h2s dst ''wb'' (\<lambda>wh.
             bind (quiet (px_file_read P rh)) (\<lambda>d. quiet (px_file_write P wh d))))))"

definition fs_transfer ::
    "'w paramiko \<Rightarrow> remote_executor \<Rightarrow> remote_executor \<Rightarrow> string \<Rightarrow> string \<Rightarrow> (exn, 'w sys, string) py" where
  "fs_transfer P ex target_ex path_src path_dst =
     bind (fs_isdir (remote_run_cmd P target_ex) path_dst) (\<lambda>isdir.
     let dst = into_directory path_src path_dst isdir in
     bind (copy_between P ex target_ex path_src dst) (\<lambda>_. return dst))"

section \<open>Downloads\<close>

text \<open>
  The loop of \<open>wget\<close>: it reads one line of progress and asks for the exit status, until there
  is one. The handler gets the line when the counter stands at 1000.
\<close>

fun wget_loop ::
    "'w paramiko \<Rightarrow> nat \<Rightarrow> (string \<Rightarrow> (exn, 'w sys, unit) py) option \<Rightarrow> nat \<Rightarrow> int
      \<Rightarrow> (exn, cmdobj \<times> 'w sys, int option) py" where
  "wget_loop P ch handler 0 counter = return None"
| "wget_loop P ch handler (Suc fuel) counter =
     bind (outer (quiet (px_readline P ch StdErr))) (\<lambda>line.
     bind (if counter = 1000 \<and> handler \<noteq> None
           then bind (outer (the handler line)) (\<lambda>_. return 0) else return counter) (\<lambda>counter.
     bind (get_rc P False) (\<lambda>rc. case rc of
       Some r \<Rightarrow> return (Some r)
     | None \<Rightarrow> wget_loop P ch handler fuel (counter + 1))))"

definition wget_cmd :: "string \<Rightarrow> string \<Rightarrow> string list" where
  "wget_cmd url output_file = [''wget'', ''-O'', output_file, ''--no-check-certificate'', url]"

definition fs_wget ::
    "'w paramiko \<Rightarrow> remote_executor \<Rightarrow> string \<Rightarrow> string \<Rightarrow> (string \<Rightarrow> (exn, 'w sys, unit) py) option
      \<Rightarrow> nat \<Rightarrow> (exn, 'w sys, string option) py" where
  "fs_wget P ex url output_file handler fuel =
     bind (with_session P ex None (\<lambda>ss.
       on_new (new_command (CList (wget_cmd url output_file)))
         (command_execute P ss None False (\<lambda>ch. wget_loop P ch handler fuel 0)))) (\<lambda>r. case r of
       None \<Rightarrow> return None
     | Some rc \<Rightarrow> if rc \<noteq> 0
         then raise (CommandExecutionFailure (remote_ref ex) (CList (wget_cmd url output_file)) rc
           (''Failed to download file from url '' @ url))
         else return (Some output_file))"

section \<open>Sessions\<close>

lemma keeps_with_local [keeps_intros]:
  "(\<And>h. keeps (traced A) (body h)) \<Longrightarrow> keeps (traced A) (with_local L path mode body)"
  unfolding with_local_def by (intro keeps_intros)

lemmas session_frames = balanced_with_session executor.fs_keeps [OF remote_executor_balanced] keeps_intros

lemma file_ops_balanced:
  "keeps (traced (\<lambda>tr. open_sessions tr = n)) (fs_create_file P ex content path)"
  "keeps (traced (\<lambda>tr. open_sessions tr = n)) (fs_create_script P ex content path)"
  "keeps (traced (\<lambda>tr. open_sessions tr = n)) (fs_get P L ex src dst)"
  "keeps (traced (\<lambda>tr. open_sessions tr = n)) (fs_put P L ex src dst)"
  "keeps (traced (\<lambda>tr. open_sessions tr = n)) (fs_transfer P ex ex2 src dst)"
  unfolding fs_create_file_def fs_create_script_def fs_get_def fs_put_def fs_transfer_def copy_between_def
  by (intro session_frames)+

lemma keeps_wget_loop:
  assumes "\<And>h l. handler = Some h \<Longrightarrow> keeps (traced A) (h l)"
  shows "keeps (on_trace A) (wget_loop P ch handler fuel counter)"
proof (induction fuel arbitrary: counter)
  case (Suc fuel)
  have handled: "keeps (on_trace A) (if counter = 1000 \<and> handler \<noteq> None
      then bind (outer (the handler line)) (\<lambda>_. return 0) else return counter)" for line and counter :: int
    using assms by (cases handler) (auto intro!: keeps_intros)
  show ?case
    unfolding wget_loop.simps
    by (intro keeps_bind handled keeps_case_option Suc keeps_return keeps_trace_outer keeps_quiet keeps_get_rc)
qed (simp add: keeps_return)

lemma balancedD:
  "(\<And>n. keeps (traced (\<lambda>tr. open_sessions tr = n)) m) \<Longrightarrow> open_sessions (trace (snd (m s))) = open_sessions (trace s)"
  by (metis (mono_tags) keepsD traced_iff)

section \<open>Properties\<close>




end
