(* ===== verification/NetText.thy ===== *)
theory NetText
  imports PyText
begin

text \<open>
  The patterns \<open>rrmngmnt/network.py\<close> searches for in the output of \<open>ip\<close>, as matchers: a
  matcher gives the text it matches at the start of a string, and \<open>re_search\<close> tries it from
  left to right. Only the first match of a \<open>findall\<close> is ever used. Each pattern is made of
  runs that the next character can not extend, so a greedy match is the only one.
\<close>

type_synonym matcher = "string \<Rightarrow> string option"

fun re_search :: "matcher \<Rightarrow> string \<Rightarrow> string option" where
  "re_search m [] = m []"
| "re_search m (c # cs) = (case m (c # cs) of Some w \<Rightarrow> Some w | None \<Rightarrow> re_search m cs)"

text \<open>The same with the character before the position, for a look-behind.\<close>

fun re_search_after :: "(char option \<Rightarrow> matcher) \<Rightarrow> char option \<Rightarrow> string \<Rightarrow> string option" where
  "re_search_after m prev [] = m prev []"
| "re_search_after m prev (c # cs) =
     (case m prev (c # cs) of Some w \<Rightarrow> Some w | None \<Rightarrow> re_search_after m (Some c) cs)"

definition is_hex_or_colon :: "char \<Rightarrow> bool" where
  "is_hex_or_colon c \<longleftrightarrow> c \<in> set ''0123456789abcdefABCDEF:''"

text \<open>\<open>(?:\.[0-9]+){n}\<close> after a run of digits, and \<open>[0-9]+(?:\.[0-9]+){3}\<close>.\<close>

fun dotted_rest :: "nat \<Rightarrow> matcher" where
  "dotted_rest 0 s = Some []"
| "dotted_rest (Suc n) s = (case s of
     [] \<Rightarrow> None
   | c # cs \<Rightarrow>
       if c = CHR ''.'' \<and> takeWhile is_digit cs \<noteq> []
       then map_option (\<lambda>w. c # takeWhile is_digit cs @ w) (dotted_rest n (dropWhile is_digit cs))
       else None)"

definition re_ipv4 :: matcher where
  "re_ipv4 s = (if takeWhile is_digit s = [] then None
     else map_option (\<lambda>w. takeWhile is_digit s @ w) (dotted_rest 3 (dropWhile is_digit s)))"

text \<open>\<open>[0-9]+(?:\.[0-9]+){3}[/]+[0-9]{2}\<close>.\<close>

definition re_cidr :: matcher where
  "re_cidr s = (case re_ipv4 s of
     None \<Rightarrow> None
   | Some ip \<Rightarrow>
       let rest = drop (length ip) s;
           slashes = takeWhile (\<lambda>c. c = CHR ''/'') rest;
           digits = take 2 (dropWhile (\<lambda>c. c = CHR ''/'') rest) in
       if slashes \<noteq> [] \<and> length digits = 2 \<and> list_all is_digit digits
       then Some (ip @ slashes @ digits) else None)"

text \<open>\<open>(?<=\s)[0-9a-fA-F:]{3,}(?=\s)\<close> and \<open>(?<=\s)[0-9a-fA-F:]{3,}(?=/[0-9]{1,3}\s)\<close>.\<close>

definition after_space :: "char option \<Rightarrow> bool" where
  "after_space prev \<longleftrightarrow> (case prev of None \<Rightarrow> False | Some c \<Rightarrow> is_ws c)"

definition re_ipv6_word :: "char option \<Rightarrow> matcher" where
  "re_ipv6_word prev s =
     (let w = takeWhile is_hex_or_colon s; rest = dropWhile is_hex_or_colon s in
      if after_space prev \<and> 3 \<le> length w \<and> rest \<noteq> [] \<and> is_ws (hd rest) then Some w else None)"

definition prefix_length_follows :: "string \<Rightarrow> bool" where
  "prefix_length_follows rest \<longleftrightarrow> (case rest of
     [] \<Rightarrow> False
   | c # cs \<Rightarrow>
       let ds = takeWhile is_digit cs; after = dropWhile is_digit cs in
       c = CHR ''/'' \<and> 1 \<le> length ds \<and> length ds \<le> 3 \<and> after \<noteq> [] \<and> is_ws (hd after))"

definition re_ipv6_prefixed :: "char option \<Rightarrow> matcher" where
  "re_ipv6_prefixed prev s =
     (let w = takeWhile is_hex_or_colon s in
      if after_space prev \<and> 3 \<le> length w \<and> prefix_length_follows (dropWhile is_hex_or_colon s)
      then Some w else None)"

text \<open>\<open>@.*\<close>, up to the end of the line.\<close>

definition re_at_rest :: matcher where
  "re_at_rest s = (case s of
     [] \<Rightarrow> None | c # cs \<Rightarrow> if c = CHR ''@'' then Some (takeWhile (\<lambda>c. c \<noteq> newline) s) else None)"

section \<open>What the searches find\<close>

lemma re_search_skip:
  assumes "\<And>k. k < length xs \<Longrightarrow> m (drop k xs @ s) = None"
  shows "re_search m (xs @ s) = re_search m s"
  using assms
proof (induction xs)
  case (Cons x xs)
  have "m (drop k xs @ s) = None" if "k < length xs" for k
    using Cons.prems [of "Suc k"] that by simp
  with Cons.IH Cons.prems [of 0] show ?case by simp
qed simp

text \<open>A dotted quad, as text.\<close>

definition digits :: "string \<Rightarrow> bool" where
  "digits w \<longleftrightarrow> w \<noteq> [] \<and> list_all is_digit w"

definition dotted :: "string \<Rightarrow> string \<Rightarrow> string \<Rightarrow> string \<Rightarrow> string" where
  "dotted a b c d = a @ CHR ''.'' # b @ CHR ''.'' # c @ CHR ''.'' # d"

lemma digits_span:
  assumes "digits w" and "s = [] \<or> \<not> is_digit (hd s)"
  shows "takeWhile is_digit (w @ s) = w" and "dropWhile is_digit (w @ s) = s"
proof -
  from assms(1) have w: "\<And>c. c \<in> set w \<Longrightarrow> is_digit c" by (simp add: digits_def list_all_iff)
  have s: "takeWhile is_digit s = []" "dropWhile is_digit s = s" using assms(2) by (cases s; simp)+
  show "takeWhile is_digit (w @ s) = w" "dropWhile is_digit (w @ s) = s" using w s by simp_all
qed

lemma dot_no_digit [simp]: "\<not> is_digit CHR ''.''" by (simp add: is_digit_def)

lemma re_ipv4_dotted:
  assumes "digits a" "digits b" "digits c" "digits d" and "s = [] \<or> \<not> is_digit (hd s)"
  shows "re_ipv4 (dotted a b c d @ s) = Some (dotted a b c d)"
proof -
  have ne: "a \<noteq> []" "b \<noteq> []" "c \<noteq> []" "d \<noteq> []" using assms by (simp_all add: digits_def)
  show ?thesis
    unfolding re_ipv4_def dotted_def
    by (simp add: digits_span assms ne numeral_3_eq_3)
qed

lemma re_ipv4_not_digit: "s = [] \<or> \<not> is_digit (hd s) \<Longrightarrow> re_ipv4 s = None"
  by (cases s) (auto simp: re_ipv4_def)

lemma re_cidr_dotted:
  assumes "digits a" "digits b" "digits c" "digits d" and "is_digit x" "is_digit y"
  shows "re_cidr (dotted a b c d @ CHR ''/'' # x # y # s) = Some (dotted a b c d @ CHR ''/'' # x # y # [])"
proof -
  have "\<not> is_digit CHR ''/''" by (simp add: is_digit_def)
  then have "re_ipv4 (dotted a b c d @ CHR ''/'' # x # y # s) = Some (dotted a b c d)"
    by (intro re_ipv4_dotted assms) simp
  moreover have "x \<noteq> CHR ''/''" using assms(5) by (auto simp: is_digit_def)
  ultimately show ?thesis using assms by (simp add: re_cidr_def Let_def)
qed

end
