(* ===== verification/NetSession.thy ===== *)
theory NetSession
  imports SshContract
begin

text \<open>
  The session a \<open>Network\<close> object keeps open while one of its methods runs
  (\<open>rrmngmnt/network.py\<close>, \<open>_session\<close> and \<open>keep_session\<close>): a counter of the nested calls
  and the session of the outermost one. The theory shows that nested use is transparent,
  which is why the model of the methods decorates the outermost call only, and that a
  method opens exactly one connection and closes it.
\<close>

datatype hostname_handler = HostnameHandler | HostnameCtlHandler

record network =
  nw_session :: "session option"
  nw_count :: int
  nw_hnh :: "hostname_handler option"

definition new_network :: network where
  "new_network = \<lparr>nw_session = None, nw_count = 0, nw_hnh = None\<rparr>"

definition none_has_no :: "string \<Rightarrow> exn" where
  "none_has_no attr = AttributeError (squote # ''NoneType'' @ squote # '' object has no attribute '' @
     squote # attr @ [squote])"

text \<open>\<open>__enter__\<close>: the counter goes up before anything can fail.\<close>

definition nw_enter :: "'w paramiko \<Rightarrow> remote_executor \<Rightarrow> (exn, network \<times> 'w sys, unit) py" where
  "nw_enter P ex =
     bind (set_this (\<lambda>n. n\<lparr>nw_count := nw_count n + 1\<rparr>)) (\<lambda>_.
     bind this (\<lambda>n. case nw_session n of
       Some ss \<Rightarrow> return ()
     | None \<Rightarrow>
         bind (outer (session_init P ex None)) (\<lambda>ss.
         bind (set_this (\<lambda>n. n\<lparr>nw_session := Some ss\<rparr>)) (\<lambda>_.
         outer (session_open P ss)))))"

definition nw_exit :: "'w paramiko \<Rightarrow> exn option \<Rightarrow> (exn, network \<times> 'w sys, unit) py" where
  "nw_exit P x =
     bind (set_this (\<lambda>n. n\<lparr>nw_count := nw_count n - 1\<rparr>)) (\<lambda>_.
     bind this (\<lambda>n.
       if nw_count n = 0
       then bind (set_this (\<lambda>n. n\<lparr>nw_session := None\<rparr>)) (\<lambda>_.
         case nw_session n of
           None \<Rightarrow> raise (none_has_no ''__exit__'')
         | Some ss \<Rightarrow> outer (session_exit P ss x))
       else return ()))"

definition keep_session ::
    "'w paramiko \<Rightarrow> remote_executor \<Rightarrow> (exn, network \<times> 'w sys, 'a) py \<Rightarrow> (exn, network \<times> 'w sys, 'a) py" where
  "keep_session P ex m = with_ctx (nw_enter P ex) (\<lambda>_. nw_exit P) (\<lambda>_. m)"

definition nw_run :: "'w paramiko \<Rightarrow> (network \<times> 'w sys) runner" where
  "nw_run P opts cmd = bind this (\<lambda>n. case nw_session n of
     None \<Rightarrow> raise (none_has_no ''run_cmd'')
   | Some ss \<Rightarrow> outer (session_run_cmd P ss opts cmd))"

section \<open>Inside a call\<close>

text \<open>
  \<open>held ss n t\<close>: the session \<open>ss\<close> is kept, \<open>n\<close> calls deep, and since the trace was \<open>t\<close> only
  commands on its connection have been executed.
\<close>

definition only_runs :: "nat \<Rightarrow> event list \<Rightarrow> bool" where
  "only_runs c ext \<longleftrightarrow> (\<forall>e\<in>set ext. \<exists>line. e = Executed c line)"

definition held :: "session \<Rightarrow> int \<Rightarrow> event list \<Rightarrow> network \<times> 'w sys \<Rightarrow> bool" where
  "held ss n t = (\<lambda>(nw, s). nw_session nw = Some ss \<and> nw_count nw = n \<and>
     (\<exists>ext. trace s = t @ ext \<and> only_runs (ss_client ss) ext))"

lemma only_runs_simps [simp]:
  "only_runs c []"
  "only_runs c (xs @ ys) \<longleftrightarrow> only_runs c xs \<and> only_runs c ys"
  "only_runs c (e # ext) \<longleftrightarrow> (\<exists>line. e = Executed c line) \<and> only_runs c ext"
  by (auto simp: only_runs_def)

lemma nw_run_held: "keeps (held ss n t) (nw_run P opts cmd)"
proof (rule keepsI)
  fix p :: "network \<times> 'a sys"
  assume h: "held ss n t p"
  obtain nw s where p: "p = (nw, s)" by (cases p)
  from h p have ss: "nw_session nw = Some ss" by (simp add: held_def)
  have "trace (snd (session_run_cmd P ss opts cmd s)) = trace s \<or>
      trace (snd (session_run_cmd P ss opts cmd s)) =
        trace s @ [Executed (ss_client ss) (sent_line (rx_sudo (ss_exec ss)) cmd)]"
    using leadsD [OF session_run_cmd_leads [where t = "trace s" and P = P and ss = ss and opts = opts and cmd = cmd], of s]
    by simp
  then show "held ss n t (snd (nw_run P opts cmd p))"
    using h ss by (auto simp: p held_def nw_run_def this_def gets_def bind_def outer_def split: prod.splits)
qed

text \<open>
  A nested call does exactly what its body does: the counter goes up and down again, and the
  session stays.
\<close>

lemma nw_enter_held:
  "nw_session nw = Some ss \<Longrightarrow> nw_enter P ex (nw, s) = (Inr (), (nw\<lparr>nw_count := nw_count nw + 1\<rparr>, s))"
  by (simp add: nw_enter_def py_defs)

lemma nw_exit_held:
  "nw_count nw \<noteq> 1 \<Longrightarrow> nw_exit P x (nw, s) = (Inr (), (nw\<lparr>nw_count := nw_count nw - 1\<rparr>, s))"
  by (simp add: nw_exit_def py_defs)

definition deeper :: "int \<Rightarrow> network \<times> 's \<Rightarrow> network \<times> 's" where
  "deeper k p = (fst p\<lparr>nw_count := nw_count (fst p) + k\<rparr>, snd p)"

definition count_free :: "(exn, network \<times> 's, 'a) py \<Rightarrow> bool" where
  "count_free m \<longleftrightarrow> (\<forall>p k. m (deeper k p) = (fst (m p), deeper k (snd (m p)))) \<and>
     (\<forall>p. nw_count (fst (snd (m p))) = nw_count (fst p))"

lemma keep_session_nested:
  assumes "nw_session nw = Some ss" and "0 < nw_count nw" and "count_free m"
  shows "keep_session P ex m (nw, s) = m (nw, s)"
proof -
  obtain r nw' s' where r: "m (nw, s) = (r, (nw', s'))" by (cases "m (nw, s)") auto
  have body: "m (nw\<lparr>nw_count := nw_count nw + 1\<rparr>, s) = (r, (nw'\<lparr>nw_count := nw_count nw' + 1\<rparr>, s'))"
    and c: "nw_count nw' = nw_count nw"
    using assms(3) r unfolding count_free_def deeper_def by (metis fst_conv snd_conv)+
  have "nw_exit P x (nw'\<lparr>nw_count := nw_count nw' + 1\<rparr>, s') = (Inr (), (nw', s'))" for x
    using assms(2) c by (subst nw_exit_held) simp_all
  then show ?thesis
    using nw_enter_held [OF assms(1), where P = P and ex = ex and s = s] body r
    by (cases r) (simp_all add: keep_session_def with_ctx_def bind_def return_def raise_def)
qed

lemma count_free_intros:
  "count_free (return a)" "count_free (raise e)" "count_free (nw_run P opts cmd)" "count_free (outer m')"
  by (auto simp: count_free_def deeper_def nw_run_def py_defs split: prod.splits option.splits)

lemma count_free_bind:
  assumes m: "count_free m" and f: "\<And>a. count_free (f a)"
  shows "count_free (bind m f)"
  unfolding count_free_def
proof (intro conjI allI)
  fix p k
  obtain r q where r: "m p = (r, q)" by (cases "m p")
  have "m (deeper k p) = (fst (m p), deeper k (snd (m p)))" using m unfolding count_free_def by blast
  with r have d: "m (deeper k p) = (r, deeper k q)" by simp
  have "nw_count (fst (snd (m p))) = nw_count (fst p)" using m unfolding count_free_def by blast
  with r have c: "nw_count (fst q) = nw_count (fst p)" by simp
  have fa: "f a (deeper k q) = (fst (f a q), deeper k (snd (f a q)))"
    "nw_count (fst (snd (f a q))) = nw_count (fst q)" for a
    using f [of a] unfolding count_free_def by blast+
  show "bind m f (deeper k p) = (fst (bind m f p), deeper k (snd (bind m f p)))"
    using fa r d by (cases r) (simp_all add: bind_def)
  show "nw_count (fst (snd (bind m f p))) = nw_count (fst p)"
    using fa r c by (cases r) (simp_all add: bind_def)
qed

section \<open>One connection for a call\<close>

text \<open>The session a clean object is left with by \<open>__enter__\<close>, and what a failure leaves.\<close>

lemma nw_enter_clean:
  assumes "nw_session nw = None" and "nw_count nw = 0"
  shows "case nw_enter P ex (nw, s) of
      (Inr _, (nw', s')) \<Rightarrow> \<exists>ss. held ss 1 (trace s @ [Connected (ss_client ss)]) (nw', s') \<and> nw_hnh nw' = nw_hnh nw
    | (Inl e, (nw', s')) \<Rightarrow> trace s' = trace s \<and> nw_count nw' = 1"
proof -
  obtain r u where u: "session_init P ex None s = (r, u)" by (cases "session_init P ex None s")
  have tu: "trace u = trace s"
    using keepsD_eq [OF keeps_session_init [of "\<lambda>tr. tr = trace s"] u] by simp
  show ?thesis
  proof (cases r)
    case (Inl e)
    with assms u tu show ?thesis by (simp add: nw_enter_def py_defs)
  next
    case (Inr ss)
    with assms u tu session_open_trace [where P = P and ss = ss and s = u] show ?thesis
      by (auto simp: nw_enter_def py_defs held_def split: prod.splits sum.splits)
  qed
qed

lemma nw_exit_clean:
  assumes "held ss 1 t p"
  shows "\<exists>ext nw' s'. snd (nw_exit P x p) = (nw', s') \<and> nw_session nw' = None \<and> nw_count nw' = 0 \<and>
    trace s' = t @ ext @ [Closed (ss_client ss)] \<and> only_runs (ss_client ss) ext"
proof -
  obtain nw s where p: "p = (nw, s)" by (cases p)
  from assms p obtain ext where ext: "trace s = t @ ext" "only_runs (ss_client ss) ext"
    and nw: "nw_session nw = Some ss" "nw_count nw = 1" by (auto simp: held_def)
  have "trace (snd (session_exit P ss x s)) = trace s @ [Closed (ss_client ss)]"
    using leadsD [OF session_exit_leads [where t = "trace s" and P = P and ss = ss and x = x], of s] by simp
  with ext nw show ?thesis
    by (cases "session_exit P ss x s") (auto simp: p nw_exit_def py_defs)
qed

text \<open>
  A call on a clean object whose body stays inside its session: either the connection could
  not be made and nothing was sent, or there is exactly one connection, with only commands on
  it, closed at the end, and the object is clean again.
\<close>

definition one_connection :: "event list \<Rightarrow> bool" where
  "one_connection ext \<longleftrightarrow> (\<exists>c runs. ext = [Connected c] @ runs @ [Closed c] \<and> only_runs c runs)"

lemma keep_session_one_connection:
  assumes "nw_session nw = None" and "nw_count nw = 0"
    and "\<And>ss t. keeps (held ss 1 t) m"
  shows "\<exists>ext nw' s'. snd (keep_session P ex m (nw, s)) = (nw', s') \<and> trace s' = trace s @ ext \<and>
    (one_connection ext \<and> nw_session nw' = None \<and> nw_count nw' = 0 \<or>
     ext = [] \<and> (\<exists>e. fst (keep_session P ex m (nw, s)) = Inl e))"
proof -
  let ?Q = "\<lambda>(nw', s'). \<exists>ext. trace s' = trace s @ ext \<and> one_connection ext \<and> nw_session nw' = None \<and> nw_count nw' = 0"
  obtain r q where q: "nw_enter P ex (nw, s) = (r, q)" by (cases "nw_enter P ex (nw, s)")
  show ?thesis
  proof (cases r)
    case (Inl e)
    with q nw_enter_clean [OF assms(1,2), where P = P and ex = ex and s = s] show ?thesis
      by (cases q) (auto simp: keep_session_def with_ctx_def bind_def)
  next
    case (Inr u)
    with q nw_enter_clean [OF assms(1,2), where P = P and ex = ex and s = s] obtain ss
      where h: "held ss 1 (trace s @ [Connected (ss_client ss)]) q" by (cases q) auto
    obtain r' p where p: "m q = (r', p)" by (cases "m q")
    from assms(3) p h have hp: "held ss 1 (trace s @ [Connected (ss_client ss)]) p" by (rule keepsD_eq)
    have Q: "?Q (snd (nw_exit P x p))" for x
    proof -
      from nw_exit_clean [OF hp, where P = P and x = x] obtain ext nw' s' where
        e: "snd (nw_exit P x p) = (nw', s')" "nw_session nw' = None" "nw_count nw' = 0"
          "trace s' = trace s @ ([Connected (ss_client ss)] @ ext @ [Closed (ss_client ss)])"
        and o: "only_runs (ss_client ss) ext" by auto
      from o have "one_connection ([Connected (ss_client ss)] @ ext @ [Closed (ss_client ss)])"
        unfolding one_connection_def by blast
      with e show ?thesis by (auto simp del: append_Cons append_Nil)
    qed
    have "snd (keep_session P ex m (nw, s)) =
        snd (nw_exit P (case r' of Inl e \<Rightarrow> Some e | Inr a \<Rightarrow> None) p)"
      using q Inr p by (cases r') (auto simp: keep_session_def with_ctx_def bind_def return_def raise_def
          split: prod.splits sum.splits)
    then have "?Q (snd (keep_session P ex m (nw, s)))" using Q by simp
    then show ?thesis by (cases "snd (keep_session P ex m (nw, s))") auto
  qed
qed

section \<open>Properties\<close>



text \<open>
  C28. A nested call is transparent: inside a call the decorator changes nothing about what
  the method does, for every method that leaves the counter as it finds it.
\<close>

theorem nested_call_transparent:
  assumes "nw_session nw = Some ss" and "0 < nw_count nw" and "count_free m"
  shows "keep_session P ex m (nw, s) = m (nw, s)"
  using assms by (rule keep_session_nested)

definition held_network :: network where
  "held_network = new_network\<lparr>nw_session := Some \<lparr>ss_exec = some_executor False, ss_timeout = 10,
     ss_client = 1, ss_pkey = None\<rparr>, nw_count := 1\<rparr>"

theorem nested_call_transparent_witness:
  "keep_session (answering 0 [] []) (some_executor False)
      (nw_run (answering 0 [] []) default_opts (CList [''true''])) (held_network, fresh_sys) =
    nw_run (answering 0 [] []) default_opts (CList [''true'']) (held_network, fresh_sys)"
  by (rule nested_call_transparent) (simp_all add: held_network_def new_network_def count_free_intros)



end
