(* ===== verification/Network.thy ===== *)
theory Network
  imports NetSession NetText Filesystem
begin

text \<open>
  \<open>rrmngmnt/network.py\<close>, the methods of \<open>Network\<close> and the host name handlers. The methods
  work over \<open>cmd\<close>, which stands for \<open>self._cmd\<close>, or over \<open>run\<close>, which stands for
  \<open>self._m.runCmd\<close> or \<open>host.run_command\<close>; \<open>network_call\<close> runs one of them in the session of
  a network object. Inner decorators are left out, since a nested call is transparent
  (\<open>nested_call_transparent\<close>). The library \<open>netaddr\<close> is the argument \<open>A\<close>.
\<close>

record netaddr =
  na_valid4 :: "string \<Rightarrow> bool"
  na_valid6 :: "string \<Rightarrow> bool"
  na_address :: "string option \<Rightarrow> exn + nat"
  na_network :: "string \<Rightarrow> exn + nat"
  na_member :: "nat \<Rightarrow> nat \<Rightarrow> bool"

type_synonym 's commander = "string list \<Rightarrow> (exn, 's, string) py"

text \<open>\<open>_cmd\<close>.\<close>

definition net_cmd :: "'s runner \<Rightarrow> exec_ref \<Rightarrow> 's commander" where
  "net_cmd run x cmd = run_checked run (CList cmd) (\<lambda>c rc out err.
     CommandExecutionFailure x c rc (''OUT: '' @ out @ newline # ''ERR: '' @ err))"

section \<open>Host names\<close>

definition handler_get :: "'s runner \<Rightarrow> hostname_handler \<Rightarrow> (exn, 's, string option) py" where
  "handler_get run h = bind (run default_opts (CList (case h of
       HostnameHandler \<Rightarrow> [''hostname'', ''-f'']
     | HostnameCtlHandler \<Rightarrow>
         [''hostnamectl'', ''status'', ''|'', ''grep'', ''hostname'', ''|'', ''tr'', ''-d'', '' '', ''|'',
          ''cut'', ''-d:'', ''-f2'']))) (\<lambda>(c, rc, out, err).
     if rc \<noteq> 0 then return None else return (Some (py_strip out)))"

definition net_config :: string where "net_config = ''/etc/sysconfig/network''"

definition handler_set :: "'s runner \<Rightarrow> exec_ref \<Rightarrow> hostname_handler \<Rightarrow> string \<Rightarrow> (exn, 's, unit) py" where
  "handler_set run x h name = (case h of
     HostnameHandler \<Rightarrow>
       bind (run default_opts (CList
         [''hostname'', name, '';'', ''sed'', ''-i'', ''-e'', ''/^HOSTNAME/d'', net_config, ''&&'',
          ''echo'', ''HOSTNAME='' @ name, ''>>'', net_config])) (\<lambda>(c, rc, out, err).
         if rc \<noteq> 0 then raise (PlainException (''Unable to set hostname: '' @ err)) else return ())
   | HostnameCtlHandler \<Rightarrow>
       bind (run default_opts (CList [''hostnamectl'', ''set-hostname'', name])) (\<lambda>(c, rc, out, err).
         if rc \<noteq> 0
         then raise (CommandExecutionFailure x c rc (''Unable to set hostname: '' @ err))
         else return ()))"

text \<open>The handler is chosen once for an object.\<close>

definition get_hostname_handler ::
    "(network \<times> 's) runner \<Rightarrow> (exn, network \<times> 's, hostname_handler) py" where
  "get_hostname_handler run = bind this (\<lambda>n. case nw_hnh n of
     Some h \<Rightarrow> return h
   | None \<Rightarrow>
       bind (run default_opts (CList [''which'', ''hostnamectl''])) (\<lambda>(c, rc, out, err).
       let h = (if rc = 0 then HostnameCtlHandler else HostnameHandler) in
       bind (set_this (\<lambda>n. n\<lparr>nw_hnh := Some h\<rparr>)) (\<lambda>_. return h)))"

definition get_hostname :: "(network \<times> 's) runner \<Rightarrow> (exn, network \<times> 's, string option) py" where
  "get_hostname run = bind (get_hostname_handler run) (handler_get run)"

definition set_hostname ::
    "(network \<times> 's) runner \<Rightarrow> exec_ref \<Rightarrow> string \<Rightarrow> (exn, network \<times> 's, unit) py" where
  "set_hostname run x name = bind (get_hostname_handler run) (\<lambda>h. handler_set run x h name)"

section \<open>Interfaces and addresses\<close>

definition all_interfaces :: "'s commander \<Rightarrow> (exn, 's, string list) py" where
  "all_interfaces cmd =
     bind (cmd [''ls'', ''-la'', ''/sys/class/net'', ''|'', ''grep'',
         squote # ''dummy_'' @ backslash # ''|pci'' @ [squote], ''|'', ''grep'', ''-o'',
         squote # ''[^/]*$'' @ [squote]])
       (\<lambda>out. return (sort_key (py_in ''dummy_'') (py_splitlines (py_strip out))))"

text \<open>The gateway of the first default route whose address is valid; a default route without
  any address raises.\<close>

fun first_gateway :: "(string \<Rightarrow> string option) \<Rightarrow> (string \<Rightarrow> bool) \<Rightarrow> string list \<Rightarrow> (exn, 's, string option) py" where
  "first_gateway search valid [] = return None"
| "first_gateway search valid (l # ls) =
     (if py_in ''default'' l
      then (case search l of
          None \<Rightarrow> raise IndexError
        | Some gw \<Rightarrow> if valid gw then return (Some gw) else first_gateway search valid ls)
      else first_gateway search valid ls)"

definition find_default_gw :: "netaddr \<Rightarrow> 's commander \<Rightarrow> (exn, 's, string option) py" where
  "find_default_gw A cmd = bind (cmd [''ip'', ''route'']) (\<lambda>out.
     first_gateway (re_search re_ipv4) (na_valid4 A) (py_splitlines out))"

definition find_default_gwv6 :: "netaddr \<Rightarrow> 's commander \<Rightarrow> (exn, 's, string option) py" where
  "find_default_gwv6 A cmd = bind (cmd [''ip'', ''-6'', ''route'']) (\<lambda>out.
     first_gateway (re_search_after re_ipv6_word None) (na_valid6 A) (py_splitlines out))"

definition cidrs :: "string list \<Rightarrow> string list" where
  "cidrs ls = List.map_filter (re_search re_cidr) ls"

definition address_of :: "string \<Rightarrow> string" where
  "address_of cidr = hd (py_split ''/'' cidr)"

definition find_ips :: "netaddr \<Rightarrow> 's commander \<Rightarrow> (exn, 's, string list \<times> string list) py" where
  "find_ips A cmd = bind (cmd [''ip'', ''addr'']) (\<lambda>out.
     let found = cidrs (py_splitlines out) in
     return (filter (na_valid4 A) (map address_of found), found))"

fun first_containing :: "netaddr \<Rightarrow> nat \<Rightarrow> string list \<Rightarrow> (exn, 's, string option) py" where
  "first_containing A gw [] = return None"
| "first_containing A gw (m # ms) =
     bind (of_result (na_network A m)) (\<lambda>net.
       if na_member A gw net then return (Some (address_of m)) else first_containing A gw ms)"

definition find_ip_by_default_gw ::
    "netaddr \<Rightarrow> string option \<Rightarrow> string list \<Rightarrow> (exn, 's, string option) py" where
  "find_ip_by_default_gw A gw ips_and_mask =
     bind (of_result (na_address A gw)) (\<lambda>dgw. first_containing A dgw ips_and_mask)"

definition find_int_by_ip :: "'s commander \<Rightarrow> string \<Rightarrow> (exn, 's, string) py" where
  "find_int_by_ip cmd ip = bind (cmd [''ip'', ''addr'', ''show'', ''to'', ip]) (\<lambda>out.
     bind (index_call (py_split '':'' out) 1) (\<lambda>w. return (py_strip w)))"

definition find_ip_by_int :: "netaddr \<Rightarrow> 's commander \<Rightarrow> string \<Rightarrow> (exn, 's, string option) py" where
  "find_ip_by_int A cmd interface = bind (cmd [''ip'', ''addr'', ''show'', interface]) (\<lambda>out.
     return (case re_search re_ipv4 out of
       None \<Rightarrow> None | Some ip \<Rightarrow> if na_valid4 A ip then Some ip else None))"

fun first_global :: "(string \<Rightarrow> bool) \<Rightarrow> string list \<Rightarrow> string option" where
  "first_global valid [] = None"
| "first_global valid (l # ls) =
     (if py_in ''global'' l
      then (case re_search_after re_ipv6_prefixed None l of
          Some ip \<Rightarrow> if valid ip then Some ip else first_global valid ls
        | None \<Rightarrow> first_global valid ls)
      else first_global valid ls)"

definition find_ipv6_by_int :: "netaddr \<Rightarrow> 's commander \<Rightarrow> string \<Rightarrow> (exn, 's, string option) py" where
  "find_ipv6_by_int A cmd interface = bind (cmd [''ip'', ''-6'', ''addr'', ''show'', interface]) (\<lambda>out.
     return (first_global (na_valid6 A) (py_splitlines out)))"

text \<open>\<open>find_mac_by_int\<close>: \<open>None\<close> stands for the \<open>False\<close> it returns for an unknown interface.\<close>

fun mac_loop :: "'s commander \<Rightarrow> string list \<Rightarrow> string list \<Rightarrow> (exn, 's, string list option) py" where
  "mac_loop cmd [] macs = return (Some macs)"
| "mac_loop cmd (i # ifs) macs =
     bind (all_interfaces cmd) (\<lambda>known.
       if i \<notin> set known then return None
       else bind (cmd [''ethtool'', ''-P'', i]) (\<lambda>out.
         bind (index_call (py_split '': '' out) 1) (\<lambda>mac. mac_loop cmd ifs (macs @ [py_strip mac]))))"

definition find_mac_by_int :: "'s commander \<Rightarrow> string list \<Rightarrow> (exn, 's, string list option) py" where
  "find_mac_by_int cmd interfaces = mac_loop cmd interfaces []"

definition not_subscriptable :: "string \<Rightarrow> exn" where
  "not_subscriptable t = TypeError (squote # t @ squote # '' object is not subscriptable'')"

definition get_mac_by_ip :: "'s commander \<Rightarrow> string \<Rightarrow> (exn, 's, string) py" where
  "get_mac_by_ip cmd ip = bind (find_int_by_ip cmd ip) (\<lambda>i.
     bind (find_mac_by_int cmd [i]) (\<lambda>macs. case macs of
       None \<Rightarrow> raise (not_subscriptable ''bool'')
     | Some ms \<Rightarrow> index_call ms 0))"

definition none_command :: exn where
  "none_command = TypeError ''expected str, bytes or os.PathLike object, not NoneType''"

definition find_mgmt_interface :: "netaddr \<Rightarrow> 's commander \<Rightarrow> (exn, 's, string) py" where
  "find_mgmt_interface A cmd =
     bind (find_ips A cmd) (\<lambda>(ips, ips_and_mask).
     bind (find_default_gw A cmd) (\<lambda>gw.
     bind (find_ip_by_default_gw A gw ips_and_mask) (\<lambda>ip. case ip of
       None \<Rightarrow> raise none_command
     | Some ip \<Rightarrow> find_int_by_ip cmd ip)))"

section \<open>Bridges\<close>

record bridge =
  br_name :: string
  br_id :: string
  br_stp :: string
  br_interfaces :: "string list"

definition list_bridges_cmd :: "string list" where
  "list_bridges_cmd =
     [''brctl'', ''show'', ''|'', ''sed'', ''-e'', ''/^bridge name/ d'', ''-e'',
      squote # ''s/^'' @ backslash # ''s'' @ backslash # ''s*'' @ backslash # ''('' @ backslash # ''S'' @
        backslash # ''S*'' @ backslash # '')$/CONT:'' @ backslash # ''1/I'' @ [squote]]"

text \<open>One line of the table: a further interface of the last bridge, or a new bridge.\<close>

definition add_bridge_line :: "string \<Rightarrow> bridge list \<Rightarrow> (exn, 's, bridge list) py" where
  "add_bridge_line line bridges =
     (if prefix ''CONT:'' line
      then (if bridges = [] then raise IndexError
        else return (butlast bridges @
          [(last bridges)\<lparr>br_interfaces := br_interfaces (last bridges) @ [drop 5 line]\<rparr>]))
      else let ws = py_split_ws line in
        bind (index_call ws 0) (\<lambda>name. bind (index_call ws 1) (\<lambda>id. bind (index_call ws 2) (\<lambda>stp.
          return (bridges @ [\<lparr>br_name = name, br_id = id, br_stp = stp,
            br_interfaces = (if length ws = 4 then [ws ! 3] else [])\<rparr>])))))"

definition list_bridges :: "'s commander \<Rightarrow> (exn, 's, bridge list) py" where
  "list_bridges cmd = bind (cmd list_bridges_cmd) (\<lambda>out.
     if \<not> truthy (py_strip out) then return []
     else for_each add_bridge_line (py_splitlines (py_strip out)) [])"

definition get_bridge :: "'s commander \<Rightarrow> string \<Rightarrow> (exn, 's, bridge option) py" where
  "get_bridge cmd name = bind (list_bridges cmd) (\<lambda>bridges.
     return (case filter (\<lambda>b. br_name b = name) bridges of [] \<Rightarrow> None | b # bs \<Rightarrow> Some b))"

definition find_int_by_bridge :: "'s commander \<Rightarrow> string \<Rightarrow> (exn, 's, string option) py" where
  "find_int_by_bridge cmd name = bind (get_bridge cmd name) (\<lambda>b. case b of
     None \<Rightarrow> raise (not_subscriptable ''NoneType'')
   | Some b \<Rightarrow> return (nth_opt (br_interfaces b) 0))"

definition add_bridge :: "'s commander \<Rightarrow> string \<Rightarrow> string \<Rightarrow> (exn, 's, bool) py" where
  "add_bridge cmd bridge network =
     bind (cmd [''brctl'', ''addbr'', bridge]) (\<lambda>_.
     bind (cmd [''brctl'', ''addif'', bridge, network]) (\<lambda>_. return True))"

definition delete_bridge :: "'s commander \<Rightarrow> string \<Rightarrow> (exn, 's, bool) py" where
  "delete_bridge cmd bridge =
     bind (cmd [''ip'', ''link'', ''set'', ''down'', bridge]) (\<lambda>_.
     bind (cmd [''brctl'', ''delbr'', bridge]) (\<lambda>_. return True))"

text \<open>\<open>get_bridges\<close>; \<open>json.loads\<close> is the argument \<open>loads\<close>.\<close>

definition get_bridges :: "(string \<Rightarrow> exn + 'j) \<Rightarrow> 's commander \<Rightarrow> (exn, 's, 'j) py" where
  "get_bridges loads cmd = bind (cmd [''bridge'', ''-j'', ''link'', ''show'']) (\<lambda>out. of_result (loads out))"

section \<open>The summary of a host\<close>

text \<open>The dictionary of \<open>get_info\<close>; \<open>None\<close> is a key that is not set.\<close>

record net_info =
  ni_gateway :: "string option"
  ni_ip :: "string option option"
  ni_prefix :: "string option"
  ni_bridge :: "string option"
  ni_interface :: "string option option"

definition prefix_of :: "string \<Rightarrow> string list \<Rightarrow> string" where
  "prefix_of ip ips_and_mask =
     (case map (\<lambda>m. last (py_split ''/'' m)) (filter (py_in ip) ips_and_mask) of
        [] \<Rightarrow> ''N/A'' | m # ms \<Rightarrow> m)"

text \<open>\<open>interface.strip(re.findall('@.*', interface)[0])\<close>: strips a set of characters.\<close>

definition strip_at :: "string \<Rightarrow> string" where
  "strip_at interface = (case re_search re_at_rest interface of
     None \<Rightarrow> interface | Some cs \<Rightarrow> py_strip_chars cs interface)"

definition get_info :: "netaddr \<Rightarrow> 's commander \<Rightarrow> (exn, 's, net_info) py" where
  "get_info A cmd =
     bind (find_default_gw A cmd) (\<lambda>gateway.
     let info = \<lparr>ni_gateway = gateway, ni_ip = None, ni_prefix = None, ni_bridge = None, ni_interface = None\<rparr> in
     bind (find_ips A cmd) (\<lambda>(ips, ips_and_mask).
     if gateway = None then return info
     else bind (find_ip_by_default_gw A gateway ips_and_mask) (\<lambda>ip.
       let info = info\<lparr>ni_ip := Some ip\<rparr> in
       case ip of
         None \<Rightarrow> return info
       | Some ip \<Rightarrow>
           let info = info\<lparr>ni_prefix := Some (prefix_of ip ips_and_mask)\<rparr> in
           bind (find_int_by_ip cmd ip) (\<lambda>raw.
           let interface = strip_at raw in
           bind (get_bridge cmd interface) (\<lambda>bridge. case bridge of
             None \<Rightarrow> return (info\<lparr>ni_bridge := Some ''N/A'', ni_interface := Some (Some interface)\<rparr>)
           | Some b \<Rightarrow> bind (find_int_by_bridge cmd (br_name b)) (\<lambda>i.
               return (info\<lparr>ni_bridge := Some (br_name b), ni_interface := Some i\<rparr>)))))))"

section \<open>Changing the network\<close>

definition IFCFG_PATH :: string where "IFCFG_PATH = ''/etc/sysconfig/network-scripts/''"

definition ifcfg_file :: "string \<Rightarrow> string \<Rightarrow> string" where
  "ifcfg_file ifcfg_path nic = path_join ifcfg_path (''ifcfg-'' @ nic)"

definition ifcfg_lines :: "string \<Rightarrow> (string \<times> string) list \<Rightarrow> string list" where
  "ifcfg_lines nic params =
     (''DEVICE='' @ nic @ [newline]) # map (\<lambda>(k, v). k @ ''='' @ v @ [newline]) params"

definition create_ifcfg_file ::
    "'w paramiko \<Rightarrow> remote_executor \<Rightarrow> string \<Rightarrow> (string \<times> string) list \<Rightarrow> string \<Rightarrow> (exn, 'w sys, unit) py" where
  "create_ifcfg_file P ex nic params ifcfg_path =
     with_session P ex None (\<lambda>ss. open_file P ss (ifcfg_file ifcfg_path nic) ''w'' (\<lambda>fh.
       for_each (\<lambda>line _. quiet (px_file_write P fh line)) (ifcfg_lines nic params) ()))"

definition delete_ifcfg_file :: "'s runner \<Rightarrow> string \<Rightarrow> string \<Rightarrow> (exn, 's, bool) py" where
  "delete_ifcfg_file run nic ifcfg_path =
     bind (fs_remove run (ifcfg_file ifcfg_path nic)) (\<lambda>ok. if \<not> ok then return False else return True)"

definition ping_cmd :: "string \<Rightarrow> string \<Rightarrow> string option \<Rightarrow> string option \<Rightarrow> string list" where
  "ping_cmd dst count psize extra_args =
     [''ping'', dst, ''-c'', count] @
     (if truthy_opt psize then [''-s'', the psize, ''-M'', ''do''] else []) @
     (if truthy_opt extra_args then concat (map py_split_ws (py_split_ws (the extra_args))) else [])"

definition send_icmp ::
    "'s commander \<Rightarrow> string \<Rightarrow> string \<Rightarrow> string option \<Rightarrow> string option \<Rightarrow> (exn, 's, bool) py" where
  "send_icmp cmd dst count psize extra_args =
     try_except (bind (cmd (ping_cmd dst count psize extra_args)) (\<lambda>_. return True)) any_exception (\<lambda>_. return False)"

definition set_mtu :: "'s commander \<Rightarrow> string list \<Rightarrow> string \<Rightarrow> (exn, 's, bool) py" where
  "set_mtu cmd nics mtu =
     bind (for_each (\<lambda>nic _.
       bind (shlex_call (''ip link set mtu '' @ mtu @ '' '' @ nic)) (\<lambda>ws. bind (cmd ws) (\<lambda>_. return ()))) nics ())
     (\<lambda>_. return True)"

definition delete_interface :: "'s commander \<Rightarrow> string \<Rightarrow> (exn, 's, bool) py" where
  "delete_interface cmd interface =
     try_except (bind (shlex_call (''ip link del '' @ interface)) (\<lambda>ws. bind (cmd ws) (\<lambda>_. return True)))
       any_exception (\<lambda>_. return False)"

definition run_text :: "'s runner \<Rightarrow> call_opts \<Rightarrow> string \<Rightarrow> (exn, 's, bool) py" where
  "run_text run opts text =
     bind (shlex_call text) (\<lambda>ws. bind (run_rc run opts (CList ws)) (\<lambda>rc. return (rc = 0)))"

definition if_up :: "'s runner \<Rightarrow> string \<Rightarrow> (exn, 's, bool) py" where
  "if_up run nic = run_text run default_opts (''ip link set '' @ nic @ '' up'')"

definition if_down :: "'s runner \<Rightarrow> string \<Rightarrow> int \<Rightarrow> int \<Rightarrow> (exn, 's, bool) py" where
  "if_down run nic tcp_timeout io_timeout =
     run_text run (default_opts\<lparr>co_tcp := Some tcp_timeout, co_io := Some io_timeout\<rparr>)
       (''ip link set '' @ nic @ '' down'')"

definition add_ip :: "'s runner \<Rightarrow> string \<Rightarrow> string \<Rightarrow> string \<Rightarrow> (exn, 's, bool) py" where
  "add_ip run nic ip netmask =
     run_text run default_opts (''ip address add '' @ ip @ ''/'' @ netmask @ '' dev '' @ nic)"

text \<open>A ping from the local machine; \<open>popen\<close> starts a process and gives its exit status.\<close>

definition net_is_connective ::
    "netaddr \<Rightarrow> (string list \<Rightarrow> (exn, 's, int) py) \<Rightarrow> string \<Rightarrow> string \<Rightarrow> (exn, 's, bool) py" where
  "net_is_connective A popen ip ping_timeout =
     bind (popen [if na_valid6 A ip then ''ping6'' else ''ping'', ''-c'', ''1'', ''-w'', ping_timeout, ip])
       (\<lambda>rc. if rc \<noteq> 0 then return False else return True)"

definition get_interface_speed :: "'s commander \<Rightarrow> string \<Rightarrow> (exn, 's, string) py" where
  "get_interface_speed cmd interface =
     bind (shlex_call (''ethtool -i '' @ interface)) (\<lambda>ws. bind (cmd ws) (\<lambda>_.
     bind (shlex_call (''cat /sys/class/net/'' @ interface @ ''/speed'')) (\<lambda>ws. bind (cmd ws) (\<lambda>out.
       return (py_strip out)))))"

definition get_interface_status :: "'s commander \<Rightarrow> string \<Rightarrow> (exn, 's, string) py" where
  "get_interface_status cmd interface =
     bind (shlex_call (''cat /sys/class/net/'' @ interface @ ''/operstate'')) (\<lambda>ws. bind (cmd ws) (\<lambda>out.
       return (py_strip out)))"

section \<open>What the methods rely on\<close>

text \<open>A command preserves \<open>I\<close>; then every method does.\<close>

locale net_commands =
  fixes cmd :: "'s commander" and I :: "'s \<Rightarrow> bool"
  assumes cmd_keeps: "keeps I (cmd ws)"
begin

lemma first_gateway_keeps: "keeps I (first_gateway search valid ls)"
  by (induction ls) (auto intro!: keeps_intros split: option.split)

lemma first_containing_keeps: "keeps I (first_containing A gw ms)"
  by (induction ms) (auto intro!: keeps_intros)

lemmas net_steps = cmd_keeps first_gateway_keeps
  first_containing_keeps keeps_intros

lemma all_interfaces_keeps: "keeps I (all_interfaces cmd)"
  unfolding all_interfaces_def by (intro net_steps)

lemma mac_loop_keeps: "keeps I (mac_loop cmd ifs macs)"
  by (induction ifs arbitrary: macs) (auto intro!: net_steps all_interfaces_keeps)

lemma find_keeps:
  "keeps I (find_default_gw A cmd)" "keeps I (find_default_gwv6 A cmd)" "keeps I (find_ips A cmd)"
  "keeps I (find_ip_by_default_gw A gw ips)" "keeps I (find_int_by_ip cmd ip)" "keeps I (find_ip_by_int A cmd i)"
  "keeps I (find_ipv6_by_int A cmd i)" "keeps I (find_mac_by_int cmd ifs)"
  unfolding find_default_gw_def find_default_gwv6_def find_ips_def find_ip_by_default_gw_def
    find_int_by_ip_def find_ip_by_int_def find_ipv6_by_int_def find_mac_by_int_def Let_def
  by (intro net_steps mac_loop_keeps)+

lemma find_mgmt_interface_keeps: "keeps I (find_mgmt_interface A cmd)"
  unfolding find_mgmt_interface_def by (intro net_steps find_keeps)

lemma get_mac_by_ip_keeps: "keeps I (get_mac_by_ip cmd ip)"
  unfolding get_mac_by_ip_def by (intro net_steps find_keeps)

lemma list_bridges_keeps: "keeps I (list_bridges cmd)"
  unfolding list_bridges_def add_bridge_line_def Let_def by (intro net_steps)

lemma get_bridge_keeps: "keeps I (get_bridge cmd name)"
  unfolding get_bridge_def by (intro net_steps list_bridges_keeps)

lemma find_int_by_bridge_keeps: "keeps I (find_int_by_bridge cmd name)"
  unfolding find_int_by_bridge_def by (intro net_steps get_bridge_keeps)

lemma get_info_keeps: "keeps I (get_info A cmd)"
  unfolding get_info_def Let_def
  by (intro net_steps find_keeps get_bridge_keeps find_int_by_bridge_keeps)

lemma change_keeps:
  "keeps I (add_bridge cmd b n)" "keeps I (delete_bridge cmd b)" "keeps I (send_icmp cmd d c sz e)"
  "keeps I (set_mtu cmd nics mtu)" "keeps I (delete_interface cmd i)" "keeps I (get_bridges loads cmd)"
  "keeps I (get_interface_speed cmd i)" "keeps I (get_interface_status cmd i)"
  unfolding add_bridge_def delete_bridge_def send_icmp_def set_mtu_def delete_interface_def get_bridges_def
    get_interface_speed_def get_interface_status_def
  by (intro net_steps)+

end

text \<open>Inside a call of a network object, every method stays on the session of the call.\<close>

interpretation held_cmd: net_commands "net_cmd (nw_run P) x" "held ss n t" for P x ss n t
  by unfold_locales (auto simp: net_cmd_def run_checked_def intro!: keeps_intros nw_run_held)

section \<open>What the searches find\<close>

lemma re_search_undigit:
  assumes "\<And>s. s = [] \<or> \<not> is_digit (hd s) \<Longrightarrow> m s = None" and "\<forall>c\<in>set xs. \<not> is_digit c"
  shows "re_search m (xs @ s) = re_search m s"
  using assms(2) by (intro re_search_skip assms(1)) (auto simp: hd_drop_conv_nth hd_append)

lemma re_search_hit: "m s = Some w \<Longrightarrow> re_search m s = Some w"
  by (cases s) simp_all

lemma re_cidr_not_digit: "s = [] \<or> \<not> is_digit (hd s) \<Longrightarrow> re_cidr s = None"
  by (simp add: re_cidr_def re_ipv4_not_digit)

text \<open>The addresses of a line of \<open>ip addr\<close>, with the text in front free of digits.\<close>

lemma search_cidr:
  assumes "digits a" "digits b" "digits c" "digits d" "is_digit x" "is_digit y"
    and "\<forall>c\<in>set before. \<not> is_digit c"
  shows "re_search re_cidr (before @ dotted a b c d @ CHR ''/'' # x # y # rest) =
    Some (dotted a b c d @ CHR ''/'' # x # [y])"
  using re_search_undigit [of re_cidr before] assms
  by (simp add: re_cidr_not_digit re_search_hit re_cidr_dotted)

lemma search_ipv4:
  assumes "digits a" "digits b" "digits c" "digits d" "rest = [] \<or> \<not> is_digit (hd rest)"
    and "\<forall>c\<in>set before. \<not> is_digit c"
  shows "re_search re_ipv4 (before @ dotted a b c d @ rest) = Some (dotted a b c d)"
  using re_search_undigit [of re_ipv4 before] assms
  by (simp add: re_ipv4_not_digit re_search_hit re_ipv4_dotted)

section \<open>The bridge table\<close>

definition bridge_line :: "bridge \<Rightarrow> string" where
  "bridge_line b = br_name b @ [tab] @ br_id b @ [tab] @ br_stp b @
     (case br_interfaces b of [] \<Rightarrow> [] | i # is \<Rightarrow> [tab] @ i)"

definition bridge_lines :: "bridge \<Rightarrow> string list" where
  "bridge_lines b = bridge_line b # map (\<lambda>i. ''CONT:'' @ i) (tl (br_interfaces b))"

definition word :: "string \<Rightarrow> bool" where
  "word w \<longleftrightarrow> w \<noteq> [] \<and> ws_free w"

definition good_bridge :: "bridge \<Rightarrow> bool" where
  "good_bridge b \<longleftrightarrow> word (br_name b) \<and> word (br_id b) \<and> word (br_stp b) \<and>
     list_all word (br_interfaces b) \<and> \<not> prefix ''CONT:'' (br_name b)"

lemma tab_ws: "is_ws tab" by (simp add: text_simps)

lemma split_bridge_line:
  assumes "good_bridge b"
  shows "py_split_ws (bridge_line b) = [br_name b, br_id b, br_stp b] @ take 1 (br_interfaces b)"
proof (cases "br_interfaces b")
  case Nil
  then show ?thesis
    using assms split_ws_columns [of "[(br_name b, [tab]), (br_id b, [tab])]" "br_stp b"]
    by (simp add: bridge_line_def good_bridge_def word_def tab_ws)
next
  case (Cons i js)
  then show ?thesis
    using assms split_ws_columns [of "[(br_name b, [tab]), (br_id b, [tab]), (br_stp b, [tab])]" i]
    by (simp add: bridge_line_def good_bridge_def word_def tab_ws)
qed

lemma no_cont_prefix:
  assumes "good_bridge b"
  shows "\<not> prefix ''CONT:'' (bridge_line b)"
proof
  assume p: "prefix ''CONT:'' (bridge_line b)"
  let ?rest = "tab # br_id b @ [tab] @ br_stp b @ (case br_interfaces b of [] \<Rightarrow> [] | i # is \<Rightarrow> [tab] @ i)"
  have line: "bridge_line b = br_name b @ ?rest" by (simp add: bridge_line_def)
  have np: "\<not> prefix ''CONT:'' (br_name b)" using assms by (simp add: good_bridge_def)
  from p line consider "prefix ''CONT:'' (br_name b)" | us where "''CONT:'' = br_name b @ us" "prefix us ?rest"
    by (auto simp: prefix_append)
  then show False
  proof cases
    case (2 us)
    with np obtain u vs where "us = u # vs" by (cases us) auto
    with 2(2) have "u = tab" by (auto simp: prefix_def)
    with \<open>us = u # vs\<close> 2(1) have "tab \<in> set ''CONT:''" by (metis in_set_conv_decomp)
    then show False by simp
  qed (use np in simp)
qed

lemma add_cont_lines:
  "for_each add_bridge_line (map (\<lambda>i. ''CONT:'' @ i) is) (bs @ [b]) s =
    (Inr (bs @ [b\<lparr>br_interfaces := br_interfaces b @ is\<rparr>]), s)"
  by (induction "is" arbitrary: b) (simp_all add: add_bridge_line_def bind_def return_def)

lemma add_bridge_lines:
  assumes "good_bridge b"
  shows "for_each add_bridge_line (bridge_lines b) bs s = (Inr (bs @ [b]), s)"
proof -
  have "add_bridge_line (bridge_line b) bs s =
      (Inr (bs @ [b\<lparr>br_interfaces := take 1 (br_interfaces b)\<rparr>]), s)"
    using no_cont_prefix [OF assms] split_bridge_line [OF assms]
    by (cases "br_interfaces b") (simp_all add: add_bridge_line_def index_call_def Let_def py_defs)
  then show ?thesis
    using add_cont_lines [of "tl (br_interfaces b)" bs "b\<lparr>br_interfaces := take 1 (br_interfaces b)\<rparr>" s]
    by (cases "br_interfaces b") (simp_all add: bridge_lines_def bind_def)
qed

lemma add_all_bridges:
  assumes "list_all good_bridge bs"
  shows "for_each add_bridge_line (concat (map bridge_lines bs)) cs s = (Inr (cs @ bs), s)"
  using assms
  by (induction bs arbitrary: cs) (simp_all add: for_each_append bind_def add_bridge_lines return_def)

lemma word_ends: "word w \<Longrightarrow> w \<noteq> [] \<and> \<not> is_ws (hd w) \<and> \<not> is_ws (last w)"
  using hd_in_set [of w] last_in_set [of w] by (auto simp: word_def ws_free_def list_all_iff)

lemma word_one_line: "word w \<Longrightarrow> one_line w"
  using linebreak_is_ws by (auto simp: word_def ws_free_def one_line_def list_all_iff)

lemma bridge_lines_shape:
  assumes "good_bridge b" and "l \<in> set (bridge_lines b)"
  shows "one_line l \<and> l \<noteq> [] \<and> \<not> is_ws (hd l) \<and> \<not> is_ws (last l)"
proof -
  have tab1: "one_line [tab]" by (simp add: text_simps)
  have line: "one_line (bridge_line b) \<and> bridge_line b \<noteq> [] \<and> \<not> is_ws (hd (bridge_line b)) \<and>
      \<not> is_ws (last (bridge_line b))"
    using assms(1) tab1 word_ends word_one_line
    by (cases "br_interfaces b") (auto simp: bridge_line_def good_bridge_def)
  have cont: "one_line (''CONT:'' @ w) \<and> \<not> is_ws (hd (''CONT:'' @ w)) \<and> \<not> is_ws (last (''CONT:'' @ w))"
    if "word w" for w
    using word_ends [OF that] word_one_line [OF that] by (auto simp: text_simps)
  have "\<forall>i\<in>set (tl (br_interfaces b)). word i"
    using assms(1) by (cases "br_interfaces b") (auto simp: good_bridge_def list_all_iff)
  with assms(2) line cont show ?thesis by (auto simp: bridge_lines_def)
qed

lemma list_bridges_table:
  assumes "list_all good_bridge bs" and "cmd list_bridges_cmd s =
      (Inr (concat (map (\<lambda>l. l @ [newline]) (concat (map bridge_lines bs)))), s')"
  shows "list_bridges cmd s = (Inr bs, s')"
proof (cases "bs = []")
  case True
  with assms(2) show ?thesis by (simp add: list_bridges_def bind_def return_def text_simps)
next
  case False
  let ?ls = "concat (map bridge_lines bs)"
  have shape: "\<forall>l\<in>set ?ls. one_line l \<and> l \<noteq> [] \<and> \<not> is_ws (hd l) \<and> \<not> is_ws (last l)"
    using assms(1) bridge_lines_shape by (auto simp: list_all_iff)
  have ne: "?ls \<noteq> []" using False by (auto simp: bridge_lines_def neq_Nil_conv)
  then have ends: "hd ?ls \<in> set ?ls" "last ?ls \<in> set ?ls" by (rule hd_in_set, rule last_in_set)
  with shape ne have strip: "py_strip (concat (map (\<lambda>l. l @ [newline]) ?ls)) = py_join [newline] ?ls"
    by (intro strip_lines) auto
  have "py_join [newline] ?ls \<noteq> []" using join_ends [OF ne] shape ends by blast
  moreover have "py_splitlines (py_join [newline] ?ls) = ?ls"
    using shape ends by (intro splitlines_join) auto
  ultimately show ?thesis
    using assms(2) add_all_bridges [OF assms(1), of "[]" s'] strip by (simp add: list_bridges_def bind_def)
qed

section \<open>Properties\<close>

text \<open>
  C31. The table of bridges is read back: when the command prints bridges, each with its first
  interface on its own line and the further ones on continuation lines, \<open>list_bridges\<close> gives
  exactly these bridges with their interfaces in order, also for an empty table.
\<close>

theorem list_bridges_reads_table:
  assumes "list_all good_bridge bs" and "cmd list_bridges_cmd s =
      (Inr (concat (map (\<lambda>l. l @ [newline]) (concat (map bridge_lines bs)))), s')"
  shows "list_bridges cmd s = (Inr bs, s')"
  using assms by (rule list_bridges_table)

definition two_bridges :: "bridge list" where
  "two_bridges = [\<lparr>br_name = ''ovirtmgmt'', br_id = ''8000.00'', br_stp = ''no'', br_interfaces = [''em1'', ''vnet0'']\<rparr>,
     \<lparr>br_name = ''virbr0'', br_id = ''8000.52'', br_stp = ''yes'', br_interfaces = []\<rparr>]"

theorem list_bridges_reads_table_witness:
  "list_bridges (\<lambda>c s. (Inr (concat (map (\<lambda>l. l @ [newline])
     [''ovirtmgmt'' @ tab # ''8000.00'' @ tab # ''no'' @ tab # ''em1'', ''CONT:vnet0'',
      ''virbr0'' @ tab # ''8000.52'' @ tab # ''yes''])), s)) () = (Inr two_bridges, ())"
  by (rule list_bridges_reads_table)
    (simp_all add: two_bridges_def good_bridge_def word_def ws_free_def bridge_lines_def bridge_line_def text_simps)


definition no_netaddr :: netaddr where
  "no_netaddr = \<lparr>na_valid4 = \<lambda>w. True, na_valid6 = \<lambda>w. False, na_address = \<lambda>w. Inr 0,
     na_network = \<lambda>w. Inr 0, na_member = \<lambda>a n. True\<rparr>"


lemma first_gateway_skip:
  "\<forall>l\<in>set before. \<not> py_in ''default'' l \<Longrightarrow>
    first_gateway search valid (before @ ls) = first_gateway search valid ls"
  by (induction before) auto

lemma default_in [simp]: "py_in ''default'' (''default'' @ w)"
  by (simp add: prefix_def)

lemma undigit_text: "\<forall>c\<in>set ''default via ''. \<not> is_digit c" "\<not> is_digit space"
  by (auto simp: is_digit_def)

text \<open>
  C32. The default gateway is read off the routing table: routes before the default route are
  passed over, and the dotted address of \<open>default via a.b.c.d dev ...\<close> is the result, when it
  is valid.
\<close>

theorem default_gateway_of_route:
  assumes "cmd [''ip'', ''route''] s = (Inr (concat (map (\<lambda>l. l @ [newline])
      (before @ (''default via '' @ dotted a b c d @ '' dev '' @ dev) # rest))), s')"
    and "\<forall>l\<in>set before. \<not> py_in ''default'' l"
    and "\<forall>l\<in>set (before @ (''default via '' @ dotted a b c d @ '' dev '' @ dev) # rest). one_line l"
    and "digits a" "digits b" "digits c" "digits d" and "na_valid4 A (dotted a b c d)"
  shows "find_default_gw A cmd s = (Inr (Some (dotted a b c d)), s')"
proof -
  let ?l = "''default via '' @ dotted a b c d @ '' dev '' @ dev"
  have "re_search re_ipv4 ?l = Some (dotted a b c d)"
    using search_ipv4 [OF assms(4-7) _ undigit_text(1), of "'' dev '' @ dev"] undigit_text(2) by simp
  moreover have "py_in ''default'' ?l" using default_in [of "'' via '' @ dotted a b c d @ '' dev '' @ dev"] by simp
  ultimately have "first_gateway (re_search re_ipv4) (na_valid4 A) (before @ ?l # rest) s' =
      (Inr (Some (dotted a b c d)), s')"
    using assms(2,8) by (simp add: first_gateway_skip return_def del: py_in.simps re_search.simps append_Cons)
  then show ?thesis
    using assms(1) splitlines_ended [OF assms(3)] by (simp add: find_default_gw_def bind_def del: append_Cons)
qed

theorem default_gateway_of_route_witness:
  "find_default_gw no_netaddr (\<lambda>c s. (Inr (''10.0.0.0/24 dev eth0'' @ newline #
      ''default via 10.0.0.254 dev eth0'' @ [newline]), s)) () = (Inr (Some ''10.0.0.254''), ())"
  using default_gateway_of_route [where cmd = "\<lambda>c s. (Inr (''10.0.0.0/24 dev eth0'' @ newline #
      ''default via 10.0.0.254 dev eth0'' @ [newline]), s)" and before = "[''10.0.0.0/24 dev eth0'']"
      and a = "''10''" and b = "''0''" and c = "''0''" and d = "''254''" and dev = "''eth0''" and rest = "[]"
      and s = "()" and s' = "()" and A = no_netaddr]
  by (simp add: dotted_def no_netaddr_def digits_def is_digit_def text_simps prefix_def)

text \<open>
  A default route without an address, as on a point-to-point link, makes the search for the
  gateway raise \<open>IndexError\<close> instead of going on or answering that there is none.
\<close>

theorem default_route_without_address_raises:
  assumes "cmd [''ip'', ''route''] s = (Inr (concat (map (\<lambda>l. l @ [newline])
      (before @ (''default dev '' @ dev) # rest))), s')"
    and "\<forall>l\<in>set before. \<not> py_in ''default'' l"
    and "\<forall>l\<in>set (before @ (''default dev '' @ dev) # rest). one_line l"
    and "\<forall>c\<in>set dev. \<not> is_digit c"
  shows "find_default_gw A cmd s = (Inl IndexError, s')"
proof -
  let ?l = "''default dev '' @ dev"
  have "\<forall>c\<in>set ?l. \<not> is_digit c" using assms(4) by (auto simp: is_digit_def)
  with re_search_undigit [of re_ipv4 ?l "[]"] have "re_search re_ipv4 ?l = None"
    by (simp add: re_ipv4_not_digit)
  moreover have "py_in ''default'' ?l" using default_in [of "'' dev '' @ dev"] by simp
  ultimately have "first_gateway (re_search re_ipv4) (na_valid4 A) (before @ ?l # rest) s' = (Inl IndexError, s')"
    using assms(2) by (simp add: first_gateway_skip raise_def del: py_in.simps re_search.simps append_Cons)
  then show ?thesis
    using assms(1) splitlines_ended [OF assms(3)] by (simp add: find_default_gw_def bind_def del: append_Cons)
qed

theorem default_route_without_address_raises_witness:
  "find_default_gw no_netaddr (\<lambda>c s. (Inr (''default dev ppp scope link'' @ [newline]), s)) () = (Inl IndexError, ())"
  using default_route_without_address_raises [where cmd = "\<lambda>c s. (Inr (''default dev ppp scope link'' @ [newline]), s)"
      and before = "[]" and dev = "''ppp scope link''" and rest = "[]" and s = "()" and s' = "()" and A = no_netaddr]
  by (simp add: is_digit_def text_simps)

text \<open>
  The prefix length a summary reports is that of the address itself, as long as no address
  listed before contains the text of the address; otherwise it is that of such an address, as
  for \<open>110.0.0.1/16\<close> listed before \<open>10.0.0.1/24\<close>.
\<close>

theorem prefix_of_address:
  assumes "\<forall>m\<in>set before. \<not> py_in ip m" and "CHR ''/'' \<notin> set ip" and "CHR ''/'' \<notin> set len"
  shows "prefix_of ip (before @ (ip @ CHR ''/'' # len) # rest) = len"
proof -
  have "py_in ip (ip @ CHR ''/'' # len)"
    by (cases ip) (simp_all add: prefix_def)
  moreover have "py_split ''/'' (ip @ CHR ''/'' # len) = [ip, len]"
    using assms(2,3) by (simp add: split_on_append_sep split_on_no_sep)
  ultimately show ?thesis using assms(1) by (simp add: prefix_of_def filter_empty_conv)
qed

theorem prefix_of_address_witness:
  "prefix_of ''10.0.0.1'' [''10.1.0.1/16'', ''10.0.0.1/24''] = ''24'' \<and>
    prefix_of ''10.0.0.1'' [''110.0.0.1/16'', ''10.0.0.1/24''] = ''16''"
  using prefix_of_address [where ip = "''10.0.0.1''" and before = "[''10.1.0.1/16'']" and len = "''24''" and rest = "[]"]
  by (simp add: prefix_of_def text_simps prefix_def)

text \<open>
  The name of a virtual interface loses the part from its at sign on, when neither end of
  the rest is one of the stripped characters; a name such as \<open>eth7@if7\<close> loses more.
\<close>

theorem strip_at_name:
  assumes "name \<noteq> []" and "CHR ''@'' \<notin> set name" and "newline \<notin> set rest"
    and "hd name \<notin> set rest" and "last name \<notin> set rest"
  shows "strip_at (name @ CHR ''@'' # rest) = name"
proof -
  let ?cs = "CHR ''@'' # rest"
  let ?p = "\<lambda>c. c \<in> set ?cs"
  have "re_search re_at_rest (name @ ?cs) = re_search re_at_rest ?cs"
    using assms(2) by (intro re_search_skip) (auto simp: re_at_rest_def in_set_conv_nth split: list.split
        dest!: arg_cong [of _ _ hd] simp: hd_drop_conv_nth hd_append)
  moreover have "takeWhile (\<lambda>c. c \<noteq> newline) ?cs = ?cs"
    using assms(3) by (intro takeWhile_eq_all_conv [THEN iffD2]) auto
  ultimately have found: "re_search re_at_rest (name @ ?cs) = Some ?cs" by (simp add: re_at_rest_def)
  obtain c cs where name: "name = c # cs" using assms(1) by (cases name) auto
  have "hd name \<noteq> CHR ''@''" "last name \<noteq> CHR ''@''"
    using assms(1,2) hd_in_set last_in_set by metis+
  then have "\<not> ?p (hd name)" "\<not> ?p (last name)" using assms(4,5) by auto
  moreover have "dropWhile ?p (rev ?cs @ rev name) = dropWhile ?p (rev name)"
    by (rule dropWhile_append2) auto
  ultimately have "strip_if ?p (name @ ?cs) = strip_if ?p name"
    using name by (simp add: strip_if_def)
  also have "\<dots> = name"
    using \<open>\<not> ?p (hd name)\<close> \<open>\<not> ?p (last name)\<close> by (intro strip_if_id) simp
  finally show ?thesis by (simp add: strip_at_def found py_strip_chars_def)
qed

theorem strip_at_name_witness:
  "strip_at ''eth0@NONE'' = ''eth0'' \<and> strip_at ''eth7@if7'' = ''eth''"
  using strip_at_name [where name = "''eth0''" and rest = "''NONE''"]
  by (simp add: strip_at_def re_at_rest_def py_strip_chars_def strip_if_def)

end
