(* ===== verification/Nmcli.thy ===== *)
theory Nmcli
  imports Executor
begin

text \<open>
  \<open>rrmngmnt/nmcli.py\<close>: connections and devices of NetworkManager. Every operation builds one
  text, which is split by the rules of the shell into the arguments of the command. The
  theory relates the text to the arguments it is meant to have (\<open>nmcli_words\<close>). \<open>run\<close> stands
  for \<open>run_cmd\<close> of the executor \<open>x\<close> the object holds.
\<close>

definition nm_exec :: "'s runner \<Rightarrow> exec_ref \<Rightarrow> string \<Rightarrow> (exn, 's, string) py" where
  "nm_exec run x command = bind (shlex_call command) (\<lambda>ws.
     run_checked run (CList ws) (\<lambda>c rc out err. CommandExecutionFailure x c rc err))"

section \<open>Reading\<close>

record connection =
  cn_name :: string
  cn_uuid :: string
  cn_type :: string
  cn_device :: string

record nm_device =
  dv_name :: string
  dv_type :: string
  dv_mac :: string
  dv_mtu :: string

definition connection_of_line :: "string \<Rightarrow> (exn, 's, connection) py" where
  "connection_of_line line =
     (let ps = py_split '':'' line in
      bind (index_call ps 0) (\<lambda>n. bind (index_call ps 1) (\<lambda>u.
      bind (index_call ps 2) (\<lambda>t. bind (index_call ps 3) (\<lambda>d.
        return \<lparr>cn_name = n, cn_uuid = u, cn_type = t, cn_device = d\<rparr>)))))"

definition get_all_connections :: "'s runner \<Rightarrow> exec_ref \<Rightarrow> (exn, 's, connection list) py" where
  "get_all_connections run x =
     bind (nm_exec run x ''nmcli -t connection show'') (\<lambda>out.
     for_each (\<lambda>line cs. bind (connection_of_line line) (\<lambda>c. return (cs @ [c]))) (py_splitlines out) [])"

definition device_cmd :: "string \<Rightarrow> string" where
  "device_cmd name = ''nmcli -e no -g GENERAL.TYPE,GENERAL.HWADDR,GENERAL.MTU device show '' @ name"

definition get_all_devices :: "'s runner \<Rightarrow> exec_ref \<Rightarrow> (exn, 's, nm_device list) py" where
  "get_all_devices run x =
     bind (nm_exec run x ''nmcli -g GENERAL.DEVICE device show'') (\<lambda>names.
     for_each (\<lambda>name ds.
       bind (nm_exec run x (device_cmd name)) (\<lambda>out.
       let ps = py_splitlines out in
       bind (index_call ps 0) (\<lambda>t. bind (index_call ps 1) (\<lambda>mac. bind (index_call ps 2) (\<lambda>mtu.
         return (ds @ [\<lparr>dv_name = name, dv_type = t, dv_mac = mac, dv_mtu = mtu\<rparr>]))))))
       (filter (\<lambda>name. name \<noteq> []) (py_splitlines names)) [])"

section \<open>The command text\<close>

text \<open>The options every kind of connection takes; \<open>None\<close> is the default of the parameter.\<close>

record con_options =
  cf_auto_connect :: "bool option"
  cf_save :: "bool option"
  cf_ipv4_method :: "string option"
  cf_ipv4_addr :: "string option"
  cf_ipv4_gw :: "string option"
  cf_ipv6_method :: "string option"
  cf_ipv6_addr :: "string option"
  cf_ipv6_gw :: "string option"

definition no_options :: con_options where
  "no_options = \<lparr>cf_auto_connect = None, cf_save = None, cf_ipv4_method = None, cf_ipv4_addr = None,
     cf_ipv4_gw = None, cf_ipv6_method = None, cf_ipv6_addr = None, cf_ipv6_gw = None\<rparr>"

text \<open>\<open>command += f" key {value}"\<close> for a true value.\<close>

definition optional :: "string \<Rightarrow> string option \<Rightarrow> string" where
  "optional key v = (if truthy_opt v then '' '' @ key @ '' '' @ the v else [])"

definition ip_options_builder :: "con_options \<Rightarrow> string" where
  "ip_options_builder opts =
     optional ''ipv4.method'' (cf_ipv4_method opts) @ optional ''ipv6.method'' (cf_ipv6_method opts) @
     optional ''ipv4.addresses'' (cf_ipv4_addr opts) @ optional ''ipv4.gateway'' (cf_ipv4_gw opts) @
     optional ''ipv6.addresses'' (cf_ipv6_addr opts) @ optional ''ipv6.gateway'' (cf_ipv6_gw opts)"

definition get_str_value :: "bool \<Rightarrow> string" where
  "get_str_value v = (if v then ''yes'' else ''no'')"

definition optional_flag :: "string \<Rightarrow> bool option \<Rightarrow> string" where
  "optional_flag key v = (case v of None \<Rightarrow> [] | Some b \<Rightarrow> '' '' @ key @ '' '' @ get_str_value b)"

definition common_options_builder :: "string \<Rightarrow> string \<Rightarrow> string option \<Rightarrow> con_options \<Rightarrow> string" where
  "common_options_builder con_type con_name ifname opts =
     ''type '' @ con_type @ '' con-name '' @ con_name @ optional ''ifname'' ifname @
     optional_flag ''autoconnect'' (cf_auto_connect opts) @ optional_flag ''save'' (cf_save opts)"

datatype operation = Add | Modify | Delete | Show

fun operation_text :: "operation \<Rightarrow> string" where
  "operation_text Add = ''add''"
| "operation_text Modify = ''modify''"
| "operation_text Delete = ''delete''"
| "operation_text Show = ''show''"

definition nmcli_cmd_builder ::
    "string \<Rightarrow> operation \<Rightarrow> string \<Rightarrow> string \<Rightarrow> string option \<Rightarrow> con_options
      \<Rightarrow> (string \<times> string) list \<Rightarrow> string" where
  "nmcli_cmd_builder object_type oper name con_type ifname opts type_options =
     ''nmcli '' @ object_type @ '' '' @ operation_text oper @
     (if oper = Delete \<or> oper = Modify then '' '' @ name
      else if oper = Add then '' '' @ common_options_builder con_type name ifname opts else []) @
     concat (map (\<lambda>(p, v). '' '' @ p @ '' '' @ v) type_options) @ ip_options_builder opts"

section \<open>Operations\<close>

definition nm_do :: "'s runner \<Rightarrow> exec_ref \<Rightarrow> string \<Rightarrow> (exn, 's, unit) py" where
  "nm_do run x command = bind (nm_exec run x command) (\<lambda>_. return ())"

definition set_connection_state :: "'s runner \<Rightarrow> exec_ref \<Rightarrow> string \<Rightarrow> string \<Rightarrow> (exn, 's, unit) py" where
  "set_connection_state run x connection state =
     nm_do run x (''nmcli connection '' @ state @ '' '' @ connection)"

text \<open>A type option that is set for a true value; integers are true when not zero.\<close>

definition text_option :: "string \<Rightarrow> string option \<Rightarrow> (string \<times> string) list" where
  "text_option key v = (if truthy_opt v then [(key, the v)] else [])"

definition int_option :: "string \<Rightarrow> int option \<Rightarrow> (string \<times> string) list" where
  "int_option key v = (case v of None \<Rightarrow> [] | Some i \<Rightarrow> if i \<noteq> 0 then [(key, show_int i)] else [])"

definition add_ethernet_connection ::
    "'s runner \<Rightarrow> exec_ref \<Rightarrow> string \<Rightarrow> string \<Rightarrow> string option \<Rightarrow> int option \<Rightarrow> con_options \<Rightarrow> (exn, 's, unit) py" where
  "add_ethernet_connection run x name ifname mac mtu opts =
     nm_do run x (nmcli_cmd_builder ''connection'' Add name ''ethernet'' (Some ifname) opts
       (text_option ''mac'' mac @ int_option ''mtu'' mtu))"

definition add_bond ::
    "'s runner \<Rightarrow> exec_ref \<Rightarrow> string \<Rightarrow> string \<Rightarrow> string option \<Rightarrow> string option \<Rightarrow> int option
      \<Rightarrow> con_options \<Rightarrow> (exn, 's, unit) py" where
  "add_bond run x con_name ifname mode primary miimon opts =
     nm_do run x (nmcli_cmd_builder ''connection'' Add con_name ''bond'' (Some ifname) opts
       (text_option ''mode'' mode @ int_option ''miimon'' miimon @ text_option ''primary'' primary))"

definition add_slave ::
    "'s runner \<Rightarrow> exec_ref \<Rightarrow> string \<Rightarrow> string \<Rightarrow> string \<Rightarrow> string option \<Rightarrow> con_options \<Rightarrow> (exn, 's, unit) py" where
  "add_slave run x con_name slave_type ifname master opts =
     nm_do run x (nmcli_cmd_builder ''connection'' Add con_name slave_type (Some ifname) opts
       (text_option ''master'' master))"

definition add_vlan ::
    "'s runner \<Rightarrow> exec_ref \<Rightarrow> string \<Rightarrow> string \<Rightarrow> int \<Rightarrow> int option \<Rightarrow> con_options \<Rightarrow> (exn, 's, unit) py" where
  "add_vlan run x con_name dev vlan_id mtu opts =
     nm_do run x (nmcli_cmd_builder ''connection'' Add con_name ''vlan'' None opts
       ([(''dev'', dev), (''id'', show_int vlan_id)] @ int_option ''mtu'' mtu))"

definition add_dummy ::
    "'s runner \<Rightarrow> exec_ref \<Rightarrow> string \<Rightarrow> string \<Rightarrow> con_options \<Rightarrow> (exn, 's, unit) py" where
  "add_dummy run x con_name ifname opts =
     nm_do run x (nmcli_cmd_builder ''connection'' Add con_name ''dummy'' (Some ifname) opts [])"

definition modify_connection ::
    "'s runner \<Rightarrow> exec_ref \<Rightarrow> string \<Rightarrow> (string \<times> string) list \<Rightarrow> (exn, 's, unit) py" where
  "modify_connection run x connection properties =
     nm_do run x (nmcli_cmd_builder ''connection'' Modify connection ''None'' None no_options properties)"

definition delete_connection :: "'s runner \<Rightarrow> exec_ref \<Rightarrow> string \<Rightarrow> (exn, 's, unit) py" where
  "delete_connection run x connection =
     nm_do run x (nmcli_cmd_builder ''connection'' Delete connection ''None'' None no_options [])"

definition modify_device ::
    "'s runner \<Rightarrow> exec_ref \<Rightarrow> string \<Rightarrow> (string \<times> string) list \<Rightarrow> (exn, 's, unit) py" where
  "modify_device run x device properties =
     nm_do run x (nmcli_cmd_builder ''device'' Modify device ''None'' None no_options properties)"

section \<open>The words the command is meant to have\<close>

definition optional_words :: "string \<Rightarrow> string option \<Rightarrow> string list" where
  "optional_words key v = (if truthy_opt v then [key, the v] else [])"

definition flag_words :: "string \<Rightarrow> bool option \<Rightarrow> string list" where
  "flag_words key v = (case v of None \<Rightarrow> [] | Some b \<Rightarrow> [key, get_str_value b])"

definition ip_words :: "con_options \<Rightarrow> string list" where
  "ip_words opts =
     optional_words ''ipv4.method'' (cf_ipv4_method opts) @ optional_words ''ipv6.method'' (cf_ipv6_method opts) @
     optional_words ''ipv4.addresses'' (cf_ipv4_addr opts) @ optional_words ''ipv4.gateway'' (cf_ipv4_gw opts) @
     optional_words ''ipv6.addresses'' (cf_ipv6_addr opts) @ optional_words ''ipv6.gateway'' (cf_ipv6_gw opts)"

definition nmcli_words ::
    "string \<Rightarrow> operation \<Rightarrow> string \<Rightarrow> string \<Rightarrow> string option \<Rightarrow> con_options
      \<Rightarrow> (string \<times> string) list \<Rightarrow> string list" where
  "nmcli_words object_type oper name con_type ifname opts type_options =
     [''nmcli'', object_type, operation_text oper] @
     (if oper = Delete \<or> oper = Modify then [name]
      else if oper = Add
      then [''type'', con_type, ''con-name'', name] @ optional_words ''ifname'' ifname @
        flag_words ''autoconnect'' (cf_auto_connect opts) @ flag_words ''save'' (cf_save opts)
      else []) @
     concat (map (\<lambda>(p, v). [p, v]) type_options) @ ip_words opts"

text \<open>Each word with a blank in front: the pieces the builder puts together.\<close>

definition spaced :: "string list \<Rightarrow> string" where
  "spaced ws = concat (map (\<lambda>w. space # w) ws)"

lemma spaced_simps [simp]:
  "spaced [] = []" "spaced (w # ws) = space # w @ spaced ws" "spaced (us @ ws) = spaced us @ spaced ws"
  by (simp_all add: spaced_def)

lemma join_spaced: "py_join [space] (w # ws) = w @ spaced ws"
  by (induction ws arbitrary: w) simp_all

lemma optional_spaced: "optional key v = spaced (optional_words key v)"
  "optional_flag key b = spaced (flag_words key b)"
  by (simp_all add: optional_def optional_words_def optional_flag_def flag_words_def split: option.split)

lemma type_options_spaced:
  "concat (map (\<lambda>(p, v). space # p @ space # v) ps) = spaced (concat (map (\<lambda>(p, v). [p, v]) ps))"
  by (induction ps) auto

lemma nmcli_cmd_words:
  "nmcli_cmd_builder object_type oper name con_type ifname opts ps =
    py_join [space] (nmcli_words object_type oper name con_type ifname opts ps)"
  by (cases oper) (simp_all add: nmcli_cmd_builder_def nmcli_words_def join_spaced common_options_builder_def
      ip_options_builder_def ip_words_def optional_spaced type_options_spaced)

section \<open>Frames\<close>

context executor
begin

lemma nm_exec_keeps: "keeps I (nm_exec run x command)"
  unfolding nm_exec_def by (intro keeps_intros run_frames)

lemma nm_keeps:
  "keeps I (get_all_connections run x)" "keeps I (get_all_devices run x)" "keeps I (nm_do run x command)"
  unfolding get_all_connections_def get_all_devices_def nm_do_def connection_of_line_def Let_def
  by (intro keeps_intros nm_exec_keeps)+

end

section \<open>Properties\<close>

lemma nm_exec_machine:
  assumes "shlex_split command = Inr ws"
  shows "nm_exec (machine_run f) x command (m, log) =
    (case f m ws of (m', rc, out, err) \<Rightarrow>
      ((if rc \<noteq> 0 then Inl (CommandExecutionFailure x (CList ws) rc err) else Inr out), (m', log @ [ws])))"
  using assms by (simp add: nm_exec_def shlex_call_def run_checked_def machine_run_def py_defs split: prod.split)

lemma nm_do_words:
  assumes "list_all plain_word (nmcli_words object_type oper name con_type ifname opts ps)"
  shows "nm_do (machine_run f) x (nmcli_cmd_builder object_type oper name con_type ifname opts ps) (m, log) =
    (let ws = nmcli_words object_type oper name con_type ifname opts ps in
     case f m ws of (m', rc, out, err) \<Rightarrow>
      ((if rc \<noteq> 0 then Inl (CommandExecutionFailure x (CList ws) rc err) else Inr ()), (m', log @ [ws])))"
proof -
  from assms have "shlex_split (nmcli_cmd_builder object_type oper name con_type ifname opts ps) =
      Inr (nmcli_words object_type oper name con_type ifname opts ps)"
    unfolding nmcli_cmd_words by (rule shlex_split_plain_words)
  from nm_exec_machine [OF this, where f = f and x = x and m = m and log = log] show ?thesis
    by (simp add: nm_do_def bind_def return_def Let_def split: prod.split)
qed

text \<open>
  C33. The command a connection operation sends is the one it is meant to send: for parameters
  without white space, quotes and backslashes, the text that is built splits into exactly the
  words of the operation, in the order type, name, flags, type options, IP options, and the
  call succeeds with the exit status 0 and otherwise raises the failure of this command.
\<close>

theorem nmcli_sends_words:
  assumes "list_all plain_word (nmcli_words object_type oper name con_type ifname opts ps)"
  shows "nm_do (machine_run f) x (nmcli_cmd_builder object_type oper name con_type ifname opts ps) (m, log) =
    (let ws = nmcli_words object_type oper name con_type ifname opts ps in
     case f m ws of (m', rc, out, err) \<Rightarrow>
      ((if rc \<noteq> 0 then Inl (CommandExecutionFailure x (CList ws) rc err) else Inr ()), (m', log @ [ws])))"
  using assms by (rule nm_do_words)

theorem nmcli_sends_words_witness:
  "add_vlan (machine_run (fixed (\<lambda>ws. (0, [], [])))) Exec_method ''lab-vlan'' ''eth0'' 163 (Some 1500)
      (no_options\<lparr>cf_save := Some True, cf_ipv4_method := Some ''auto''\<rparr>) ((), []) =
    (Inr (), ((), [[''nmcli'', ''connection'', ''add'', ''type'', ''vlan'', ''con-name'', ''lab-vlan'', ''save'', ''yes'',
      ''dev'', ''eth0'', ''id'', ''163'', ''mtu'', ''1500'', ''ipv4.method'', ''auto'']]))"
proof -
  let ?o = "no_options\<lparr>cf_save := Some True, cf_ipv4_method := Some ''auto''\<rparr>"
  let ?ps = "[(''dev'', ''eth0''), (''id'', ''163''), (''mtu'', ''1500'')]"
  have ints: "show_int 163 = ''163''" "show_int 1500 = ''1500''" by code_simp+
  have ws: "nmcli_words ''connection'' Add ''lab-vlan'' ''vlan'' None ?o ?ps =
      [''nmcli'', ''connection'', ''add'', ''type'', ''vlan'', ''con-name'', ''lab-vlan'', ''save'', ''yes'',
       ''dev'', ''eth0'', ''id'', ''163'', ''mtu'', ''1500'', ''ipv4.method'', ''auto'']"
    by (simp add: nmcli_words_def optional_words_def flag_words_def get_str_value_def ip_words_def no_options_def)
  have "list_all plain_word (nmcli_words ''connection'' Add ''lab-vlan'' ''vlan'' None ?o ?ps)"
    unfolding ws by (simp add: shell_eval)
  from nmcli_sends_words [OF this, where f = "fixed (\<lambda>ws. (0, [], []))" and x = Exec_method and m = "()" and log = "[]"]
  show ?thesis unfolding ws by (simp add: add_vlan_def int_option_def ints fixed_def)
qed

definition connection_line :: "connection \<Rightarrow> string" where
  "connection_line c = py_join '':'' [cn_name c, cn_uuid c, cn_type c, cn_device c]"

definition field :: "string \<Rightarrow> bool" where
  "field w \<longleftrightarrow> CHR '':'' \<notin> set w \<and> one_line w"

definition good_connection :: "connection \<Rightarrow> bool" where
  "good_connection c \<longleftrightarrow> field (cn_name c) \<and> field (cn_uuid c) \<and> field (cn_type c) \<and> field (cn_device c)"

lemma connection_of_line:
  assumes "good_connection c"
  shows "connection_of_line (connection_line c) s = (Inr c, s)"
proof -
  have "py_split '':'' (connection_line c) = [cn_name c, cn_uuid c, cn_type c, cn_device c]"
    unfolding connection_line_def py_split_single
    using assms by (intro split_on_join) (auto simp: good_connection_def field_def)
  then show ?thesis by (simp add: connection_of_line_def index_call_def bind_def return_def)
qed

lemma connections_of_lines:
  "list_all good_connection cs \<Longrightarrow>
    for_each (\<lambda>line cs. bind (connection_of_line line) (\<lambda>c. return (cs @ [c]))) (map connection_line cs) acc s =
      (Inr (acc @ cs), s)"
  by (induction cs arbitrary: acc) (simp_all add: bind_def connection_of_line return_def)

text \<open>
  C34. The list of connections is read back: for connections whose four fields have neither a
  colon nor a line break, the terse output gives exactly these connections, in order. (A
  colon in a name comes escaped, which the reader does not undo.)
\<close>

theorem connections_read_back:
  assumes "list_all good_connection cs"
    and "g [''nmcli'', ''-t'', ''connection'', ''show''] =
      (0, concat (map (\<lambda>l. l @ [newline]) (map connection_line cs)), err)"
  shows "fst (get_all_connections (machine_run (fixed g)) x s) = Inr cs"
proof (cases s)
  case (Pair m log)
  have "one_line (connection_line c)" if "good_connection c" for c
    using that by (simp add: connection_line_def good_connection_def field_def text_simps)
  then have lines: "py_splitlines (concat (map (\<lambda>l. l @ [newline]) (map connection_line cs))) = map connection_line cs"
    using assms(1) by (intro splitlines_ended) (auto simp: list_all_iff)
  have "shlex_split ''nmcli -t connection show'' = Inr [''nmcli'', ''-t'', ''connection'', ''show'']" by code_simp
  from nm_exec_machine [OF this, where f = "fixed g" and x = x and m = m and log = log] assms(2)
  have "nm_exec (machine_run (fixed g)) x ''nmcli -t connection show'' s =
      (Inr (concat (map (\<lambda>l. l @ [newline]) (map connection_line cs))),
       (m, log @ [[''nmcli'', ''-t'', ''connection'', ''show'']]))"
    by (simp add: Pair fixed_def)
  then show ?thesis
    unfolding get_all_connections_def bind_def
    by (simp only: split_conv sum.case prod.case lines)
      (simp add: connections_of_lines [OF assms(1), unfolded bind_def])
qed

theorem connections_read_back_witness:
  "fst (get_all_connections (machine_run (fixed (\<lambda>ws. (0, ''Wired 1:u1:ethernet:eth0'' @ newline # ''b:u2:bond:'' @ [newline], []))))
      Exec_method ((), [])) =
    Inr [\<lparr>cn_name = ''Wired 1'', cn_uuid = ''u1'', cn_type = ''ethernet'', cn_device = ''eth0''\<rparr>,
      \<lparr>cn_name = ''b'', cn_uuid = ''u2'', cn_type = ''bond'', cn_device = []\<rparr>]"
  by (rule connections_read_back [where err = "[]"])
    (simp_all add: good_connection_def field_def connection_line_def text_simps)

text \<open>
  Names are not quoted: deleting a connection whose name has a blank sends the two parts of
  the name as two arguments, so the command names other connections than the one meant.
\<close>

theorem delete_connection_splits_name:
  assumes "plain_word a" and "plain_word b"
  shows "snd (delete_connection (machine_run (fixed g)) x (a @ space # b) (m, log)) =
    (m, log @ [[''nmcli'', ''connection'', ''delete'', a, b]])"
proof -
  have keys: "plain_word ''nmcli''" "plain_word ''connection''" "plain_word ''delete''"
    by (simp_all add: shell_eval)
  have "shlex_split (py_join [space] [''nmcli'', ''connection'', ''delete'', a, b]) =
      Inr [''nmcli'', ''connection'', ''delete'', a, b]"
    using assms keys by (intro shlex_split_plain_words) simp
  then have "shlex_split (nmcli_cmd_builder ''connection'' Delete (a @ space # b) ''None'' None no_options []) =
      Inr [''nmcli'', ''connection'', ''delete'', a, b]"
    by (simp add: nmcli_cmd_words nmcli_words_def ip_words_def optional_words_def no_options_def)
  from nm_exec_machine [OF this, where f = "fixed g" and x = x and m = m and log = log] show ?thesis
    by (simp add: delete_connection_def nm_do_def bind_def return_def fixed_def split: prod.splits)
qed

theorem delete_connection_splits_name_witness:
  "snd (delete_connection (machine_run (fixed (\<lambda>ws. (10, [], [])))) Exec_method ''System eth0'' ((), [])) =
    ((), [[''nmcli'', ''connection'', ''delete'', ''System'', ''eth0'']])"
  using delete_connection_splits_name [where a = "''System''" and b = "''eth0''" and g = "\<lambda>ws. (10, [], [])"
      and x = Exec_method and m = "()" and log = "[]"]
  by (simp add: shell_eval)

end
