(* ===== verification/Firewall.thy ===== *)
theory Firewall
  imports Services
begin

text \<open>
  \<open>rrmngmnt/firewall.py\<close>: rules of the chains INPUT and OUTPUT of iptables. \<open>run\<close> stands for
  \<open>host.executor().run_cmd\<close>; \<open>host.service\<close> is the argument \<open>service\<close>.
\<close>

text \<open>
  The destination as callers give it: a dictionary with a list of addresses or with one
  address as a text, or, as in the README, a text instead of the dictionary.
\<close>

datatype destination = Addresses "string list" | One_address string | Plain_text string

record chain =
  ch_name :: string
  ch_address_type :: string

definition IPTABLES :: string where "IPTABLES = ''iptables''"

definition firewall_is_active ::
    "'s runner \<Rightarrow> (string \<Rightarrow> (exn, 's, service) py) \<Rightarrow> string \<Rightarrow> (exn, 's, bool) py" where
  "firewall_is_active run service name = bind (service name) (\<lambda>sv. service_op run sv Status)"

definition new_chain :: "string \<Rightarrow> (exn, 's, chain) py" where
  "new_chain chain_name =
     (let name = py_upper chain_name in
      if name = ''OUTPUT'' then return \<lparr>ch_name = name, ch_address_type = ''--destination''\<rparr>
      else if name = ''INPUT'' then return \<lparr>ch_name = name, ch_address_type = ''--source''\<rparr>
      else raise (NotImplementedError ''only INPUT/OUTPUT chains are supported''))"

text \<open>\<open>",".join(dest['address'])\<close>: a text is joined character by character.\<close>

fun joined_addresses :: "destination \<Rightarrow> (exn, 's, string) py" where
  "joined_addresses (Addresses xs) = return (py_join '','' xs)"
| "joined_addresses (One_address x) = return (py_join '','' (map (\<lambda>c. [c]) x))"
| "joined_addresses (Plain_text x) = raise (TypeError ''string indices must be integers'')"

definition edit_chain ::
    "'s runner \<Rightarrow> string \<Rightarrow> string \<Rightarrow> string \<Rightarrow> destination \<Rightarrow> string \<Rightarrow> string
      \<Rightarrow> string list option \<Rightarrow> string option \<Rightarrow> (exn, 's, bool) py" where
  "edit_chain run action chain_name address_type dest target protocol ports rule_num =
     (let cmd = [IPTABLES, action, chain_name] @ (if truthy_opt rule_num then [the rule_num] else []) in
      bind (joined_addresses dest) (\<lambda>addresses.
      let cmd = cmd @ [address_type, addresses, ''--jump'', py_upper target, ''--protocol'', protocol] in
      bind (if truthy_opt ports
            then if length (the ports) > 15
              then raise (NotImplementedError ''Up to 15 ports can be specified'')
              else return ((if py_lower protocol = ''all'' then butlast cmd @ [''tcp''] else cmd) @
                [''--match'', ''multiport'', ''--dports'', py_join '','' (the ports)])
            else return cmd) (\<lambda>cmd.
      run_ok run cmd)))"

definition list_rules :: "'s runner \<Rightarrow> chain \<Rightarrow> (exn, 's, string list) py" where
  "list_rules run ch = bind (run default_opts (CList [IPTABLES, ''--list-rules'', ch_name ch]))
     (\<lambda>(c, rc, out, err). return (py_splitlines out))"

definition add_rule ::
    "'s runner \<Rightarrow> chain \<Rightarrow> destination \<Rightarrow> string \<Rightarrow> string \<Rightarrow> string list option \<Rightarrow> (exn, 's, bool) py" where
  "add_rule run ch dest target protocol ports =
     edit_chain run ''--append'' (ch_name ch) (ch_address_type ch) dest target protocol ports None"

definition insert_rule ::
    "'s runner \<Rightarrow> chain \<Rightarrow> destination \<Rightarrow> string \<Rightarrow> string \<Rightarrow> string list option \<Rightarrow> string option
      \<Rightarrow> (exn, 's, bool) py" where
  "insert_rule run ch dest target protocol ports rule_num =
     edit_chain run ''--insert'' (ch_name ch) (ch_address_type ch) dest target protocol ports rule_num"

definition delete_rule ::
    "'s runner \<Rightarrow> chain \<Rightarrow> destination \<Rightarrow> string \<Rightarrow> string \<Rightarrow> string list option \<Rightarrow> (exn, 's, bool) py" where
  "delete_rule run ch dest target protocol ports =
     edit_chain run ''--delete'' (ch_name ch) (ch_address_type ch) dest target protocol ports None"

definition clean_rules :: "'s runner \<Rightarrow> chain \<Rightarrow> (exn, 's, bool) py" where
  "clean_rules run ch = run_ok run [IPTABLES, ''--flush'', ch_name ch]"

context executor
begin

lemma joined_addresses_keeps: "keeps I (joined_addresses dest)"
  by (cases dest) (auto intro: keeps_intros)

lemma firewall_keeps:
  "keeps I (edit_chain run action c a dest target protocol ports n)"
  "keeps I (list_rules run ch)" "keeps I (clean_rules run ch)"
  "keeps I (add_rule run ch dest target protocol ports)"
  "keeps I (insert_rule run ch dest target protocol ports n)"
  "keeps I (delete_rule run ch dest target protocol ports)"
  unfolding edit_chain_def list_rules_def clean_rules_def add_rule_def insert_rule_def delete_rule_def Let_def
  by (intro keeps_intros run_frames joined_addresses_keeps)+

end

section \<open>Properties\<close>

text \<open>The words of a rule for a list of addresses.\<close>

definition rule_words ::
    "string \<Rightarrow> chain \<Rightarrow> string list \<Rightarrow> string \<Rightarrow> string \<Rightarrow> string list \<Rightarrow> string list" where
  "rule_words action ch addresses target protocol ports =
     [IPTABLES, action, ch_name ch, ch_address_type ch, py_join '','' addresses, ''--jump'', py_upper target,
      ''--protocol'', (if ports \<noteq> [] \<and> py_lower protocol = ''all'' then ''tcp'' else protocol)] @
     (if ports = [] then [] else [''--match'', ''multiport'', ''--dports'', py_join '','' ports])"

lemma edit_chain_words:
  "edit_chain (machine_run (fixed g)) action (ch_name ch) (ch_address_type ch) (Addresses addresses) target protocol
      (Some ports) None (m, log) =
    (if length ports > 15 then (Inl (NotImplementedError ''Up to 15 ports can be specified''), (m, log))
     else let ws = rule_words action ch addresses target protocol ports in
       (Inr (fst (g ws) = 0), (m, log @ [ws])))"
  by (cases ports)
    (simp_all add: edit_chain_def rule_words_def Let_def run_ok_fixed butlast_append, simp_all add: raise_def)

text \<open>
  C35. Adding a rule sends exactly one iptables command with all the addresses, the target in
  capitals and, when there are ports, a protocol they can be used with (\<open>tcp\<close> for \<open>all\<close>), and
  answers whether it succeeded; deleting it sends the same words with \<open>--delete\<close>. More than
  15 ports are refused before anything is sent.
\<close>

theorem rule_commands:
  "add_rule (machine_run (fixed g)) ch (Addresses addresses) target protocol (Some ports) (m, log) =
    (if length ports > 15 then (Inl (NotImplementedError ''Up to 15 ports can be specified''), (m, log))
     else let ws = rule_words ''--append'' ch addresses target protocol ports in
       (Inr (fst (g ws) = 0), (m, log @ [ws]))) \<and>
   delete_rule (machine_run (fixed g)) ch (Addresses addresses) target protocol (Some ports) (m, log) =
    (if length ports > 15 then (Inl (NotImplementedError ''Up to 15 ports can be specified''), (m, log))
     else let ws = rule_words ''--delete'' ch addresses target protocol ports in
       (Inr (fst (g ws) = 0), (m, log @ [ws])))"
  by (simp only: add_rule_def delete_rule_def edit_chain_words)

text \<open>
  A single address given as a text, which the documentation allows, is taken apart: the
  characters of the address become the list of addresses; and the plain text of the README
  example raises a \<open>TypeError\<close>.
\<close>

theorem text_address_is_split:
  "add_rule (machine_run (fixed g)) ch (One_address x) target protocol None (m, log) =
     (Inr (fst (g (rule_words ''--append'' ch (map (\<lambda>c. [c]) x) target protocol [])) = 0),
      (m, log @ [rule_words ''--append'' ch (map (\<lambda>c. [c]) x) target protocol []])) \<and>
   fst (add_rule (machine_run (fixed g)) ch (Plain_text x) target protocol None (m, log)) =
     Inl (TypeError ''string indices must be integers'')"
  by (simp add: add_rule_def edit_chain_def rule_words_def Let_def run_ok_fixed) (simp add: raise_def)

end
