(* ===== verification/OperatingSystem.thy ===== *)
theory OperatingSystem
  imports Filesystem "HOL-Library.AList"
begin

text \<open>
  \<open>rrmngmnt/operatingsystem.py\<close>: release, distribution, kernel and time zone of a host, kept
  once they are read, and file metadata. \<open>run\<close> stands for \<open>host.executor().run_cmd\<close>, \<open>x\<close> for
  the executor and \<open>h\<close> for the printed host of an error. Dictionaries are association lists
  with one entry for a key.
\<close>

section \<open>Queries\<close>

definition os_exec :: "'s runner \<Rightarrow> exec_ref \<Rightarrow> string list \<Rightarrow> string option \<Rightarrow> (exn, 's, string) py" where
  "os_exec run x cmd err_msg = run_checked run (CList cmd) (\<lambda>c rc out err.
     CommandExecutionFailure x c rc (if truthy_opt err_msg then the err_msg @ '': '' @ err else err))"

definition get_release_str :: "'s runner \<Rightarrow> exec_ref \<Rightarrow> (exn, 's, string) py" where
  "get_release_str run x =
     bind (os_exec run x [''cat'', ''/etc/system-release''] (Some ''Failed to obtain release string''))
       (\<lambda>out. return (py_strip out))"

type_synonym dict = "(string \<times> string) list"

definition info_strip_chars :: string where
  "info_strip_chars = [space, dquote, squote]"

text \<open>One line \<open>key=value\<close>; a line without an equals sign is passed over.\<close>

definition add_info_line :: "string \<Rightarrow> dict \<Rightarrow> dict" where
  "add_info_line line d = (case split_once (CHR ''='') line of
     [k, v] \<Rightarrow> AList.update (py_strip k) (py_strip_chars info_strip_chars v) d
   | _ \<Rightarrow> d)"

definition os_release_file :: string where "os_release_file = ''/etc/os-release''"

text \<open>Without the file the operation is not supported; a failing look for the file is ignored.\<close>

definition release_unsupported :: "string \<Rightarrow> exn" where
  "release_unsupported h = UnsupportedOperation h ''OperatingSystem.release_info''
     (''Requires '' @ squote # ''systemd'' @ squote # '' based operating system.'')"

definition get_release_info :: "'s runner \<Rightarrow> exec_ref \<Rightarrow> string \<Rightarrow> (exn, 's, dict) py" where
  "get_release_info run x h =
     bind (run default_opts (CList [''cat'', os_release_file])) (\<lambda>(c, rc, out, err).
       if rc \<noteq> 0
       then bind
         (try_except
           (bind (fs_exists run os_release_file) (\<lambda>there.
              if \<not> there then raise (release_unsupported h) else return ()))
           any_exception
           (\<lambda>e. if is_unsupported e then raise e else return ()))
         (\<lambda>_. raise (CommandExecutionFailure x c rc
            (''Failed to obtain release info, system doesn'' @ squote # ''t follow systemd standards: '' @ err)))
       else return (fold add_info_line (py_splitlines (py_strip out)) []))"

text \<open>A named tuple of a fixed length; the text of the error is not modelled.\<close>

definition tuple_of :: "nat \<Rightarrow> string list \<Rightarrow> (exn, 's, string list) py" where
  "tuple_of n xs = (if length xs = n then return xs else raise (TypeError ''wrong number of fields''))"

definition distribution_cmd :: "string list" where
  "distribution_cmd = [''python'', ''-c'',
     ''import platform;print('' @ squote # '','' @ squote # ''.join(platform.linux_distribution()))'']"

definition get_distribution :: "'s runner \<Rightarrow> exec_ref \<Rightarrow> (exn, 's, string list) py" where
  "get_distribution run x =
     bind (os_exec run x distribution_cmd (Some ''Failed to obtain release info''))
       (\<lambda>out. tuple_of 3 (map py_strip (py_split '','' out)))"

definition get_kernel_info :: "'s runner \<Rightarrow> exec_ref \<Rightarrow> (exn, 's, string list) py" where
  "get_kernel_info run x =
     bind (os_exec run x [''uname'', ''-r'', '';'', ''uname'', ''-v'', '';'', ''uname'', ''-m'']
        (Some ''Failed to obta kernel info''))
       (\<lambda>out. tuple_of 3 (map py_strip (py_split [newline] (py_strip out))))"

definition get_timezone :: "'s runner \<Rightarrow> exec_ref \<Rightarrow> (exn, 's, string list) py" where
  "get_timezone run x =
     bind (os_exec run x [''date'', ''+%Z'' @ [backslash], ''%z''] (Some ''Failed to obtain timezone info''))
       (\<lambda>out. tuple_of 2 (map py_strip (py_split_ws out)))"

section \<open>Kept values\<close>

record os_cache =
  os_release_str :: "string option"
  os_release_info :: "dict option"
  os_dist :: "string list option"
  os_kernel :: "string list option"
  os_timezone :: "string list option"

definition new_os :: os_cache where
  "new_os = \<lparr>os_release_str = None, os_release_info = None, os_dist = None, os_kernel = None, os_timezone = None\<rparr>"

text \<open>\<open>if not self._f: self._f = self.get_f()\<close>; an empty value counts as not read.\<close>

definition kept ::
    "('o \<Rightarrow> 'a list option) \<Rightarrow> ('a list \<Rightarrow> 'o \<Rightarrow> 'o) \<Rightarrow> (exn, 's, 'a list) py \<Rightarrow> (exn, 'o \<times> 's, 'a list) py" where
  "kept field store fetch = bind this (\<lambda>ob.
     if \<not> truthy_opt (field ob)
     then bind (outer fetch) (\<lambda>v. bind (set_this (store v)) (\<lambda>_. return v))
     else return (the (field ob)))"

definition release_str :: "'s runner \<Rightarrow> exec_ref \<Rightarrow> (exn, os_cache \<times> 's, string) py" where
  "release_str run x = kept os_release_str (\<lambda>v ob. ob\<lparr>os_release_str := Some v\<rparr>) (get_release_str run x)"
definition release_info :: "'s runner \<Rightarrow> exec_ref \<Rightarrow> string \<Rightarrow> (exn, os_cache \<times> 's, dict) py" where
  "release_info run x h = kept os_release_info (\<lambda>v ob. ob\<lparr>os_release_info := Some v\<rparr>) (get_release_info run x h)"
definition distribution :: "'s runner \<Rightarrow> exec_ref \<Rightarrow> (exn, os_cache \<times> 's, string list) py" where
  "distribution run x = kept os_dist (\<lambda>v ob. ob\<lparr>os_dist := Some v\<rparr>) (get_distribution run x)"
definition kernel_info :: "'s runner \<Rightarrow> exec_ref \<Rightarrow> (exn, os_cache \<times> 's, string list) py" where
  "kernel_info run x = kept os_kernel (\<lambda>v ob. ob\<lparr>os_kernel := Some v\<rparr>) (get_kernel_info run x)"
definition timezone :: "'s runner \<Rightarrow> exec_ref \<Rightarrow> (exn, os_cache \<times> 's, string list) py" where
  "timezone run x = kept os_timezone (\<lambda>v ob. ob\<lparr>os_timezone := Some v\<rparr>) (get_timezone run x)"

text \<open>What a kept property relies on: a field that gives back what was stored in it.\<close>

locale kept_field =
  fixes field :: "'o \<Rightarrow> 'a list option" and store :: "'a list \<Rightarrow> 'o \<Rightarrow> 'o"
  assumes field_store: "field (store v ob) = Some v"
begin

lemma kept_hit: "field ob = Some v \<Longrightarrow> v \<noteq> [] \<Longrightarrow> kept field store fetch (ob, s) = (Inr v, (ob, s))"
  by (simp add: kept_def this_def gets_def bind_def return_def)

text \<open>After a first read that gives a non-empty value, every read gives it, and none runs a command.\<close>

lemma kept_once:
  assumes "kept field store fetch (ob, s) = (Inr v, (ob', s'))" and "v \<noteq> []"
  shows "kept field store fetch' (ob', t) = (Inr v, (ob', t))"
proof -
  have "field ob' = Some v"
    using assms by (auto simp: kept_def py_defs field_store split: if_splits prod.splits sum.splits)
      (cases "field ob"; simp)
  then show ?thesis using assms(2) by (rule kept_hit)
qed

text \<open>A read that fails keeps nothing, so the next one tries again.\<close>

lemma kept_error:
  assumes "kept field store fetch (ob, s) = (Inl e, (ob', s'))"
  shows "ob' = ob \<and> \<not> truthy_opt (field ob) \<and> fetch s = (Inl e, s')"
  using assms by (auto simp: kept_def py_defs split: if_splits prod.splits sum.splits)

end

interpretation rel: kept_field os_release_str "\<lambda>v ob. ob\<lparr>os_release_str := Some v\<rparr>" by unfold_locales simp
interpretation inf: kept_field os_release_info "\<lambda>v ob. ob\<lparr>os_release_info := Some v\<rparr>" by unfold_locales simp
interpretation dist: kept_field os_dist "\<lambda>v ob. ob\<lparr>os_dist := Some v\<rparr>" by unfold_locales simp
interpretation kern: kept_field os_kernel "\<lambda>v ob. ob\<lparr>os_kernel := Some v\<rparr>" by unfold_locales simp
interpretation tz: kept_field os_timezone "\<lambda>v ob. ob\<lparr>os_timezone := Some v\<rparr>" by unfold_locales simp

section \<open>Files and accounts\<close>

text \<open>The fields of \<open>stat\<close>: name, format of the tool and base of the number it prints.\<close>

definition type_map :: "(string \<times> string \<times> nat) list" where
  "type_map =
     [(''st_mode'', ''0x%f'', 16), (''st_ino'', ''%i'', 10), (''st_dev'', ''%d'', 10), (''st_nlink'', ''%h'', 10),
      (''st_uid'', ''%u'', 10), (''st_gid'', ''%g'', 10), (''st_size'', ''%s'', 10), (''st_atime'', ''%X'', 10),
      (''st_mtime'', ''%Y'', 10), (''st_ctime'', ''%W'', 10), (''st_blocks'', ''%b'', 10),
      (''st_blksize'', ''%o'', 10), (''st_rdev'', ''%t'', 10)]"

definition stat_cmd :: "string \<Rightarrow> string list" where
  "stat_cmd path =
     [''stat'', ''-c'', py_join '','' (map (\<lambda>(k, f, b). k @ ''='' @ f) type_map), path]"

definition stat_field :: "string \<Rightarrow> (string \<times> int) list \<Rightarrow> (exn, 's, (string \<times> int) list) py" where
  "stat_field pair d = (case py_split ''='' pair of
     [key, val] \<Rightarrow> (case map_of type_map key of
         None \<Rightarrow> raise (KeyError key)
       | Some (f, base) \<Rightarrow> (case py_int base val of
           None \<Rightarrow> raise (ValueError ''invalid literal for int()'')
         | Some i \<Rightarrow> return (AList.update key i d)))
   | _ \<Rightarrow> raise (ValueError ''wrong number of values to unpack''))"

text \<open>The result: the values in the order of the fields; a missing one is a \<open>TypeError\<close>.\<close>

definition stat_result :: "(string \<times> int) list \<Rightarrow> (exn, 's, int list) py" where
  "stat_result d = (if list_all (\<lambda>(k, f, b). map_of d k \<noteq> None) type_map
     then return (map (\<lambda>(k, f, b). the (map_of d k)) type_map)
     else raise (TypeError ''missing arguments''))"

definition os_stat :: "'s runner \<Rightarrow> exec_ref \<Rightarrow> string \<Rightarrow> (exn, 's, int list) py" where
  "os_stat run x path =
     bind (os_exec run x (stat_cmd path) None) (\<lambda>out.
     bind (for_each stat_field (py_split '','' (py_strip out)) []) stat_result)"

definition get_file_permissions :: "'s runner \<Rightarrow> exec_ref \<Rightarrow> string \<Rightarrow> (exn, 's, string) py" where
  "get_file_permissions run x path =
     bind (os_exec run x [''stat'', ''-c'', ''%a'', path] None) (\<lambda>out. return (py_strip out))"

definition get_file_owner :: "'s runner \<Rightarrow> exec_ref \<Rightarrow> string \<Rightarrow> (exn, 's, string list) py" where
  "get_file_owner run x path =
     bind (os_exec run x [''stat'', ''-c'', ''%U %G'', path] None) (\<lambda>out. return (py_split_ws out))"

definition id_exists :: "'s runner \<Rightarrow> exec_ref \<Rightarrow> string \<Rightarrow> string \<Rightarrow> (exn, 's, bool) py" where
  "id_exists run x flag name =
     try_except (bind (os_exec run x [''id'', flag, name] None) (\<lambda>_. return True)) is_command_failure
       (\<lambda>_. return False)"

definition user_exists :: "'s runner \<Rightarrow> exec_ref \<Rightarrow> string \<Rightarrow> (exn, 's, bool) py" where
  "user_exists run x name = id_exists run x ''-u'' name"
definition group_exists :: "'s runner \<Rightarrow> exec_ref \<Rightarrow> string \<Rightarrow> (exn, 's, bool) py" where
  "group_exists run x name = id_exists run x ''-g'' name"

context executor
begin

lemma os_exec_keeps: "keeps I (os_exec run x cmd msg)"
  unfolding os_exec_def by (intro run_frames)

lemma stat_steps_keep: "keeps I (stat_field p d)" "keeps I (stat_result d)" "keeps I (tuple_of n xs)"
  unfolding stat_field_def stat_result_def tuple_of_def by (intro keeps_intros)+

lemma os_keeps:
  "keeps I (get_release_str run x)" "keeps I (get_release_info run x h)" "keeps I (get_distribution run x)"
  "keeps I (get_kernel_info run x)" "keeps I (get_timezone run x)" "keeps I (os_stat run x path)"
  "keeps I (get_file_permissions run x path)" "keeps I (get_file_owner run x path)"
  "keeps I (user_exists run x name)" "keeps I (group_exists run x name)"
  unfolding get_release_str_def get_release_info_def get_distribution_def get_kernel_info_def get_timezone_def
    os_stat_def get_file_permissions_def get_file_owner_def user_exists_def group_exists_def id_exists_def
  by (intro keeps_intros run_frames os_exec_keeps stat_steps_keep fs_keeps)+

end

section \<open>Reading metadata back\<close>

lemma update_new: "k \<notin> fst ` set d \<Longrightarrow> AList.update k v d = d @ [(k, v)]"
  by (induction d) auto

text \<open>A field as the tool prints it: a text \<open>t\<close> for the value \<open>v\<close>.\<close>

definition prints :: "string \<times> string \<times> nat \<Rightarrow> string \<times> int \<Rightarrow> bool" where
  "prints e p \<longleftrightarrow> (case (e, p) of ((k, f, b), (t, v)) \<Rightarrow>
     py_int b t = Some v \<and> ws_free t \<and> CHR '','' \<notin> set t \<and> CHR ''='' \<notin> set t)"

definition stat_pair :: "(string \<times> string \<times> nat) \<times> (string \<times> int) \<Rightarrow> string" where
  "stat_pair ep = (case ep of ((k, f, b), (t, v)) \<Rightarrow> k @ ''='' @ t)"

lemma type_map_shape:
  "list_all (\<lambda>(k, f, b). map_of type_map k = Some (f, b) \<and> CHR ''='' \<notin> set k \<and> CHR '','' \<notin> set k \<and>
    ws_free k \<and> k \<noteq> []) type_map"
  by code_simp

lemma type_map_keys:
  "(k, f, b) \<in> set type_map \<Longrightarrow> map_of type_map k = Some (f, b) \<and> CHR ''='' \<notin> set k \<and> CHR '','' \<notin> set k \<and>
    ws_free k \<and> k \<noteq> []"
  using type_map_shape by (auto simp: list_all_iff)

lemma stat_field_pair:
  assumes "prints (k, f, b) (t, v)" and "(k, f, b) \<in> set type_map" and "k \<notin> fst ` set d"
  shows "stat_field (stat_pair ((k, f, b), (t, v))) d s = (Inr (d @ [(k, v)]), s)"
proof -
  have "py_split ''='' (k @ ''='' @ t) = [k, t]"
    using assms(1) type_map_keys [OF assms(2)] by (simp add: prints_def split_on_append_sep split_on_no_sep)
  with assms type_map_keys [OF assms(2)] show ?thesis
    by (simp add: stat_field_def stat_pair_def prints_def update_new return_def)
qed

lemma stat_fields:
  assumes "list_all2 prints tm tvs" and "set tm \<subseteq> set type_map" and "distinct (map fst d @ map fst tm)"
  shows "for_each stat_field (map stat_pair (zip tm tvs)) d s = (Inr (d @ zip (map fst tm) (map snd tvs)), s)"
  using assms
proof (induction tm tvs arbitrary: d rule: list_all2_induct)
  case (Cons e tm p tvs)
  obtain k f b t v where ep: "e = (k, f, b)" "p = (t, v)" by (cases e; cases p) auto
  have "stat_field (stat_pair (e, p)) d s = (Inr (d @ [(k, v)]), s)"
    using Cons.hyps(1) Cons.prems unfolding ep by (intro stat_field_pair) auto
  with Cons.IH [of "d @ [(k, v)]"] Cons.prems show ?case by (simp add: ep bind_def)
qed (simp add: return_def)

lemma lookup_zip:
  "distinct ks \<Longrightarrow> length vs = length ks \<Longrightarrow> map (\<lambda>k. the (map_of (zip ks vs) k)) ks = vs"
  by (rule nth_equalityI) (simp_all add: map_of_zip_nth)

lemma stat_result_zip:
  assumes "length vs = length type_map"
  shows "stat_result (zip (map fst type_map) vs) s = (Inr vs, s)"
proof -
  have d: "distinct (map fst type_map)" by (simp add: type_map_def)
  have "map_of (zip (map fst type_map) vs) k \<noteq> None" if "(k, f, b) \<in> set type_map" for k f b
    using that assms by (auto simp: map_of_zip_is_None image_iff intro: bexI [of _ "(k, f, b)"])
  moreover have *: "map (\<lambda>(k, f, b). g k) type_map = map g (map fst type_map)" for g :: "string \<Rightarrow> int"
    by (simp add: type_map_def)
  have "map (\<lambda>(k, f, b). the (map_of (zip (map fst type_map) vs) k)) type_map = vs"
    unfolding * using assms by (intro lookup_zip [OF d]) simp
  ultimately show ?thesis by (auto simp: stat_result_def return_def list_all_iff)
qed

lemma eq_sign: "ws_free (CHR ''='' # t) \<longleftrightarrow> ws_free t"
  by (simp add: ws_free_def text_simps)

lemma prints_shape:
  assumes "list_all2 prints tm tvs" and "set tm \<subseteq> set type_map" and "w \<in> set (map stat_pair (zip tm tvs))"
  shows "CHR '','' \<notin> set w \<and> ws_free w \<and> w \<noteq> []"
proof -
  obtain e p where ep: "(e, p) \<in> set (zip tm tvs)" and w: "w = stat_pair (e, p)" using assms(3) by auto
  obtain k f b t v where eq: "e = (k, f, b)" "p = (t, v)" by (cases e; cases p) auto
  have "prints e p" using assms(1) ep by (auto simp: list_all2_iff)
  moreover have "(k, f, b) \<in> set type_map" using ep assms(2) eq by (auto dest: set_zip_leftD)
  ultimately show ?thesis
    using type_map_keys [of k f b] eq_sign by (simp add: w eq stat_pair_def prints_def)
qed

section \<open>Properties\<close>


definition passwd_fields :: "(string \<times> int) list" where
  "passwd_fields = [(''0x81a4'', 33188), (''7'', 7), (''2049'', 2049), (''1'', 1), (''0'', 0), (''0'', 0), (''5'', 5),
    (''9'', 9), (''9'', 9), (''0'', 0), (''8'', 8), (''4096'', 4096), (''0'', 0)]"

definition passwd_line :: string where
  "passwd_line = py_join '','' (map stat_pair (zip type_map passwd_fields)) @ [newline]"

lemma digit_values:
  "digit_value CHR ''0'' = Some 0" "digit_value CHR ''1'' = Some 1" "digit_value CHR ''2'' = Some 2"
  "digit_value CHR ''4'' = Some 4" "digit_value CHR ''5'' = Some 5" "digit_value CHR ''6'' = Some 6"
  "digit_value CHR ''7'' = Some 7" "digit_value CHR ''8'' = Some 8" "digit_value CHR ''9'' = Some 9"
  "digit_value CHR ''a'' = Some 10"
  by code_simp+


text \<open>
  C37. A property of the operating system is read at most once: after a first read of the
  distribution that succeeds, every later read gives the same value without any command,
  whatever the machine would answer by then.
\<close>

theorem distribution_read_once:
  assumes "distribution run x (ob, s) = (Inr v, (ob', s'))" and "v \<noteq> []"
  shows "distribution run' x' (ob', t) = (Inr v, (ob', t))"
  using assms unfolding distribution_def by (rule dist.kept_once)

definition fedora :: string where "fedora = ''Fedora,30,Thirty'' @ [newline]"

theorem distribution_read_once_witness:
  "\<exists>ob s'. distribution (machine_run (fixed (\<lambda>c. (0, fedora, [])))) Exec_method (new_os, ((), [])) =
      (Inr [''Fedora'', ''30'', ''Thirty''], (ob, s')) \<and>
    distribution (machine_run (fixed (\<lambda>c. (1, [], [])))) Exec_method (ob, ((), [])) =
      (Inr [''Fedora'', ''30'', ''Thirty''], (ob, ((), [])))"
proof -
  have parts: "map py_strip (split_on CHR '','' fedora) = [''Fedora'', ''30'', ''Thirty'']"
    by code_simp
  have n: "length (split_on CHR '','' fedora) = 3" using parts by (simp add: list_eq_iff_nth_eq)
  have "\<exists>ob s'. distribution (machine_run (fixed (\<lambda>c. (0, fedora, [])))) Exec_method (new_os, ((), [])) =
      (Inr [''Fedora'', ''30'', ''Thirty''], (ob, s'))"
    by (simp add: distribution_def kept_def get_distribution_def os_exec_def run_checked_def tuple_of_def parts n
        new_os_def py_defs)
  then obtain ob s' where r: "distribution (machine_run (fixed (\<lambda>c. (0, fedora, [])))) Exec_method
      (new_os, ((), [])) = (Inr [''Fedora'', ''30'', ''Thirty''], (ob, s'))" by blast
  with distribution_read_once [OF r, where run' = "machine_run (fixed (\<lambda>c. (1, [], [])))" and x' = Exec_method
      and t = "((), [])"]
  show ?thesis by blast
qed

end
