(* ===== verification/Database.thy ===== *)
theory Database
  imports SshContract Services
begin

text \<open>
  \<open>rrmngmnt/db.py\<close>: a PostgreSQL database on a host. \<open>run\<close> stands for
  \<open>with host.executor().session() as ss: ss.run_cmd(cmd)\<close>, which is \<open>run_cmd\<close> of the executor
  (\<open>session_call\<close> below); \<open>service\<close> for \<open>host.service\<close>.
\<close>

record database =
  db_name :: string
  db_user :: user

definition Database :: "string \<Rightarrow> user \<Rightarrow> database" where
  "Database name u = \<lparr>db_name = name, db_user = u\<rparr>"

text \<open>The call of a command in a session of its own is \<open>RemoteExecutor.run_cmd\<close>.\<close>

lemma session_call:
  "with_session P ex None (\<lambda>ss. session_run_cmd P ss default_opts cmd) = remote_run_cmd P ex default_opts cmd"
  by (simp add: remote_run_cmd_def default_opts_def)

subsection \<open>The statement\<close>

text \<open>
  \<open>sql % tuple(args)\<close> with the conversions \<open>%s\<close>, \<open>%d\<close> and \<open>%%\<close> on texts and integers;
  conversions with flags, widths or other letters are not modelled (they end in the last branch).
\<close>

datatype sql_arg = Sql_text string | Sql_int int

fun sql_str :: "sql_arg \<Rightarrow> string" where
  "sql_str (Sql_text t) = t"
| "sql_str (Sql_int i) = show_int i"

fun format_percent :: "string \<Rightarrow> sql_arg list \<Rightarrow> exn + string" where
  "format_percent [] [] = Inr []"
| "format_percent [] (a # as) = Inl (TypeError ''not all arguments converted during string formatting'')"
| "format_percent (c # cs) as =
     (if c \<noteq> CHR ''%'' then map_sum id ((#) c) (format_percent cs as)
      else case cs of
        [] \<Rightarrow> Inl (ValueError ''incomplete format'')
      | d # ds \<Rightarrow>
          if d = CHR ''%'' then map_sum id ((#) CHR ''%'') (format_percent ds as)
          else (case as of
            [] \<Rightarrow> Inl (TypeError ''not enough arguments for format string'')
          | a # as' \<Rightarrow>
              if d = CHR ''s'' then map_sum id ((@) (sql_str a)) (format_percent ds as')
              else if d = CHR ''d'' then (case a of
                Sql_int i \<Rightarrow> map_sum id ((@) (show_int i)) (format_percent ds as')
              | Sql_text t \<Rightarrow> Inl (TypeError ''%d format: a number is required, not str''))
              else Inl (ValueError ''unsupported format character'')))"

subsection \<open>Calls\<close>

definition record_separator :: string where "record_separator = ''__RECORD_SEPARATOR__''"

definition psql_prefix :: "database \<Rightarrow> string list" where
  "psql_prefix db =
     [''export'', ''PGPASSWORD='' @ show_opt (u_password (db_user db)) @ '';'',
      ''psql'', ''-d'', db_name db, ''-U'', u_name (db_user db), ''-h'', ''localhost'']"

definition psql_records :: "string \<Rightarrow> string list list" where
  "psql_records out =
     map (\<lambda>a. py_split ''|'' (py_strip a))
       (filter (\<lambda>a. truthy (py_strip a)) (py_split record_separator (py_strip out)))"

definition psql :: "'s runner \<Rightarrow> database \<Rightarrow> string \<Rightarrow> sql_arg list \<Rightarrow> (exn, 's, string list list) py" where
  "psql run db sql args =
     bind (of_result (format_percent sql args)) (\<lambda>sql.
     bind (run default_opts (CList (psql_prefix db @ [''-R'', record_separator, ''-t'', ''-A'', ''-c'', sql])))
       (\<lambda>(c, rc, out, err).
         if rc \<noteq> 0 then raise (PlainException (''Failed to exec sql command: '' @ err))
         else return (psql_records out)))"

definition psql_cmd :: "'s runner \<Rightarrow> database \<Rightarrow> string \<Rightarrow> (exn, 's, string) py" where
  "psql_cmd run db command =
     bind (run default_opts (CList (psql_prefix db @ [''-c'', command]))) (\<lambda>(c, rc, out, err).
       if rc \<noteq> 0 then raise (PlainException (''Failed to exec command: '' @ err))
       else return (if \<not> truthy out \<and> truthy err then err else out))"

definition db_restart ::
    "'s runner \<Rightarrow> (string \<Rightarrow> (exn, 's, service) py) \<Rightarrow> (exn, 's, unit) py" where
  "db_restart run service =
     bind (service ''postgresql'') (\<lambda>sv. bind (service_op run sv Restart) (\<lambda>_. return ()))"

context executor
begin

lemma database_keeps: "keeps I (psql run db sql args)" "keeps I (psql_cmd run db command)"
  unfolding psql_def psql_cmd_def by (intro keeps_intros run_keeps)+

end

section \<open>Reading the records back\<close>

text \<open>A piece in which the separator does not start, also not across its end.\<close>

definition clean_piece :: "string \<Rightarrow> string \<Rightarrow> bool" where
  "clean_piece sep x \<longleftrightarrow> list_all (\<lambda>k. \<not> prefix sep (drop k (x @ sep))) [0..<length x]"

lemma clean_pieceD:
  assumes "clean_piece sep x" and "k < length x"
  shows "\<not> prefix sep (drop k (x @ sep @ s))" and "\<not> prefix sep (drop k x)"
proof -
  have n: "\<not> prefix sep (drop k x @ sep)"
    using assms by (auto simp: clean_piece_def list_all_iff)
  from n show "\<not> prefix sep (drop k (x @ sep @ s))"
    using assms(2) by (metis append.assoc drop_append diff_is_0_eq' drop0 length_append le_add2 less_imp_le
        prefix_append prefix_length_prefix prefixI)
  from n show "\<not> prefix sep (drop k x)" by auto
qed

lemma py_split_pieces:
  assumes "sep \<noteq> []" and "ws \<noteq> []" and "\<forall>w\<in>set ws. clean_piece sep w"
  shows "py_split sep (py_join sep ws) = ws"
proof -
  have "split_from sep [] (py_join sep (v # vs)) 0 = v # vs" if "\<forall>w\<in>set (v # vs). clean_piece sep w" for v vs
    using that
  proof (induction vs arbitrary: v)
    case Nil
    then show ?case using split_from_piece [of v sep "[]" "[]"] clean_pieceD(2) by simp
  next
    case (Cons v' vs)
    then have "split_from sep [] (v @ sep @ py_join sep (v' # vs)) 0 =
        split_from sep v (sep @ py_join sep (v' # vs)) 0"
      using split_from_piece [of v sep "sep @ py_join sep (v' # vs)" "[]"] clean_pieceD(1) by simp
    with Cons assms(1) show ?case by (simp add: split_from_sep)
  qed
  with assms(2,3) show ?thesis by (cases ws) (auto simp: py_split_def)
qed

text \<open>A row of fields that comes through: no bar in a field, and a text that stands for itself.\<close>

definition good_row :: "string list \<Rightarrow> bool" where
  "good_row fs \<longleftrightarrow> fs \<noteq> [] \<and> list_all (\<lambda>f. CHR ''|'' \<notin> set f) fs \<and>
     (let row = py_join ''|'' fs in row \<noteq> [] \<and> py_strip row = row \<and> clean_piece record_separator row)"

lemma good_row_split: "good_row fs \<Longrightarrow> py_split ''|'' (py_join ''|'' fs) = fs"
  by (simp add: good_row_def list_all_iff split_on_join)

lemma strip_ends: "py_strip w = w \<Longrightarrow> w \<noteq> [] \<Longrightarrow> \<not> is_ws (hd w) \<and> \<not> is_ws (last w)"
  using strip_if_ends [of is_ws w] by (auto simp: py_strip_def)

lemma join_ends_sep:
  assumes "ws \<noteq> []" and "hd ws \<noteq> []" and "last ws \<noteq> []"
  shows "py_join sep ws \<noteq> [] \<and> hd (py_join sep ws) = hd (hd ws) \<and> last (py_join sep ws) = last (last ws)"
proof -
  have "py_join sep vs \<noteq> [] \<and> last (py_join sep vs) = last (last vs)" if "vs \<noteq> []" "last vs \<noteq> []" for vs
    using that by (induction sep vs rule: py_join.induct) auto
  with assms show ?thesis by (cases ws rule: remdups_adj.cases) auto
qed

section \<open>Properties\<close>


definition two_rows :: "string list list" where
  "two_rows = [[''1'', ''my_table''], [''2'', ''a b'']]"


end
