(* ===== verification/Storage.thy ===== *)
theory Storage
  imports Filesystem
begin

text \<open>
  \<open>rrmngmnt/storage.py\<close>: mounting NFS shares and activating logical volumes. \<open>run\<close> stands for
  \<open>host.run_command\<close>, whose result is that of \<open>run_cmd\<close> of the host's executor.
\<close>

definition nfs_mount ::
    "'s runner \<Rightarrow> string \<Rightarrow> string option \<Rightarrow> string list option \<Rightarrow> (exn, 's, string option) py" where
  "nfs_mount run source target opts =
     (let target = (case target of None \<Rightarrow> ''/tmp/mnt_point'' | Some t \<Rightarrow> t) in
      bind (run_rc run default_opts (CList [''mkdir'', ''-p'', target])) (\<lambda>rc.
        if rc \<noteq> 0 then return None
        else
          let cmd = [''mount'', source, target] @ (if truthy_opt opts then the opts else []) in
          bind (run_rc run default_opts (CList cmd)) (\<lambda>rc.
            if rc \<noteq> 0 then return None else return (Some target))))"

definition nfs_umount :: "'s runner \<Rightarrow> string \<Rightarrow> bool \<Rightarrow> bool \<Rightarrow> (exn, 's, bool) py" where
  "nfs_umount run mount_point force remove_mount_point =
     (let cmd = [''umount'', mount_point, ''-v''] @ (if force then [''-f''] else []) in
      bind (run_rc run default_opts (CList cmd)) (\<lambda>rc.
        if rc \<noteq> 0 then return False
        else if remove_mount_point
        then bind (fs_rmdir run mount_point) (\<lambda>ok. if \<not> ok then return False else return True)
        else return True))"

definition LV_CHANGE_CMD :: "string \<Rightarrow> string \<Rightarrow> string \<Rightarrow> string" where
  "LV_CHANGE_CMD active vg lv = ''lvchange -a '' @ active @ '' '' @ vg @ ''/'' @ lv"

definition lvchange :: "'s runner \<Rightarrow> string \<Rightarrow> string \<Rightarrow> bool \<Rightarrow> (exn, 's, bool) py" where
  "lvchange run vg_name lv_name activate =
     (let active = (if activate then ''y'' else ''n'') in
      bind (shlex_call (LV_CHANGE_CMD active vg_name lv_name)) (\<lambda>cmd.
      bind (run_rc run default_opts (CList cmd)) (\<lambda>rc. return (rc = 0))))"

definition pvscan :: "'s runner \<Rightarrow> (exn, 's, bool) py" where
  "pvscan run = bind (run_rc run default_opts (CList [''pvscan''])) (\<lambda>rc. return (rc = 0))"

context executor
begin

lemma storage_keeps:
  "keeps I (nfs_mount run source target opts)" "keeps I (nfs_umount run mp force remove)"
  "keeps I (lvchange run vg lv activate)" "keeps I (pvscan run)"
  unfolding nfs_mount_def nfs_umount_def lvchange_def pvscan_def Let_def
  by (intro keeps_intros run_frames fs_keeps)+

end

text \<open>
  A volume is named by one argument when neither name has a blank, a quote or a backslash.
\<close>

lemma lvchange_words:
  assumes "plain_word (vg @ ''/'' @ lv)"
  shows "lvchange (machine_run (fixed g)) vg lv activate (m, log) =
    (let cmd = [''lvchange'', ''-a'', if activate then ''y'' else ''n'', vg @ ''/'' @ lv] in
      (Inr (fst (g cmd) = 0), (m, log @ [cmd])))"
proof -
  let ?ws = "[''lvchange'', ''-a'', if activate then ''y'' else ''n'', vg @ ''/'' @ lv]"
  have "plain_word ''lvchange''" "plain_word ''-a''" "plain_word ''y''" "plain_word ''n''" by code_simp+
  with assms have "list_all plain_word ?ws" by simp
  then have "shlex_split (py_join [space] ?ws) = Inr ?ws" by (rule shlex_split_plain_words)
  moreover have "LV_CHANGE_CMD (if activate then ''y'' else ''n'') vg lv = py_join [space] ?ws"
    by (simp add: LV_CHANGE_CMD_def)
  ultimately show ?thesis
    by (simp add: lvchange_def shlex_call_def Let_def bind_def return_def)
qed

section \<open>Properties\<close>

text \<open>
  Unmounting an NFS share sends \<open>umount\<close> first; only after its success, and only when the
  caller asks for it, the directory is removed; the answer is true exactly when every command
  that was sent succeeded. Removing the root directory is refused by an error.
\<close>

theorem nfs_umount_outcome:
  "nfs_umount (machine_run (fixed g)) target force remove (m, log) =
    (let u = [''umount'', target, ''-v''] @ (if force then [''-f''] else []); r = [''rm'', ''-rf'', target] in
     if fst (g u) \<noteq> 0 then (Inr False, (m, log @ [u]))
     else if \<not> remove then (Inr True, (m, log @ [u]))
     else if target = ''/'' then (Inl root_removal, (m, log @ [u]))
     else (Inr (fst (g r) = 0), (m, log @ [u, r])))"
  by (simp add: nfs_umount_def fs_rmdir_def run_ok_fixed bind_def return_def raise_def Let_def)

end
