(* ===== verification/PowerManager.thy ===== *)
theory PowerManager
  imports SshContract
begin

text \<open>
  \<open>rrmngmnt/power_manager.py\<close>: turning hosts on and off, by commands over SSH or by the
  \<open>ipmitool\<close> of the local machine. \<open>run\<close> stands for \<open>host.executor().run_cmd\<close>; \<open>call\<close> for
  \<open>subprocess.call\<close>.
\<close>

definition SSH_TYPE :: string where "SSH_TYPE = ''ssh''"
definition IPMI_TYPE :: string where "IPMI_TYPE = ''ipmi''"

record ipmi =
  pm_if_type :: string
  pm_address :: string
  pm_user :: string
  pm_password :: "string option"

datatype power_manager = SSHPowerManager | IPMIPowerManager ipmi

datatype init_params = No_params | Ipmi_params string string user

text \<open>The class a type names, applied to the parameters of the caller.\<close>

definition new_ipmi :: "string \<Rightarrow> string \<Rightarrow> user \<Rightarrow> power_manager" where
  "new_ipmi if_type address u = IPMIPowerManager
     \<lparr>pm_if_type = if_type, pm_address = address, pm_user = u_name u, pm_password = u_password u\<rparr>"

definition new_power_manager :: "string \<Rightarrow> init_params \<Rightarrow> (exn, 's, power_manager) py" where
  "new_power_manager pm_type params =
     (if pm_type = SSH_TYPE then (case params of
        No_params \<Rightarrow> return SSHPowerManager
      | Ipmi_params i a u \<Rightarrow> raise (TypeError ''unexpected keyword argument''))
      else if pm_type = IPMI_TYPE then (case params of
        No_params \<Rightarrow> raise (TypeError ''missing arguments'')
      | Ipmi_params i a u \<Rightarrow> return (new_ipmi i a u))
      else raise (KeyError pm_type))"

text \<open>The command line of \<open>ipmitool\<close>; a missing password is not a text, which the call refuses.\<close>

definition ipmi_binary :: "ipmi \<Rightarrow> string \<Rightarrow> string list" where
  "ipmi_binary pm password =
     [''ipmitool'', ''-I'', pm_if_type pm, ''-H'', pm_address pm, ''-U'', pm_user pm, ''-P'', password, ''power'']"

definition ipmi_exec :: "(string list \<Rightarrow> (exn, 's, int) py) \<Rightarrow> ipmi \<Rightarrow> string list \<Rightarrow> string list \<Rightarrow> (exn, 's, unit) py" where
  "ipmi_exec call pm command args = (case pm_password pm of
     None \<Rightarrow> raise (TypeError ''expected str, bytes or os.PathLike object, not NoneType'')
   | Some pw \<Rightarrow> bind (call (ipmi_binary pm pw @ command @ args)) (\<lambda>_. return ()))"

text \<open>Over SSH every exception is dropped: the connection is expected to break.\<close>

definition pm_timeouts :: call_opts where
  "pm_timeouts = default_opts\<lparr>co_tcp := Some 20, co_io := Some 20\<rparr>"

definition ssh_pm_exec :: "'s runner \<Rightarrow> string list \<Rightarrow> string list \<Rightarrow> (exn, 's, unit) py" where
  "ssh_pm_exec run command args =
     try_except (bind (run pm_timeouts (CList (command @ args))) (\<lambda>_. return ())) any_exception (\<lambda>_. return ())"

fun pm_restart ::
    "'s runner \<Rightarrow> (string list \<Rightarrow> (exn, 's, int) py) \<Rightarrow> power_manager \<Rightarrow> string list \<Rightarrow> (exn, 's, unit) py" where
  "pm_restart run call SSHPowerManager args = ssh_pm_exec run [''reboot''] args"
| "pm_restart run call (IPMIPowerManager pm) args = ipmi_exec call pm [''reset''] args"

fun pm_poweroff ::
    "'s runner \<Rightarrow> (string list \<Rightarrow> (exn, 's, int) py) \<Rightarrow> power_manager \<Rightarrow> string list \<Rightarrow> (exn, 's, unit) py" where
  "pm_poweroff run call SSHPowerManager args = ssh_pm_exec run [''poweroff''] args"
| "pm_poweroff run call (IPMIPowerManager pm) args = ipmi_exec call pm [''off''] args"

fun pm_poweron ::
    "'s runner \<Rightarrow> (string list \<Rightarrow> (exn, 's, int) py) \<Rightarrow> power_manager \<Rightarrow> string list \<Rightarrow> (exn, 's, unit) py" where
  "pm_poweron run call SSHPowerManager args =
     raise (NotImplementedError ''Not possible to power on host via ssh, please use ipmi power management'')"
| "pm_poweron run call (IPMIPowerManager pm) args = ipmi_exec call pm [''on''] args"

fun pm_status ::
    "'s runner \<Rightarrow> (string list \<Rightarrow> (exn, 's, int) py) \<Rightarrow> power_manager \<Rightarrow> string list \<Rightarrow> (exn, 's, unit) py" where
  "pm_status run call SSHPowerManager args =
     bind (run (default_opts\<lparr>co_tcp := Some 5\<rparr>) (CList [''true''])) (\<lambda>_. return ())"
| "pm_status run call (IPMIPowerManager pm) args = ipmi_exec call pm [''status''] args"

context executor
begin

lemma ssh_pm_keeps:
  "keeps I (ssh_pm_exec run command args)"
  "keeps I (pm_restart run call SSHPowerManager args)" "keeps I (pm_poweroff run call SSHPowerManager args)"
  "keeps I (pm_poweron run call SSHPowerManager args)" "keeps I (pm_status run call SSHPowerManager args)"
  unfolding pm_restart.simps pm_poweroff.simps pm_poweron.simps pm_status.simps ssh_pm_exec_def
  by (intro keeps_intros run_keeps)+

end

lemma ssh_pm_returns: "fst (ssh_pm_exec run command args s) = Inr ()"
  by (auto simp: ssh_pm_exec_def py_defs split: prod.splits sum.splits)

section \<open>Properties\<close>

text \<open>
  Rebooting and powering off over SSH never raise, whatever the connection does, send at
  most the command with the arguments of the caller, and leave no session open.
\<close>

theorem ssh_power_commands_return:
  "fst (pm_restart (remote_run_cmd P ex) call SSHPowerManager args s) = Inr () \<and>
   fst (pm_poweroff (remote_run_cmd P ex) call SSHPowerManager args s) = Inr () \<and>
   (\<exists>ext. trace (snd (pm_restart (remote_run_cmd P ex) call SSHPowerManager args s)) = trace s @ ext \<and>
      call_trace (sent_line (rx_sudo ex) (CList (''reboot'' # args))) ext) \<and>
   (\<exists>ext. trace (snd (pm_poweroff (remote_run_cmd P ex) call SSHPowerManager args s)) = trace s @ ext \<and>
      call_trace (sent_line (rx_sudo ex) (CList (''poweroff'' # args))) ext)"
proof -
  have "trace (snd (ssh_pm_exec (remote_run_cmd P ex) command args s)) =
      trace (snd (remote_run_cmd P ex pm_timeouts (CList (command @ args)) s))" for command
    by (auto simp: ssh_pm_exec_def py_defs split: prod.splits sum.splits)
  then show ?thesis
    using remote_run_cmd_call_trace [of P ex pm_timeouts _ s]
    by (simp add: ssh_pm_returns)
qed

end
