(* ===== verification/PlaybookRunner.thy ===== *)
theory PlaybookRunner
  imports Reader FileTransfer
begin

text \<open>
  \<open>rrmngmnt/playbook_runner.py\<close>: running Ansible playbooks in a temporary directory of the
  host. The object keeps its command, the directory while it exists, and the outcome of the
  last run. \<open>P\<close>, \<open>L\<close> and \<open>ex\<close> are the client library, the local files and the executor
  \<open>host.executor()\<close> gives.
\<close>

section \<open>Extra variables\<close>

text \<open>The values \<open>json.dumps\<close> is given, floats apart, and the text it makes of them.\<close>

datatype json = J_null | J_bool bool | J_int int | J_text string | J_list "json list" | J_dict "(string \<times> json) list"

definition json_escape :: "char \<Rightarrow> string" where
  "json_escape c =
     (if c = dquote then [backslash, dquote] else if c = backslash then [backslash, backslash]
      else if c = newline then [backslash, CHR ''n''] else if c = CHR 0x0D then [backslash, CHR ''r'']
      else if c = CHR 0x09 then [backslash, CHR ''t''] else if c = CHR 0x08 then [backslash, CHR ''b'']
      else if c = CHR 0x0C then [backslash, CHR ''f'']
      else if of_char c < (0x20 :: nat) \<or> of_char c > (0x7E :: nat)
      then [backslash, CHR ''u'', CHR ''0'', CHR ''0'', hex_char (of_char c div 16), hex_char (of_char c mod 16)]
      else [c])"

definition json_text :: "string \<Rightarrow> string" where
  "json_text s = dquote # concat (map json_escape s) @ [dquote]"

fun dumps :: "json \<Rightarrow> string" where
  "dumps J_null = ''null''"
| "dumps (J_bool b) = (if b then ''true'' else ''false'')"
| "dumps (J_int i) = show_int i"
| "dumps (J_text s) = json_text s"
| "dumps (J_list xs) = ''['' @ py_join '', '' (map dumps xs) @ '']''"
| "dumps (J_dict kvs) = ''{'' @ py_join '', '' (map (\<lambda>(k, v). json_text k @ '': '' @ dumps v) kvs) @ ''}''"

section \<open>The runner\<close>

record playbook_runner =
  pb_uuid :: string
  pb_tmp_exec_dir :: "string option"
  pb_cmd :: "string list"
  pb_rc :: "int option"
  pb_out :: "string option"
  pb_err :: "pydata option"

type_synonym ('w, 'a) pb = "(exn, playbook_runner \<times> 'w sys, 'a) py"

definition tmp_dir :: string where "tmp_dir = ''/tmp''"
definition binary :: string where "binary = ''ansible-playbook''"
definition extra_vars_file :: string where "extra_vars_file = ''extra_vars.json''"
definition default_inventory_name :: string where "default_inventory_name = ''inventory''"
definition default_inventory_content :: string where
  "default_inventory_content = ''localhost ansible_connection=local''"
definition ssh_common_args_param :: string where "ssh_common_args_param = ''--ssh-common-args''"
definition check_mode_param :: string where "check_mode_param = ''--check''"

text \<open>\<open>__init__\<close>, for the first part of a fresh identifier.\<close>

definition PlaybookRunner :: "string \<Rightarrow> playbook_runner" where
  "PlaybookRunner uuid = \<lparr>pb_uuid = uuid, pb_tmp_exec_dir = None, pb_cmd = [binary],
     pb_rc = None, pb_out = None, pb_err = None\<rparr>"

text \<open>\<open>with self._exec_dir(): body\<close>.\<close>

definition exec_dir :: "'w paramiko \<Rightarrow> remote_executor \<Rightarrow> ('w, 'a) pb \<Rightarrow> ('w, 'a) pb" where
  "exec_dir P ex body = bind this (\<lambda>pb.
     let path = path_join tmp_dir (pb_uuid pb) in
     bind (outer (fs_rmdir (remote_run_cmd P ex) path)) (\<lambda>_.
     bind (outer (fs_mkdir (remote_run_cmd P ex) (remote_ref ex) path False None)) (\<lambda>_.
     bind (set_this (\<lambda>pb. pb\<lparr>pb_tmp_exec_dir := Some path\<rparr>)) (\<lambda>_.
     try_finally body
       (bind (set_this (\<lambda>pb. pb\<lparr>pb_tmp_exec_dir := None\<rparr>)) (\<lambda>_.
        bind (outer (fs_rmdir (remote_run_cmd P ex) path)) (\<lambda>_. return ())))))))"

text \<open>\<open>os.path.join(self.tmp_exec_dir, name)\<close>.\<close>

definition in_exec_dir :: "string \<Rightarrow> ('w, string) pb" where
  "in_exec_dir name = bind this (\<lambda>pb. case pb_tmp_exec_dir pb of
     None \<Rightarrow> raise (TypeError ''expected str, bytes or os.PathLike object, not NoneType'')
   | Some dir \<Rightarrow> return (path_join dir name))"

definition upload_file :: "'w paramiko \<Rightarrow> 'w localfs \<Rightarrow> remote_executor \<Rightarrow> string \<Rightarrow> ('w, string) pb" where
  "upload_file P L ex file = bind (in_exec_dir (path_basename file)) (\<lambda>path.
     bind (outer (fs_put P L ex file path)) (\<lambda>_. return path))"

definition dump_vars_to_json_file ::
    "'w paramiko \<Rightarrow> remote_executor \<Rightarrow> (string \<times> json) list \<Rightarrow> ('w, string) pb" where
  "dump_vars_to_json_file P ex vars = bind (in_exec_dir extra_vars_file) (\<lambda>path.
     bind (outer (fs_create_file P ex (dumps (J_dict vars)) path)) (\<lambda>_. return path))"

definition generate_default_inventory :: "'w paramiko \<Rightarrow> remote_executor \<Rightarrow> ('w, string) pb" where
  "generate_default_inventory P ex = bind (in_exec_dir default_inventory_name) (\<lambda>path.
     bind (outer (fs_create_file P ex default_inventory_content path)) (\<lambda>_. return path))"

text \<open>The arguments of \<open>run\<close>; an empty list or dictionary and a missing one count the same.\<close>

record playbook_args =
  pa_playbook :: string
  pa_extra_vars :: "(string \<times> json) list"
  pa_vars_files :: "string list"
  pa_inventory :: "string option"
  pa_verbose_level :: int
  pa_check_mode :: bool
  pa_ssh_common_args :: "string list"
  pa_upload_playbook :: bool
  pa_vault_password_file :: "string option"

definition playbook_args :: "string \<Rightarrow> playbook_args" where
  "playbook_args playbook = \<lparr>pa_playbook = playbook, pa_extra_vars = [], pa_vars_files = [], pa_inventory = None,
     pa_verbose_level = 1, pa_check_mode = False, pa_ssh_common_args = [], pa_upload_playbook = True,
     pa_vault_password_file = None\<rparr>"

definition cmd_append :: "string \<Rightarrow> ('w, unit) pb" where
  "cmd_append w = set_this (\<lambda>pb. pb\<lparr>pb_cmd := pb_cmd pb @ [w]\<rparr>)"

text \<open>The body of the \<open>with\<close> block up to the call of the reader.\<close>

definition build_cmd :: "'w paramiko \<Rightarrow> 'w localfs \<Rightarrow> remote_executor \<Rightarrow> playbook_args \<Rightarrow> ('w, unit) pb" where
  "build_cmd P L ex a =
     bind (if pa_extra_vars a \<noteq> []
           then bind (dump_vars_to_json_file P ex (pa_extra_vars a)) (\<lambda>f. cmd_append (''-e@'' @ f))
           else return ()) (\<lambda>_.
     bind (for_each (\<lambda>f _. bind (upload_file P L ex f) (\<lambda>f. cmd_append (''-e@'' @ f))) (pa_vars_files a) ()) (\<lambda>_.
     bind (if truthy_opt (pa_vault_password_file a)
           then bind (upload_file P L ex (the (pa_vault_password_file a)))
             (\<lambda>f. cmd_append (''--vault-password-file='' @ f))
           else return ()) (\<lambda>_.
     bind (cmd_append ''-i'') (\<lambda>_.
     bind (bind (if truthy_opt (pa_inventory a) then upload_file P L ex (the (pa_inventory a))
                 else generate_default_inventory P ex) cmd_append) (\<lambda>_.
     bind (cmd_append (''-'' @ replicate (nat (pa_verbose_level a)) (CHR ''v''))) (\<lambda>_.
     bind (if pa_check_mode a then cmd_append check_mode_param else return ()) (\<lambda>_.
     bind (if pa_ssh_common_args a \<noteq> []
           then cmd_append (ssh_common_args_param @ ''='' @ py_join [space] (pa_ssh_common_args a))
           else return ()) (\<lambda>_.
     bind (if pa_upload_playbook a then upload_file P L ex (pa_playbook a) else return (pa_playbook a))
       cmd_append))))))))"

text \<open>The rest of the block: read all lines, then keep what the reader has. \<open>None\<close>: the fuel of
  the reader ran out.\<close>

definition run_reader :: "'w paramiko \<Rightarrow> remote_executor \<Rightarrow> nat \<Rightarrow> ('w, unit option) pb" where
  "run_reader P ex fuel = bind this (\<lambda>pb.
     bind (outer (read_lines P ex (CList (pb_cmd pb)) None fuel)) (\<lambda>r. case r of
       None \<Rightarrow> return None
     | Some (lines, rd) \<Rightarrow>
         bind (set_this (\<lambda>pb. pb\<lparr>pb_rc := rd_rc rd, pb_out := Some (rd_out rd), pb_err := Some (rd_err rd)\<rparr>))
           (\<lambda>_. return (Some ()))))"

definition playbook_run ::
    "'w paramiko \<Rightarrow> 'w localfs \<Rightarrow> remote_executor \<Rightarrow> playbook_args \<Rightarrow> nat
      \<Rightarrow> ('w, (int option \<times> string option \<times> pydata option) option) pb" where
  "playbook_run P L ex a fuel =
     bind (exec_dir P ex (bind (build_cmd P L ex a) (\<lambda>_. run_reader P ex fuel))) (\<lambda>r. case r of
       None \<Rightarrow> return None
     | Some u \<Rightarrow> bind this (\<lambda>pb. return (Some (pb_rc pb, pb_out pb, pb_err pb))))"

section \<open>What a run leaves behind\<close>

abbreviation pb_balanced :: "int \<Rightarrow> playbook_runner \<times> 'w sys \<Rightarrow> bool" where
  "pb_balanced n \<equiv> (\<lambda>(pb, s). traced (\<lambda>tr. open_sessions tr = n) s)"

lemma read_lines_balanced: "keeps (traced (\<lambda>tr. open_sessions tr = n)) (read_lines P ex cmd i fuel)"
proof (rule keepsI)
  fix s :: "'a sys"
  assume "traced (\<lambda>tr. open_sessions tr = n) s"
  moreover obtain ext where "trace (snd (read_lines P ex cmd i fuel s)) = trace s @ ext"
    and "call_trace (list2cmdline (cmd_args cmd)) ext"
    using read_lines_trace [of P ex cmd i fuel s] by blast
  ultimately show "traced (\<lambda>tr. open_sessions tr = n) (snd (read_lines P ex cmd i fuel s))"
    by (simp add: call_trace_balanced)
qed

lemmas playbook_frames =
  executor.fs_keeps [OF remote_executor_balanced] file_ops_balanced read_lines_balanced keeps_intros

lemma in_exec_dir_keeps [keeps_intros]: "keeps I (in_exec_dir name)"
  unfolding in_exec_dir_def by (intro keeps_intros)

lemma cmd_append_keeps: "keeps (\<lambda>(pb, s). I s) (cmd_append w)"
  unfolding cmd_append_def by (intro keeps_intros)

lemma uploads_balanced:
  "keeps (pb_balanced n) (upload_file P L ex f)"
  "keeps (pb_balanced n) (dump_vars_to_json_file P ex v)"
  "keeps (pb_balanced n) (generate_default_inventory P ex)"
  unfolding upload_file_def dump_vars_to_json_file_def generate_default_inventory_def
  by (intro playbook_frames in_exec_dir_keeps)+

lemma build_cmd_balanced: "keeps (pb_balanced n) (build_cmd P L ex a)"
  unfolding build_cmd_def by (intro keeps_intros uploads_balanced cmd_append_keeps)

lemma run_reader_balanced: "keeps (pb_balanced n) (run_reader P ex fuel)"
  unfolding run_reader_def by (intro playbook_frames)

lemma exec_dir_balanced: "keeps (pb_balanced n) body \<Longrightarrow> keeps (pb_balanced n) (exec_dir P ex body)"
  unfolding exec_dir_def Let_def by (intro playbook_frames)

lemma playbook_run_balanced: "keeps (pb_balanced n) (playbook_run P L ex a fuel)"
  unfolding playbook_run_def by (intro keeps_intros exec_dir_balanced build_cmd_balanced run_reader_balanced)

text \<open>The directory: after a run it is forgotten, whichever way the run ended.\<close>

abbreviation dir_forgotten :: "playbook_runner \<Rightarrow> playbook_runner \<times> 'w sys \<Rightarrow> bool" where
  "dir_forgotten pb0 \<equiv> (\<lambda>(pb, s). pb_tmp_exec_dir pb \<in> {None, pb_tmp_exec_dir pb0})"

lemma outer_keeps_object: "keeps (\<lambda>(ob, s). J ob) (outer m)"
  by (auto simp: keeps_def py_defs split: prod.splits)

lemma leads_finally:
  assumes "leads (\<lambda>_. True) f Q"
  shows "leads P (try_finally m f) Q"
proof -
  have "snd (try_finally m f s) = snd (f (snd (m s)))" for s
    by (simp add: try_finally_def split: prod.splits sum.splits)
  with assms show ?thesis by (simp add: leads_def)
qed

lemma exec_dir_forgets: "keeps (dir_forgotten pb0) (exec_dir P ex body)"
proof -
  have clean: "leads (\<lambda>_. True)
      (bind (set_this (\<lambda>pb. pb\<lparr>pb_tmp_exec_dir := None\<rparr>)) (\<lambda>_. bind (outer m) (\<lambda>_. return ())))
      (dir_forgotten pb0)" for m :: "(exn, 'a sys, bool) py"
    by (auto simp: leads_def py_defs split: prod.splits sum.splits)
  have "leads (\<lambda>_. True)
      (try_finally body (bind (set_this (\<lambda>pb. pb\<lparr>pb_tmp_exec_dir := None\<rparr>)) (\<lambda>_. bind (outer m) (\<lambda>_. return ()))))
      (dir_forgotten pb0)" for m :: "(exn, 'a sys, bool) py"
    by (rule leads_finally [OF clean])
  then have block: "keeps (dir_forgotten pb0)
      (bind (set_this (\<lambda>pb. pb\<lparr>pb_tmp_exec_dir := Some path\<rparr>)) (\<lambda>_.
        try_finally body (bind (set_this (\<lambda>pb. pb\<lparr>pb_tmp_exec_dir := None\<rparr>)) (\<lambda>_. bind (outer m) (\<lambda>_. return ())))))"
    for path and m :: "(exn, 'a sys, bool) py"
    by (auto simp: keeps_def leads_def bind_def set_this_def modify_def split: prod.splits sum.splits)
  show ?thesis
    unfolding exec_dir_def Let_def
    by (intro keeps_bind keeps_this outer_keeps_object [where J = "\<lambda>pb. pb_tmp_exec_dir pb \<in> {None, pb_tmp_exec_dir pb0}"] block)
qed

lemma playbook_run_forgets: "keeps (dir_forgotten pb0) (playbook_run P L ex a fuel)"
  unfolding playbook_run_def by (intro keeps_intros exec_dir_forgets)

section \<open>The command of a run\<close>

text \<open>
  \<open>adds dir m a ws\<close>: with the directory \<open>dir\<close>, when \<open>m\<close> returns, it returns \<open>a\<close> and has done
  nothing to the object but append \<open>ws\<close> to its command.
\<close>

definition adds :: "string \<Rightarrow> ('w, 'a) pb \<Rightarrow> 'a \<Rightarrow> string list \<Rightarrow> bool" where
  "adds dir m a ws \<longleftrightarrow> (\<forall>pb s r pb' s'. pb_tmp_exec_dir pb = Some dir \<and> m (pb, s) = (Inr r, (pb', s')) \<longrightarrow>
     r = a \<and> pb' = pb\<lparr>pb_cmd := pb_cmd pb @ ws\<rparr>)"

lemma adds_return: "adds dir (return a) a []"
  by (simp add: adds_def return_def)

lemma adds_append: "adds dir (cmd_append w) () [w]"
  by (simp add: adds_def cmd_append_def set_this_def modify_def)

lemma adds_bind:
  assumes "adds dir m a ws" and "adds dir (f a) b vs"
  shows "adds dir (bind m f) b (ws @ vs)"
  unfolding adds_def
proof (intro allI impI, elim conjE)
  fix pb s r pb' s'
  assume dir: "pb_tmp_exec_dir pb = Some dir" and run: "bind m f (pb, s) = (Inr r, (pb', s'))"
  from run obtain c q where c: "m (pb, s) = (Inr c, q)" and r: "f c q = (Inr r, (pb', s'))" by (rule bind_InrE)
  obtain pb1 s1 where q: "q = (pb1, s1)" by fastforce
  from assms(1) dir c q have 1: "c = a" "pb1 = pb\<lparr>pb_cmd := pb_cmd pb @ ws\<rparr>" unfolding adds_def by blast+
  with dir have "pb_tmp_exec_dir pb1 = Some dir" by simp
  with assms(2) r q 1(1) have "r = b" "pb' = pb1\<lparr>pb_cmd := pb_cmd pb1 @ vs\<rparr>" unfolding adds_def by blast+
  with 1(2) show "r = b \<and> pb' = pb\<lparr>pb_cmd := pb_cmd pb @ ws @ vs\<rparr>" by simp
qed

lemma adds_if:
  "(c \<Longrightarrow> adds dir m a ws) \<Longrightarrow> (\<not> c \<Longrightarrow> adds dir n a vs) \<Longrightarrow> adds dir (if c then m else n) a (if c then ws else vs)"
  by simp

lemma adds_upload: "adds dir (upload_file P L ex f) (path_join dir (path_basename f)) []"
  and adds_dump: "adds dir (dump_vars_to_json_file P ex v) (path_join dir extra_vars_file) []"
  and adds_inventory: "adds dir (generate_default_inventory P ex) (path_join dir default_inventory_name) []"
  unfolding upload_file_def dump_vars_to_json_file_def generate_default_inventory_def in_exec_dir_def
  by (auto simp: adds_def py_defs split: prod.splits sum.splits)

lemma adds_files:
  "adds dir (for_each (\<lambda>f _. bind (upload_file P L ex f) (\<lambda>f. cmd_append (''-e@'' @ f))) fs ()) ()
    (map (\<lambda>f. ''-e@'' @ path_join dir (path_basename f)) fs)"
proof (induction fs)
  case (Cons f fs)
  have "adds dir (bind (upload_file P L ex f) (\<lambda>f. cmd_append (''-e@'' @ f))) ()
      ([] @ [''-e@'' @ path_join dir (path_basename f)])"
    by (rule adds_bind [OF adds_upload adds_append])
  from adds_bind [OF this, of "for_each (\<lambda>f _. bind (upload_file P L ex f) (\<lambda>f. cmd_append (''-e@'' @ f))) fs"] Cons
  show ?case by simp
qed (simp add: adds_return)

text \<open>The words of a run in the directory \<open>dir\<close>.\<close>

definition playbook_words :: "string \<Rightarrow> playbook_args \<Rightarrow> string list" where
  "playbook_words dir a =
     (if pa_extra_vars a \<noteq> [] then [''-e@'' @ path_join dir extra_vars_file] else []) @
     map (\<lambda>f. ''-e@'' @ path_join dir (path_basename f)) (pa_vars_files a) @
     (if truthy_opt (pa_vault_password_file a)
      then [''--vault-password-file='' @ path_join dir (path_basename (the (pa_vault_password_file a)))] else []) @
     [''-i'', path_join dir (if truthy_opt (pa_inventory a) then path_basename (the (pa_inventory a))
        else default_inventory_name),
      ''-'' @ replicate (nat (pa_verbose_level a)) (CHR ''v'')] @
     (if pa_check_mode a then [check_mode_param] else []) @
     (if pa_ssh_common_args a \<noteq> []
      then [ssh_common_args_param @ ''='' @ py_join [space] (pa_ssh_common_args a)] else []) @
     [if pa_upload_playbook a then path_join dir (path_basename (pa_playbook a)) else pa_playbook a]"

lemma adds_word: "adds dir m f [] \<Longrightarrow> adds dir (bind m (\<lambda>f. cmd_append (g f))) () [g f]"
  using adds_bind [OF _ adds_append, of dir m f "[]" g] by simp

lemma build_cmd_adds: "adds dir (build_cmd P L ex a) () (playbook_words dir a)"
proof -
  have vars: "adds dir (if pa_extra_vars a \<noteq> []
        then bind (dump_vars_to_json_file P ex (pa_extra_vars a)) (\<lambda>f. cmd_append (''-e@'' @ f)) else return ()) ()
      (if pa_extra_vars a \<noteq> [] then [''-e@'' @ path_join dir extra_vars_file] else [])"
    by (intro adds_if adds_word adds_dump adds_return)
  have vault: "adds dir (if truthy_opt (pa_vault_password_file a)
        then bind (upload_file P L ex (the (pa_vault_password_file a))) (\<lambda>f. cmd_append (''--vault-password-file='' @ f))
        else return ()) ()
      (if truthy_opt (pa_vault_password_file a)
       then [''--vault-password-file='' @ path_join dir (path_basename (the (pa_vault_password_file a)))] else [])"
    by (intro adds_if adds_word adds_upload adds_return)
  have inventory: "adds dir (bind (if truthy_opt (pa_inventory a) then upload_file P L ex (the (pa_inventory a))
        else generate_default_inventory P ex) cmd_append) ()
      [if truthy_opt (pa_inventory a) then path_join dir (path_basename (the (pa_inventory a)))
       else path_join dir default_inventory_name]"
    by (rule adds_word) (simp add: adds_upload adds_inventory)
  have check: "adds dir (if pa_check_mode a then cmd_append check_mode_param else return ()) ()
      (if pa_check_mode a then [check_mode_param] else [])"
    by (intro adds_if adds_append adds_return)
  have common: "adds dir (if pa_ssh_common_args a \<noteq> []
        then cmd_append (ssh_common_args_param @ ''='' @ py_join [space] (pa_ssh_common_args a)) else return ()) ()
      (if pa_ssh_common_args a \<noteq> []
       then [ssh_common_args_param @ ''='' @ py_join [space] (pa_ssh_common_args a)] else [])"
    by (intro adds_if adds_append adds_return)
  have playbook: "adds dir (bind (if pa_upload_playbook a then upload_file P L ex (pa_playbook a)
        else return (pa_playbook a)) cmd_append) ()
      [if pa_upload_playbook a then path_join dir (path_basename (pa_playbook a)) else pa_playbook a]"
    by (rule adds_word) (simp add: adds_upload adds_return)
  have words: "playbook_words dir a =
     (if pa_extra_vars a \<noteq> [] then [''-e@'' @ path_join dir extra_vars_file] else []) @
     map (\<lambda>f. ''-e@'' @ path_join dir (path_basename f)) (pa_vars_files a) @
     (if truthy_opt (pa_vault_password_file a)
      then [''--vault-password-file='' @ path_join dir (path_basename (the (pa_vault_password_file a)))] else []) @
     [''-i''] @
     [if truthy_opt (pa_inventory a) then path_join dir (path_basename (the (pa_inventory a)))
      else path_join dir default_inventory_name] @
     [''-'' @ replicate (nat (pa_verbose_level a)) (CHR ''v'')] @
     (if pa_check_mode a then [check_mode_param] else []) @
     (if pa_ssh_common_args a \<noteq> []
      then [ssh_common_args_param @ ''='' @ py_join [space] (pa_ssh_common_args a)] else []) @
     [if pa_upload_playbook a then path_join dir (path_basename (pa_playbook a)) else pa_playbook a]"
    by (simp add: playbook_words_def)
  show ?thesis
    unfolding build_cmd_def words
    by (rule adds_bind [OF vars], rule adds_bind [OF adds_files], rule adds_bind [OF vault],
      rule adds_bind [OF adds_append], rule adds_bind [OF inventory], rule adds_bind [OF adds_append],
      rule adds_bind [OF check], rule adds_bind [OF common], rule playbook)
qed

text \<open>Inside the directory: the whole block, and what it leaves in the object.\<close>

lemma bind_this: "bind this f (ob, s) = f ob (ob, s)"
  and bind_set_this: "bind (set_this g) h (ob, s) = h () (g ob, s)"
  by (simp_all add: py_defs)

lemma bind_outer_InrE:
  assumes "bind (outer m) f (ob, s) = (Inr b, t)"
  obtains a s' where "m s = (Inr a, s')" and "f a (ob, s') = (Inr b, t)"
  using assms by (auto simp: bind_def outer_def split: prod.splits sum.splits)

lemma exec_dir_InrE:
  assumes "exec_dir P ex body (pb, s) = (Inr r, (pb', s'))"
  obtains s1 pb2 s2 where
    "body (pb\<lparr>pb_tmp_exec_dir := Some (path_join tmp_dir (pb_uuid pb))\<rparr>, s1) = (Inr r, (pb2, s2))"
    and "pb' = pb2\<lparr>pb_tmp_exec_dir := None\<rparr>"
proof -
  from assms obtain s1 q where 1: "body (pb\<lparr>pb_tmp_exec_dir := Some (path_join tmp_dir (pb_uuid pb))\<rparr>, s1) = (Inr r, q)"
    and 2: "bind (set_this (\<lambda>pb. pb\<lparr>pb_tmp_exec_dir := None\<rparr>)) (\<lambda>_.
        bind (outer (fs_rmdir (remote_run_cmd P ex) (path_join tmp_dir (pb_uuid pb)))) (\<lambda>_. return ())) q = (Inr (), (pb', s'))"
    unfolding exec_dir_def Let_def bind_this
    by (elim bind_outer_InrE) (simp only: bind_set_this, elim try_finally_InrE)
  obtain pb2 s2 where q: "q = (pb2, s2)" by fastforce
  from 2 have "pb' = pb2\<lparr>pb_tmp_exec_dir := None\<rparr>"
    unfolding q bind_set_this by (elim bind_outer_InrE) (simp add: return_def)
  with 1 q that show thesis by blast
qed

section \<open>Properties\<close>

text \<open>
  C38. A run, however it ends, has closed every session it opened and has no temporary directory
  any more in its object.
\<close>

theorem playbook_run_cleans_up:
  "open_sessions (trace (snd (snd (playbook_run P L ex a fuel (pb, s))))) = open_sessions (trace s) \<and>
   pb_tmp_exec_dir (fst (snd (playbook_run P L ex a fuel (pb, s)))) \<in> {None, pb_tmp_exec_dir pb}"
  using keepsD [OF playbook_run_balanced, of "open_sessions (trace s)" "(pb, s)" P L ex a fuel]
    keepsD [OF playbook_run_forgets, of pb "(pb, s)" P L ex a fuel]
  by (auto split: prod.splits)


definition no_files :: "unit localfs" where
  "no_files = \<lparr>lf_isdir = \<lambda>p. return False, lf_open = \<lambda>p m. return 1, lf_read = \<lambda>h. return [],
     lf_write = \<lambda>h d. return (), lf_close = \<lambda>h. return ()\<rparr>"

definition run_site :: "playbook_runner \<times> unit sys \<Rightarrow>
    (exn + (int option \<times> string option \<times> pydata option) option) \<times> playbook_runner \<times> unit sys" where
  "run_site = playbook_run (answering 0 [] []) no_files (some_executor False) (playbook_args ''site.yml'') 1"

lemma run_site_result:
  "fst (run_site (PlaybookRunner ''1f'', fresh_sys)) = Inr (Some (Some 0, Some [], Some (Text [])))"
  by (simp add: run_site_def playbook_run_def exec_dir_def build_cmd_def run_reader_def cmd_append_def upload_file_def
    generate_default_inventory_def in_exec_dir_def playbook_args_def PlaybookRunner_def fs_rmdir_def fs_mkdir_def fs_exec_def
    run_checked_def run_ok_def fs_put_def fs_create_file_def fs_isdir_def file_test_def open_file_def with_local_def no_files_def
    read_lines_def read_block_def path_join_def tmp_dir_def numeral_eq_Suc
    ssh_eval py_defs quiet_def mark_def default_opts_def Let_def)


end
