(* ===== verification/Hosts.thy ===== *)
theory Hosts
  imports PlaybookRunner Packages OperatingSystem Storage PowerManager Firewall Database NetSession
begin

text \<open>
  \<open>rrmngmnt/host.py\<close>: the inventory of hosts, and a host: its users, the executors it builds,
  its power managers and the provider of its services, and the helpers that run commands.
  \<open>netaddr\<close> and the resolver of the local machine are arguments.
\<close>

section \<open>Registries\<close>

text \<open>
  A host keeps its users, and the inventory its hosts, as lists in which the entry of a key is
  replaced when one is added for it. This is the contract of both.
\<close>

locale registry =
  fixes key :: "'a \<Rightarrow> 'k" and add :: "'a \<Rightarrow> 'a list \<Rightarrow> 'a list" and fits :: "'a \<Rightarrow> 'a list \<Rightarrow> bool"
  assumes add_replaces: "fits x xs \<Longrightarrow> add x xs = filter (\<lambda>y. key y \<noteq> key x) xs @ [x]"
begin

lemma add_distinct: "distinct (map key xs) \<Longrightarrow> fits x xs \<Longrightarrow> distinct (map key (add x xs))"
  by (auto simp: add_replaces distinct_map inj_on_def)

lemma add_keys: "fits x xs \<Longrightarrow> key ` set (add x xs) = insert (key x) (key ` set xs)"
  by (auto simp: add_replaces)

text \<open>A look-up finds the new entry, and every other one as before.\<close>

lemma find_filter_other: "k' \<noteq> k \<Longrightarrow> find (\<lambda>y. key y = k') (filter (\<lambda>y. key y \<noteq> k) xs) = find (\<lambda>y. key y = k') xs"
  by (induction xs) auto

lemma find_append: "find p (xs @ ys) = (case find p xs of None \<Rightarrow> find p ys | Some x \<Rightarrow> Some x)"
  by (induction xs) auto

lemma find_filter_same: "find (\<lambda>y. key y = k) (filter (\<lambda>y. key y \<noteq> k) xs) = None"
  by (induction xs) auto

lemma lookup_add:
  assumes "fits x xs"
  shows "find (\<lambda>y. key y = k) (add x xs) = (if k = key x then Some x else find (\<lambda>y. key y = k) xs)"
proof (cases "k = key x")
  case True
  then show ?thesis by (simp add: add_replaces [OF assms] find_append find_filter_same)
next
  case False
  then have "find (\<lambda>y. key y = k) [x] = None" by auto
  with False show ?thesis
    by (simp add: add_replaces [OF assms] find_append find_filter_other split: option.split)
qed

text \<open>As a map from keys to entries, adding is an update.\<close>

lemma lookup_map: "fits x xs \<Longrightarrow>
    (\<lambda>k. find (\<lambda>y. key y = k) (add x xs)) = (\<lambda>k. find (\<lambda>y. key y = k) xs)(key x \<mapsto> x)"
  by (rule ext) (simp add: lookup_add)

end

section \<open>The inventory\<close>

text \<open>What the inventory needs of a host object: which one it is, and its address.\<close>

record host_ref =
  hr_id :: nat
  hr_ip :: string

type_synonym inventory = "host_ref list"

text \<open>\<open>Host.get\<close>: the first host with this address or this name; \<open>getfqdn\<close> is the resolver.\<close>

definition answers_to :: "(string \<Rightarrow> string) \<Rightarrow> string \<Rightarrow> host_ref \<Rightarrow> bool" where
  "answers_to getfqdn ip h \<longleftrightarrow> hr_ip h = ip \<or> getfqdn (hr_ip h) = ip"

definition host_get :: "(string \<Rightarrow> string) \<Rightarrow> string \<Rightarrow> (exn, inventory \<times> 's, host_ref) py" where
  "host_get getfqdn ip = bind this (\<lambda>hosts.
     case filter (answers_to getfqdn ip) hosts of
       [] \<Rightarrow> raise (ValueError (''There is no host with '' @ ip))
     | h # hs \<Rightarrow> return h)"

text \<open>
  \<open>Host.add\<close>: the host found for the own address leaves the list (\<open>list.remove\<close> takes the
  first occurrence of the object), the host itself is added at the end.
\<close>

definition host_add :: "(string \<Rightarrow> string) \<Rightarrow> host_ref \<Rightarrow> (exn, inventory \<times> 's, unit) py" where
  "host_add getfqdn h =
     bind (try_except (bind (host_get getfqdn (hr_ip h)) (\<lambda>old. return (Some old))) is_value_error
        (\<lambda>_. return None)) (\<lambda>found.
     bind (case found of None \<Rightarrow> return () | Some old \<Rightarrow> set_this (remove1 old)) (\<lambda>_.
     set_this (\<lambda>hosts. hosts @ [h])))"

text \<open>What the inventory stands for: a map from addresses to hosts.\<close>

definition inventory_map :: "inventory \<Rightarrow> string \<Rightarrow> host_ref option" where
  "inventory_map hosts = (\<lambda>ip. find (\<lambda>h. hr_ip h = ip) hosts)"

text \<open>The same as a function of the list.\<close>

definition inventory_add :: "(string \<Rightarrow> string) \<Rightarrow> host_ref \<Rightarrow> inventory \<Rightarrow> inventory" where
  "inventory_add getfqdn h hosts =
     (case find (answers_to getfqdn (hr_ip h)) hosts of None \<Rightarrow> hosts | Some old \<Rightarrow> remove1 old hosts) @ [h]"

lemma find_filter_hd: "find p xs = (case filter p xs of [] \<Rightarrow> None | y # ys \<Rightarrow> Some y)"
  by (induction xs) auto

lemma host_add_eq: "host_add getfqdn h (hosts, s) = (Inr (), (inventory_add getfqdn h hosts, s))"
  by (simp add: host_add_def host_get_def inventory_add_def find_filter_hd py_defs split: list.split)

text \<open>Every address occurs once, and no name of a host is the address of a different one.\<close>

definition consistent :: "(string \<Rightarrow> string) \<Rightarrow> host_ref \<Rightarrow> inventory \<Rightarrow> bool" where
  "consistent getfqdn h hosts \<longleftrightarrow> distinct (map hr_ip hosts) \<and> (\<forall>x\<in>set hosts. getfqdn (hr_ip x) = hr_ip h \<longrightarrow> hr_ip x = hr_ip h)"

lemma remove1_find:
  assumes "distinct (map key xs)"
  shows "(case find (\<lambda>y. key y = k) xs of None \<Rightarrow> xs | Some old \<Rightarrow> remove1 old xs) = filter (\<lambda>y. key y \<noteq> k) xs"
  using assms
proof (induction xs)
  case (Cons y ys)
  show ?case
  proof (cases "key y = k")
    case True
    with Cons.prems have "k \<notin> key ` set ys" by auto
    then have "filter (\<lambda>y. key y \<noteq> k) ys = ys" by (auto intro: filter_True)
    with True show ?thesis by simp
  next
    case False
    have "old \<noteq> y" if "find (\<lambda>y. key y = k) ys = Some old" for old
      using that False by (auto simp: find_Some_iff)
    with Cons False show ?thesis by (auto split: option.splits)
  qed
qed simp

interpretation inventory: registry hr_ip "inventory_add getfqdn" "consistent getfqdn" for getfqdn
proof unfold_locales
  fix xs :: inventory and x
  assume c: "consistent getfqdn x xs"
  then have d: "distinct (map hr_ip xs)" by (simp add: consistent_def)
  have "find (answers_to getfqdn (hr_ip x)) xs = find (\<lambda>y. hr_ip y = hr_ip x) xs"
    using c by (intro find_cong) (auto simp: consistent_def answers_to_def)
  then show "inventory_add getfqdn x xs = filter (\<lambda>y. hr_ip y \<noteq> hr_ip x) xs @ [x]"
    by (simp add: inventory_add_def remove1_find [OF d])
qed

section \<open>A host\<close>

record host =
  h_ip :: string
  h_users :: "user list"
  h_executor_user :: "user option"
  h_power_managers :: "(string \<times> power_manager) list"
  h_service_provider :: "provider option"
  h_package_manager :: "package_manager option"
  h_os :: os_cache
  h_sudo :: bool
  h_executor_factory :: executor_factory

type_synonym ('s, 'a) on_host = "(exn, host \<times> 's, 'a) py"

definition default_factory :: executor_factory where
  "default_factory = RemoteExecutorFactory False 22 None None"

text \<open>
  The address of a new host: a host name is taken as it is, for a proxy command; an address must
  be valid, anything else is looked up.
\<close>

definition host_address ::
    "(string option \<Rightarrow> bool) \<Rightarrow> (string option \<Rightarrow> bool) \<Rightarrow> (string \<Rightarrow> (exn, 's, string) py)
      \<Rightarrow> string option \<Rightarrow> string option \<Rightarrow> (exn, 's, string) py" where
  "host_address valid_ipv4 valid_ipv6 gethostbyname ip hostname =
     bind (if truthy_opt hostname then return hostname
           else if \<not> valid_ipv4 ip \<and> \<not> valid_ipv6 ip
           then (case ip of
               None \<Rightarrow> raise (TypeError ''gethostbyname() argument 1 must be str, not None'')
             | Some name \<Rightarrow> bind (fqdn2ip gethostbyname name) (\<lambda>ip. return (Some ip)))
           else return ip) (\<lambda>ip.
     if \<not> truthy_opt ip then raise (ValueError ''ip or hostname is required'') else return (the ip))"

definition fresh_host :: "string \<Rightarrow> provider option \<Rightarrow> host" where
  "fresh_host ip service_provider = \<lparr>h_ip = ip, h_users = [], h_executor_user = None, h_power_managers = [],
     h_service_provider = service_provider, h_package_manager = None, h_os = new_os, h_sudo = False,
     h_executor_factory = default_factory\<rparr>"

text \<open>\<open>__init__\<close>; \<open>oid\<close> is the new object.\<close>

definition new_host ::
    "(string option \<Rightarrow> bool) \<Rightarrow> (string option \<Rightarrow> bool) \<Rightarrow> (string \<Rightarrow> (exn, 's, string) py) \<Rightarrow> (string \<Rightarrow> string)
      \<Rightarrow> nat \<Rightarrow> string option \<Rightarrow> provider option \<Rightarrow> string option \<Rightarrow> (exn, inventory \<times> 's, host) py" where
  "new_host valid_ipv4 valid_ipv6 gethostbyname getfqdn oid ip service_provider hostname =
     bind (outer (host_address valid_ipv4 valid_ipv6 gethostbyname ip hostname)) (\<lambda>ip.
     bind (host_add getfqdn \<lparr>hr_id = oid, hr_ip = ip\<rparr>) (\<lambda>_.
     return (fresh_host ip service_provider)))"

definition host_str :: "host \<Rightarrow> string" where
  "host_str h = ''Host('' @ h_ip h @ '')''"

subsection \<open>Power managers\<close>

definition add_power_manager :: "string \<Rightarrow> init_params \<Rightarrow> ('s, unit) on_host" where
  "add_power_manager pm_type params =
     bind (new_power_manager pm_type params) (\<lambda>pm.
     set_this (\<lambda>h. h\<lparr>h_power_managers := AList.update pm_type pm (h_power_managers h)\<rparr>))"

definition get_power_manager :: "string option \<Rightarrow> ('s, power_manager) on_host" where
  "get_power_manager pm_type = bind this (\<lambda>h.
     case h_power_managers h of
       [] \<Rightarrow> raise (PlainException (''No PM is associated with the host '' @ host_str h))
     | (k, pm) # pms \<Rightarrow>
         if truthy_opt pm_type
         then (case map_of (h_power_managers h) (the pm_type) of
             Some pm \<Rightarrow> return pm
           | None \<Rightarrow> raise (PlainException (''PM with type '' @ squote # the pm_type @ squote #
               '' is not associated with the host '' @ host_str h)))
         else return pm)"

subsection \<open>Users\<close>

definition get_user :: "string \<Rightarrow> ('s, user) on_host" where
  "get_user name = bind this (\<lambda>h. case find (\<lambda>u. get_full_name u = name) (h_users h) of
     Some u \<Rightarrow> return u
   | None \<Rightarrow> raise (PlainException (''User '' @ squote # name @ squote #
       '' is not assoiated with host '' @ host_str h)))"

text \<open>\<open>add_user\<close>: the loop over a copy of the list.\<close>

definition users_add :: "user \<Rightarrow> user list \<Rightarrow> user list" where
  "users_add u us = fold (\<lambda>v vs. if get_full_name u = get_full_name v then remove1 v vs else vs) us us @ [u]"

definition add_user :: "user \<Rightarrow> ('s, unit) on_host" where
  "add_user u = set_this (\<lambda>h. h\<lparr>h_users := users_add u (h_users h)\<rparr>)"

definition set_executor_user :: "user \<Rightarrow> ('s, unit) on_host" where
  "set_executor_user u = bind (set_this (\<lambda>h. h\<lparr>h_executor_user := Some u\<rparr>)) (\<lambda>_. add_user u)"

definition root_user :: "('s, user) on_host" where
  "root_user = get_user ''root''"

definition get_executor_user :: "('s, user) on_host" where
  "get_executor_user = bind this (\<lambda>h. case h_executor_user h of Some u \<Rightarrow> return u | None \<Rightarrow> root_user)"

lemma users_add_filter: "users_add u us = filter (\<lambda>v. get_full_name v \<noteq> get_full_name u) us @ [u]"
proof -
  let ?p = "\<lambda>v. get_full_name u = get_full_name v"
  have "fold (\<lambda>v vs. if ?p v then remove1 v vs else vs) xs (as @ xs) = as @ filter (\<lambda>v. \<not> ?p v) xs"
    if "\<forall>v\<in>set as. \<not> ?p v" for as xs
    using that
  proof (induction xs arbitrary: as)
    case (Cons x xs)
    show ?case
    proof (cases "?p x")
      case True
      with Cons.prems have "x \<notin> set as" by auto
      then have "remove1 x (as @ x # xs) = as @ xs" by (simp add: remove1_append)
      with True Cons show ?thesis by simp
    next
      case False
      with Cons.IH [of "as @ [x]"] Cons.prems show ?thesis by simp
    qed
  qed simp
  from this [of "[]" us] show ?thesis by (simp add: users_add_def eq_commute)
qed

interpretation users: registry get_full_name users_add "\<lambda>u us. True"
  by unfold_locales (rule users_add_filter)

section \<open>Executors and commands\<close>

text \<open>\<open>executor(user, pkey, sudo)\<close>; \<open>pkey\<close> builds with a copy of the factory.\<close>

definition host_executor ::
    "'w paramiko \<Rightarrow> user option \<Rightarrow> bool \<Rightarrow> bool \<Rightarrow> ('w sys, remote_executor) on_host" where
  "host_executor P u pkey sudo =
     bind (if sudo then set_this (\<lambda>h. h\<lparr>h_sudo := True\<rparr>) else return ()) (\<lambda>_.
     bind (case u of None \<Rightarrow> get_executor_user | Some u \<Rightarrow> return u) (\<lambda>u.
     bind this (\<lambda>h.
       if pkey
       then outer (factory_build P ((h_executor_factory h)\<lparr>ef_use_pkey := pkey\<rparr>) (h_ip h) u (h_sudo h))
       else outer (factory_build P (h_executor_factory h) (h_ip h) u (h_sudo h)))))"

text \<open>\<open>run_command\<close>; the first component is the command as the call leaves it.\<close>

definition host_run_command ::
    "'w paramiko \<Rightarrow> user option \<Rightarrow> bool \<Rightarrow> call_opts \<Rightarrow> pycmd \<Rightarrow> ('w sys, cmd_result) on_host" where
  "host_run_command P u pkey opts cmd =
     bind (host_executor P u pkey False) (\<lambda>ex. outer (remote_run_cmd P ex opts cmd))"

text \<open>
  \<open>host.executor().run_cmd\<close>, as the services of the host \<open>h\<close> use it: it leaves the host as it is
  (\<open>host_runner_lifts\<close>), so it is a call on the system alone.
\<close>

definition host_runner :: "'w paramiko \<Rightarrow> host \<Rightarrow> 'w sys runner" where
  "host_runner P h opts cmd = on_new h (host_run_command P None False opts cmd)"

text \<open>The executor an error of a service prints.\<close>

definition executor_ref :: "host \<Rightarrow> exec_ref" where
  "executor_ref h = (case fst (get_executor_user (h, ())) of
     Inr u \<Rightarrow> Exec_obj (u_name u) (h_ip h) (u_password u) | Inl e \<Rightarrow> Exec_method)"

definition host_is_connective :: "'w paramiko \<Rightarrow> int option \<Rightarrow> ('w sys, bool) on_host" where
  "host_is_connective P tcp_timeout =
     bind (host_executor P None False False) (\<lambda>ex. outer (is_connective P ex tcp_timeout))"

definition host_create_script ::
    "'w paramiko \<Rightarrow> string \<Rightarrow> string \<Rightarrow> string \<Rightarrow> ('w sys, string) on_host" where
  "host_create_script P content name_of_script destination_path =
     (let dst = path_join destination_path name_of_script in
      try_except
        (bind (bind (host_executor P None False False) (\<lambda>ex. outer (fs_create_script P ex content dst)))
          (\<lambda>_. return dst))
        is_command_failure (\<lambda>_. return []))"

text \<open>\<open>copy_to\<close>: the executor of this host is built inside the session of the other one.\<close>

definition host_copy_to ::
    "'w paramiko \<Rightarrow> host \<Rightarrow> host \<Rightarrow> string \<Rightarrow> string \<Rightarrow> string option \<Rightarrow> (string \<times> string) option
      \<Rightarrow> (exn, 'w sys, unit) py" where
  "host_copy_to P h resource src dst mode ownership =
     bind (on_new resource (host_executor P None False False)) (\<lambda>rex.
     bind (with_session P rex None (\<lambda>rs.
       bind (on_new h (host_executor P None False False)) (\<lambda>hex.
       with_session P hex None (\<lambda>hs.
         open_file P rs src ''rb'' (\<lambda>rf.
           open_file P hs dst ''wb'' (\<lambda>hf.
             bind (quiet (px_file_read P rf)) (\<lambda>d. quiet (px_file_write P hf d)))))))) (\<lambda>_.
     bind (if truthy_opt mode then fs_chmod (host_runner P h) (executor_ref h) dst (the mode) else return ()) (\<lambda>_.
     case ownership of
       None \<Rightarrow> return ()
     | Some (owner, owner_group) \<Rightarrow> fs_chown (host_runner P h) (executor_ref h) dst owner owner_group)))"

subsection \<open>Service providers\<close>

definition default_service_providers :: "provider list" where
  "default_service_providers = [Systemd, SysVinit, InitCtl]"

definition no_provider :: exn where
  "no_provider = PlainException (''Can not find suitable service provider: '' @
     ''[<class '' @ squote # ''rrmngmnt.service.Systemd'' @ squote # ''>, <class '' @ squote #
     ''rrmngmnt.service.SysVinit'' @ squote # ''>, <class '' @ squote # ''rrmngmnt.service.InitCtl'' @ squote # ''>]'')"

text \<open>\<open>_create_service\<close>; \<open>run h\<close> stands for \<open>h.executor().run_cmd\<close>.\<close>

fun create_service_from ::
    "(host \<Rightarrow> 's runner) \<Rightarrow> string \<Rightarrow> int option \<Rightarrow> provider list \<Rightarrow> ('s, service) on_host" where
  "create_service_from run name timeout [] = raise no_provider"
| "create_service_from run name timeout (p # ps) = bind this (\<lambda>h.
     bind (try_except (bind (outer (new_service (run h) p name timeout)) (\<lambda>sv. return (Some sv)))
        is_can_not_handle (\<lambda>_. return None)) (\<lambda>r. case r of
       Some sv \<Rightarrow> bind (set_this (\<lambda>h. h\<lparr>h_service_provider := Some p\<rparr>)) (\<lambda>_. return sv)
     | None \<Rightarrow> create_service_from run name timeout ps))"

definition create_service :: "(host \<Rightarrow> 's runner) \<Rightarrow> string \<Rightarrow> int option \<Rightarrow> ('s, service) on_host" where
  "create_service run name timeout = create_service_from run name timeout default_service_providers"

text \<open>\<open>service\<close>: the provider of the last service first.\<close>

definition create_and_keep :: "(host \<Rightarrow> 's runner) \<Rightarrow> string \<Rightarrow> int option \<Rightarrow> ('s, service) on_host" where
  "create_and_keep run name timeout = bind (create_service run name timeout) (\<lambda>sv.
     bind (set_this (\<lambda>h. h\<lparr>h_service_provider := Some (sv_provider sv)\<rparr>)) (\<lambda>_. return sv))"

definition host_service :: "(host \<Rightarrow> 's runner) \<Rightarrow> string \<Rightarrow> int option \<Rightarrow> ('s, service) on_host" where
  "host_service run name timeout = bind this (\<lambda>h. case h_service_provider h of
     None \<Rightarrow> create_and_keep run name timeout
   | Some p \<Rightarrow> try_except (outer (new_service (run h) p name timeout)) is_can_not_handle
       (\<lambda>_. create_and_keep run name timeout))"

section \<open>Keys and system information\<close>

text \<open>
  The helpers run their commands by \<open>run_command\<close>, which gives what \<open>run_cmd\<close> of the executor
  gives: \<open>run h\<close> stands for both. \<open>expanduser\<close> is that of the local machine.
\<close>

definition key_user :: "user option \<Rightarrow> ('s, user) on_host" where
  "key_user u = (case u of None \<Rightarrow> root_user | Some u \<Rightarrow> return u)"

definition get_ssh_public_key ::
    "(host \<Rightarrow> 's runner) \<Rightarrow> (string \<Rightarrow> string) \<Rightarrow> user option \<Rightarrow> ('s, string) on_host" where
  "get_ssh_public_key run expanduser u = bind (key_user u) (\<lambda>u. bind this (\<lambda>h.
     let id_rsa_pub = ID_RSA_PUB (expanduser (CHR ''~'' # u_name u));
         id_rsa_prv = ID_RSA_PRV (expanduser (CHR ''~'' # u_name u));
         cat = bind (outer (run h default_opts (CList [''cat'', id_rsa_pub]))) (\<lambda>(c, rc, out, err). return out) in
     bind (outer (fs_exists (run h) id_rsa_pub)) (\<lambda>there.
       if \<not> there
       then bind (outer (run_rc (run h) default_opts
           (CList [''ssh-keygen'', ''-q'', ''-t'', ''rsa'', ''-N'', [], ''-f'', id_rsa_prv])))
         (\<lambda>rc. if rc \<noteq> 0 then return [] else cat)
       else cat)))"

text \<open>The loop over address and name of the remote host stops at the first failure.\<close>

fun remove_keys :: "'s runner \<Rightarrow> string list \<Rightarrow> (exn, 's, bool) py" where
  "remove_keys run [] = return True"
| "remove_keys run (i # is) = bind (run_rc run default_opts (CList ([''ssh-keygen'', ''-R''] @ [i])))
     (\<lambda>rc. if rc \<noteq> 0 then return False else remove_keys run is)"

definition remove_remote_host_ssh_key ::
    "(host \<Rightarrow> 's runner) \<Rightarrow> (string \<Rightarrow> string) \<Rightarrow> (string \<Rightarrow> string) \<Rightarrow> string \<Rightarrow> user option \<Rightarrow> ('s, bool) on_host" where
  "remove_remote_host_ssh_key run expanduser getfqdn remote_ip u = bind (key_user u) (\<lambda>u. bind this (\<lambda>h.
     bind (outer (fs_exists (run h) (KNOWN_HOSTS (expanduser (CHR ''~'' # u_name u))))) (\<lambda>there.
       if there then outer (remove_keys (run h) [remote_ip, getfqdn remote_ip]) else return True)))"

definition remove_remote_key_from_authorized_keys ::
    "(host \<Rightarrow> 's runner) \<Rightarrow> (string \<Rightarrow> string) \<Rightarrow> (string \<Rightarrow> string) \<Rightarrow> user option \<Rightarrow> ('s, bool) on_host" where
  "remove_remote_key_from_authorized_keys run expanduser getfqdn u = bind (key_user u) (\<lambda>u. bind this (\<lambda>h.
     let authorized_keys = AUTHORIZED_KEYS (expanduser (CHR ''~'' # u_name u)) in
     bind (outer (run_rc (run h) default_opts
         (CList [''sed'', ''-c'', ''-i'', ''/'' @ getfqdn (h_ip h) @ ''/d'', authorized_keys])))
       (\<lambda>rc. if rc \<noteq> 0 then return False else return True)))"

text \<open>\<open>get_os_info\<close>: three reads of the distribution the host keeps.\<close>

definition on_field :: "('o \<Rightarrow> 'f) \<Rightarrow> ('f \<Rightarrow> 'o \<Rightarrow> 'o) \<Rightarrow> (exn, 'f \<times> 's, 'a) py \<Rightarrow> (exn, 'o \<times> 's, 'a) py" where
  "on_field field store m = (\<lambda>(ob, s). case m (field ob, s) of (r, (c, s')) \<Rightarrow> (r, (store c ob, s')))"

definition host_distribution :: "(host \<Rightarrow> 's runner) \<Rightarrow> ('s, string list) on_host" where
  "host_distribution run = bind this (\<lambda>h.
     on_field h_os (\<lambda>c h. h\<lparr>h_os := c\<rparr>) (distribution (run h) (executor_ref h)))"

text \<open>The manager of the host's packages, selected at the first use of \<open>package_manager\<close>.\<close>

definition host_package_manager :: "(host \<Rightarrow> 's runner) \<Rightarrow> ('s, package_manager) on_host" where
  "host_package_manager run = bind this (\<lambda>h.
     on_field h_package_manager (\<lambda>c h. h\<lparr>h_package_manager := c\<rparr>) (proxy_getattr (run h) (host_str h)))"

definition get_os_info :: "(host \<Rightarrow> 's runner) \<Rightarrow> ('s, (string \<times> string option) list) on_host" where
  "get_os_info run = try_except
     (bind (host_distribution run) (\<lambda>d1. bind (host_distribution run) (\<lambda>d2. bind (host_distribution run) (\<lambda>d3.
        return [(''dist'', Some (d1 ! 0)), (''ver'', Some (d2 ! 1)), (''name'', Some (d3 ! 2))]))))
     is_command_failure
     (\<lambda>_. return [(''dist'', None), (''ver'', None), (''name'', None)])"

section \<open>Laws of the host's executor\<close>

text \<open>Building an executor only changes the \<open>sudo\<close> flag, and only when \<open>sudo\<close> is asked for.\<close>

lemma get_executor_user_keeps: "keeps I get_executor_user" "keeps I root_user" "keeps I (key_user u)"
  unfolding get_executor_user_def root_user_def get_user_def key_user_def by (intro keeps_intros)+

lemma keeps_outer_both: "keeps I m \<Longrightarrow> keeps (\<lambda>(ob, s). J ob \<and> I s) (outer m)"
  by (auto simp: keeps_def py_defs split: prod.splits)

lemma factory_build_keeps [keeps_intros]: "keeps (traced A) (factory_build P ef ip u sudo)"
  unfolding factory_build_def by (intro keeps_intros)

lemma host_executor_leads:
  "leads (\<lambda>(h', s). h' = h \<and> traced A s) (host_executor P u pkey sudo)
    (\<lambda>(h', s). h' = h\<lparr>h_sudo := (sudo \<or> h_sudo h)\<rparr> \<and> traced A s)"
  unfolding host_executor_def
proof (rule leads_bind)
  show "leads (\<lambda>(h', s). h' = h \<and> traced A s) (if sudo then set_this (\<lambda>h. h\<lparr>h_sudo := True\<rparr>) else return ())
      (\<lambda>(h', s). h' = h\<lparr>h_sudo := (sudo \<or> h_sudo h)\<rparr> \<and> traced A s)"
    by (auto simp: leads_def py_defs)
qed (intro keeps_intros get_executor_user_keeps keeps_outer_both)

lemma host_executor_state:
  "fst (snd (host_executor P u pkey sudo (h, s))) = h\<lparr>h_sudo := (sudo \<or> h_sudo h)\<rparr>"
  "trace (snd (snd (host_executor P u pkey sudo (h, s)))) = trace s"
  using leadsD [OF host_executor_leads [where h = h and A = "\<lambda>tr. tr = trace s" and P = P and u = u
      and pkey = pkey and sudo = sudo], of "(h, s)"]
  by (auto split: prod.splits)

lemma host_executor_sudo:
  assumes "host_executor P u pkey sudo (h, s) = (Inr ex, q)"
  shows "rx_sudo ex = (sudo \<or> h_sudo h) \<and> rx_address ex = h_ip h"
proof -
  let ?h = "h\<lparr>h_sudo := (sudo \<or> h_sudo h)\<rparr>"
  have "leads (\<lambda>(h', s). h' = h) (bind (if sudo then set_this (\<lambda>h. h\<lparr>h_sudo := True\<rparr>) else return ())
      (\<lambda>_. case u of None \<Rightarrow> get_executor_user | Some u \<Rightarrow> return u)) (\<lambda>(h', s). h' = ?h)"
    by (rule leads_bind [where Q = "\<lambda>(h', s). h' = ?h"])
      (auto simp: leads_def py_defs intro!: keeps_case_option get_executor_user_keeps keeps_return)
  from leadsD [OF this, of "(h, s)"]
  have user: "fst (snd (bind (if sudo then set_this (\<lambda>h. h\<lparr>h_sudo := True\<rparr>) else return ())
      (\<lambda>_. case u of None \<Rightarrow> get_executor_user | Some u \<Rightarrow> return u) (h, s))) = ?h"
    by (auto split: prod.splits)
  from assms obtain v q1 where q1: "bind (if sudo then set_this (\<lambda>h. h\<lparr>h_sudo := True\<rparr>) else return ())
      (\<lambda>_. case u of None \<Rightarrow> get_executor_user | Some u \<Rightarrow> return u) (h, s) = (Inr v, q1)"
    and ex: "bind this (\<lambda>h.
       if pkey
       then outer (factory_build P ((h_executor_factory h)\<lparr>ef_use_pkey := pkey\<rparr>) (h_ip h) v (h_sudo h))
       else outer (factory_build P (h_executor_factory h) (h_ip h) v (h_sudo h))) q1 = (Inr ex, q)"
    unfolding host_executor_def bind_assoc [symmetric] by (rule bind_InrE)
  with user obtain s1 where "q1 = (h\<lparr>h_sudo := (sudo \<or> h_sudo h)\<rparr>, s1)" by (cases q1) simp
  with ex show ?thesis
    by (auto simp: bind_this factory_build_def outer_def py_defs quiet_def split: if_splits prod.splits sum.splits)
qed

text \<open>A command of the host: at most one line, with \<open>sudo\<close> exactly when the host's flag is set.\<close>

lemma host_run_command_trace:
  "fst (snd (host_run_command P u pkey opts cmd (h, s))) = h \<and>
   (\<exists>ext. trace (snd (snd (host_run_command P u pkey opts cmd (h, s)))) = trace s @ ext \<and>
     call_trace (sent_line (h_sudo h) cmd) ext)"
proof -
  obtain r h1 s1 where r: "host_executor P u pkey False (h, s) = (r, (h1, s1))" by (metis prod_cases3)
  with host_executor_state [of P u pkey False h s] have 1: "h1 = h" "trace s1 = trace s" by simp_all
  show ?thesis
  proof (cases r)
    case (Inl e)
    with r 1 show ?thesis by (simp add: host_run_command_def bind_def call_trace_def)
  next
    case (Inr ex)
    with host_executor_sudo [of P u pkey False h s ex] r have "rx_sudo ex = h_sudo h" by simp
    with remote_run_cmd_call_trace [of P ex opts cmd s1] r 1 Inr show ?thesis
      by (auto simp: host_run_command_def bind_def outer_def split: prod.splits)
  qed
qed

text \<open>The services' view of it is the same call, the host left out.\<close>

lemma host_runner_lifts: "host_run_command P None False opts cmd (h, s) = outer (host_runner P h opts cmd) (h, s)"
  using host_run_command_trace [of P None False opts cmd h s]
  by (auto simp: host_runner_def outer_def on_new_def split: prod.splits)

lemma host_runner_trace:
  "\<exists>ext. trace (snd (host_runner P h opts cmd s)) = trace s @ ext \<and> call_trace (sent_line (h_sudo h) cmd) ext"
  using host_run_command_trace [of P None False opts cmd h s] by (auto simp: host_runner_def on_new_def split: prod.splits)

lemma host_runner_balanced: "executor (host_runner P h) (traced (\<lambda>tr. open_sessions tr = n))"
proof unfold_locales
  fix opts cmd
  show "keeps (traced (\<lambda>tr. open_sessions tr = n)) (host_runner P h opts cmd)"
  proof (rule keepsI)
    fix s :: "'a sys"
    assume "traced (\<lambda>tr. open_sessions tr = n) s"
    moreover obtain ext where "trace (snd (host_runner P h opts cmd s)) = trace s @ ext"
      and "call_trace (sent_line (h_sudo h) cmd) ext" using host_runner_trace by blast
    ultimately show "traced (\<lambda>tr. open_sessions tr = n) (snd (host_runner P h opts cmd s))"
      by (simp add: call_trace_balanced)
  qed
qed

interpretation on_host: executor "host_runner P h" "traced (\<lambda>tr. open_sessions tr = n)" for P h n
  by (rule host_runner_balanced)

section \<open>The states a host gets into\<close>

text \<open>
  What a service does: it uses \<open>run_cmd\<close> and keeps what \<open>run_cmd\<close> keeps. The lemmas in the
  locale \<open>executor\<close> say so of every operation of the services. Work on files and playbooks uses
  sessions of the executor instead, and closes them.
\<close>

abbreviation balanced :: "int \<Rightarrow> 'w sys \<Rightarrow> bool" where
  "balanced n \<equiv> traced (\<lambda>tr. open_sessions tr = n)"

definition client :: "('w sys runner \<Rightarrow> (exn, 'w sys, unit) py) \<Rightarrow> bool" where
  "client m \<longleftrightarrow> (\<forall>run I. executor run I \<longrightarrow> keeps I (m run))"

definition session_client :: "(remote_executor \<Rightarrow> (exn, 'w sys, unit) py) \<Rightarrow> bool" where
  "session_client m \<longleftrightarrow> (\<forall>ex n. keeps (balanced n) (m ex))"

definition service_call :: "'w paramiko \<Rightarrow> ('w sys runner \<Rightarrow> (exn, 'w sys, unit) py) \<Rightarrow> ('w sys, unit) on_host" where
  "service_call P m = bind this (\<lambda>h. outer (m (host_runner P h)))"

definition session_work :: "'w paramiko \<Rightarrow> (remote_executor \<Rightarrow> (exn, 'w sys, unit) py) \<Rightarrow> ('w sys, unit) on_host" where
  "session_work P m = bind (host_executor P None False False) (\<lambda>ex. outer (m ex))"

lemma client_intros:
  "client (\<lambda>run. bind (fs_rmdir run p) (\<lambda>_. return ()))"
  "client (\<lambda>run. bind (clean_rules run ch) (\<lambda>_. return ()))"
  "client (\<lambda>run. bind (package_install run pm pkg) (\<lambda>_. return ()))"
  "client (\<lambda>run. bind (service_op run sv meth) (\<lambda>_. return ()))"
  unfolding client_def
  by (intro allI impI keeps_bind keeps_return executor.fs_keeps executor.firewall_keeps executor.package_op_keeps
      executor.service_op_keeps; assumption)+

lemma session_client_intros:
  "session_client (\<lambda>ex. fs_create_file P ex content path)"
  "session_client (\<lambda>ex. bind (fs_put P L ex src dst) (\<lambda>_. return ()))"
  "session_client (\<lambda>ex. on_new pb (bind (playbook_run P L ex a fuel) (\<lambda>_. return ())))"
  unfolding session_client_def
  by (intro allI keeps_bind keeps_return file_ops_balanced keeps_on_new playbook_run_balanced)+

text \<open>One operation of the host or of its services, however it ends.\<close>

inductive host_step :: "'w paramiko \<Rightarrow> host \<times> 'w sys \<Rightarrow> host \<times> 'w sys \<Rightarrow> bool" for P where
  user: "host_step P z (snd (add_user u z))"
| executor_user: "host_step P z (snd (set_executor_user u z))"
| power: "host_step P z (snd (add_power_manager pm_type params z))"
| executor: "host_step P z (snd (host_executor P u pkey sudo z))"
| command: "host_step P z (snd (host_run_command P u pkey opts cmd z))"
| service: "host_step P z (snd (host_service (host_runner P) name timeout z))"
| packages: "host_step P z (snd (host_package_manager (host_runner P) z))"
| os_info: "host_step P z (snd (get_os_info (host_runner P) z))"
| client: "client m \<Longrightarrow> host_step P z (snd (service_call P m z))"
| files: "session_client w \<Longrightarrow> host_step P z (snd (session_work P w z))"

inductive host_reachable :: "'w paramiko \<Rightarrow> host \<times> 'w sys \<Rightarrow> host \<times> 'w sys \<Rightarrow> bool" for P z0 where
  init: "host_reachable P z0 z0"
| step: "host_reachable P z0 z \<Longrightarrow> host_step P z z' \<Longrightarrow> host_reachable P z0 z'"

fun pm_class :: "power_manager \<Rightarrow> string" where
  "pm_class SSHPowerManager = SSH_TYPE"
| "pm_class (IPMIPowerManager pm) = IPMI_TYPE"

definition host_inv :: "host \<Rightarrow> bool" where
  "host_inv h \<longleftrightarrow> distinct (map get_full_name (h_users h)) \<and>
     (\<forall>u. h_executor_user h = Some u \<longrightarrow> get_full_name u \<in> get_full_name ` set (h_users h)) \<and>
     distinct (map fst (h_power_managers h)) \<and> (\<forall>(k, pm)\<in>set (h_power_managers h). pm_class pm = k)"

abbreviation inv_state :: "host \<times> 's \<Rightarrow> bool" where
  "inv_state \<equiv> (\<lambda>(h, s). host_inv h)"

lemma fresh_host_inv: "host_inv (fresh_host ip sp)"
  by (simp add: host_inv_def fresh_host_def)

lemma host_inv_other_fields [simp]:
  "host_inv (h\<lparr>h_sudo := b\<rparr>) = host_inv h"
  "host_inv (h\<lparr>h_service_provider := sp\<rparr>) = host_inv h"
  "host_inv (h\<lparr>h_package_manager := pm\<rparr>) = host_inv h"
  "host_inv (h\<lparr>h_os := c\<rparr>) = host_inv h"
  by (simp_all add: host_inv_def)

lemma keeps_set_host: "(\<And>h. host_inv h \<Longrightarrow> host_inv (f h)) \<Longrightarrow> keeps inv_state (set_this f)"
  by (auto simp: keeps_def py_defs)

lemma keeps_inv_outer: "keeps inv_state (outer m)"
  by (auto simp: keeps_def py_defs split: prod.splits)

lemma keeps_on_field: "(\<And>c h. host_inv h \<Longrightarrow> host_inv (store c h)) \<Longrightarrow> keeps inv_state (on_field field store m)"
  by (auto simp: keeps_def on_field_def split: prod.splits)

lemma users_add_inv: "host_inv h \<Longrightarrow> host_inv (h\<lparr>h_users := users_add u (h_users h)\<rparr>)"
  using users.add_distinct [of "h_users h" u] users.add_keys [of u "h_users h"]
  by (auto simp: host_inv_def)

lemma executor_user_inv:
  "host_inv h \<Longrightarrow> host_inv (h\<lparr>h_executor_user := Some u, h_users := users_add u (h_users h)\<rparr>)"
  using users.add_distinct [of "h_users h" u] users.add_keys [of u "h_users h"]
  by (auto simp: host_inv_def)

lemma update_subset: "set (AList.update k v xs) \<subseteq> insert (k, v) (set xs)"
  by (induction xs) auto

lemma update_inv:
  assumes "host_inv h" and "pm_class pm = k"
  shows "host_inv (h\<lparr>h_power_managers := AList.update k pm (h_power_managers h)\<rparr>)"
proof -
  have "pm_class b = a" if "(a, b) \<in> set (AList.update k pm (h_power_managers h))" for a b
    using that assms update_subset [of k pm "h_power_managers h"] by (auto simp: host_inv_def)
  with assms(1) show ?thesis by (auto simp: host_inv_def distinct_update)
qed

lemma create_service_from_inv: "keeps inv_state (create_service_from run name timeout ps)"
  by (induction ps)
    (auto intro!: keeps_intros keeps_inv_outer keeps_set_host simp del: bind_return_right)

lemma host_service_inv: "keeps inv_state (host_service run name timeout)"
  unfolding host_service_def create_and_keep_def create_service_def
  by (intro keeps_intros keeps_inv_outer keeps_set_host create_service_from_inv) simp_all

lemma kept_parts_inv: "keeps inv_state (host_package_manager run)" "keeps inv_state (get_os_info run)"
  unfolding host_package_manager_def get_os_info_def host_distribution_def
  by (intro keeps_intros keeps_on_field; simp)+

lemma add_power_manager_inv: "keeps inv_state (add_power_manager k params)"
  by (cases params)
    (auto simp: keeps_def add_power_manager_def new_power_manager_def new_ipmi_def py_defs SSH_TYPE_def IPMI_TYPE_def
      intro!: update_inv split: if_splits)

lemma host_step_inv: "host_step P z z' \<Longrightarrow> inv_state z \<Longrightarrow> inv_state z'"
proof (induction rule: host_step.induct)
  case (user z u)
  then show ?case by (cases z) (simp add: add_user_def py_defs users_add_inv)
next
  case (executor_user z u)
  then show ?case by (cases z) (simp add: set_executor_user_def add_user_def py_defs executor_user_inv)
next
  case (executor z u pkey sudo)
  then show ?case using host_executor_state(1) [of P u pkey sudo "fst z" "snd z"]
    by (cases z; cases "snd (host_executor P u pkey sudo z)") simp
next
  case (command z u pkey opts cmd)
  then show ?case using host_run_command_trace [of P u pkey opts cmd "fst z" "snd z"] by (auto split: prod.splits)
next
  case (client m z)
  then show ?case by (intro keepsD [of inv_state "service_call P m" z])
    (auto simp: service_call_def intro!: keeps_intros keeps_inv_outer)
next
  case (files w z)
  have "keeps inv_state (host_executor P None False False)"
    using host_executor_state(1) [of P None False False]
    by (auto simp: keeps_def split: prod.splits) (metis fst_conv host_inv_other_fields(1) snd_conv)
  with files show ?case by (intro keepsD [of inv_state "session_work P w" z])
    (auto simp: session_work_def intro!: keeps_intros keeps_inv_outer)
qed (erule keepsD [OF add_power_manager_inv] keepsD [OF host_service_inv] keepsD [OF kept_parts_inv(1)]
  keepsD [OF kept_parts_inv(2)])+

lemma host_reachable_inv: "host_reachable P z0 z \<Longrightarrow> inv_state z0 \<Longrightarrow> inv_state z"
  by (induction rule: host_reachable.induct) (auto dest: host_step_inv)

text \<open>The sessions: every operation of the host gives back the sessions it opens.\<close>

abbreviation balanced_state :: "int \<Rightarrow> host \<times> 'w sys \<Rightarrow> bool" where
  "balanced_state n \<equiv> (\<lambda>(h, s). balanced n s)"

lemma host_executor_balanced: "keeps (balanced_state n) (host_executor P u pkey sudo)"
  using host_executor_state(2) [of P u pkey sudo] by (auto simp: keeps_def split: prod.splits) (metis snd_conv)

lemma new_power_manager_keeps: "keeps I (new_power_manager pm_type params)"
  by (cases params) (auto simp: new_power_manager_def intro: keeps_intros)

lemma keeps_on_field_outer: "keeps (\<lambda>(c, s). I s) m \<Longrightarrow> keeps (\<lambda>(ob, s). I s) (on_field field store m)"
proof (rule keepsI)
  fix z :: "'d \<times> 'b"
  assume *: "keeps (\<lambda>(c, s). I s) m" and "case z of (ob, s) \<Rightarrow> I s"
  then have "(\<lambda>(c, s). I s) (snd (m (field (fst z), snd z)))" by (intro keepsD [OF *]) (auto split: prod.splits)
  then show "case snd (on_field field store m z) of (ob, s) \<Rightarrow> I s" by (auto simp: on_field_def split: prod.splits)
qed

lemma create_service_from_keeps:
  "(\<And>h. executor (run h) I) \<Longrightarrow> keeps (\<lambda>(h, s). I s) (create_service_from run name timeout ps)"
  by (induction ps) (auto intro!: keeps_intros executor.new_service_keeps simp del: bind_return_right)

lemma host_service_keeps: "(\<And>h. executor (run h) I) \<Longrightarrow> keeps (\<lambda>(h, s). I s) (host_service run name timeout)"
  unfolding host_service_def create_and_keep_def create_service_def
  by (intro keeps_intros create_service_from_keeps executor.new_service_keeps)

lemma kept_parts_keep:
  assumes "\<And>h. executor (run h) I"
  shows "keeps (\<lambda>(h, s). I s) (host_package_manager run)" and "keeps (\<lambda>(h, s). I s) (get_os_info run)"
  unfolding host_package_manager_def get_os_info_def host_distribution_def distribution_def kept_def
  by (intro keeps_intros keeps_on_field_outer executor.proxy_getattr_keeps executor.os_keeps assms)+

lemma host_step_balanced: "host_step P z z' \<Longrightarrow> balanced_state n z \<Longrightarrow> balanced_state n z'"
proof (induction rule: host_step.induct)
  case (command z u pkey opts cmd)
  have "keeps (balanced_state n) (host_run_command P u pkey opts cmd)"
    unfolding host_run_command_def by (intro keeps_intros host_executor_balanced remote_run_cmd_balanced)
  with command show ?case by (rule keepsD [rotated])
next
  case (client m z)
  then have "keeps (balanced_state n) (service_call P m)"
    using host_runner_balanced unfolding service_call_def client_def by (intro keeps_intros) blast
  with client show ?case by (intro keepsD [of "balanced_state n"])
next
  case (files w z)
  then have "keeps (balanced_state n) (session_work P w)"
    unfolding session_work_def session_client_def by (intro keeps_intros host_executor_balanced) blast
  with files show ?case by (intro keepsD [of "balanced_state n"])
next
  case (power z pm_type params)
  have "keeps (balanced_state n) (add_power_manager pm_type params)"
    unfolding add_power_manager_def by (intro keeps_intros new_power_manager_keeps)
  with power show ?case by (rule keepsD [rotated])
next
  case (user z u)
  then show ?case by (cases z) (simp add: add_user_def py_defs)
next
  case (executor_user z u)
  then show ?case by (cases z) (simp add: set_executor_user_def add_user_def py_defs)
qed (erule keepsD [OF host_executor_balanced] keepsD [OF host_service_keeps [OF host_runner_balanced]]
  keepsD [OF kept_parts_keep(1) [OF host_runner_balanced]] keepsD [OF kept_parts_keep(2) [OF host_runner_balanced]])+

lemma host_reachable_balanced: "host_reachable P z0 z \<Longrightarrow> balanced_state n z0 \<Longrightarrow> balanced_state n z"
  by (induction rule: host_reachable.induct) (auto dest: host_step_balanced)

section \<open>Selecting a provider\<close>

text \<open>The providers in the order they are asked, on a machine whose answers are fixed.\<close>

definition candidates :: "host \<Rightarrow> provider list" where
  "candidates h = (case h_service_provider h of None \<Rightarrow> [] | Some p \<Rightarrow> [p]) @ default_service_providers"

definition the_service :: "provider \<Rightarrow> string \<Rightarrow> int option \<Rightarrow> service" where
  "the_service p name timeout = \<lparr>sv_provider = p, sv_name = name,
     sv_timeout = (case timeout of None \<Rightarrow> default_timeout | Some t \<Rightarrow> t)\<rparr>"

lemma new_service_can_handle: "new_service run p name timeout s =
    (case can_handle run (the_service p name timeout) s of
       (Inl e, s') \<Rightarrow> (Inl e, s') | (Inr u, s') \<Rightarrow> (Inr (the_service p name timeout), s'))"
  by (simp add: new_service_def the_service_def Let_def bind_def return_def del: can_handle.simps
      split: prod.splits sum.splits)

lemma new_service_handled:
  assumes "handles g p name"
  obtains s' where "new_service (machine_run (fixed g)) p name timeout s = (Inr (the_service p name timeout), s')"
proof -
  obtain r s1 where r: "can_handle (machine_run (fixed g)) (the_service p name timeout) s = (r, s1)"
    by (metis surj_pair)
  then have "r = Inr ()" using assms can_handle_iff [of g p name _ s] by (metis fst_conv the_service_def)
  with r that show thesis by (simp add: new_service_can_handle del: can_handle.simps)
qed

lemma new_service_refused:
  assumes "\<not> handles g p name" and "newline \<notin> set name"
  obtains msg s' where "new_service (machine_run (fixed g)) p name timeout s = (Inl (CanNotHandle msg), s')"
proof -
  obtain r s1 where r: "can_handle (machine_run (fixed g)) (the_service p name timeout) s = (r, s1)"
    by (metis surj_pair)
  then obtain msg where "r = Inl (CanNotHandle msg)"
    using can_handle_error [OF assms, of _ s] by (metis fst_conv the_service_def)
  with r that show thesis by (simp add: new_service_can_handle del: can_handle.simps)
qed

lemma create_service_from_fixed:
  assumes "newline \<notin> set name"
  shows "\<exists>s'. create_service_from (\<lambda>h. machine_run (fixed g)) name timeout ps (h, s) =
    (case find (\<lambda>p. handles g p name) ps of
       Some p \<Rightarrow> (Inr (the_service p name timeout), (h\<lparr>h_service_provider := Some p\<rparr>, s'))
     | None \<Rightarrow> (Inl no_provider, (h, s')))"
proof (induction ps arbitrary: s)
  case (Cons p ps)
  show ?case
  proof (cases "handles g p name")
    case True
    then obtain s1 where "new_service (machine_run (fixed g)) p name timeout s = (Inr (the_service p name timeout), s1)"
      by (rule new_service_handled)
    with True show ?thesis by (cases s1) (simp add: py_defs)
  next
    case False
    then obtain msg s1 where "new_service (machine_run (fixed g)) p name timeout s = (Inl (CanNotHandle msg), s1)"
      using assms by (rule new_service_refused)
    with False Cons.IH [of s1] show ?thesis by (simp add: py_defs)
  qed
qed (auto simp: raise_def)

section \<open>Properties\<close>

text \<open>
  C11. The service of a host comes from the provider of its last service when that one can handle
  it, else from the first of systemd, SysV and upstart that can; the provider is kept for the
  next service. When none can, the error says so, and the host keeps its provider.
\<close>

theorem host_service_selects:
  assumes "newline \<notin> set name"
  shows "\<exists>s'. host_service (\<lambda>h. machine_run (fixed g)) name timeout (h, s) =
    (case find (\<lambda>p. handles g p name) (candidates h) of
       Some p \<Rightarrow> (Inr (the_service p name timeout), (h\<lparr>h_service_provider := Some p\<rparr>, s'))
     | None \<Rightarrow> (Inl no_provider, (h, s')))"
proof -
  have keep: "\<exists>s'. create_and_keep (\<lambda>h. machine_run (fixed g)) name timeout (h, t) =
    (case find (\<lambda>p. handles g p name) default_service_providers of
       Some p \<Rightarrow> (Inr (the_service p name timeout), (h\<lparr>h_service_provider := Some p\<rparr>, s'))
     | None \<Rightarrow> (Inl no_provider, (h, s')))" for t
    using create_service_from_fixed [OF assms, of g timeout default_service_providers h t]
    by (auto simp: create_and_keep_def create_service_def the_service_def py_defs split: option.splits)
  show ?thesis
  proof (cases "h_service_provider h")
    case None
    with keep [of s] show ?thesis by (simp add: host_service_def bind_this candidates_def)
  next
    case (Some p)
    show ?thesis
    proof (cases "handles g p name")
      case True
      then obtain s1 where "new_service (machine_run (fixed g)) p name timeout s = (Inr (the_service p name timeout), s1)"
        by (rule new_service_handled)
      with True Some show ?thesis
        by (cases s1) (auto simp: host_service_def bind_this candidates_def try_except_def outer_def)
    next
      case False
      then obtain msg s1 where "new_service (machine_run (fixed g)) p name timeout s = (Inl (CanNotHandle msg), s1)"
        using assms by (rule new_service_refused)
      with False Some keep [of s1] show ?thesis
        by (simp add: host_service_def bind_this candidates_def try_except_def outer_def)
    qed
  qed
qed

text \<open>A machine with an old init system: one script, no systemd.\<close>

definition old_machine :: "string list \<Rightarrow> int \<times> string \<times> string" where
  "old_machine cmd = (if cmd \<in> {[''which'', ''service''], [''['', ''-e'', ''/etc/init.d/sshd'', '']'']} then (0, [], [])
     else (1, [], []))"

theorem host_service_selects_witness:
  "\<exists>s'. host_service (\<lambda>h. machine_run (fixed old_machine)) ''sshd'' None (fresh_host ''10.0.0.1'' (Some Systemd), ((), [])) =
    (Inr \<lparr>sv_provider = SysVinit, sv_name = ''sshd'', sv_timeout = 30\<rparr>,
      (fresh_host ''10.0.0.1'' (Some SysVinit), s'))"
proof -
  have "newline \<notin> set ''sshd''" by code_simp
  moreover have "find (\<lambda>p. handles old_machine p ''sshd'') (candidates (fresh_host ''10.0.0.1'' (Some Systemd))) = Some SysVinit"
    by (simp add: candidates_def fresh_host_def default_service_providers_def old_machine_def installed_def init_script_def)
  ultimately show ?thesis
    using host_service_selects [of "''sshd''" old_machine None "fresh_host ''10.0.0.1'' (Some Systemd)" "((), [])"]
    by (simp add: the_service_def fresh_host_def default_timeout_def)
qed





definition two_users :: "host \<times> unit sys" where
  "two_users = snd (add_user (RootUser ''new'') (snd (set_executor_user (RootUser ''old'')
    (fresh_host ''10.0.0.1'' None, fresh_sys))))"

lemma two_users_reachable: "host_reachable (answering 0 [] []) (fresh_host ''10.0.0.1'' None, fresh_sys) two_users"
  unfolding two_users_def
  by (intro host_reachable.step [OF host_reachable.step [OF host_reachable.init executor_user] user])



definition flushed_after_command :: "host \<times> unit sys" where
  "flushed_after_command =
     snd (service_call (answering 0 [] []) (\<lambda>run. bind (clean_rules run \<lparr>ch_name = ''INPUT'', ch_address_type = ''--source''\<rparr>)
       (\<lambda>_. return ())) (snd (host_run_command (answering 0 [] []) (Some (RootUser ''pw'')) False default_opts
         (CTuple [''ls'']) (fresh_host ''10.0.0.1'' None, fresh_sys))))"


text \<open>
  C12. The inventory implements a map from addresses to hosts: adding a host, when its address is
  not the name of a different one, is an update of that map, keeps every address unique, and the
  host is found by its address.
\<close>

theorem inventory_refines_map:
  assumes "consistent getfqdn h hosts"
  shows "\<exists>hosts'. host_add getfqdn h (hosts, s) = (Inr (), (hosts', s)) \<and>
    inventory_map hosts' = (inventory_map hosts)(hr_ip h \<mapsto> h) \<and> distinct (map hr_ip hosts') \<and>
    host_get getfqdn (hr_ip h) (hosts', s) = (Inr h, (hosts', s))"
proof -
  let ?new = "inventory_add getfqdn h hosts"
  have new: "?new = filter (\<lambda>y. hr_ip y \<noteq> hr_ip h) hosts @ [h]"
    using inventory.add_replaces [OF assms] .
  have "\<forall>x\<in>set (filter (\<lambda>y. hr_ip y \<noteq> hr_ip h) hosts). \<not> answers_to getfqdn (hr_ip h) x"
    using assms by (auto simp: consistent_def answers_to_def)
  then have "filter (answers_to getfqdn (hr_ip h)) ?new = [h]"
    by (simp add: new answers_to_def [of getfqdn "hr_ip h" h] filter_False del: filter_filter)
  then have "host_get getfqdn (hr_ip h) (?new, s) = (Inr h, (?new, s))"
    by (simp add: host_get_def bind_this return_def)
  moreover have "inventory_map ?new = (inventory_map hosts)(hr_ip h \<mapsto> h)"
    unfolding inventory_map_def by (rule inventory.lookup_map [OF assms])
  moreover have "distinct (map hr_ip ?new)"
    using assms by (intro inventory.add_distinct) (auto simp: consistent_def)
  ultimately show ?thesis by (simp add: host_add_eq)
qed

definition two_hosts :: inventory where
  "two_hosts = [\<lparr>hr_id = 1, hr_ip = ''10.0.0.1''\<rparr>, \<lparr>hr_id = 2, hr_ip = ''10.0.0.2''\<rparr>]"

theorem inventory_refines_map_witness:
  "\<exists>hosts'. host_add (\<lambda>ip. ip) \<lparr>hr_id = 3, hr_ip = ''10.0.0.1''\<rparr> (two_hosts, ()) = (Inr (), (hosts', ())) \<and>
    inventory_map hosts' ''10.0.0.1'' = Some \<lparr>hr_id = 3, hr_ip = ''10.0.0.1''\<rparr> \<and>
    inventory_map hosts' ''10.0.0.2'' = Some \<lparr>hr_id = 2, hr_ip = ''10.0.0.2''\<rparr>"
proof -
  have "consistent (\<lambda>ip. ip) \<lparr>hr_id = 3, hr_ip = ''10.0.0.1''\<rparr> two_hosts"
    by (simp add: consistent_def two_hosts_def)
  from inventory_refines_map [OF this, of "()"] obtain hosts' where
    add: "host_add (\<lambda>ip. ip) \<lparr>hr_id = 3, hr_ip = ''10.0.0.1''\<rparr> (two_hosts, ()) = (Inr (), (hosts', ()))"
    and m: "inventory_map hosts' = (inventory_map two_hosts)(''10.0.0.1'' \<mapsto> \<lparr>hr_id = 3, hr_ip = ''10.0.0.1''\<rparr>)"
    by auto
  have "inventory_map two_hosts ''10.0.0.2'' = Some \<lparr>hr_id = 2, hr_ip = ''10.0.0.2''\<rparr>"
    by (simp add: inventory_map_def two_hosts_def)
  with m have "inventory_map hosts' ''10.0.0.1'' = Some \<lparr>hr_id = 3, hr_ip = ''10.0.0.1''\<rparr>"
    and "inventory_map hosts' ''10.0.0.2'' = Some \<lparr>hr_id = 2, hr_ip = ''10.0.0.2''\<rparr>" by simp_all
  with add show ?thesis by blast
qed

end
